(* ===== verification/Prelude.thy ===== *)
theory Prelude
  imports Main "HOL-Library.AList" "HOL-Library.List_Lexorder" "HOL-Library.Char_ord"
    "HOL-Library.Multiset"
begin

text \<open>
  Shared vocabulary of the development.

  \<^item> \<open>exn\<close>: the Python exceptions the modelled code raises, catches or lets through.
    \<open>Out_of_fuel\<close> is no exception of the code: it marks a loop that a bounded definition
    gave up on, and no handler of the model catches it.
  \<^item> \<open>'a res\<close>: the result of a pure fallible computation (\<open>Inl\<close> is a raised exception).
  \<^item> \<open>('s, 'a) act\<close>: a statement over a mutable state. An exception keeps the state it was
    raised in, as an exception in Python keeps every side effect made before it. Statements
    are composed with \<open>act_bind\<close>, \<open>act_then\<close> and \<open>act_block\<close>; \<open>act_try\<close> is
    \<^verbatim>\<open>try/except\<close>.
  \<^item> \<open>keeps P m\<close>: the statement keeps a state predicate, whether it returns or raises;
    \<open>keeps_intros\<close> collects its composition rules.
  \<^item> association lists as tables (the database, the container list, a directory), with the
    laws of the interface \<open>kv_table\<close> that all of them share.
\<close>

section \<open>Exceptions and results\<close>

datatype exn =
    AttributeError string
  | KeyError string
  | TypeError string
  | ValueError string
  | IndexError
  | FileNotFoundError string
  | JSONDecodeError string
  | IntegrityError
  | OperationalError
  | DoesNotExist string
  | DockerNotFound string
  | DockerAPIError string
  | NotInitializedError "string list"
  | DkgError string
  | DkgVerificationError string
  | DkgTransactionError string
  | DkgFailedError string
  | SgxDkgPolynomGenerationError string
  | DKGKeyGenerationError string
  | SgxUnreachableError string
  | SgxServerError string
  | TransactionFailedError string
  | TransactionNotFound string
  | Web3Exception string
  | NoBaseConfigError
  | TransactionLogicError string
  | InvalidNodeIdError
  | OtherError string
  | Out_of_fuel

type_synonym 'a res = "exn + 'a"

named_theorems act_simps \<open>evaluation of composed statements\<close>
named_theorems keeps_intros \<open>statements keep a predicate\<close>
named_theorems alist_simps \<open>lookups in updated tables\<close>

definition res_bind :: "'a res \<Rightarrow> ('a \<Rightarrow> 'b res) \<Rightarrow> 'b res" where
  "res_bind r f = (case r of Inl e \<Rightarrow> Inl e | Inr a \<Rightarrow> f a)"

fun res_map :: "('a \<Rightarrow> 'b res) \<Rightarrow> 'a list \<Rightarrow> 'b list res" where
  "res_map f [] = Inr []"
| "res_map f (x # xs) = res_bind (f x) (\<lambda>y. res_bind (res_map f xs) (\<lambda>ys. Inr (y # ys)))"

lemma res_bind_simps [simp]:
  "res_bind (Inl e) f = Inl e"
  "res_bind (Inr a) f = f a"
  by (simp_all add: res_bind_def)

lemma res_bind_Inr_iff:
  "res_bind r f = Inr b \<longleftrightarrow> (\<exists>a. r = Inr a \<and> f a = Inr b)"
  by (cases r) simp_all

lemma res_map_length: "res_map f xs = Inr ys \<Longrightarrow> length ys = length xs"
  by (induction xs arbitrary: ys) (auto simp: res_bind_Inr_iff)

lemma res_map_Inr: "res_map (\<lambda>x. Inr (f x)) xs = Inr (map f xs)"
  by (induction xs) simp_all

lemma res_map_list_all2: "res_map f xs = Inr ys \<longleftrightarrow> list_all2 (\<lambda>x y. f x = Inr y) xs ys"
  by (induction xs arbitrary: ys) (auto simp: res_bind_Inr_iff list_all2_Cons1)

lemma res_map_success: "(\<exists>ys. res_map f xs = Inr ys) \<longleftrightarrow> (\<forall>x \<in> set xs. \<exists>y. f x = Inr y)"
  by (induction xs) (auto simp: res_bind_Inr_iff)

lemma res_map_set:
  assumes "res_map f xs = Inr ys"
  shows "set ys = {y. \<exists>x \<in> set xs. f x = Inr y}"
  using assms by (induction xs arbitrary: ys) (auto simp: res_bind_Inr_iff)

section \<open>Statements over a state\<close>

type_synonym ('s, 'a) act = "'s \<Rightarrow> 'a res \<times> 's"

definition act_return :: "'a \<Rightarrow> ('s, 'a) act" where
  "act_return a = (\<lambda>s. (Inr a, s))"

definition act_raise :: "exn \<Rightarrow> ('s, 'a) act" where
  "act_raise e = (\<lambda>s. (Inl e, s))"

definition act_bind :: "('s, 'a) act \<Rightarrow> ('a \<Rightarrow> ('s, 'b) act) \<Rightarrow> ('s, 'b) act" where
  "act_bind m f = (\<lambda>s. case m s of (Inl e, s') \<Rightarrow> (Inl e, s') | (Inr a, s') \<Rightarrow> f a s')"

definition act_then :: "('s, 'a) act \<Rightarrow> ('s, 'b) act \<Rightarrow> ('s, 'b) act" where
  "act_then m n = act_bind m (\<lambda>_. n)"

definition act_gets :: "('s \<Rightarrow> 'a) \<Rightarrow> ('s, 'a) act" where
  "act_gets f = (\<lambda>s. (Inr (f s), s))"

definition act_res :: "('s \<Rightarrow> 'a res) \<Rightarrow> ('s, 'a) act" where
  "act_res f = (\<lambda>s. (f s, s))"

definition act_modify :: "('s \<Rightarrow> 's) \<Rightarrow> ('s, unit) act" where
  "act_modify f = (\<lambda>s. (Inr (), f s))"

definition act_when :: "bool \<Rightarrow> ('s, unit) act \<Rightarrow> ('s, unit) act" where
  "act_when b m = (if b then m else act_return ())"

text \<open>A value computed and dropped: an expression statement.\<close>

definition act_drop :: "('s, 'a) act \<Rightarrow> ('s, unit) act" where
  "act_drop m = act_bind m (\<lambda>_. act_return ())"

text \<open>\<^verbatim>\<open>if cond: m\<close> and \<^verbatim>\<open>if not cond: m\<close> with a condition that reads the state.\<close>

definition act_if :: "('s, bool) act \<Rightarrow> ('s, 'a) act \<Rightarrow> ('s, 'a) act \<Rightarrow> ('s, 'a) act" where
  "act_if c m n = act_bind c (\<lambda>b. if b then m else n)"

definition act_unless :: "('s, bool) act \<Rightarrow> ('s, unit) act \<Rightarrow> ('s, unit) act" where
  "act_unless c m = act_if c (act_return ()) m"

text \<open>A block of statements, run in order until one raises.\<close>

fun act_block :: "('s, unit) act list \<Rightarrow> ('s, unit) act" where
  "act_block [] = act_return ()"
| "act_block (m # ms) = act_then m (act_block ms)"

text \<open>\<^verbatim>\<open>for x in xs: f(x)\<close>\<close>

fun act_for :: "'a list \<Rightarrow> ('a \<Rightarrow> ('s, unit) act) \<Rightarrow> ('s, unit) act" where
  "act_for [] f = act_return ()"
| "act_for (x # xs) f = act_then (f x) (act_for xs f)"

text \<open>\<^verbatim>\<open>try: m except E: h\<close>; the handler gets the exception and the state it was raised in.\<close>

definition act_try :: "('s, 'a) act \<Rightarrow> (exn \<Rightarrow> ('s, 'a) act) \<Rightarrow> ('s, 'a) act" where
  "act_try m h = (\<lambda>s. case m s of (Inl e, s') \<Rightarrow> h e s' | (Inr a, s') \<Rightarrow> (Inr a, s'))"

lemma act_eval [act_simps]:
  "act_return a s = (Inr a, s)"
  "act_raise e s = (Inl e, s)"
  "act_gets f s = (Inr (f s), s)"
  "act_res r s = (r s, s)"
  "act_modify g s = (Inr (), g s)"
  by (simp_all add: act_return_def act_raise_def act_gets_def act_res_def act_modify_def)

lemma act_bind_eval [act_simps]:
  "act_bind m f s = (case m s of (Inl e, s') \<Rightarrow> (Inl e, s') | (Inr a, s') \<Rightarrow> f a s')"
  by (simp add: act_bind_def)

lemma act_then_eval [act_simps]:
  "act_then m n s = (case m s of (Inl e, s') \<Rightarrow> (Inl e, s') | (Inr a, s') \<Rightarrow> n s')"
  by (simp add: act_then_def act_bind_def)

lemma act_drop_eval [act_simps]:
  "act_drop m s = (case m s of (Inl e, s') \<Rightarrow> (Inl e, s') | (Inr a, s') \<Rightarrow> (Inr (), s'))"
  by (simp add: act_drop_def act_bind_def act_return_def)

lemma act_if_eval [act_simps]:
  "act_if c m n s =
     (case c s of (Inl e, s') \<Rightarrow> (Inl e, s') | (Inr b, s') \<Rightarrow> (if b then m s' else n s'))"
  by (simp add: act_if_def act_bind_def split: prod.split sum.split)

lemma act_when_eval [act_simps]:
  "act_when b m s = (if b then m s else (Inr (), s))"
  by (simp add: act_when_def act_return_def)

lemma act_unless_eval [act_simps]:
  "act_unless c m s =
     (case c s of (Inl e, s') \<Rightarrow> (Inl e, s') | (Inr b, s') \<Rightarrow> (if b then (Inr (), s') else m s'))"
  by (simp add: act_unless_def act_if_eval act_return_def)

lemma act_try_eval [act_simps]:
  "act_try m h s = (case m s of (Inl e, s') \<Rightarrow> h e s' | (Inr a, s') \<Rightarrow> (Inr a, s'))"
  by (simp add: act_try_def)

lemmas act_block_eval [act_simps] = act_block.simps act_for.simps

lemma act_block_append:
  "act_block (ms @ ns) s =
     (case act_block ms s of (Inl e, s') \<Rightarrow> (Inl e, s') | (Inr _, s') \<Rightarrow> act_block ns s')"
proof (induction ms arbitrary: s)
  case Nil
  then show ?case by (simp add: act_simps)
next
  case (Cons m ms)
  show ?case
    by (simp add: act_then_eval Cons.IH split: prod.split sum.split)
qed

text \<open>Once a block raises, the rest of it is not run.\<close>

lemma act_block_raises:
  assumes "act_block ms s = (Inl e, s')"
  shows "act_block (ms @ ns) s = (Inl e, s')"
  by (simp add: act_block_append assms)

lemma act_block_snoc:
  "act_block (ms @ [m]) s = (Inr u, s') \<Longrightarrow>
   \<exists>s1. act_block ms s = (Inr (), s1) \<and> m s1 = (Inr (), s')"
  by (auto simp: act_block_append act_simps split: prod.splits sum.splits)

lemma act_thenD:
  "act_then m n s = (Inr u, s') \<Longrightarrow> \<exists>a s1. m s = (Inr a, s1) \<and> n s1 = (Inr u, s')"
  by (auto simp: act_then_eval split: prod.splits sum.splits)

lemma act_bindE:
  assumes "act_bind m k s = (Inr u, s')"
  obtains a s1 where "m s = (Inr a, s1)" and "k a s1 = (Inr u, s')"
  using assms by (auto simp: act_bind_eval split: prod.splits sum.splits)

lemma act_dropD: "act_drop m s = (Inr u, s') \<Longrightarrow> \<exists>a. m s = (Inr a, s')"
  by (auto simp: act_drop_eval split: prod.splits sum.splits)

section \<open>Predicates that a statement keeps\<close>

definition keeps :: "('s \<Rightarrow> bool) \<Rightarrow> ('s, 'a) act \<Rightarrow> bool" where
  "keeps P m \<longleftrightarrow> (\<forall>s. P s \<longrightarrow> P (snd (m s)))"

lemma keepsI: "(\<And>s. P s \<Longrightarrow> P (snd (m s))) \<Longrightarrow> keeps P m"
  by (simp add: keeps_def)

lemma keepsD: "keeps P m \<Longrightarrow> P s \<Longrightarrow> P (snd (m s))"
  by (simp add: keeps_def)

lemma keepsD_eq: "keeps P m \<Longrightarrow> P s \<Longrightarrow> m s = (r, s') \<Longrightarrow> P s'"
  by (metis keepsD snd_conv)

lemma keeps_pure [keeps_intros, intro]:
  "keeps P (act_return a)" "keeps P (act_raise e)" "keeps P (act_gets f)" "keeps P (act_res r)"
  by (simp_all add: keeps_def act_simps)

lemma keeps_modify [keeps_intros]: "(\<And>s. P s \<Longrightarrow> P (g s)) \<Longrightarrow> keeps P (act_modify g)"
  by (simp add: keeps_def act_simps)

lemma keeps_bind [keeps_intros]:
  "keeps P m \<Longrightarrow> (\<And>a. keeps P (f a)) \<Longrightarrow> keeps P (act_bind m f)"
  by (force simp: keeps_def act_simps split: prod.split sum.split)

lemma keeps_then [keeps_intros]: "keeps P m \<Longrightarrow> keeps P n \<Longrightarrow> keeps P (act_then m n)"
  unfolding act_then_def by (rule keeps_bind)

lemma keeps_drop [keeps_intros]: "keeps P m \<Longrightarrow> keeps P (act_drop m)"
  unfolding act_drop_def by (rule keeps_bind) auto

lemma keeps_if [keeps_intros]:
  "keeps P c \<Longrightarrow> keeps P m \<Longrightarrow> keeps P n \<Longrightarrow> keeps P (act_if c m n)"
  unfolding act_if_def by (rule keeps_bind) auto

lemma keeps_unless [keeps_intros]: "keeps P c \<Longrightarrow> keeps P m \<Longrightarrow> keeps P (act_unless c m)"
  unfolding act_unless_def by (rule keeps_if) auto

lemma keeps_when [keeps_intros]: "(b \<Longrightarrow> keeps P m) \<Longrightarrow> keeps P (act_when b m)"
  by (auto simp: act_when_def)

lemma keeps_try [keeps_intros]:
  "keeps P m \<Longrightarrow> (\<And>e. keeps P (h e)) \<Longrightarrow> keeps P (act_try m h)"
  by (force simp: keeps_def act_simps split: prod.split sum.split)

lemma keeps_block [keeps_intros]: "list_all (keeps P) ms \<Longrightarrow> keeps P (act_block ms)"
  by (induction ms) (auto intro: keeps_intros)

lemma keeps_for [keeps_intros]: "(\<And>x. x \<in> set xs \<Longrightarrow> keeps P (f x)) \<Longrightarrow> keeps P (act_for xs f)"
  by (induction xs) (auto intro: keeps_intros)

text \<open>Conditionals and option matches inside a statement.\<close>

lemma keeps_ite [keeps_intros]:
  "(b \<Longrightarrow> keeps P m) \<Longrightarrow> (\<not> b \<Longrightarrow> keeps P n) \<Longrightarrow> keeps P (if b then m else n)"
  by simp

lemma keeps_case_option [keeps_intros]:
  "keeps P m \<Longrightarrow> (\<And>x. keeps P (f x)) \<Longrightarrow> keeps P (case v of None \<Rightarrow> m | Some x \<Rightarrow> f x)"
  by (cases v) simp_all

lemma keeps_case_prod [keeps_intros]:
  "(\<And>a b. keeps P (f a b)) \<Longrightarrow> keeps P (case p of (a, b) \<Rightarrow> f a b)"
  by (cases p) simp

section \<open>Tables: association lists\<close>

text \<open>
  A table keyed by name: rows are found by key, an update overwrites the row in place or
  appends it, a delete drops it. Iteration order is insertion order, as in the database, in
  \<^verbatim>\<open>os.listdir\<close> and in Docker's list (the code never relies on another one).
\<close>

type_synonym ('k, 'v) table = "('k \<times> 'v) list"

definition tab_get :: "('k, 'v) table \<Rightarrow> 'k \<Rightarrow> 'v option" where
  "tab_get t k = map_of t k"

definition tab_put :: "'k \<Rightarrow> 'v \<Rightarrow> ('k, 'v) table \<Rightarrow> ('k, 'v) table" where
  "tab_put k v t = AList.update k v t"

definition tab_del :: "'k \<Rightarrow> ('k, 'v) table \<Rightarrow> ('k, 'v) table" where
  "tab_del k t = AList.delete k t"

definition tab_keys :: "('k, 'v) table \<Rightarrow> 'k list" where
  "tab_keys t = map fst t"

lemma in_tab_put: "(j, b) \<in> set (tab_put k v t) \<Longrightarrow> j = k \<and> b = v \<or> (j, b) \<in> set t"
  unfolding tab_put_def by (induction t) (auto split: if_splits)

lemma in_tab_del: "x \<in> set (tab_del k t) \<Longrightarrow> x \<in> set t"
  unfolding tab_del_def by (induction t) (auto split: if_splits)

definition tab_wf :: "('k, 'v) table \<Rightarrow> bool" where
  "tab_wf t = distinct (map fst t)"

locale kv_table =
  fixes get :: "'t \<Rightarrow> 'k \<Rightarrow> 'v option"
    and put :: "'k \<Rightarrow> 'v \<Rightarrow> 't \<Rightarrow> 't"
    and del :: "'k \<Rightarrow> 't \<Rightarrow> 't"
    and keys :: "'t \<Rightarrow> 'k list"
    and wf :: "'t \<Rightarrow> bool"
  assumes get_put: "get (put k v t) k' = (if k' = k then Some v else get t k')"
    and get_del: "get (del k t) k' = (if k' = k then None else get t k')"
    and in_keys: "k \<in> set (keys t) \<longleftrightarrow> get t k \<noteq> None"
    and wf_put: "wf t \<Longrightarrow> wf (put k v t)"
    and wf_del: "wf t \<Longrightarrow> wf (del k t)"
begin

lemma get_put_same: "get (put k v t) k = Some v"
  by (simp add: get_put)

lemma get_put_other: "k' \<noteq> k \<Longrightarrow> get (put k v t) k' = get t k'"
  by (simp add: get_put)

lemma get_del_same: "get (del k t) k = None"
  by (simp add: get_del)

lemma keys_put: "set (keys (put k v t)) = insert k (set (keys t))"
  by (auto simp: in_keys get_put split: if_splits)

lemma keys_del: "set (keys (del k t)) = set (keys t) - {k}"
  by (auto simp: in_keys get_del split: if_splits)

lemma put_put: "get (put k v (put k u t)) = get (put k v t)"
  by (rule ext) (simp add: get_put)

lemma del_put: "get (del k (put k v t)) = get (del k t)"
  by (rule ext) (simp add: get_put get_del)

end

interpretation table: kv_table tab_get tab_put tab_del tab_keys tab_wf
proof
  fix k k' :: 'k and v :: 'v and t :: "('k, 'v) table"
  show "tab_get (tab_put k v t) k' = (if k' = k then Some v else tab_get t k')"
    by (simp add: tab_get_def tab_put_def update_conv')
  show "tab_get (tab_del k t) k' = (if k' = k then None else tab_get t k')"
    by (simp add: tab_get_def tab_del_def delete_conv')
  show "k \<in> set (tab_keys t) \<longleftrightarrow> tab_get t k \<noteq> None"
    by (simp add: tab_keys_def tab_get_def map_of_eq_None_iff)
  show "tab_wf (tab_put k v t)" if "tab_wf t"
    using that by (simp add: tab_wf_def tab_put_def distinct_update)
  show "tab_wf (tab_del k t)" if "tab_wf t"
    using that by (simp add: tab_wf_def tab_del_def distinct_delete)
qed

lemmas tab_simps [alist_simps] =
  table.get_put table.get_del table.keys_put table.keys_del

lemma tab_get_eval:
  "tab_get [] k = None"
  "tab_get ((k', v) # t) k = (if k = k' then Some v else tab_get t k)"
  by (auto simp: tab_get_def)

lemma tab_put_eval:
  "tab_put k v [] = [(k, v)]"
  "tab_put k v ((k', u) # t) = (if k' = k then (k, v) # t else (k', u) # tab_put k v t)"
  by (simp_all add: tab_put_def)

lemma tab_del_eval:
  "tab_del k [] = []"
  "tab_del k ((k', u) # t) = (if k' = k then tab_del k t else (k', u) # tab_del k t)"
  by (simp_all add: tab_del_def AList.delete_eq)

lemmas tab_eval = tab_get_eval tab_put_eval tab_del_eval

section \<open>Sorting with a comparison method\<close>

text \<open>
  Python's \<^verbatim>\<open>sorted\<close> uses only the elements' \<^verbatim>\<open>__lt__\<close>: a stable insertion sort by a
  strict comparison. It agrees with the library's \<open>sort\<close> where the comparison is a
  linear order's.
\<close>

fun py_insort :: "('a \<Rightarrow> 'a \<Rightarrow> bool) \<Rightarrow> 'a \<Rightarrow> 'a list \<Rightarrow> 'a list" where
  "py_insort lt x [] = [x]"
| "py_insort lt x (y # ys) = (if lt y x then y # py_insort lt x ys else x # y # ys)"

definition py_sorted :: "('a \<Rightarrow> 'a \<Rightarrow> bool) \<Rightarrow> 'a list \<Rightarrow> 'a list" where
  "py_sorted lt xs = foldr (py_insort lt) xs []"

lemma set_py_insort [simp]: "set (py_insort lt x ys) = insert x (set ys)"
  by (induction ys) auto

lemma set_py_sorted [simp]: "set (py_sorted lt xs) = set xs"
  unfolding py_sorted_def by (induction xs) auto

lemma length_py_insort [simp]: "length (py_insort lt x ys) = Suc (length ys)"
  by (induction ys) auto

lemma length_py_sorted [simp]: "length (py_sorted lt xs) = length xs"
  unfolding py_sorted_def by (induction xs) auto

lemma distinct_py_insort: "distinct (py_insort lt x ys) \<longleftrightarrow> x \<notin> set ys \<and> distinct ys"
  by (induction ys) auto

lemma distinct_py_sorted [simp]: "distinct (py_sorted lt xs) = distinct xs"
proof (induction xs)
  case Nil
  then show ?case by (simp add: py_sorted_def)
next
  case (Cons x xs)
  have "py_sorted lt (x # xs) = py_insort lt x (py_sorted lt xs)"
    by (simp add: py_sorted_def)
  then show ?case by (simp add: distinct_py_insort Cons.IH)
qed

lemma mset_py_insort [simp]: "mset (py_insort lt x ys) = add_mset x (mset ys)"
  by (induction ys) auto

lemma mset_py_sorted [simp]: "mset (py_sorted lt xs) = mset xs"
  unfolding py_sorted_def by (induction xs) auto

lemma sorted_py_insort:
  fixes x :: "'a::linorder"
  assumes "\<And>y. y \<in> set ys \<Longrightarrow> if lt y x then y \<le> x else x \<le> y" and "sorted ys"
  shows "sorted (py_insort lt x ys)"
  using assms
proof (induction ys)
  case (Cons y ys)
  then have IH: "sorted (py_insort lt x ys)" by simp
  have yx: "if lt y x then y \<le> x else x \<le> y" using Cons.prems(1) by simp
  show ?case
  proof (cases "lt y x")
    case True
    with yx IH Cons.prems(2) show ?thesis by auto
  next
    case False
    with yx Cons.prems(2) show ?thesis by (auto intro: order_trans)
  qed
qed simp

text \<open>Any comparison that never orders two elements against the linear order sorts as the
  library does; equal elements may compare either way.\<close>

lemma py_sorted_sort':
  fixes xs :: "'a::linorder list"
  assumes "\<And>x y. x \<in> set xs \<Longrightarrow> y \<in> set xs \<Longrightarrow> if lt y x then y \<le> x else x \<le> y"
  shows "py_sorted lt xs = sort xs"
proof -
  have "sorted (py_sorted lt ys)" if "set ys \<subseteq> set xs" for ys
    using that
  proof (induction ys)
    case Nil
    then show ?case by (simp add: py_sorted_def)
  next
    case (Cons y ys)
    have "py_sorted lt (y # ys) = py_insort lt y (py_sorted lt ys)"
      by (simp add: py_sorted_def)
    moreover have "sorted (py_insort lt y (py_sorted lt ys))"
      using Cons assms by (intro sorted_py_insort) (auto simp: subset_iff)
    ultimately show ?case by simp
  qed
  then have "sorted (py_sorted lt xs)" by simp
  then show ?thesis by (intro properties_for_sort [symmetric]) simp_all
qed

lemma py_sorted_sort:
  fixes xs :: "'a::linorder list"
  assumes "\<And>x y. x \<in> set xs \<Longrightarrow> y \<in> set xs \<Longrightarrow> lt x y = (x < y)"
  shows "py_sorted lt xs = sort xs"
  using assms by (intro py_sorted_sort') auto

lemma py_sorted_less: "py_sorted (<) (xs :: 'a::linorder list) = sort xs"
  by (rule py_sorted_sort) simp

end
