(* ===== verification/Json.thy ===== *)
theory Json
  imports Prelude
begin

text \<open>
  JSON documents as the code reads them with \<^verbatim>\<open>json.load\<close>: \<open>json\<close> values, indexing
  \<^verbatim>\<open>d[k]\<close> (\<open>json_item\<close>, KeyError or TypeError), \<^verbatim>\<open>d.get(k, default)\<close>
  (\<open>json_get\<close>), truth value (\<open>truthy\<close>), \<^verbatim>\<open>int(v)\<close> (\<open>json_int\<close>) and
  dictionary equality (\<open>json_eq\<close>, insensitive to key order). Objects are association
  lists in file order. Numbers are integers: none of the modelled files holds another number.
  The second part is the decimal notation of numbers in file names and commands
  (\<open>str_of_nat\<close>, \<open>int_of_str\<close>) with its round trip.
\<close>

section \<open>JSON values\<close>

datatype json =
    JNull
  | JBool bool
  | JInt int
  | JStr string
  | JList "json list"
  | JObj "(string \<times> json) list"

fun json_item :: "json \<Rightarrow> string \<Rightarrow> json res" where
  "json_item (JObj kvs) k = (case map_of kvs k of None \<Rightarrow> Inl (KeyError k) | Some v \<Rightarrow> Inr v)"
| "json_item _ k = Inl (TypeError k)"

fun json_get :: "json \<Rightarrow> string \<Rightarrow> json \<Rightarrow> json res" where
  "json_get (JObj kvs) k d = (case map_of kvs k of None \<Rightarrow> Inr d | Some v \<Rightarrow> Inr v)"
| "json_get _ k d = Inl (AttributeError ''get'')"

fun json_path :: "json \<Rightarrow> string list \<Rightarrow> json res" where
  "json_path j [] = Inr j"
| "json_path j (k # ks) = res_bind (json_item j k) (\<lambda>v. json_path v ks)"

fun json_keys :: "json \<Rightarrow> string list res" where
  "json_keys (JObj kvs) = Inr (map fst kvs)"
| "json_keys _ = Inl (AttributeError ''keys'')"

fun json_elems :: "json \<Rightarrow> json list res" where
  "json_elems (JList xs) = Inr xs"
| "json_elems (JObj kvs) = Inr (map (\<lambda>kv. JStr (fst kv)) kvs)"
| "json_elems _ = Inl (TypeError ''iterate'')"

fun truthy :: "json \<Rightarrow> bool" where
  "truthy JNull = False"
| "truthy (JBool b) = b"
| "truthy (JInt i) = (i \<noteq> 0)"
| "truthy (JStr s) = (s \<noteq> [])"
| "truthy (JList xs) = (xs \<noteq> [])"
| "truthy (JObj kvs) = (kvs \<noteq> [])"

text \<open>\<^verbatim>\<open>d[k] = v\<close> on a loaded dictionary.\<close>

fun json_set :: "json \<Rightarrow> string \<Rightarrow> json \<Rightarrow> json res" where
  "json_set (JObj kvs) k v = Inr (JObj (AList.update k v kvs))"
| "json_set _ k v = Inl (TypeError k)"

text \<open>\<^verbatim>\<open>a == b\<close> on loaded values: objects are equal when they have the same keys with
  equal values, whatever the order of the keys. (A number equals a number, a boolean a
  boolean; the modelled files never compare a number with a boolean.)\<close>

function (sequential) json_eq :: "json \<Rightarrow> json \<Rightarrow> bool" where
  "json_eq JNull JNull = True"
| "json_eq (JBool a) (JBool b) = (a = b)"
| "json_eq (JInt a) (JInt b) = (a = b)"
| "json_eq (JStr a) (JStr b) = (a = b)"
| "json_eq (JList xs) (JList ys) =
     (length xs = length ys \<and> (\<forall>p \<in> set (zip xs ys). json_eq (fst p) (snd p)))"
| "json_eq (JObj kvs) (JObj lvs) =
     (set (map fst kvs) = set (map fst lvs) \<and>
      (\<forall>p \<in> set kvs. case map_of lvs (fst p) of None \<Rightarrow> False | Some w \<Rightarrow> json_eq (snd p) w))"
| "json_eq _ _ = False"
  by pat_completeness auto
termination
proof (relation "measure (\<lambda>(a, b). size a)", goal_cases)
  case 1
  then show ?case by simp
next
  case (2 xs ys p)
  then have "fst p \<in> set xs" by (metis set_zip_leftD prod.collapse)
  then show ?case
    by (cases p) (auto simp: less_Suc_eq_le intro: size_list_estimation')
next
  case (3 kvs lvs p w)
  have "size (snd p) \<le> size_list (size_prod (\<lambda>x. 0) size) kvs"
    by (rule size_list_estimation' [OF 3(1)]) (cases p, simp)
  then show ?case by simp
qed

text \<open>A loaded document has no duplicate key in an object (\<^verbatim>\<open>json.load\<close> keeps the last).\<close>

fun json_wf :: "json \<Rightarrow> bool" where
  "json_wf (JList xs) = (\<forall>x \<in> set xs. json_wf x)"
| "json_wf (JObj kvs) = (distinct (map fst kvs) \<and> (\<forall>p \<in> set kvs. json_wf (snd p)))"
| "json_wf _ = True"

lemma json_eq_refl: "json_wf j \<Longrightarrow> json_eq j j"
proof (induction j)
  case (JList xs)
  then have "json_eq (fst p) (snd p)" if "p \<in> set (zip xs xs)" for p
    using that by (cases p) (auto simp: zip_same)
  then show ?case by simp
next
  case (JObj kvs)
  have "case map_of kvs (fst p) of None \<Rightarrow> False | Some w \<Rightarrow> json_eq (snd p) w"
    if p: "p \<in> set kvs" for p
  proof -
    from JObj.prems p have "map_of kvs (fst p) = Some (snd p)" by simp
    moreover have "json_eq (snd p) (snd p)"
      using JObj.IH [OF p, of "snd p"] JObj.prems p by (cases p) (auto simp: snds.simps)
    ultimately show ?thesis by simp
  qed
  then show ?case by simp
qed simp_all

lemma json_item_set:
  "json_set j k v = Inr j' \<Longrightarrow>
   json_item j' k' = (if k' = k then Inr v else json_item j k')"
  by (cases j) (auto simp: update_conv')

lemma json_get_item:
  "json_item j k = Inr v \<Longrightarrow> json_get j k d = Inr v"
  by (cases j) (auto split: option.splits)

lemma json_path_append:
  "json_path j (ks @ ls) = res_bind (json_path j ks) (\<lambda>v. json_path v ls)"
proof (induction ks arbitrary: j)
  case Nil
  then show ?case by simp
next
  case (Cons k ks)
  then show ?case by (cases "json_item j k") simp_all
qed

section \<open>Decimal notation\<close>

text \<open>\<^verbatim>\<open>str(n)\<close> for a natural number, and \<^verbatim>\<open>int(s)\<close> for a string of digits. \<^verbatim>\<open>int\<close>
  also accepts a sign, surrounding blanks and underscores between digits, which the
  callers' inputs (regular-expression matches \<^verbatim>\<open>\d+\<close>, port numbers, keys written by
  \<^verbatim>\<open>str\<close>) do not have, but for the sign; anything else is a ValueError.\<close>

definition digit_char :: "nat \<Rightarrow> char" where
  "digit_char d = char_of (48 + d)"

definition is_digit :: "char \<Rightarrow> bool" where
  "is_digit c = (48 \<le> (of_char c :: nat) \<and> (of_char c :: nat) \<le> 57)"

definition digit_val :: "char \<Rightarrow> nat" where
  "digit_val c = of_char c - 48"

fun str_of_nat :: "nat \<Rightarrow> string" where
  "str_of_nat n = (if n < 10 then [digit_char n]
                   else str_of_nat (n div 10) @ [digit_char (n mod 10)])"

declare str_of_nat.simps [simp del]

definition str_of_int :: "int \<Rightarrow> string" where
  "str_of_int i = (if i < 0 then ''-'' @ str_of_nat (nat (- i)) else str_of_nat (nat i))"

definition nat_of_digits :: "string \<Rightarrow> nat" where
  "nat_of_digits s = foldl (\<lambda>n c. 10 * n + digit_val c) 0 s"

definition int_of_str :: "string \<Rightarrow> int res" where
  "int_of_str s =
     (if s \<noteq> [] \<and> list_all is_digit s then Inr (int (nat_of_digits s))
      else case s of
          c # ds \<Rightarrow> if c = CHR ''-'' \<and> ds \<noteq> [] \<and> list_all is_digit ds
                   then Inr (- int (nat_of_digits ds)) else Inl (ValueError s)
        | [] \<Rightarrow> Inl (ValueError s))"

text \<open>\<^verbatim>\<open>int(v)\<close> on a loaded value.\<close>

fun json_int :: "json \<Rightarrow> int res" where
  "json_int (JInt i) = Inr i"
| "json_int (JBool b) = Inr (if b then 1 else 0)"
| "json_int (JStr s) = int_of_str s"
| "json_int _ = Inl (TypeError ''int'')"

lemma of_char_digit: "d < 10 \<Longrightarrow> of_char (digit_char d) = 48 + d"
  by (simp add: digit_char_def)

lemma digit_char_eval:
  "digit_char 0 = CHR ''0''" "digit_char 1 = CHR ''1''" "digit_char 2 = CHR ''2''"
  "digit_char 3 = CHR ''3''" "digit_char 4 = CHR ''4''" "digit_char 5 = CHR ''5''"
  "digit_char 6 = CHR ''6''" "digit_char 7 = CHR ''7''" "digit_char 8 = CHR ''8''"
  "digit_char 9 = CHR ''9''"
  by (simp_all add: digit_char_def char_of_def bit_iff_odd)

lemma digit_val_digit [simp]: "d < 10 \<Longrightarrow> digit_val (digit_char d) = d"
  by (simp add: digit_val_def of_char_digit)

lemma is_digit_digit [simp]: "d < 10 \<Longrightarrow> is_digit (digit_char d)"
  by (simp add: is_digit_def of_char_digit)

lemma nat_of_digits_snoc: "nat_of_digits (s @ [c]) = 10 * nat_of_digits s + digit_val c"
  by (simp add: nat_of_digits_def)

lemma nat_of_digits_str [simp]: "nat_of_digits (str_of_nat n) = n"
proof (induction n rule: str_of_nat.induct)
  case (1 n)
  show ?case
  proof (cases "n < 10")
    case True
    then show ?thesis by (subst str_of_nat.simps) (simp add: nat_of_digits_def)
  next
    case False
    with 1 show ?thesis
      by (subst str_of_nat.simps) (simp add: nat_of_digits_snoc)
  qed
qed

lemma str_of_nat_digits: "list_all is_digit (str_of_nat n)"
proof (induction n rule: str_of_nat.induct)
  case (1 n)
  then show ?case by (subst str_of_nat.simps) simp
qed

lemma str_of_nat_Nil [simp]: "str_of_nat n \<noteq> []"
  by (subst str_of_nat.simps) simp

lemma int_of_str_of_nat [simp]: "int_of_str (str_of_nat n) = Inr (int n)"
  by (simp add: int_of_str_def str_of_nat_digits)

lemma str_of_nat_inject [simp]: "str_of_nat m = str_of_nat n \<longleftrightarrow> m = n"
  by (metis nat_of_digits_str)

lemma is_digit_minus [simp]: "\<not> is_digit CHR ''-''"
  by (simp add: is_digit_def)

lemma is_digit_underscore [simp]: "\<not> is_digit CHR ''_''"
  by (simp add: is_digit_def)

lemma is_digit_dot [simp]: "\<not> is_digit CHR ''.''"
  by (simp add: is_digit_def)

lemma str_of_nat_no_char: "\<not> is_digit c \<Longrightarrow> c \<notin> set (str_of_nat n)"
  using str_of_nat_digits [of n] by (auto simp: list_all_iff)

lemma int_of_str_of_int [simp]: "int_of_str (str_of_int i) = Inr i"
proof (cases "i < 0")
  case True
  then show ?thesis
    by (simp add: str_of_int_def int_of_str_def str_of_nat_digits)
next
  case False
  then show ?thesis by (simp add: str_of_int_def)
qed

end
