(* ===== verification/Dkg_Structures.thy ===== *)
theory Dkg_Structures
  imports Prelude
begin

text \<open>
  The enumerations of \<^verbatim>\<open>core/schains/dkg/structures.py\<close>. They are \<^verbatim>\<open>int\<close> enums: the
  database stores the number, \<^verbatim>\<open>DKGStatus(n)\<close> reads it back and raises ValueError for a
  number that no member has.
\<close>

datatype DKGStatus = NOT_STARTED | IN_PROGRESS | DONE | FAILED | KEY_GENERATION_ERROR

fun DKGStatus_value :: "DKGStatus \<Rightarrow> int" where
  "DKGStatus_value NOT_STARTED = 1"
| "DKGStatus_value IN_PROGRESS = 2"
| "DKGStatus_value DONE = 3"
| "DKGStatus_value FAILED = 4"
| "DKGStatus_value KEY_GENERATION_ERROR = 5"

fun DKGStatus_name :: "DKGStatus \<Rightarrow> string" where
  "DKGStatus_name NOT_STARTED = ''NOT_STARTED''"
| "DKGStatus_name IN_PROGRESS = ''IN_PROGRESS''"
| "DKGStatus_name DONE = ''DONE''"
| "DKGStatus_name FAILED = ''FAILED''"
| "DKGStatus_name KEY_GENERATION_ERROR = ''KEY_GENERATION_ERROR''"

definition DKGStatus_members :: "DKGStatus list" where
  "DKGStatus_members = [NOT_STARTED, IN_PROGRESS, DONE, FAILED, KEY_GENERATION_ERROR]"

definition DKGStatus_of_value :: "int \<Rightarrow> DKGStatus res" where
  "DKGStatus_of_value n =
     (case filter (\<lambda>s. DKGStatus_value s = n) DKGStatus_members of
        [] \<Rightarrow> Inl (ValueError ''DKGStatus'')
      | s # _ \<Rightarrow> Inr s)"

definition is_done :: "DKGStatus \<Rightarrow> bool" where
  "is_done s = (s = DONE)"

datatype DKGStep =
    Step_NONE | BROADCAST | BROADCAST_VERIFICATION | ALRIGHT | ALRIGHT_RECEIVING
  | COMPLAINT_NO_BROADCAST | COMPLAINT_BAD_DATA | COMPLAINT_NO_ALRIGHT
  | COMPLAINT_NO_RESPONSE | PRE_RESPONSE | RESPONSE | KEY_GENERATION

fun DKGStep_value :: "DKGStep \<Rightarrow> int" where
  "DKGStep_value Step_NONE = 0"
| "DKGStep_value BROADCAST = 1"
| "DKGStep_value BROADCAST_VERIFICATION = 2"
| "DKGStep_value ALRIGHT = 3"
| "DKGStep_value ALRIGHT_RECEIVING = 4"
| "DKGStep_value COMPLAINT_NO_BROADCAST = 5"
| "DKGStep_value COMPLAINT_BAD_DATA = 6"
| "DKGStep_value COMPLAINT_NO_ALRIGHT = 7"
| "DKGStep_value COMPLAINT_NO_RESPONSE = 8"
| "DKGStep_value PRE_RESPONSE = 9"
| "DKGStep_value RESPONSE = 10"
| "DKGStep_value KEY_GENERATION = 11"

datatype ComplaintReason = NO_BROADCAST | BAD_DATA | NO_ALRIGHT | NO_RESPONSE

fun ComplaintReason_value :: "ComplaintReason \<Rightarrow> int" where
  "ComplaintReason_value NO_BROADCAST = 0"
| "ComplaintReason_value BAD_DATA = 1"
| "ComplaintReason_value NO_ALRIGHT = 2"
| "ComplaintReason_value NO_RESPONSE = 3"

lemma DKGStatus_of_value_value [simp]: "DKGStatus_of_value (DKGStatus_value s) = Inr s"
  by (cases s) (simp_all add: DKGStatus_of_value_def DKGStatus_members_def)

lemma DKGStatus_value_inject [simp]: "DKGStatus_value a = DKGStatus_value b \<longleftrightarrow> a = b"
  by (metis DKGStatus_of_value_value sum.inject(2))

lemma DKGStatus_of_value_Inr:
  "DKGStatus_of_value n = Inr s \<Longrightarrow> n = DKGStatus_value s"
  by (auto simp: DKGStatus_of_value_def DKGStatus_members_def split: if_splits)

end
