(* ===== verification/Schain_Record.thy ===== *)
theory Schain_Record
  imports Json Dkg_Structures
begin

text \<open>
  The chain records of \<^verbatim>\<open>web/models/schain.py\<close>: the table \<^verbatim>\<open>SChainRecord\<close> and the
  instances that the code fetches from it. An instance is a value of \<open>schain_record\<close>, the
  database \<open>db\<close> a table of rows keyed by the unique column \<^verbatim>\<open>name\<close>. A setter changes the
  instance and writes it back: \<open>save\<close> writes every column of the instance (peewee's
  \<^verbatim>\<open>save()\<close>, an UPDATE of the row with the instance's key), \<open>save_only\<close> the columns
  named (\<^verbatim>\<open>save(only=[...])\<close>). A naive \<^verbatim>\<open>datetime\<close> is its wall-clock second, an
  \<open>int\<close>.
\<close>

section \<open>Rows, instances and the table\<close>

record schain_record =
  rec_name :: string
  added_at :: int
  dkg_status :: int
  is_deleted :: bool
  first_run :: bool
  new_schain :: bool
  repair_mode :: bool
  needs_reload :: bool
  backup_run :: bool
  sync_config_run :: bool
  monitor_last_seen :: "int option"
  monitor_id :: int
  config_version :: string
  snapshot_from :: string
  restart_count :: int
  failed_rpc_count :: int
  ssl_change_date :: int
  repair_date :: int

type_synonym db = "(string, schain_record) table"

definition DEFAULT_CONFIG_VERSION :: string where
  "DEFAULT_CONFIG_VERSION = ''0.0.0''"

text \<open>The columns' defaults. \<^verbatim>\<open>default=datetime.now()\<close> is evaluated once, when the module
  is imported: \<open>import_dt\<close>.\<close>

definition new_record :: "string \<Rightarrow> int \<Rightarrow> int \<Rightarrow> schain_record" where
  "new_record n now import_dt =
     \<lparr>rec_name = n, added_at = now, dkg_status = DKGStatus_value NOT_STARTED,
      is_deleted = False, first_run = True, new_schain = True, repair_mode = False,
      needs_reload = False, backup_run = False, sync_config_run = False,
      monitor_last_seen = Some now, monitor_id = 0, config_version = DEFAULT_CONFIG_VERSION,
      snapshot_from = '''', restart_count = 0, failed_rpc_count = 0,
      ssl_change_date = import_dt, repair_date = import_dt\<rparr>"

text \<open>The table is keyed by the rows' own names.\<close>

definition db_wf :: "db \<Rightarrow> bool" where
  "db_wf d = (tab_wf d \<and> (\<forall>p \<in> set d. rec_name (snd p) = fst p))"

definition added :: "db \<Rightarrow> string \<Rightarrow> bool" where
  "added d n = (tab_get d n \<noteq> None)"

text \<open>\<^verbatim>\<open>SChainRecord.add\<close>: the new row and no error, or no row and the IntegrityError of
  the unique column.\<close>

definition add_record ::
  "string \<Rightarrow> int \<Rightarrow> int \<Rightarrow> db \<Rightarrow> (schain_record option \<times> exn option) \<times> db" where
  "add_record n now import_dt d =
     (if added d n then ((None, Some IntegrityError), d)
      else let r = new_record n now import_dt in ((Some r, None), tab_put n r d))"

definition get_by_name :: "db \<Rightarrow> string \<Rightarrow> schain_record res" where
  "get_by_name d n = (case tab_get d n of None \<Rightarrow> Inl (DoesNotExist n) | Some r \<Rightarrow> Inr r)"

definition get_all_records :: "bool \<Rightarrow> db \<Rightarrow> schain_record list" where
  "get_all_records include_deleted d =
     (if include_deleted then map snd d else filter (\<lambda>r. \<not> is_deleted r) (map snd d))"

text \<open>A timestamp of a naive date-time subtracts the host's offset from UTC. \<open>monitor_last_seen\<close> is
  None in a row that was there before the migration that added the column: None has no method
  \<^verbatim>\<open>timestamp\<close>.\<close>

definition last_seen_timestamp :: "int \<Rightarrow> schain_record \<Rightarrow> int res" where
  "last_seen_timestamp tz r =
     (case monitor_last_seen r of
        None \<Rightarrow> Inl (AttributeError ''timestamp'')
      | Some dt \<Rightarrow> Inr (dt - tz))"

text \<open>\<^verbatim>\<open>to_dict\<close>\<close>

definition to_dict :: "int \<Rightarrow> schain_record \<Rightarrow> json res" where
  "to_dict tz r =
     res_bind (DKGStatus_of_value (dkg_status r)) (\<lambda>st.
     res_bind (last_seen_timestamp tz r) (\<lambda>last_seen.
     Inr (JObj
      [(''name'', JStr (rec_name r)),
       (''added_at'', JInt (added_at r - tz)),
       (''dkg_status'', JInt (dkg_status r)),
       (''dkg_status_name'', JStr (DKGStatus_name st)),
       (''is_deleted'', JBool (is_deleted r)),
       (''first_run'', JBool (first_run r)),
       (''new_schain'', JBool (new_schain r)),
       (''needs_reload'', JBool (needs_reload r)),
       (''monitor_last_seen'', JInt last_seen),
       (''monitor_id'', JInt (monitor_id r)),
       (''config_version'', JStr (config_version r)),
       (''ssl_change_date'', JInt (ssl_change_date r - tz)),
       (''repair_mode'', JBool (repair_mode r)),
       (''backup_run'', JBool (backup_run r)),
       (''sync_config_run'', JBool (sync_config_run r)),
       (''snapshot_from'', JStr (snapshot_from r)),
       (''restart_count'', JInt (restart_count r)),
       (''failed_rpc_count'', JInt (failed_rpc_count r))])))"

section \<open>Saving an instance\<close>

definition save :: "schain_record \<Rightarrow> db \<Rightarrow> db" where
  "save r d = (if added d (rec_name r) then tab_put (rec_name r) r d else d)"

text \<open>\<^verbatim>\<open>save(only=[c])\<close>: only the named column of the row changes; \<open>copy\<close> writes it.\<close>

definition save_only ::
  "(schain_record \<Rightarrow> schain_record \<Rightarrow> schain_record) \<Rightarrow> schain_record \<Rightarrow> db \<Rightarrow> db" where
  "save_only copy r d =
     (case tab_get d (rec_name r) of
        None \<Rightarrow> d
      | Some row \<Rightarrow> tab_put (rec_name r) (copy r row) d)"

text \<open>A setter: the instance and the database after it.\<close>

type_synonym setter = "schain_record \<Rightarrow> db \<Rightarrow> schain_record \<times> db"

definition save_with :: "(schain_record \<Rightarrow> schain_record) \<Rightarrow> setter" where
  "save_with f r d = (f r, save (f r) d)"

definition set_dkg_status :: "DKGStatus \<Rightarrow> setter" where
  "set_dkg_status v = save_with (\<lambda>r. r\<lparr>dkg_status := DKGStatus_value v\<rparr>)"

definition dkg_started :: setter where "dkg_started = set_dkg_status IN_PROGRESS"

definition dkg_failed :: setter where "dkg_failed = set_dkg_status FAILED"

definition dkg_key_generation_error :: setter where
  "dkg_key_generation_error = set_dkg_status KEY_GENERATION_ERROR"

definition dkg_done :: setter where "dkg_done = set_dkg_status DONE"

definition set_deleted :: setter where
  "set_deleted = save_with (\<lambda>r. r\<lparr>is_deleted := True\<rparr>)"

definition set_first_run :: "bool \<Rightarrow> setter" where
  "set_first_run v r d =
     (let r' = r\<lparr>first_run := v\<rparr>
      in (r', save_only (\<lambda>i row. row\<lparr>first_run := first_run i\<rparr>) r' d))"

definition set_backup_run :: "bool \<Rightarrow> setter" where
  "set_backup_run v r d =
     (let r' = r\<lparr>backup_run := v\<rparr>
      in (r', save_only (\<lambda>i row. row\<lparr>backup_run := backup_run i\<rparr>) r' d))"

definition set_repair_mode :: "bool \<Rightarrow> setter" where
  "set_repair_mode v = save_with (\<lambda>r. r\<lparr>repair_mode := v\<rparr>)"

definition set_new_schain :: "bool \<Rightarrow> setter" where
  "set_new_schain v = save_with (\<lambda>r. r\<lparr>new_schain := v\<rparr>)"

definition set_needs_reload :: "bool \<Rightarrow> setter" where
  "set_needs_reload v = save_with (\<lambda>r. r\<lparr>needs_reload := v\<rparr>)"

definition set_monitor_last_seen :: "int \<Rightarrow> setter" where
  "set_monitor_last_seen v = save_with (\<lambda>r. r\<lparr>monitor_last_seen := Some v\<rparr>)"

definition set_monitor_id :: "int \<Rightarrow> setter" where
  "set_monitor_id v = save_with (\<lambda>r. r\<lparr>monitor_id := v\<rparr>)"

definition set_config_version :: "string \<Rightarrow> setter" where
  "set_config_version v = save_with (\<lambda>r. r\<lparr>config_version := v\<rparr>)"

definition set_restart_count :: "int \<Rightarrow> setter" where
  "set_restart_count v = save_with (\<lambda>r. r\<lparr>restart_count := v\<rparr>)"

definition set_failed_rpc_count :: "int \<Rightarrow> setter" where
  "set_failed_rpc_count v = save_with (\<lambda>r. r\<lparr>failed_rpc_count := v\<rparr>)"

definition set_snapshot_from :: "string \<Rightarrow> setter" where
  "set_snapshot_from v = save_with (\<lambda>r. r\<lparr>snapshot_from := v\<rparr>)"

definition reset_failed_counters :: setter where
  "reset_failed_counters r d =
     (let (r1, d1) = set_restart_count 0 r d in set_failed_rpc_count 0 r1 d1)"

definition set_ssl_change_date :: "int \<Rightarrow> setter" where
  "set_ssl_change_date v = save_with (\<lambda>r. r\<lparr>ssl_change_date := v\<rparr>)"

definition set_sync_config_run :: "bool \<Rightarrow> setter" where
  "set_sync_config_run v = save_with (\<lambda>r. r\<lparr>sync_config_run := v\<rparr>)"

definition set_repair_date :: "int \<Rightarrow> setter" where
  "set_repair_date v = save_with (\<lambda>r. r\<lparr>repair_date := v\<rparr>)"

definition is_dkg_done :: "schain_record \<Rightarrow> bool" where
  "is_dkg_done r = (dkg_status r = DKGStatus_value DONE)"

definition is_dkg_unsuccessful :: "schain_record \<Rightarrow> bool" where
  "is_dkg_unsuccessful r =
     (dkg_status r \<in> {DKGStatus_value KEY_GENERATION_ERROR, DKGStatus_value FAILED})"

section \<open>Updates of the whole table\<close>

definition update_where ::
  "(schain_record \<Rightarrow> schain_record) \<Rightarrow> (schain_record \<Rightarrow> bool) \<Rightarrow> db \<Rightarrow> db" where
  "update_where f P d = map (\<lambda>(k, r). (k, if P r then f r else r)) d"

definition set_schains_first_run :: "db \<Rightarrow> db" where
  "set_schains_first_run = update_where (\<lambda>r. r\<lparr>first_run := True\<rparr>) (\<lambda>r. first_run r = False)"

definition set_schains_backup_run :: "db \<Rightarrow> db" where
  "set_schains_backup_run =
     update_where (\<lambda>r. r\<lparr>backup_run := True\<rparr>) (\<lambda>r. backup_run r = False)"

text \<open>For one chain the condition is written \<^verbatim>\<open>(a == False) and (b == chain)\<close>, with Python's
  \<^verbatim>\<open>and\<close>: the left expression object is always true, so only the right one reaches the
  query.\<close>

definition set_schains_sync_config_run :: "string \<Rightarrow> db \<Rightarrow> db" where
  "set_schains_sync_config_run chain =
     (if chain = ''all''
      then update_where (\<lambda>r. r\<lparr>sync_config_run := True\<rparr>) (\<lambda>r. sync_config_run r = False)
      else update_where (\<lambda>r. r\<lparr>sync_config_run := True\<rparr>) (\<lambda>r. rec_name r = chain))"

definition set_schains_need_reload :: "db \<Rightarrow> db" where
  "set_schains_need_reload =
     update_where (\<lambda>r. r\<lparr>needs_reload := True\<rparr>) (\<lambda>r. needs_reload r = False)"

definition set_schains_monitor_id :: "db \<Rightarrow> db" where
  "set_schains_monitor_id =
     update_where (\<lambda>r. r\<lparr>monitor_id := 0\<rparr>) (\<lambda>r. monitor_id r \<noteq> 0)"

definition upsert_schain_record ::
  "string \<Rightarrow> int \<Rightarrow> int \<Rightarrow> db \<Rightarrow> schain_record option \<times> db" where
  "upsert_schain_record n now import_dt d =
     (if \<not> added d n then
        (let ((r, _), d') = add_record n now import_dt d in (r, d'))
      else (tab_get d n, d))"

definition on_existing :: "setter \<Rightarrow> string \<Rightarrow> db \<Rightarrow> db" where
  "on_existing f n d = (case tab_get d n of None \<Rightarrow> d | Some r \<Rightarrow> snd (f r d))"

definition mark_schain_deleted :: "string \<Rightarrow> db \<Rightarrow> db" where
  "mark_schain_deleted = on_existing set_deleted"

definition set_first_run_by_name :: "string \<Rightarrow> bool \<Rightarrow> db \<Rightarrow> db" where
  "set_first_run_by_name n v = on_existing (set_first_run v) n"

definition set_backup_run_by_name :: "string \<Rightarrow> bool \<Rightarrow> db \<Rightarrow> db" where
  "set_backup_run_by_name n v = on_existing (set_backup_run v) n"

definition set_sync_config_run_by_name :: "string \<Rightarrow> bool \<Rightarrow> db \<Rightarrow> db" where
  "set_sync_config_run_by_name n v = on_existing (set_sync_config_run v) n"

definition get_schains_names :: "bool \<Rightarrow> db \<Rightarrow> string list" where
  "get_schains_names include_deleted d = map rec_name (get_all_records include_deleted d)"

definition get_schains_statuses :: "int \<Rightarrow> bool \<Rightarrow> db \<Rightarrow> json list res" where
  "get_schains_statuses tz include_deleted d =
     res_map (to_dict tz) (get_all_records include_deleted d)"

section \<open>Retries on a busy database\<close>

text \<open>\<^verbatim>\<open>operational_error_retry\<close>: up to five attempts, sleeping 1, 2, 4, 8 and 16 seconds
  after a failed one; any other exception leaves at once. \<open>sleep\<close> is \<^verbatim>\<open>time.sleep\<close>
  on the state.\<close>

definition RETRY_ATTEMPTS :: nat where
  "RETRY_ATTEMPTS = 5"

definition TIMEOUTS :: "nat list" where
  "TIMEOUTS = map (\<lambda>p. 2 ^ p) [0..<RETRY_ATTEMPTS]"

fun retry_loop ::
  "(nat \<Rightarrow> ('s, unit) act) \<Rightarrow> ('s, 'a) act \<Rightarrow> nat list \<Rightarrow> exn option \<Rightarrow> ('s, 'a option) act" where
  "retry_loop sleep f [] err =
     (case err of None \<Rightarrow> act_return None | Some e \<Rightarrow> act_raise e)"
| "retry_loop sleep f (t # ts) err =
     (\<lambda>s. case f s of
        (Inr a, s') \<Rightarrow> (Inr (Some a), s')
      | (Inl e, s') \<Rightarrow>
          if e = OperationalError then act_then (sleep t) (retry_loop sleep f ts (Some e)) s'
          else (Inl e, s'))"

definition operational_error_retry ::
  "(nat \<Rightarrow> ('s, unit) act) \<Rightarrow> ('s, 'a) act \<Rightarrow> ('s, 'a option) act" where
  "operational_error_retry sleep f = retry_loop sleep f TIMEOUTS None"

lemma TIMEOUTS_eval: "TIMEOUTS = [1, 2, 4, 8, 16]"
  by (simp add: TIMEOUTS_def RETRY_ATTEMPTS_def upt_rec)

section \<open>The contract of a setter\<close>

text \<open>Every setter keeps the instance's name, touches no other row, adds and removes no row
  and keeps the table keyed by name.\<close>

lemma db_wf_row_name: "db_wf d \<Longrightarrow> tab_get d n = Some r \<Longrightarrow> rec_name r = n"
  by (auto simp: db_wf_def tab_get_def dest!: map_of_SomeD)

locale record_setter =
  fixes f :: setter
  assumes keeps_name: "rec_name (fst (f r d)) = rec_name r"
    and other_rows: "k \<noteq> rec_name r \<Longrightarrow> tab_get (snd (f r d)) k = tab_get d k"
    and same_rows: "added (snd (f r d)) k = added d k"
    and wf: "db_wf d \<Longrightarrow> db_wf (snd (f r d))"
begin

lemma on_existing_other_rows: "k \<noteq> n \<Longrightarrow> db_wf d \<Longrightarrow> tab_get (on_existing f n d) k = tab_get d k"
  unfolding on_existing_def
  by (auto split: option.split intro!: other_rows dest: db_wf_row_name)

lemma on_existing_wf: "db_wf d \<Longrightarrow> db_wf (on_existing f n d)"
  unfolding on_existing_def by (auto split: option.split intro: wf)

lemma on_existing_same_rows: "added (on_existing f n d) k = added d k"
  unfolding on_existing_def by (auto split: option.split simp: same_rows)

lemma on_existing_missing: "\<not> added d n \<Longrightarrow> on_existing f n d = d"
  unfolding on_existing_def added_def by simp

end

lemma db_wf_put:
  assumes "db_wf d" and "rec_name r = n"
  shows "db_wf (tab_put n r d)"
proof -
  have "set (tab_put n r d) \<subseteq> insert (n, r) (set d)"
    unfolding tab_put_def by (induction d) auto
  with assms show ?thesis
    by (auto simp: db_wf_def table.wf_put)
qed

lemma save_get:
  "tab_get (save r d) k = (if k = rec_name r \<and> added d k then Some r else tab_get d k)"
  by (simp add: save_def added_def alist_simps)

lemma save_only_get:
  "tab_get (save_only copy r d) k =
     (if k = rec_name r then map_option (copy r) (tab_get d k) else tab_get d k)"
  by (cases "tab_get d (rec_name r)") (simp_all add: save_only_def alist_simps)

lemma record_setter_save_with:
  assumes "\<And>r. rec_name (f r) = rec_name r"
  shows "record_setter (save_with f)"
proof
  fix r d k
  show "rec_name (fst (save_with f r d)) = rec_name r"
    by (simp add: save_with_def assms)
  show "tab_get (snd (save_with f r d)) k = tab_get d k" if "k \<noteq> rec_name r"
    using that by (simp add: save_with_def save_get assms)
  show "added (snd (save_with f r d)) k = added d k"
    by (auto simp: save_with_def added_def save_get)
  show "db_wf (snd (save_with f r d))" if "db_wf d"
    using that by (simp add: save_with_def save_def db_wf_put)
qed

lemma record_setter_save_only:
  assumes name: "\<And>r. rec_name (f r) = rec_name r"
    and copy: "\<And>i row. rec_name (copy i row) = rec_name row"
    and g: "\<And>r d. g r d = (f r, save_only copy (f r) d)"
  shows "record_setter g"
proof
  fix r d k
  show "rec_name (fst (g r d)) = rec_name r"
    by (simp add: g name)
  show "tab_get (snd (g r d)) k = tab_get d k" if "k \<noteq> rec_name r"
    using that by (simp add: g save_only_get name)
  show "added (snd (g r d)) k = added d k"
    by (simp add: g added_def save_only_get)
  show "db_wf (snd (g r d))" if "db_wf d"
    using that db_wf_row_name [OF that]
    by (auto simp: g save_only_def copy name split: option.split intro!: db_wf_put)
qed

interpretation set_dkg_status: record_setter "set_dkg_status v" for v
  unfolding set_dkg_status_def by (rule record_setter_save_with) simp

interpretation set_deleted: record_setter set_deleted
  unfolding set_deleted_def by (rule record_setter_save_with) simp

interpretation set_first_run: record_setter "set_first_run v" for v
  by (rule record_setter_save_only
      [where f = "\<lambda>r. r\<lparr>first_run := v\<rparr>" and copy = "\<lambda>i row. row\<lparr>first_run := first_run i\<rparr>"])
    (simp_all add: set_first_run_def Let_def)

interpretation set_backup_run: record_setter "set_backup_run v" for v
  by (rule record_setter_save_only
      [where f = "\<lambda>r. r\<lparr>backup_run := v\<rparr>" and copy = "\<lambda>i row. row\<lparr>backup_run := backup_run i\<rparr>"])
    (simp_all add: set_backup_run_def Let_def)

interpretation set_repair_mode: record_setter "set_repair_mode v" for v
  unfolding set_repair_mode_def by (rule record_setter_save_with) simp

interpretation set_new_schain: record_setter "set_new_schain v" for v
  unfolding set_new_schain_def by (rule record_setter_save_with) simp

interpretation set_needs_reload: record_setter "set_needs_reload v" for v
  unfolding set_needs_reload_def by (rule record_setter_save_with) simp

interpretation set_monitor_last_seen: record_setter "set_monitor_last_seen v" for v
  unfolding set_monitor_last_seen_def by (rule record_setter_save_with) simp

interpretation set_monitor_id: record_setter "set_monitor_id v" for v
  unfolding set_monitor_id_def by (rule record_setter_save_with) simp

interpretation set_config_version: record_setter "set_config_version v" for v
  unfolding set_config_version_def by (rule record_setter_save_with) simp

interpretation set_restart_count: record_setter "set_restart_count v" for v
  unfolding set_restart_count_def by (rule record_setter_save_with) simp

interpretation set_failed_rpc_count: record_setter "set_failed_rpc_count v" for v
  unfolding set_failed_rpc_count_def by (rule record_setter_save_with) simp

interpretation set_snapshot_from: record_setter "set_snapshot_from v" for v
  unfolding set_snapshot_from_def by (rule record_setter_save_with) simp

interpretation set_ssl_change_date: record_setter "set_ssl_change_date v" for v
  unfolding set_ssl_change_date_def by (rule record_setter_save_with) simp

interpretation set_sync_config_run: record_setter "set_sync_config_run v" for v
  unfolding set_sync_config_run_def by (rule record_setter_save_with) simp

interpretation set_repair_date: record_setter "set_repair_date v" for v
  unfolding set_repair_date_def by (rule record_setter_save_with) simp

interpretation reset_failed_counters: record_setter reset_failed_counters
  by unfold_locales
    (simp_all add: reset_failed_counters_def Let_def split_beta
      set_restart_count.keeps_name set_failed_rpc_count.keeps_name
      set_restart_count.other_rows set_failed_rpc_count.other_rows
      set_restart_count.same_rows set_failed_rpc_count.same_rows
      set_restart_count.wf set_failed_rpc_count.wf)

lemmas setter_defs =
  set_dkg_status_def set_deleted_def set_repair_mode_def set_new_schain_def
  set_needs_reload_def set_monitor_last_seen_def set_monitor_id_def set_config_version_def
  set_restart_count_def set_failed_rpc_count_def set_snapshot_from_def
  set_ssl_change_date_def set_sync_config_run_def set_repair_date_def save_with_def

section \<open>Lemmas on the table-wide updates\<close>

lemma update_where_get:
  "tab_get (update_where f P d) k = map_option (\<lambda>r. if P r then f r else r) (tab_get d k)"
proof -
  have eq: "update_where f P d = map (\<lambda>(k, r). (k, (\<lambda>r. if P r then f r else r) r)) d"
    by (simp add: update_where_def)
  show ?thesis
    unfolding tab_get_def eq map_of_map by simp
qed

lemma update_where_wf:
  assumes "\<And>r. rec_name (f r) = rec_name r"
  shows "db_wf d \<Longrightarrow> db_wf (update_where f P d)"
  by (auto simp: db_wf_def tab_wf_def update_where_def comp_def split_beta assms)

text \<open>The condition that Python's \<^verbatim>\<open>and\<close> drops does not matter: setting a set flag again
  changes nothing.\<close>

lemma set_sync_config_run_condition:
  "update_where (\<lambda>r. r\<lparr>sync_config_run := True\<rparr>) (\<lambda>r. rec_name r = c) =
   update_where (\<lambda>r. r\<lparr>sync_config_run := True\<rparr>) (\<lambda>r. sync_config_run r = False \<and> rec_name r = c)"
  by (auto simp: update_where_def fun_eq_iff)

lemma upsert_get:
  "upsert_schain_record n now idt d = (r, d') \<Longrightarrow>
   r = tab_get d' n \<and> r \<noteq> None \<and> (\<forall>k. k \<noteq> n \<longrightarrow> tab_get d' k = tab_get d k)"
  by (auto simp: upsert_schain_record_def add_record_def added_def Let_def alist_simps
      split: if_splits)

lemma upsert_wf: "db_wf d \<Longrightarrow> db_wf (snd (upsert_schain_record n now idt d))"
  by (auto simp: upsert_schain_record_def add_record_def new_record_def Let_def
      intro: db_wf_put)

lemma upsert_name:
  "db_wf d \<Longrightarrow> fst (upsert_schain_record n now idt d) = Some r \<Longrightarrow> rec_name r = n"
  by (auto simp: upsert_schain_record_def add_record_def new_record_def Let_def db_wf_row_name
      split: if_splits)

end
