(* ===== verification/Py_Strings.thy ===== *)
theory Py_Strings
  imports Prelude "HOL-Library.Sublist"
begin

text \<open>
  The string methods the code uses: \<^verbatim>\<open>startswith\<close>, \<^verbatim>\<open>endswith\<close>, \<^verbatim>\<open>split(c)\<close>,
  \<^verbatim>\<open>sep.join(xs)\<close>, \<^verbatim>\<open>replace(old, new, 1)\<close>, \<^verbatim>\<open>rfind(c, 0, end)\<close>, slices with natural
  bounds, and \<^verbatim>\<open>os.path.join\<close> of two non-empty relative pieces. Strings are lists of
  characters; the strings of this program (names, paths, versions, hexadecimal data) are
  ASCII.
\<close>

definition startswith :: "string \<Rightarrow> string \<Rightarrow> bool" where
  "startswith s p = prefix p s"

definition endswith :: "string \<Rightarrow> string \<Rightarrow> bool" where
  "endswith s p = suffix p s"

text \<open>\<^verbatim>\<open>p in s\<close>.\<close>

definition str_contains :: "string \<Rightarrow> string \<Rightarrow> bool" where
  "str_contains s p = list_ex (\<lambda>i. prefix p (drop i s)) [0..<Suc (length s)]"

fun split_on :: "char \<Rightarrow> string \<Rightarrow> string list" where
  "split_on c [] = [[]]"
| "split_on c (x # xs) =
     (if x = c then [] # split_on c xs
      else case split_on c xs of [] \<Rightarrow> [[x]] | w # ws \<Rightarrow> (x # w) # ws)"

fun join :: "string \<Rightarrow> string list \<Rightarrow> string" where
  "join sep [] = []"
| "join sep [x] = x"
| "join sep (x # y # ys) = x @ sep @ join sep (y # ys)"

fun replace_first :: "string \<Rightarrow> string \<Rightarrow> string \<Rightarrow> string" where
  "replace_first old new [] = (if old = [] then new else [])"
| "replace_first old new (x # xs) =
     (if prefix old (x # xs) then new @ drop (length old) (x # xs)
      else x # replace_first old new xs)"

definition replace_char :: "char \<Rightarrow> char \<Rightarrow> string \<Rightarrow> string" where
  "replace_char a b = map (\<lambda>c. if c = a then b else c)"

text \<open>The slice \<^verbatim>\<open>s[i:j]\<close> for \<open>0 \<le> i\<close> and \<open>0 \<le> j\<close>.\<close>

definition slice :: "'a list \<Rightarrow> nat \<Rightarrow> nat \<Rightarrow> 'a list" where
  "slice s i j = drop i (take j s)"

text \<open>The position of the last \<open>c\<close> in \<^verbatim>\<open>s[0:j]\<close>; Python's \<open>-1\<close> is None.\<close>

fun find_last :: "char \<Rightarrow> string \<Rightarrow> nat option" where
  "find_last c [] = None"
| "find_last c (x # xs) =
     (case find_last c xs of Some i \<Rightarrow> Some (Suc i) | None \<Rightarrow> (if x = c then Some 0 else None))"

definition rfind :: "string \<Rightarrow> char \<Rightarrow> nat \<Rightarrow> nat option" where
  "rfind s c j = find_last c (take j s)"

definition path_join :: "string \<Rightarrow> string \<Rightarrow> string" where
  "path_join a b = a @ ''/'' @ b"

text \<open>\<^verbatim>\<open>no_hyphens\<close> of \<^verbatim>\<open>tools/helper.py\<close>.\<close>

definition no_hyphens :: "string \<Rightarrow> string" where
  "no_hyphens = replace_char CHR ''-'' CHR ''_''"

lemma split_on_Nil [simp]: "split_on c s \<noteq> []"
  by (induction s) (auto split: list.split)

lemma split_on_no_sep: "c \<notin> set s \<Longrightarrow> split_on c s = [s]"
  by (induction s) auto

lemma split_on_append: "c \<notin> set s \<Longrightarrow> split_on c (s @ c # t) = s # split_on c t"
  by (induction s) (auto simp: split_on_no_sep)

lemma join_split: "join [c] (split_on c s) = s"
proof (induction s)
  case (Cons x xs)
  then show ?case
    by (cases "split_on c xs"; cases "tl (split_on c xs)")
      (auto split: list.split)
qed simp

lemma split_join:
  "xs \<noteq> [] \<Longrightarrow> (\<And>x. x \<in> set xs \<Longrightarrow> c \<notin> set x) \<Longrightarrow> split_on c (join [c] xs) = xs"
  by (induction "[c]" xs rule: join.induct) (auto simp: split_on_no_sep split_on_append)

lemma find_last_append_Cons:
  "c \<notin> set t \<Longrightarrow> find_last c (s @ c # t) = Some (length s)"
proof (induction s)
  case Nil
  moreover have "c \<notin> set u \<Longrightarrow> find_last c u = None" for u
    by (induction u) auto
  ultimately show ?case by simp
qed simp

lemma rfind_last:
  "c \<notin> set t \<Longrightarrow> j = length s + 1 + length t \<Longrightarrow> rfind (s @ c # t @ u) c j = Some (length s)"
  by (simp add: rfind_def find_last_append_Cons)

lemma replace_first_prefix: "old \<noteq> [] \<Longrightarrow> replace_first old new (old @ s) = new @ s"
  by (cases old) simp_all

lemma length_replace_char [simp]: "length (replace_char a b s) = length s"
  by (simp add: replace_char_def)

lemma replace_char_idem: "replace_char a b (replace_char a b s) = replace_char a b s"
  by (simp add: replace_char_def)

lemma no_hyphens_no_hyphen: "CHR ''-'' \<notin> set (no_hyphens s)"
  by (auto simp: no_hyphens_def replace_char_def split: if_splits)

end
