(* ===== verification/World.thy ===== *)
theory World
  imports Schain_Record Py_Strings
begin

text \<open>
  The state of one node as the modelled code sees it (\<open>world\<close>) and its surroundings
  (\<open>env\<close>), which are parameters of every definition that uses them:

  \<^item> the Docker engine: an opaque state \<open>'d\<close> (field \<open>daemon\<close>) and its client API
    \<open>docker_api\<close>, third-party code;
  \<^item> the packet filter: an opaque state \<open>'f\<close> (field \<open>netfilter\<close>) and the functions of
    the package \<^verbatim>\<open>iptc\<close> (\<open>iptc_api\<close>), third-party code;
  \<^item> the answer of a chain's HTTP endpoint, the files outside the node's data directory
    (SSL certificate, static settings): functions and values of \<open>env\<close>.

  The node's own state is modelled as it is: the record table, the files under the node's
  data directory by (directory, file name), the clock, the live processes. The clock moves by \<^verbatim>\<open>time.sleep\<close> only: what happens around the
  program between two of its runs is left to the theorems' starting states.
\<close>

section \<open>Files\<close>

text \<open>A file holds a JSON document or text that is no JSON document.\<close>

datatype file_content = JsonFile json | Text string

type_synonym path = "string \<times> string"

type_synonym files = "(path, file_content) table"

definition isfile :: "files \<Rightarrow> path \<Rightarrow> bool" where
  "isfile fs p = (tab_get fs p \<noteq> None)"

text \<open>\<^verbatim>\<open>read_json\<close>, \<^verbatim>\<open>write_json\<close> and \<^verbatim>\<open>os.remove\<close>. A missing file raises.\<close>

definition read_json :: "files \<Rightarrow> path \<Rightarrow> json res" where
  "read_json fs p =
     (case tab_get fs p of
        None \<Rightarrow> Inl (FileNotFoundError (snd p))
      | Some (Text _) \<Rightarrow> Inl (JSONDecodeError (snd p))
      | Some (JsonFile j) \<Rightarrow> Inr j)"

definition write_json :: "path \<Rightarrow> json \<Rightarrow> files \<Rightarrow> files" where
  "write_json p j fs = tab_put p (JsonFile j) fs"

definition os_remove :: "path \<Rightarrow> files \<Rightarrow> unit res \<times> files" where
  "os_remove p fs =
     (if isfile fs p then (Inr (), tab_del p fs) else (Inl (FileNotFoundError (snd p)), fs))"

definition listdir :: "files \<Rightarrow> string \<Rightarrow> string list" where
  "listdir fs d = map (snd \<circ> fst) (filter (\<lambda>e. fst (fst e) = d) fs)"

lemma read_json_write [simp]:
  "read_json (write_json p j fs) q = (if q = p then Inr j else read_json fs q)"
  by (simp add: read_json_def write_json_def alist_simps)

lemma isfile_write [simp]: "isfile (write_json p j fs) q \<longleftrightarrow> q = p \<or> isfile fs q"
  by (simp add: isfile_def write_json_def alist_simps)

lemma listdir_isfile: "f \<in> set (listdir fs d) \<longleftrightarrow> isfile fs (d, f)"
proof -
  have "f \<in> set (listdir fs d) \<longleftrightarrow> (d, f) \<in> set (tab_keys fs)"
    by (force simp: listdir_def tab_keys_def)
  then show ?thesis by (simp add: isfile_def table.in_keys)
qed

lemma listdir_put:
  "listdir (tab_put p c fs) d =
     (if isfile fs p \<or> fst p \<noteq> d then listdir fs d else listdir fs d @ [snd p])"
proof (induction fs)
  case Nil
  then show ?case by (simp add: listdir_def isfile_def tab_eval)
next
  case (Cons x fs)
  obtain q c' where x: "x = (q, c')" by fastforce
  have eq: "listdir ((r, b) # gs) d = (if fst r = d then snd r # listdir gs d else listdir gs d)"
    for r b gs by (simp add: listdir_def)
  show ?case
    using Cons.IH by (cases "q = p") (auto simp: x eq isfile_def tab_eval)
qed

section \<open>The Docker engine's client API\<close>

text \<open>What the code reads of a container: \<^verbatim>\<open>name\<close>, \<^verbatim>\<open>status\<close> and the fields of the
  engine's inspection.\<close>

record container =
  c_name :: string
  c_status :: string
  c_exit_code :: int
  c_image :: string
  c_env :: "string list"
  c_cmd :: "string list"

text \<open>The options of \<^verbatim>\<open>containers.run\<close> that the code passes.\<close>

record run_args =
  ra_volumes :: "(string \<times> string \<times> string) list"
  ra_environment :: "(string \<times> json) list"
  ra_cpu_shares :: "int option"
  ra_mem_limit :: "int option"
  ra_command :: "string option"
  ra_extra :: "(string \<times> json) list"

record 'd docker_api =
  containers_get :: "string \<Rightarrow> 'd \<Rightarrow> container res"
  containers_run :: "string \<Rightarrow> string \<Rightarrow> run_args \<Rightarrow> ('d, container) act"
  containers_list :: "bool \<Rightarrow> string \<Rightarrow> 'd \<Rightarrow> container list"
  container_stop :: "string \<Rightarrow> int \<Rightarrow> ('d, unit) act"
  container_remove :: "string \<Rightarrow> ('d, unit) act"
  container_restart :: "string \<Rightarrow> int \<Rightarrow> ('d, unit) act"
  container_logs_tail :: "string \<Rightarrow> nat \<Rightarrow> 'd \<Rightarrow> string res"
  container_logs_stream :: "string \<Rightarrow> 'd \<Rightarrow> string list res"
  volumes_get :: "string \<Rightarrow> 'd \<Rightarrow> unit res"
  volumes_create :: "string \<Rightarrow> string \<Rightarrow> string option \<Rightarrow> ('d, unit) act"
  volume_remove :: "string \<Rightarrow> ('d, unit) act"
  images_get :: "string \<Rightarrow> 'd \<Rightarrow> unit res"
  images_pull :: "string \<Rightarrow> string \<Rightarrow> ('d, unit) act"
  images_remove :: "string \<Rightarrow> ('d, unit) act"

text \<open>How the client writes an environment: \<^verbatim>\<open>KEY=value\<close>, or the key alone for None.\<close>

fun env_entry :: "string \<times> json \<Rightarrow> string" where
  "env_entry (k, JStr s) = k @ ''='' @ s"
| "env_entry (k, JInt i) = k @ ''='' @ str_of_int i"
| "env_entry (k, JBool b) = k @ ''='' @ (if b then ''True'' else ''False'')"
| "env_entry (k, _) = k"

section \<open>The package iptc\<close>

text \<open>The dictionary form of a rule as \<^verbatim>\<open>iptc.easy\<close> takes and returns it; absent keys are
  None.\<close>

record rule_d =
  rd_protocol :: "string option"
  rd_target :: "string option"
  rd_dport :: "string option"
  rd_src :: "string option"
  rd_src_range :: "string option"

record 'f iptc_api =
  iptc_rules :: "'f \<Rightarrow> rule_d list"
  iptc_has_rule :: "rule_d \<Rightarrow> 'f \<Rightarrow> bool"
  iptc_insert_rule :: "rule_d \<Rightarrow> 'f \<Rightarrow> 'f"
  iptc_delete_rule :: "rule_d \<Rightarrow> 'f \<Rightarrow> 'f"

section \<open>The node\<close>

record ('d, 'f) world =
  clock :: int
  db :: db
  files :: files
  dirs :: "string list"
  links :: "(string, string) table"
  daemon :: 'd
  netfilter :: 'f
  pids :: "int list"
  removed_logs :: "(string, string) table"

text \<open>The surroundings: third-party interfaces, the settings that \<^verbatim>\<open>tools/configs\<close> reads
  from the environment and from static files, and the answers of processes outside the
  program. \<open>SCHAINS_DIR_PATH\<close> is \<^verbatim>\<open>NODE_DATA_PATH/schains\<close>. \<open>rpc_post\<close> is
  \<^verbatim>\<open>post_request\<close> to an endpoint with a method and a timeout: the response's status code and
  its parsed body, or None when the request fails. \<open>ssl_cert_mtime\<close> is the time the
  certificate was changed, None when the certificates' folder is empty.\<close>

record ('d, 'f) env =
  docker :: "'d docker_api"
  iptc :: "'f iptc_api"
  SYNC_NODE :: bool
  NODE_DATA_PATH :: string
  NODE_DATA_PATH_HOST :: string
  SCHAINS_DIR_PATH :: string
  SCHAINS_DIR_PATH_HOST :: string
  SKALE_DIR_HOST :: string
  SCHAIN_NODE_DATA_PATH :: string
  SKALE_VOLUME_PATH :: string
  SKALE_LIB_PATH :: string
  SSL_CERTIFICATES_FILEPATH :: string
  SGX_SERVER_URL :: string
  ENDPOINT :: string
  volume_driver :: string
  node_version :: string
  import_dt :: int
  tz_offset :: int
  ssl_cert_mtime :: "int option"
  rpc_post :: "string \<Rightarrow> string \<Rightarrow> int \<Rightarrow> (int \<times> json res) option"
  keccak_hexdigest :: "string \<Rightarrow> string"
  containers_info :: json
  resource_allocation :: json
  static_params :: json
  ima_migration_schedule :: "json option"
  ima_env_consts :: "(string \<times> json) list"
  IMA_RPC_OFFSET :: int

type_synonym ('d, 'f, 'a) wact = "(('d, 'f) world, 'a) act"

text \<open>The chain id of a chain: the first 52 bits of the hash of its name (\<^verbatim>\<open>keccak_hexdigest\<close> is
  the 256-bit Keccak of the package pycryptodome in hexadecimal digits).\<close>

definition get_chain_id :: "('d, 'f) env \<Rightarrow> string \<Rightarrow> string" where
  "get_chain_id e schain_name = ''0x'' @ take 13 (keccak_hexdigest e schain_name)"

definition schain_config_dir :: "('d, 'f) env \<Rightarrow> string \<Rightarrow> string" where
  "schain_config_dir e n = path_join (SCHAINS_DIR_PATH e) n"

definition schain_config_dir_host :: "('d, 'f) env \<Rightarrow> string \<Rightarrow> string" where
  "schain_config_dir_host e n = path_join (SCHAINS_DIR_PATH_HOST e) n"

text \<open>\<^verbatim>\<open>datetime.now()\<close>, \<^verbatim>\<open>datetime.timestamp()\<close> and \<^verbatim>\<open>datetime.utcfromtimestamp\<close> on
  naive date-times: local wall-clock seconds.\<close>

definition datetime_now :: "('d, 'f) env \<Rightarrow> ('d, 'f) world \<Rightarrow> int" where
  "datetime_now e w = clock w + tz_offset e"

definition timestamp :: "('d, 'f) env \<Rightarrow> int \<Rightarrow> int" where
  "timestamp e dt = dt - tz_offset e"

definition utcfromtimestamp :: "int \<Rightarrow> int" where
  "utcfromtimestamp ts = ts"

definition time_sleep :: "int \<Rightarrow> ('d, 'f, unit) wact" where
  "time_sleep n = act_modify (\<lambda>w. w\<lparr>clock := clock w + n\<rparr>)"

text \<open>\<^verbatim>\<open>os.makedirs(d, exist_ok=True)\<close>, \<^verbatim>\<open>shutil.rmtree\<close> (the directory with everything
  below it; raises when there is none), links.\<close>

definition isdir :: "('d, 'f) world \<Rightarrow> string \<Rightarrow> bool" where
  "isdir w d = (d \<in> set (dirs w))"

definition makedirs :: "string \<Rightarrow> ('d, 'f, unit) wact" where
  "makedirs d = act_modify (\<lambda>w. w\<lparr>dirs := List.insert d (dirs w)\<rparr>)"

definition below :: "string \<Rightarrow> string \<Rightarrow> bool" where
  "below d x = (x = d \<or> startswith x (d @ ''/''))"

definition rmtree :: "string \<Rightarrow> ('d, 'f, unit) wact" where
  "rmtree d =
     (\<lambda>w. if isdir w d
          then (Inr (), w\<lparr>dirs := filter (\<lambda>x. \<not> below d x) (dirs w),
                         files := filter (\<lambda>e. \<not> below d (fst (fst e))) (files w)\<rparr>)
          else (Inl (FileNotFoundError d), w))"

definition islink :: "('d, 'f) world \<Rightarrow> string \<Rightarrow> bool" where
  "islink w p = (tab_get (links w) p \<noteq> None)"

definition unlink :: "string \<Rightarrow> ('d, 'f, unit) wact" where
  "unlink p =
     (\<lambda>w. if islink w p then (Inr (), w\<lparr>links := tab_del p (links w)\<rparr>)
          else (Inl (FileNotFoundError p), w))"

definition symlink :: "string \<Rightarrow> string \<Rightarrow> ('d, 'f, unit) wact" where
  "symlink src dst =
     (\<lambda>w. if islink w dst \<or> isdir w dst then (Inl (OtherError ''FileExistsError''), w)
          else (Inr (), w\<lparr>links := tab_put dst src (links w)\<rparr>))"

text \<open>A call of the Docker client, a change of the files, of the records: statements on the
  part of the node they concern.\<close>

definition on_daemon :: "('d, 'a) act \<Rightarrow> ('d, 'f, 'a) wact" where
  "on_daemon m = (\<lambda>w. case m (daemon w) of (r, d') \<Rightarrow> (r, w\<lparr>daemon := d'\<rparr>))"

definition on_files :: "(files \<Rightarrow> 'a res \<times> files) \<Rightarrow> ('d, 'f, 'a) wact" where
  "on_files m = (\<lambda>w. case m (files w) of (r, fs') \<Rightarrow> (r, w\<lparr>files := fs'\<rparr>))"

definition modify_files :: "(files \<Rightarrow> files) \<Rightarrow> ('d, 'f, unit) wact" where
  "modify_files g = act_modify (\<lambda>w. w\<lparr>files := g (files w)\<rparr>)"

definition modify_db :: "(db \<Rightarrow> db) \<Rightarrow> ('d, 'f, unit) wact" where
  "modify_db g = act_modify (\<lambda>w. w\<lparr>db := g (db w)\<rparr>)"

text \<open>A method call on a record instance that the caller holds: the instance after it.\<close>

definition on_record :: "setter \<Rightarrow> schain_record \<Rightarrow> ('d, 'f, schain_record) wact" where
  "on_record f r = (\<lambda>w. case f r (db w) of (r', d') \<Rightarrow> (Inr r', w\<lparr>db := d'\<rparr>))"

lemma world_act_eval [act_simps]:
  "time_sleep n w = (Inr (), w\<lparr>clock := clock w + n\<rparr>)"
  "makedirs p w = (Inr (), w\<lparr>dirs := List.insert p (dirs w)\<rparr>)"
  "modify_files g w = (Inr (), w\<lparr>files := g (files w)\<rparr>)"
  "modify_db h w = (Inr (), w\<lparr>db := h (db w)\<rparr>)"
  "on_daemon m w = (case m (daemon w) of (r, d') \<Rightarrow> (r, w\<lparr>daemon := d'\<rparr>))"
  "on_files k w = (case k (files w) of (q, fs') \<Rightarrow> (q, w\<lparr>files := fs'\<rparr>))"
  "on_record f r0 w = (case f r0 (db w) of (r', d') \<Rightarrow> (Inr r', w\<lparr>db := d'\<rparr>))"
  by (simp_all add: time_sleep_def makedirs_def modify_files_def modify_db_def on_daemon_def on_files_def
      on_record_def act_modify_def)

end
