(* ===== verification/Docker_Utils.thy ===== *)
theory Docker_Utils
  imports World
begin

text \<open>
  The class \<^verbatim>\<open>DockerUtils\<close> of \<^verbatim>\<open>tools/docker_utils.py\<close> over the engine's client API
  (\<open>docker_api\<close>, a parameter). Calls that only look are functions of the engine's state,
  calls that change it are statements. A log is a string of bytes (\<open>container_logs_tail\<close>) or the
  pieces its stream yields; the folder of saved logs, \<open>removed_logs\<close>, is made when the node is
  set up.

  Every call may fail with an \<open>APIError\<close> at any time. \<open>docker_laws\<close> collects what the rest of the
  development relies on of the engine, its documented behaviour, used as a hypothesis: which
  objects a call may touch, whether it succeeds or fails, and what NotFound and a successful
  removal mean. It is stated over a view of the engine (\<open>engine_view\<close>): the containers
  and volumes there are. \<open>ref_docker\<close> is a small engine that satisfies it, for the witnesses.
\<close>

section \<open>Statuses and constants of tools/configs/containers.py\<close>

definition CONTAINER_NOT_FOUND :: string where "CONTAINER_NOT_FOUND = ''not_found''"
definition EXITED_STATUS :: string where "EXITED_STATUS = ''exited''"
definition CREATED_STATUS :: string where "CREATED_STATUS = ''created''"
definition RUNNING_STATUS :: string where "RUNNING_STATUS = ''running''"
definition DOCKER_DEFAULT_STOP_TIMEOUT :: int where "DOCKER_DEFAULT_STOP_TIMEOUT = 20"
definition MAX_RETRIES :: nat where "MAX_RETRIES = 12"
definition CONTAINER_CREATION_TIMEOUT :: int where "CONTAINER_CREATION_TIMEOUT = 10"

lemmas status_defs =
  CONTAINER_NOT_FOUND_def EXITED_STATUS_def CREATED_STATUS_def RUNNING_STATUS_def

text \<open>\<^verbatim>\<open>except docker.errors.NotFound\<close> and \<^verbatim>\<open>except docker.errors.APIError\<close>: the first
  class is a subclass of the second.\<close>

fun is_not_found :: "exn \<Rightarrow> bool" where
  "is_not_found (DockerNotFound _) = True"
| "is_not_found _ = False"

fun is_api_error :: "exn \<Rightarrow> bool" where
  "is_api_error (DockerNotFound _) = True"
| "is_api_error (DockerAPIError _) = True"
| "is_api_error _ = False"

definition exists_of :: "'a res \<Rightarrow> bool res" where
  "exists_of r = (case r of Inr _ \<Rightarrow> Inr True
                  | Inl e \<Rightarrow> if is_not_found e then Inr False else Inl e)"

section \<open>Looking\<close>

definition is_data_volume_exists :: "'d docker_api \<Rightarrow> string \<Rightarrow> 'd \<Rightarrow> bool res" where
  "is_data_volume_exists api n d = exists_of (volumes_get api n d)"

definition docker_is_container_exists :: "'d docker_api \<Rightarrow> string \<Rightarrow> 'd \<Rightarrow> bool res" where
  "docker_is_container_exists api n d = exists_of (containers_get api n d)"

definition get_containers_info :: "'d docker_api \<Rightarrow> bool \<Rightarrow> string \<Rightarrow> 'd \<Rightarrow> container list" where
  "get_containers_info api all name_filter d = containers_list api all name_filter d"

definition get_all_skale_containers :: "'d docker_api \<Rightarrow> bool \<Rightarrow> 'd \<Rightarrow> container list" where
  "get_all_skale_containers api all d = get_containers_info api all ''skale_*'' d"

definition get_all_schain_containers :: "'d docker_api \<Rightarrow> bool \<Rightarrow> 'd \<Rightarrow> container list" where
  "get_all_schain_containers api all d = get_containers_info api all ''skale_schain_*'' d"

definition get_all_ima_containers :: "'d docker_api \<Rightarrow> bool \<Rightarrow> 'd \<Rightarrow> container list" where
  "get_all_ima_containers api all d = containers_list api all ''skale_ima_*'' d"

text \<open>\<^verbatim>\<open>get_info\<close>: the status, and the inspection when there is a container.\<close>

record container_info =
  ci_status :: string
  ci_stats :: "container option"

definition get_info :: "'d docker_api \<Rightarrow> string \<Rightarrow> bool \<Rightarrow> 'd \<Rightarrow> container_info res" where
  "get_info api cid raise_not_found d =
     (case containers_get api cid d of
        Inr c \<Rightarrow> Inr \<lparr>ci_status = c_status c, ci_stats = Some c\<rparr>
      | Inl e \<Rightarrow>
          if is_not_found e \<and> \<not> raise_not_found
          then Inr \<lparr>ci_status = CONTAINER_NOT_FOUND, ci_stats = None\<rparr>
          else Inl e)"

text \<open>\<^verbatim>\<open>info['stats']\<close>\<close>

definition info_stats :: "container_info \<Rightarrow> container res" where
  "info_stats i = (case ci_stats i of None \<Rightarrow> Inl (KeyError ''stats'') | Some c \<Rightarrow> Inr c)"

definition docker_is_container_running :: "'d docker_api \<Rightarrow> string \<Rightarrow> 'd \<Rightarrow> bool res" where
  "docker_is_container_running api cid d =
     res_bind (get_info api cid False d) (\<lambda>i. Inr (ci_status i = RUNNING_STATUS))"

definition is_container_found :: "'d docker_api \<Rightarrow> string \<Rightarrow> 'd \<Rightarrow> bool res" where
  "is_container_found api cid d =
     res_bind (get_info api cid False d) (\<lambda>i. Inr (ci_status i \<noteq> CONTAINER_NOT_FOUND))"

definition is_container_created :: "'d docker_api \<Rightarrow> string \<Rightarrow> 'd \<Rightarrow> bool res" where
  "is_container_created api cid d =
     res_bind (get_info api cid False d) (\<lambda>i. Inr (ci_status i = CREATED_STATUS))"

definition is_container_exited :: "'d docker_api \<Rightarrow> string \<Rightarrow> 'd \<Rightarrow> bool res" where
  "is_container_exited api cid d =
     res_bind (get_info api cid False d) (\<lambda>i. Inr (ci_status i = EXITED_STATUS))"

definition container_exit_code :: "'d docker_api \<Rightarrow> string \<Rightarrow> 'd \<Rightarrow> int res" where
  "container_exit_code api cid d =
     res_bind (get_info api cid False d) (\<lambda>i.
       if ci_status i \<noteq> CONTAINER_NOT_FOUND
       then res_bind (info_stats i) (\<lambda>c. Inr (c_exit_code c))
       else Inr (-1))"

text \<open>The container's state has no \<^verbatim>\<open>stats\<close> key when it is not found, and the dictionary
  is never empty.\<close>

definition get_cmd :: "'d docker_api \<Rightarrow> string \<Rightarrow> 'd \<Rightarrow> string list res" where
  "get_cmd api cid d =
     res_bind (get_info api cid False d) (\<lambda>i. res_bind (info_stats i) (\<lambda>c. Inr (c_cmd c)))"

definition get_vol :: "'d docker_api \<Rightarrow> string \<Rightarrow> 'd \<Rightarrow> bool res" where
  "get_vol api n d = exists_of (volumes_get api n d)"

definition safe_get_container :: "'d docker_api \<Rightarrow> string \<Rightarrow> 'd \<Rightarrow> container option res" where
  "safe_get_container api n d =
     (case containers_get api n d of
        Inr c \<Rightarrow> Inr (Some c)
      | Inl e \<Rightarrow> if is_api_error e then Inr None else Inl e)"

definition pulled :: "'d docker_api \<Rightarrow> string \<Rightarrow> 'd \<Rightarrow> bool res" where
  "pulled api n d = exists_of (images_get api n d)"

definition get_container_image_name :: "'d docker_api \<Rightarrow> string \<Rightarrow> 'd \<Rightarrow> string option res" where
  "get_container_image_name api n d =
     res_bind (get_info api n False d) (\<lambda>i.
       if ci_status i = CONTAINER_NOT_FOUND then Inr None
       else res_bind (info_stats i) (\<lambda>c. Inr (Some (c_image c))))"

definition get_container_env_value ::
  "'d docker_api \<Rightarrow> string \<Rightarrow> string \<Rightarrow> 'd \<Rightarrow> string option res" where
  "get_container_env_value api n opt d =
     res_bind (get_info api n True d) (\<lambda>i.
     res_bind (info_stats i) (\<lambda>c.
       case filter (\<lambda>v. startswith v opt) (c_env c) of
         [] \<Rightarrow> Inr None
       | v # _ \<Rightarrow>
           (case split_on CHR ''='' v of
              _ # x # _ \<Rightarrow> Inr (Some x)
            | _ \<Rightarrow> Inl IndexError)))"

section \<open>Changing\<close>

definition docker_run_container ::
  "'d docker_api \<Rightarrow> string \<Rightarrow> string \<Rightarrow> run_args \<Rightarrow> ('d, container) act" where
  "docker_run_container api img n args = containers_run api img n args"

definition create_data_volume ::
  "'d docker_api \<Rightarrow> string \<Rightarrow> string \<Rightarrow> int option \<Rightarrow> ('d, unit) act" where
  "create_data_volume api drv n sz =
     (let driver_opts =
        (case sz of
           None \<Rightarrow> None
         | Some s \<Rightarrow> if drv \<noteq> ''local'' \<and> s \<noteq> 0 then Some (str_of_int s) else None)
      in volumes_create api n drv driver_opts)"

text \<open>\<^verbatim>\<open>rm_vol\<close>: a failing removal is tried again after 1, 2, 4, \<dots> seconds; the last
  error is raised when every attempt failed.\<close>

fun rm_vol_loop ::
  "'d docker_api \<Rightarrow> string \<Rightarrow> int list \<Rightarrow> exn option \<Rightarrow> ('d, 'f, unit) wact" where
  "rm_vol_loop api n [] err =
     (case err of None \<Rightarrow> act_return () | Some e \<Rightarrow> act_raise e)"
| "rm_vol_loop api n (t # ts) err =
     act_bind (act_res (\<lambda>w. get_vol api n (daemon w))) (\<lambda>found.
       if \<not> found then act_return ()
       else (\<lambda>w. case on_daemon (volume_remove api n) w of
               (Inr _, w') \<Rightarrow> (Inr (), w')
             | (Inl e, w') \<Rightarrow> act_then (time_sleep t) (rm_vol_loop api n ts (Some e)) w'))"

definition rm_vol_timeouts :: "bool \<Rightarrow> int list" where
  "rm_vol_timeouts retry_lvmpy_error =
     (if retry_lvmpy_error then map (\<lambda>p. 2 ^ p) [0..<MAX_RETRIES] else [0])"

definition rm_vol :: "'d docker_api \<Rightarrow> string \<Rightarrow> bool \<Rightarrow> ('d, 'f, unit) wact" where
  "rm_vol api n retry_lvmpy_error = rm_vol_loop api n (rm_vol_timeouts retry_lvmpy_error) None"

section \<open>Logs\<close>

definition DOCKER_DEFAULT_HEAD_LINES :: nat where "DOCKER_DEFAULT_HEAD_LINES = 400"
definition DOCKER_DEFAULT_TAIL_LINES :: nat where "DOCKER_DEFAULT_TAIL_LINES = 10000"

definition CONTAINER_LOGS_SEPARATOR :: string where
  "CONTAINER_LOGS_SEPARATOR = replicate 80 CHR ''='' @ [CHR 0x0A]"

text \<open>\<^verbatim>\<open>len(io.BytesIO(b).readlines())\<close>: a last line without its end counts.\<close>

definition lines_number :: "string \<Rightarrow> nat" where
  "lines_number b =
     length (filter (\<lambda>c. c = CHR 0x0A) b) + (if b = [] \<or> last b = CHR 0x0A then 0 else 1)"

definition get_container_logs ::
  "'d docker_api \<Rightarrow> string \<Rightarrow> nat \<Rightarrow> nat \<Rightarrow> 'd \<Rightarrow> (string \<times> string) res" where
  "get_container_logs api n head_lines tail_size d =
     res_bind (container_logs_tail api n tail_size d) (\<lambda>tail_lines.
     res_bind (container_logs_stream api n d) (\<lambda>log_stream.
     Inr (concat (take (min (lines_number tail_lines) head_lines) log_stream), tail_lines)))"

definition display_container_logs ::
  "'d docker_api \<Rightarrow> string \<Rightarrow> nat \<Rightarrow> nat \<Rightarrow> 'd \<Rightarrow> string option res" where
  "display_container_logs api n head_lines tail_size d =
     res_bind (safe_get_container api n d) (\<lambda>c.
       case c of
         None \<Rightarrow> Inr None
       | Some _ \<Rightarrow> res_bind (get_container_logs api n head_lines tail_size d) (\<lambda>(h, t).
           Inr (Some (h @ CONTAINER_LOGS_SEPARATOR @ t))))"

text \<open>The name of a saved log: the container's name and how many names in the folder begin
  with it and a hyphen.\<close>

definition log_file_name :: "string \<Rightarrow> nat \<Rightarrow> string" where
  "log_file_name n i = n @ ''-'' @ str_of_nat i @ ''.log''"

definition logs_index :: "string \<Rightarrow> (string, string) table \<Rightarrow> nat" where
  "logs_index n logs = length (filter (\<lambda>f. startswith (fst f) (n @ ''-'')) logs)"

definition get_logs_backup_filepath :: "string \<Rightarrow> (string, string) table \<Rightarrow> string" where
  "get_logs_backup_filepath n logs = log_file_name n (logs_index n logs)"

definition save_container_logs ::
  "'d docker_api \<Rightarrow> string \<Rightarrow> string \<Rightarrow> nat \<Rightarrow> nat \<Rightarrow> ('d, 'f, unit) wact" where
  "save_container_logs api n log_filepath head_lines tail_size =
     act_bind (act_res (\<lambda>w. get_container_logs api n head_lines tail_size (daemon w))) (\<lambda>(h, t).
     act_modify (\<lambda>w. w\<lparr>removed_logs :=
       tab_put log_filepath (h @ CONTAINER_LOGS_SEPARATOR @ t) (removed_logs w)\<rparr>))"

definition backup_container_logs ::
  "'d docker_api \<Rightarrow> string \<Rightarrow> nat \<Rightarrow> nat \<Rightarrow> ('d, 'f, unit) wact" where
  "backup_container_logs api n head_lines tail_size =
     act_bind (act_gets (\<lambda>w. get_logs_backup_filepath n (removed_logs w))) (\<lambda>p.
     save_container_logs api n p head_lines tail_size)"

section \<open>Removing and restarting\<close>

definition safe_rm :: "'d docker_api \<Rightarrow> string \<Rightarrow> int \<Rightarrow> ('d, 'f, unit) wact" where
  "safe_rm api n timeout =
     act_bind (act_res (\<lambda>w. safe_get_container api n (daemon w))) (\<lambda>c.
       case c of
         None \<Rightarrow> act_return ()
       | Some _ \<Rightarrow>
           act_then (on_daemon (container_stop api n timeout))
          (act_then (backup_container_logs api n DOCKER_DEFAULT_HEAD_LINES DOCKER_DEFAULT_TAIL_LINES)
             (on_daemon (container_remove api n))))"

definition docker_restart :: "'d docker_api \<Rightarrow> string \<Rightarrow> int \<Rightarrow> ('d, unit) act" where
  "docker_restart api n timeout =
     act_try
       (act_bind (act_res (containers_get api n)) (\<lambda>_. container_restart api n timeout))
       (\<lambda>e. if is_api_error e then act_return () else act_raise e)"

definition restart_all_schains :: "'d docker_api \<Rightarrow> int \<Rightarrow> ('d, unit) act" where
  "restart_all_schains api timeout =
     act_bind (act_gets (get_all_schain_containers api False)) (\<lambda>cs.
       act_for cs (\<lambda>c. docker_restart api (c_name c) timeout))"

text \<open>\<^verbatim>\<open>repo, tag = name.split(':')\<close> raises unless there are exactly two pieces.\<close>

definition docker_pull :: "'d docker_api \<Rightarrow> string \<Rightarrow> ('d, unit) act" where
  "docker_pull api n =
     (case split_on CHR '':'' n of
        [repo, tag] \<Rightarrow> images_pull api repo tag
      | _ \<Rightarrow> act_raise (ValueError n))"

definition rmi :: "'d docker_api \<Rightarrow> string \<Rightarrow> ('d, unit) act" where
  "rmi api n = images_remove api n"

section \<open>The engine's documented behaviour\<close>

text \<open>What there is in the engine: the containers by name, the volumes by name, each with a
  number that tells one volume from another made later under its name; a volume of a container
  that was given no name is anonymous, and goes with its container (\<^verbatim>\<open>remove(v=True)\<close>).\<close>

record 'd engine_view =
  ev_container :: "string \<Rightarrow> 'd \<Rightarrow> container option"
  ev_volume :: "string \<Rightarrow> 'd \<Rightarrow> int option"
  ev_anonymous :: "string \<Rightarrow> bool"

text \<open>A call, whether it succeeds or fails, leaves the containers of other names as they are, and
  every named volume there was (it may add volumes: a container that starts makes those it mounts
  and that are missing).\<close>

definition other_containers :: "'d engine_view \<Rightarrow> string \<Rightarrow> ('d, 'a) act \<Rightarrow> bool" where
  "other_containers U n m \<longleftrightarrow> (\<forall>k d. k \<noteq> n \<longrightarrow> ev_container U k (snd (m d)) = ev_container U k d)"

definition all_containers :: "'d engine_view \<Rightarrow> ('d, 'a) act \<Rightarrow> bool" where
  "all_containers U m \<longleftrightarrow> (\<forall>k d. ev_container U k (snd (m d)) = ev_container U k d)"

definition volume_kept :: "'d engine_view \<Rightarrow> string \<Rightarrow> int option \<Rightarrow> 'd \<Rightarrow> bool" where
  "volume_kept U v i d \<longleftrightarrow> ev_anonymous U v \<or> i = None \<or> ev_volume U v d = i"

definition spares_volume :: "'d engine_view \<Rightarrow> string \<Rightarrow> ('d, 'a) act \<Rightarrow> bool" where
  "spares_volume U v m \<longleftrightarrow> (\<forall>i d. volume_kept U v i d \<longrightarrow> volume_kept U v i (snd (m d)))"

text \<open>A container that is found is there, and one that is not found is not; a lookup may fail with
  another error whatever there is.\<close>

definition law_lookup :: "'d engine_view \<Rightarrow> 'd docker_api \<Rightarrow> bool" where
  "law_lookup U api \<longleftrightarrow>
    (\<forall>n d. case containers_get api n d of
             Inl x \<Rightarrow> is_not_found x \<longrightarrow> ev_container U n d = None
           | Inr c \<Rightarrow> ev_container U n d = Some c)"

text \<open>The calls on a container concern no other one and remove no named volume; a container whose
  removal succeeds is gone.\<close>

definition law_containers :: "'d engine_view \<Rightarrow> 'd docker_api \<Rightarrow> bool" where
  "law_containers U api \<longleftrightarrow>
    (\<forall>img n a. other_containers U n (containers_run api img n a) \<and>
       (\<forall>v. spares_volume U v (containers_run api img n a))) \<and>
    (\<forall>n t. other_containers U n (container_stop api n t) \<and>
       (\<forall>v. spares_volume U v (container_stop api n t))) \<and>
    (\<forall>n t. other_containers U n (container_restart api n t) \<and>
       (\<forall>v. spares_volume U v (container_restart api n t))) \<and>
    (\<forall>n. other_containers U n (container_remove api n) \<and>
       (\<forall>v. spares_volume U v (container_remove api n))) \<and>
    (\<forall>n d. fst (container_remove api n d) = Inr () \<longrightarrow>
       ev_container U n (snd (container_remove api n d)) = None)"

text \<open>The calls on a volume concern no container; creating a volume removes none (one that exists is
  kept), and removing one removes no other. Pulling an image concerns neither.\<close>

definition law_volumes :: "'d engine_view \<Rightarrow> 'd docker_api \<Rightarrow> bool" where
  "law_volumes U api \<longleftrightarrow>
    (\<forall>n drv opts. all_containers U (volumes_create api n drv opts) \<and>
       (\<forall>v. spares_volume U v (volumes_create api n drv opts))) \<and>
    (\<forall>n. all_containers U (volume_remove api n) \<and>
       (\<forall>v. v \<noteq> n \<longrightarrow> spares_volume U v (volume_remove api n))) \<and>
    (\<forall>r t. all_containers U (images_pull api r t) \<and> (\<forall>v. spares_volume U v (images_pull api r t)))"

definition docker_laws :: "'d engine_view \<Rightarrow> 'd docker_api \<Rightarrow> bool" where
  "docker_laws U api \<longleftrightarrow> law_lookup U api \<and> law_containers U api \<and> law_volumes U api"

lemmas frame_defs = other_containers_def all_containers_def spares_volume_def volume_kept_def

lemma spares_volumeI:
  "(\<And>i d. ev_volume U v d = Some i \<Longrightarrow> ev_volume U v (snd (m d)) = Some i) \<Longrightarrow> spares_volume U v m"
  unfolding spares_volume_def volume_kept_def by (metis not_None_eq)

section \<open>A small engine\<close>

record ref_daemon =
  rd_containers :: "(string, container) table"
  rd_volumes :: "(string, int) table"
  rd_made :: int
  rd_images :: "(string, unit) table"

definition ref_get :: "string \<Rightarrow> ref_daemon \<Rightarrow> container res" where
  "ref_get n d =
     (case tab_get (rd_containers d) n of
        None \<Rightarrow> Inl (DockerNotFound n)
      | Some c \<Rightarrow> Inr (c\<lparr>c_name := n,
                        c_status := if c_status c = CONTAINER_NOT_FOUND then EXITED_STATUS
                                    else c_status c\<rparr>))"

definition ref_update :: "(container \<Rightarrow> container) \<Rightarrow> string \<Rightarrow> (ref_daemon, unit) act" where
  "ref_update f n d =
     (case tab_get (rd_containers d) n of
        None \<Rightarrow> (Inl (DockerNotFound n), d)
      | Some c \<Rightarrow> (Inr (), d\<lparr>rd_containers := tab_put n (f c) (rd_containers d)\<rparr>))"

text \<open>A volume that exists is kept; a new one gets a number of its own.\<close>

definition ref_volume :: "string \<Rightarrow> ref_daemon \<Rightarrow> ref_daemon" where
  "ref_volume n d =
     (case tab_get (rd_volumes d) n of
        Some _ \<Rightarrow> d
      | None \<Rightarrow> d\<lparr>rd_volumes := tab_put n (rd_made d) (rd_volumes d), rd_made := rd_made d + 1\<rparr>)"

definition ref_run :: "string \<Rightarrow> string \<Rightarrow> run_args \<Rightarrow> (ref_daemon, container) act" where
  "ref_run img n a d =
     (case tab_get (rd_containers d) n of
        Some _ \<Rightarrow> (Inl (DockerAPIError n), d)
      | None \<Rightarrow>
          let c = \<lparr>c_name = n, c_status = RUNNING_STATUS, c_exit_code = 0, c_image = img,
                   c_env = map env_entry (ra_environment a),
                   c_cmd = (case ra_command a of None \<Rightarrow> [] | Some s \<Rightarrow> [s])\<rparr>
          in (Inr c, fold (\<lambda>(src, _). ref_volume src) (ra_volumes a)
                (d\<lparr>rd_containers := tab_put n c (rd_containers d)\<rparr>)))"

definition ref_unit_get :: "(string, 'a) table \<Rightarrow> string \<Rightarrow> unit res" where
  "ref_unit_get t n = (case tab_get t n of None \<Rightarrow> Inl (DockerNotFound n) | Some _ \<Rightarrow> Inr ())"

definition ref_docker :: "ref_daemon docker_api" where
  "ref_docker =
     \<lparr>containers_get = ref_get,
      containers_run = ref_run,
      containers_list = (\<lambda>all flt d. map snd (rd_containers d)),
      container_stop = (\<lambda>n t. ref_update (\<lambda>c. c\<lparr>c_status := EXITED_STATUS\<rparr>) n),
      container_remove = (\<lambda>n d.
        (case tab_get (rd_containers d) n of
           None \<Rightarrow> (Inl (DockerNotFound n), d)
         | Some _ \<Rightarrow> (Inr (), d\<lparr>rd_containers := tab_del n (rd_containers d)\<rparr>))),
      container_restart = (\<lambda>n t. ref_update (\<lambda>c. c\<lparr>c_status := RUNNING_STATUS\<rparr>) n),
      container_logs_tail = (\<lambda>n k d. map_sum id (\<lambda>_. ''log'') (ref_get n d)),
      container_logs_stream = (\<lambda>n d. map_sum id (\<lambda>_. [''log'']) (ref_get n d)),
      volumes_get = (\<lambda>n d. ref_unit_get (rd_volumes d) n),
      volumes_create = (\<lambda>n drv opts d. (Inr (), ref_volume n d)),
      volume_remove = (\<lambda>n d. (Inr (), d\<lparr>rd_volumes := tab_del n (rd_volumes d)\<rparr>)),
      images_get = (\<lambda>n d. ref_unit_get (rd_images d) n),
      images_pull = (\<lambda>r t d. (Inr (), d\<lparr>rd_images := tab_put (r @ '':'' @ t) () (rd_images d)\<rparr>)),
      images_remove = (\<lambda>n d. (Inr (), d\<lparr>rd_images := tab_del n (rd_images d)\<rparr>))\<rparr>"

lemmas ref_defs = ref_docker_def ref_get_def ref_update_def ref_run_def ref_unit_get_def

definition ref_view :: "ref_daemon engine_view" where
  "ref_view =
     \<lparr>ev_container = (\<lambda>n d. case ref_get n d of Inl _ \<Rightarrow> None | Inr c \<Rightarrow> Some c),
      ev_volume = (\<lambda>n d. tab_get (rd_volumes d) n), ev_anonymous = (\<lambda>_. False)\<rparr>"

lemma ref_volume_frame:
  "rd_containers (ref_volume n d) = rd_containers d"
  "tab_get (rd_volumes d) v = Some i \<Longrightarrow> tab_get (rd_volumes (ref_volume n d)) v = Some i"
  by (auto simp: ref_volume_def alist_simps split: option.split)

lemma ref_mounts_frame:
  "rd_containers (fold (\<lambda>(src, _). ref_volume src) vs d) = rd_containers d"
  "tab_get (rd_volumes d) v = Some i \<Longrightarrow>
     tab_get (rd_volumes (fold (\<lambda>(src, _). ref_volume src) vs d)) v = Some i"
  by (induction vs arbitrary: d) (auto simp: ref_volume_frame)

lemma ref_docker_laws: "docker_laws ref_view ref_docker"
proof -
  note defs = frame_defs ref_view_def ref_docker_def ref_update_def ref_unit_get_def
  have get: "ref_get n d = ref_get n d'" if "tab_get (rd_containers d) n = tab_get (rd_containers d') n"
    for n d d' using that by (simp add: ref_get_def)
  have "law_lookup ref_view ref_docker"
    by (auto simp: law_lookup_def defs split: sum.split)
  moreover have run: "spares_volume ref_view v (ref_run img n a)" for v img n a
    by (rule spares_volumeI) (simp add: ref_view_def ref_run_def Let_def ref_mounts_frame split: option.split)
  have other: "other_containers ref_view n (ref_run img n a)" for img n a
    by (auto simp: defs ref_run_def ref_get_def ref_mounts_frame(1) alist_simps Let_def split: option.split)
  have run_field: "containers_run ref_docker = ref_run" by (simp add: ref_docker_def)
  have "law_containers ref_view ref_docker"
    unfolding law_containers_def run_field
    by (intro conjI allI run other)
      (auto simp: defs ref_get_def alist_simps split: option.split)
  moreover have "spares_volume ref_view v (\<lambda>d. (Inr (), ref_volume n d))" for v n
    by (rule spares_volumeI) (simp add: ref_view_def ref_volume_frame)
  then have "law_volumes ref_view ref_docker"
    by (simp add: law_volumes_def ref_docker_def)
      (auto simp: defs ref_get_def ref_volume_frame(1) alist_simps)
  ultimately show ?thesis by (simp add: docker_laws_def)
qed

section \<open>What the wrappers report\<close>

lemma docker_lookup:
  assumes "docker_laws U api"
  shows "containers_get api n d = Inr c \<Longrightarrow> ev_container U n d = Some c"
    and "containers_get api n d = Inl x \<Longrightarrow> is_not_found x \<Longrightarrow> ev_container U n d = None"
proof -
  have law: "case containers_get api n d of Inl x \<Rightarrow> is_not_found x \<longrightarrow> ev_container U n d = None
      | Inr c \<Rightarrow> ev_container U n d = Some c"
    using assms by (simp add: docker_laws_def law_lookup_def)
  then show "containers_get api n d = Inr c \<Longrightarrow> ev_container U n d = Some c"
    and "containers_get api n d = Inl x \<Longrightarrow> is_not_found x \<Longrightarrow> ev_container U n d = None"
    by simp_all
qed

text \<open>A question about a container that is answered is answered as the engine has it.\<close>

lemma get_info_view:
  assumes "docker_laws U api" and "get_info api n False d = Inr i"
  shows "case containers_get api n d of
      Inr c \<Rightarrow> ev_container U n d = Some c \<and> ci_status i = c_status c
    | Inl x \<Rightarrow> is_not_found x \<and> ev_container U n d = None \<and> ci_status i = CONTAINER_NOT_FOUND"
  using assms(2) docker_lookup [OF assms(1), of n d]
  by (auto simp: get_info_def split: sum.splits if_splits)

text \<open>A container in a state: there, with this status.\<close>

definition in_state :: "string \<Rightarrow> container option \<Rightarrow> bool" where
  "in_state st c = (case c of None \<Rightarrow> False | Some c \<Rightarrow> c_status c = st)"

lemma docker_running:
  assumes "docker_laws U api" and "docker_is_container_running api n d = Inr b"
  shows "b = in_state RUNNING_STATUS (ev_container U n d)"
    and "containers_get api n d = Inl x \<Longrightarrow> is_not_found x"
proof -
  from assms(2) obtain i where "get_info api n False d = Inr i" "b = (ci_status i = RUNNING_STATUS)"
    by (auto simp: docker_is_container_running_def res_bind_Inr_iff)
  with get_info_view [OF assms(1), of n d i] show "b = in_state RUNNING_STATUS (ev_container U n d)"
    and "containers_get api n d = Inl x \<Longrightarrow> is_not_found x"
    by (auto simp: in_state_def status_defs split: sum.splits)
qed

lemma docker_exited:
  assumes "docker_laws U api" and "is_container_exited api n d = Inr b"
  shows "b = in_state EXITED_STATUS (ev_container U n d)"
proof -
  from assms(2) obtain i where "get_info api n False d = Inr i" "b = (ci_status i = EXITED_STATUS)"
    by (auto simp: is_container_exited_def res_bind_Inr_iff)
  with get_info_view [OF assms(1), of n d i] show ?thesis
    by (auto simp: in_state_def status_defs split: sum.splits)
qed

text \<open>What a removal of a container did: nothing for one that is not found, and nothing when the
  lookup fails; otherwise the container is stopped, its log saved, then it is removed, and an error
  of one of these steps is raised.\<close>

lemma safe_rm_cases:
  assumes "safe_rm api n t w = (r, w')"
  obtains (absent) x where "containers_get api n (daemon w) = Inl x" "w' = w"
      "r = (if is_api_error x then Inr () else Inl x)"
  | (failed) c x d' where "containers_get api n (daemon w) = Inr c" "r = Inl x" "w' = w\<lparr>daemon := d'\<rparr>"
  | (saved) c d' d'' logs where "containers_get api n (daemon w) = Inr c"
      "container_remove api n d' = (r, d'')"
      "w' = w\<lparr>daemon := d'', removed_logs :=
         tab_put (get_logs_backup_filepath n (removed_logs w)) logs (removed_logs w)\<rparr>"
proof (cases "containers_get api n (daemon w)")
  case (Inl x)
  with assms show ?thesis
    by (intro absent [of x]) (auto simp: safe_rm_def safe_get_container_def act_simps split: if_splits)
next
  case (Inr c)
  note get = Inr
  obtain r1 d1 where stop: "container_stop api n t (daemon w) = (r1, d1)" by fastforce
  show ?thesis
  proof (cases r1)
    case (Inl x)
    with assms get stop show ?thesis
      by (intro failed [of c x d1]) (auto simp: safe_rm_def safe_get_container_def act_simps)
  next
    case (Inr u)
    let ?b = "backup_container_logs api n DOCKER_DEFAULT_HEAD_LINES DOCKER_DEFAULT_TAIL_LINES (w\<lparr>daemon := d1\<rparr>)"
    have run: "act_then (\<lambda>_. ?b) (on_daemon (container_remove api n)) (w\<lparr>daemon := d1\<rparr>) = (r, w')"
      using assms get stop Inr by (simp add: safe_rm_def safe_get_container_def act_simps)
    have "(\<exists>x. ?b = (Inl x, w\<lparr>daemon := d1\<rparr>)) \<or> (\<exists>logs. ?b = (Inr (), w\<lparr>daemon := d1, removed_logs :=
        tab_put (get_logs_backup_filepath n (removed_logs w)) logs (removed_logs w)\<rparr>))"
      by (auto simp: backup_container_logs_def save_container_logs_def act_simps
          split: sum.split prod.split)
    then show ?thesis
    proof (elim disjE exE)
      fix x assume "?b = (Inl x, w\<lparr>daemon := d1\<rparr>)"
      with run get show ?thesis by (intro failed [of c x d1]) (auto simp: act_simps)
    next
      fix logs
      assume b: "?b = (Inr (), w\<lparr>daemon := d1, removed_logs :=
        tab_put (get_logs_backup_filepath n (removed_logs w)) logs (removed_logs w)\<rparr>)"
      obtain r2 d2 where "container_remove api n d1 = (r2, d2)" by fastforce
      with run get b show ?thesis by (intro saved [of c d1 d2 logs]) (auto simp: act_simps)
    qed
  qed
qed

text \<open>So a removal that ends without an error has removed the container, unless its lookup failed
  with another error than NotFound.\<close>

lemma safe_rm_gone:
  assumes laws: "docker_laws U api" and run: "safe_rm api n t w = (Inr (), w')"
    and found: "\<And>x. containers_get api n (daemon w) = Inl x \<Longrightarrow> is_not_found x"
  shows "ev_container U n (daemon w') = None"
  using run
proof (cases rule: safe_rm_cases)
  case (absent x)
  with docker_lookup(2) [OF laws absent(1)] found show ?thesis by simp
next
  case (saved c d' d'' logs)
  then have "fst (container_remove api n d') = Inr ()" and "snd (container_remove api n d') = d''" by simp_all
  with laws saved(3) show ?thesis by (auto simp: docker_laws_def law_containers_def)
qed simp

text \<open>The retries of a volume's removal: nothing but the engine's volumes and the clock
  change, and the wait is at most the sum of the timeouts.\<close>

lemma rm_vol_loop_frame:
  assumes "rm_vol_loop api n ts err w = (r, w')"
  shows "\<exists>d' c'. w' = w\<lparr>daemon := d', clock := c'\<rparr> \<and>
           (list_all (\<lambda>t. 0 \<le> t) ts \<longrightarrow> clock w \<le> c' \<and> c' \<le> clock w + sum_list ts)"
  using assms
proof (induction ts arbitrary: err w)
  case Nil
  then have "w' = w" by (auto simp: act_simps split: option.splits)
  then show ?case by (intro exI [of _ "daemon w"] exI [of _ "clock w"]) simp
next
  case (Cons t ts)
  show ?case
  proof (cases "get_vol api n (daemon w) = Inr True")
    case False
    with Cons.prems have "w' = w"
      by (auto simp: act_simps split: sum.splits if_splits)
    then show ?thesis
      by (intro exI [of _ "daemon w"] exI [of _ "clock w"])
        (auto simp: list_all_iff intro!: add_nonneg_nonneg sum_list_nonneg)
  next
    case True
    obtain q d1 where rm: "volume_remove api n (daemon w) = (q, d1)" by fastforce
    show ?thesis
    proof (cases q)
      case (Inr u)
      with Cons.prems True rm have "w' = w\<lparr>daemon := d1\<rparr>"
        by (simp add: act_simps)
      then show ?thesis
        by (intro exI [of _ d1] exI [of _ "clock w"])
          (auto simp: list_all_iff intro!: add_nonneg_nonneg sum_list_nonneg)
    next
      case (Inl e)
      with Cons.prems True rm
      have "rm_vol_loop api n ts (Some e) (w\<lparr>daemon := d1, clock := clock w + t\<rparr>) = (r, w')"
        by (simp add: act_simps)
      from Cons.IH [OF this] obtain d' c' where
        w': "w' = w\<lparr>daemon := d', clock := c'\<rparr>" and
        c': "list_all (\<lambda>t. 0 \<le> t) ts \<longrightarrow> clock w + t \<le> c' \<and> c' \<le> clock w + t + sum_list ts"
        by auto
      then show ?thesis by (intro exI [of _ d'] exI [of _ c']) auto
    qed
  qed
qed

lemma rm_vol_timeouts_sum: "sum_list (rm_vol_timeouts True) = 4095"
  by (simp add: rm_vol_timeouts_def MAX_RETRIES_def upt_rec)

end
