(* ===== verification/Config_Files.thy ===== *)
theory Config_Files
  imports World
begin

text \<open>
  The configuration files of a chain: \<^verbatim>\<open>core/schains/config/directory.py\<close> and
  \<^verbatim>\<open>core/schains/config/file_manager.py\<close>. A chain's directory holds the configuration
  skaled runs with (\<^verbatim>\<open>schain_<name>.json\<close>) and the upstream configurations generated for
  it, \<^verbatim>\<open>schain_<name>_<rotation id>_<timestamp>.json\<close>. The newest upstream is the greatest
  file name, by rotation id and then timestamp.

  The operations of \<^verbatim>\<open>ConfigFileManager\<close> are functions of the surroundings, the chain's
  name and the world. Its lock serialises them, so each is one step. The chain's name is
  matched literally in the file pattern (a name with a character special in regular
  expressions is outside the model).
\<close>

section \<open>File names\<close>

datatype upstream_config_filename =
  UpstreamConfigFilename (ucf_name: string) (ucf_rotation_id: int) (ucf_ts: int)

definition upstream_filename :: "upstream_config_filename \<Rightarrow> string" where
  "upstream_filename u =
     ''schain_'' @ ucf_name u @ ''_'' @ str_of_int (ucf_rotation_id u) @ ''_''
       @ str_of_int (ucf_ts u) @ ''.json''"

text \<open>\<^verbatim>\<open>__lt__\<close>\<close>

definition upstream_lt :: "upstream_config_filename \<Rightarrow> upstream_config_filename \<Rightarrow> bool" where
  "upstream_lt a b =
     (if ucf_name a \<noteq> ucf_name b then ucf_name a < ucf_name b
      else if ucf_rotation_id a \<noteq> ucf_rotation_id b then ucf_rotation_id a < ucf_rotation_id b
      else ucf_ts a < ucf_ts b)"

text \<open>\<^verbatim>\<open>Path(f).stem\<close> of a final path component: without its last suffix.\<close>

definition path_stem :: "string \<Rightarrow> string" where
  "path_stem f =
     (case find_last CHR ''.'' f of
        Some i \<Rightarrow> if 0 < i \<and> i < length f - 1 then take i f else f
      | None \<Rightarrow> f)"

text \<open>\<^verbatim>\<open>from_filename\<close>. \<^verbatim>\<open>rfind\<close> gives \<open>-1\<close> when there is no underscore left; a slice
  up to \<open>-1\<close> then drops the last character, and one from \<open>-1 + 1\<close> is the whole string.\<close>

definition from_filename :: "string \<Rightarrow> upstream_config_filename res" where
  "from_filename f =
     (let stem = path_stem f in
      case rfind stem CHR ''_'' (length stem) of
        None \<Rightarrow>
          res_bind (int_of_str stem) (\<lambda>ts.
          res_bind (int_of_str (case rfind (butlast stem) CHR ''_'' (length stem) of
                                  None \<Rightarrow> butlast stem
                                | Some i \<Rightarrow> drop (Suc i) (butlast stem))) (\<lambda>rid.
          Inr (UpstreamConfigFilename (replace_first ''schain_'' [] (butlast stem)) rid ts)))
      | Some ts_start \<Rightarrow>
          res_bind (int_of_str (drop (Suc ts_start) stem)) (\<lambda>ts.
          (case rfind stem CHR ''_'' ts_start of
             None \<Rightarrow>
               res_bind (int_of_str (take ts_start stem)) (\<lambda>rid.
               Inr (UpstreamConfigFilename (replace_first ''schain_'' [] (butlast stem)) rid ts))
           | Some rid_start \<Rightarrow>
               res_bind (int_of_str (slice stem (Suc rid_start) ts_start)) (\<lambda>rid.
               Inr (UpstreamConfigFilename
                      (replace_first ''schain_'' [] (take rid_start stem)) rid ts)))))"

definition skaled_filename :: "string \<Rightarrow> string" where
  "skaled_filename n = ''schain_'' @ n @ ''.json''"

text \<open>\<^verbatim>\<open>SkaledConfigFilename.from_filename\<close>: two pieces, the second one the name.\<close>

definition skaled_from_filename :: "string \<Rightarrow> string res" where
  "skaled_from_filename f =
     (case split_on CHR ''_'' f of [_, n] \<Rightarrow> Inr n | _ \<Rightarrow> Inl (ValueError f))"

instantiation upstream_config_filename :: linorder
begin

definition less_upstream_config_filename ::
  "upstream_config_filename \<Rightarrow> upstream_config_filename \<Rightarrow> bool" where
  "less_upstream_config_filename a b = upstream_lt a b"

definition less_eq_upstream_config_filename ::
  "upstream_config_filename \<Rightarrow> upstream_config_filename \<Rightarrow> bool" where
  "less_eq_upstream_config_filename a b = (upstream_lt a b \<or> a = b)"

instance
proof
  fix a b c :: upstream_config_filename
  show "(a < b) = (a \<le> b \<and> \<not> b \<le> a)"
    by (auto simp: less_upstream_config_filename_def less_eq_upstream_config_filename_def
        upstream_lt_def split: if_splits)
  show "a \<le> a" by (simp add: less_eq_upstream_config_filename_def)
  show "a \<le> b \<Longrightarrow> b \<le> c \<Longrightarrow> a \<le> c"
    by (auto simp: less_eq_upstream_config_filename_def upstream_lt_def split: if_splits)
  show "a \<le> b \<Longrightarrow> b \<le> a \<Longrightarrow> a = b"
    by (auto simp: less_eq_upstream_config_filename_def upstream_lt_def split: if_splits)
  show "a \<le> b \<or> b \<le> a"
    by (auto simp: less_eq_upstream_config_filename_def upstream_lt_def
        intro: upstream_config_filename.expand)
qed

end

section \<open>Directories\<close>

definition get_schain_check_filepath :: "('d, 'f) env \<Rightarrow> string \<Rightarrow> path" where
  "get_schain_check_filepath e n = (schain_config_dir e n, ''checks.json'')"

definition skaled_status_filepath :: "('d, 'f) env \<Rightarrow> string \<Rightarrow> path" where
  "skaled_status_filepath e n = (schain_config_dir e n, ''skaled.status'')"

definition node_cli_status_filepath :: "('d, 'f) env \<Rightarrow> string \<Rightarrow> path" where
  "node_cli_status_filepath e n = (schain_config_dir e n, ''node_cli.status'')"

definition init_schain_config_dir :: "('d, 'f) env \<Rightarrow> string \<Rightarrow> ('d, 'f, unit) wact" where
  "init_schain_config_dir e n =
     act_modify (\<lambda>w. w\<lparr>dirs := List.insert (schain_config_dir e n) (dirs w)\<rparr>)"

text \<open>The full paths in the directory whose file name starts with the prefix, sorted; all in
  one directory, so sorted by file name.\<close>

definition get_files_with_prefix :: "('d, 'f) world \<Rightarrow> string \<Rightarrow> string \<Rightarrow> path list" where
  "get_files_with_prefix w d pre =
     (if d \<in> set (dirs w)
      then map (Pair d) (sort (filter (\<lambda>f. startswith f pre) (listdir (files w) d)))
      else [])"

section \<open>The pattern of an upstream file\<close>

text \<open>\<^verbatim>\<open>\d+\<close> followed by the rest of a pattern, with backtracking.\<close>

fun re_digits :: "(string \<Rightarrow> bool) \<Rightarrow> string \<Rightarrow> bool" where
  "re_digits k [] = False"
| "re_digits k (c # cs) = (is_digit c \<and> (k cs \<or> re_digits k cs))"

text \<open>\<^verbatim>\<open>.json\<close>: any character but a newline, then the letters.\<close>

definition re_dot_json :: "string \<Rightarrow> bool" where
  "re_dot_json s =
     (case s of [] \<Rightarrow> False | c # t \<Rightarrow> c \<noteq> CHR 0x0A \<and> startswith t ''json'')"

definition re_underscore :: "(string \<Rightarrow> bool) \<Rightarrow> string \<Rightarrow> bool" where
  "re_underscore k s = (case s of [] \<Rightarrow> False | c # t \<Rightarrow> c = CHR ''_'' \<and> k t)"

definition re_upstream :: "string \<Rightarrow> string \<Rightarrow> bool" where
  "re_upstream pre s =
     (startswith s pre \<and>
      re_digits (re_underscore (re_digits re_dot_json)) (drop (length pre) s))"

text \<open>\<^verbatim>\<open>pattern.search\<close>: the pattern matches somewhere.\<close>

fun re_search :: "(string \<Rightarrow> bool) \<Rightarrow> string \<Rightarrow> bool" where
  "re_search p [] = p []"
| "re_search p (c # cs) = (p (c # cs) \<or> re_search p cs)"

section \<open>ConfigFileManager\<close>

definition upstream_prefix :: "string \<Rightarrow> string" where
  "upstream_prefix n = ''schain_'' @ n @ ''_''"

definition upstream_path :: "('d, 'f) env \<Rightarrow> string \<Rightarrow> upstream_config_filename \<Rightarrow> path" where
  "upstream_path e n u = (schain_config_dir e n, upstream_filename u)"

definition skaled_config_path :: "('d, 'f) env \<Rightarrow> string \<Rightarrow> path" where
  "skaled_config_path e n = (schain_config_dir e n, skaled_filename n)"

definition upstream_files :: "('d, 'f) env \<Rightarrow> string \<Rightarrow> ('d, 'f) world \<Rightarrow> path list" where
  "upstream_files e n w =
     filter (\<lambda>p. re_search (re_upstream (upstream_prefix n)) (path_join (fst p) (snd p)))
       (get_files_with_prefix w (schain_config_dir e n) (upstream_prefix n))"

definition get_upstream_configs ::
  "('d, 'f) env \<Rightarrow> string \<Rightarrow> ('d, 'f) world \<Rightarrow> upstream_config_filename list res" where
  "get_upstream_configs e n w =
     res_bind (res_map (\<lambda>p. from_filename (snd p)) (upstream_files e n w)) (\<lambda>us.
     Inr (py_sorted upstream_lt us))"

definition latest_upstream_path ::
  "('d, 'f) env \<Rightarrow> string \<Rightarrow> ('d, 'f) world \<Rightarrow> path option res" where
  "latest_upstream_path e n w =
     res_bind (get_upstream_configs e n w) (\<lambda>us.
     Inr (if us = [] then None else Some (upstream_path e n (last us))))"

definition upstream_config_exists :: "('d, 'f) env \<Rightarrow> string \<Rightarrow> ('d, 'f) world \<Rightarrow> bool res" where
  "upstream_config_exists e n w =
     res_bind (latest_upstream_path e n w) (\<lambda>p.
     Inr (case p of None \<Rightarrow> False | Some q \<Rightarrow> isfile (files w) q))"

definition skaled_config_exists :: "('d, 'f) env \<Rightarrow> string \<Rightarrow> ('d, 'f) world \<Rightarrow> bool" where
  "skaled_config_exists e n w = isfile (files w) (skaled_config_path e n)"

definition latest_upstream_config ::
  "('d, 'f) env \<Rightarrow> string \<Rightarrow> ('d, 'f) world \<Rightarrow> json option res" where
  "latest_upstream_config e n w =
     res_bind (upstream_config_exists e n w) (\<lambda>ex.
       if \<not> ex then Inr None
       else res_bind (latest_upstream_path e n w) (\<lambda>p.
            case p of
              None \<Rightarrow> Inl (TypeError ''open'')
            | Some q \<Rightarrow> res_bind (read_json (files w) q) (\<lambda>j. Inr (Some j))))"

definition skaled_config :: "('d, 'f) env \<Rightarrow> string \<Rightarrow> ('d, 'f) world \<Rightarrow> json option res" where
  "skaled_config e n w =
     (if \<not> skaled_config_exists e n w then Inr None
      else res_bind (read_json (files w) (skaled_config_path e n)) (\<lambda>j. Inr (Some j)))"

fun opt_json_eq :: "json option \<Rightarrow> json option \<Rightarrow> bool" where
  "opt_json_eq None None = True"
| "opt_json_eq (Some a) (Some b) = json_eq a b"
| "opt_json_eq _ _ = False"

definition skaled_config_synced_with_upstream ::
  "('d, 'f) env \<Rightarrow> string \<Rightarrow> ('d, 'f) world \<Rightarrow> bool res" where
  "skaled_config_synced_with_upstream e n w =
     (if \<not> skaled_config_exists e n w then Inr False
      else res_bind (upstream_config_exists e n w) (\<lambda>ex.
        if \<not> ex then Inr True
        else res_bind (latest_upstream_config e n w) (\<lambda>u.
             res_bind (skaled_config e n w) (\<lambda>c. Inr (opt_json_eq u c)))))"

definition get_new_upstream_filepath ::
  "('d, 'f) env \<Rightarrow> string \<Rightarrow> int \<Rightarrow> ('d, 'f) world \<Rightarrow> path" where
  "get_new_upstream_filepath e n rid w =
     upstream_path e n (UpstreamConfigFilename n rid (clock w))"

definition save_new_upstream ::
  "('d, 'f) env \<Rightarrow> string \<Rightarrow> int \<Rightarrow> json \<Rightarrow> ('d, 'f, unit) wact" where
  "save_new_upstream e n rid config =
     (\<lambda>w. modify_files (write_json (get_new_upstream_filepath e n rid w) config) w)"

definition save_skaled_config :: "('d, 'f) env \<Rightarrow> string \<Rightarrow> json \<Rightarrow> ('d, 'f, unit) wact" where
  "save_skaled_config e n config = modify_files (write_json (skaled_config_path e n) config)"

text \<open>\<^verbatim>\<open>shutil.copy\<close>\<close>

definition copy_file :: "path \<Rightarrow> path \<Rightarrow> files \<Rightarrow> unit res \<times> files" where
  "copy_file src dst fs =
     (case tab_get fs src of
        None \<Rightarrow> (Inl (FileNotFoundError (snd src)), fs)
      | Some c \<Rightarrow> (Inr (), tab_put dst c fs))"

definition sync_skaled_config_with_upstream ::
  "('d, 'f) env \<Rightarrow> string \<Rightarrow> ('d, 'f, bool) wact" where
  "sync_skaled_config_with_upstream e n =
     act_bind (act_res (upstream_config_exists e n)) (\<lambda>ex.
       if \<not> ex then act_return False
       else act_bind (act_res (latest_upstream_path e n)) (\<lambda>p.
            let upath = (case p of None \<Rightarrow> ('''', '''') | Some q \<Rightarrow> q)
            in act_then (on_files (copy_file upath (skaled_config_path e n))) (act_return True)))"

definition upstreams_by_rotation_id ::
  "('d, 'f) env \<Rightarrow> string \<Rightarrow> int \<Rightarrow> ('d, 'f) world \<Rightarrow> path list res" where
  "upstreams_by_rotation_id e n rid w =
     res_bind (get_upstream_configs e n w) (\<lambda>us.
     Inr (map (upstream_path e n) (filter (\<lambda>u. ucf_rotation_id u = rid) us)))"

definition upstream_exist_for_rotation_id ::
  "('d, 'f) env \<Rightarrow> string \<Rightarrow> int \<Rightarrow> ('d, 'f) world \<Rightarrow> bool res" where
  "upstream_exist_for_rotation_id e n rid w =
     res_bind (upstreams_by_rotation_id e n rid w) (\<lambda>ps. Inr (length ps > 0))"

definition remove_skaled_config :: "('d, 'f) env \<Rightarrow> string \<Rightarrow> ('d, 'f, unit) wact" where
  "remove_skaled_config e n =
     (\<lambda>w. if skaled_config_exists e n w
          then on_files (os_remove (skaled_config_path e n)) w
          else (Inr (), w))"

section \<open>File names: printing and parsing\<close>

lemma str_of_int_no_char: "\<not> is_digit c \<Longrightarrow> c \<noteq> CHR ''-'' \<Longrightarrow> c \<notin> set (str_of_int i)"
  by (auto simp: str_of_int_def str_of_nat_no_char)

lemma path_stem_json: "s \<noteq> [] \<Longrightarrow> path_stem (s @ ''.json'') = s"
proof -
  assume "s \<noteq> []"
  have "find_last CHR ''.'' (s @ CHR ''.'' # ''json'') = Some (length s)"
    by (rule find_last_append_Cons) simp
  with \<open>s \<noteq> []\<close> show ?thesis by (simp add: path_stem_def)
qed

text \<open>Parsing a printed upstream name gives the name back, whatever characters the chain's
  name has (underscores and the letters \<^verbatim>\<open>schain_\<close> included).\<close>

lemma from_filename_roundtrip: "from_filename (upstream_filename u) = Inr u"
proof -
  define n R T where "n = ucf_name u" and "R = str_of_int (ucf_rotation_id u)"
    and "T = str_of_int (ucf_ts u)"
  define stem where "stem = ''schain_'' @ n @ ''_'' @ R @ ''_'' @ T"
  have R: "CHR ''_'' \<notin> set R" and T: "CHR ''_'' \<notin> set T"
    by (simp_all add: R_def T_def str_of_int_no_char)
  have "upstream_filename u = stem @ ''.json''"
    by (simp add: upstream_filename_def stem_def n_def R_def T_def)
  moreover have "stem \<noteq> []" by (simp add: stem_def)
  ultimately have stem: "path_stem (upstream_filename u) = stem"
    by (metis path_stem_json)
  let ?a = "''schain_'' @ n" and ?b = "''schain_'' @ n @ ''_'' @ R"
  have last: "rfind stem CHR ''_'' (length stem) = Some (length ?b)"
    using rfind_last [OF T, of "length stem" ?b "[]"] by (simp add: stem_def)
  have "stem = ?a @ CHR ''_'' # R @ (CHR ''_'' # T)"
    by (simp add: stem_def)
  then have prev: "rfind stem CHR ''_'' (length ?b) = Some (length ?a)"
    using rfind_last [OF R, of "length ?b" ?a "CHR ''_'' # T"] by simp
  have "drop (Suc (length ?b)) stem = T" and "slice stem (Suc (length ?a)) (length ?b) = R"
    and "take (length ?a) stem = ?a"
    by (simp_all add: stem_def slice_def)
  moreover have "replace_first ''schain_'' [] ?a = n"
    using replace_first_prefix [of "''schain_''" "[]" n] by simp
  ultimately show ?thesis
    using last prev stem
    by (simp add: from_filename_def Let_def R_def T_def n_def del: append_Cons)
qed

lemma upstream_filename_inject: "upstream_filename u = upstream_filename v \<Longrightarrow> u = v"
  by (metis from_filename_roundtrip sum.inject(2))

section \<open>The pattern\<close>

lemma re_digits_append:
  "ds \<noteq> [] \<Longrightarrow> list_all is_digit ds \<Longrightarrow> k rest \<Longrightarrow> re_digits k (ds @ rest)"
proof (induction ds)
  case (Cons d ds)
  then show ?case by (cases "ds = []") auto
qed simp

lemma re_search_append: "p s \<Longrightarrow> re_search p (t @ s)"
proof (induction t)
  case Nil
  then show ?case by (cases s) simp_all
qed simp

lemma str_of_int_digits: "0 \<le> i \<Longrightarrow> list_all is_digit (str_of_int i) \<and> str_of_int i \<noteq> []"
  by (simp add: str_of_int_def str_of_nat_digits)

lemma re_upstream_filename:
  assumes "0 \<le> rid" and "0 \<le> ts"
  shows "re_upstream (upstream_prefix n) (upstream_filename (UpstreamConfigFilename n rid ts))"
proof -
  have "re_dot_json ''.json''"
    by (simp add: re_dot_json_def startswith_def)
  then have "re_digits re_dot_json (str_of_int ts @ ''.json'')"
    using str_of_int_digits [OF assms(2)] by (simp add: re_digits_append)
  then have "re_digits (re_underscore (re_digits re_dot_json))
      (str_of_int rid @ ''_'' @ str_of_int ts @ ''.json'')"
    using str_of_int_digits [OF assms(1)] by (intro re_digits_append) (auto simp: re_underscore_def)
  then show ?thesis
    by (simp add: re_upstream_def startswith_def upstream_prefix_def upstream_filename_def)
qed

lemma skaled_filename_no_prefix: "\<not> startswith (skaled_filename n) (upstream_prefix n)"
  by (simp add: startswith_def skaled_filename_def upstream_prefix_def)

lemma upstream_filename_prefix:
  "startswith (upstream_filename (UpstreamConfigFilename n rid ts)) (upstream_prefix n)"
  by (simp add: startswith_def upstream_filename_def upstream_prefix_def)

section \<open>The manager\<close>

lemma upstream_files_iff:
  "p \<in> set (upstream_files e n w) \<longleftrightarrow>
     fst p = schain_config_dir e n \<and> fst p \<in> set (dirs w) \<and> isfile (files w) p \<and>
     startswith (snd p) (upstream_prefix n) \<and>
     re_search (re_upstream (upstream_prefix n)) (path_join (fst p) (snd p))"
  by (cases p) (auto simp: upstream_files_def get_files_with_prefix_def listdir_isfile)

lemma get_upstream_configs_set:
  "get_upstream_configs e n w = Inr us \<Longrightarrow>
   set us = {u. \<exists>p \<in> set (upstream_files e n w). from_filename (snd p) = Inr u}"
proof -
  assume "get_upstream_configs e n w = Inr us"
  then obtain vs where "res_map (\<lambda>p. from_filename (snd p)) (upstream_files e n w) = Inr vs"
    and "set us = set vs"
    by (auto simp: get_upstream_configs_def res_bind_Inr_iff)
  then show ?thesis by (simp add: res_map_set)
qed

lemma get_upstream_configs_success:
  "(\<exists>us. get_upstream_configs e n w = Inr us) \<longleftrightarrow>
   (\<forall>p \<in> set (upstream_files e n w). \<exists>u. from_filename (snd p) = Inr u)"
  by (simp add: get_upstream_configs_def res_bind_Inr_iff flip: res_map_success)

lemma py_sorted_upstream: "py_sorted upstream_lt us = sort us"
  by (rule py_sorted_sort) (simp add: less_upstream_config_filename_def)

lemma get_upstream_configs_sorted: "get_upstream_configs e n w = Inr us \<Longrightarrow> sorted us"
  by (auto simp: get_upstream_configs_def res_bind_Inr_iff py_sorted_upstream)

lemma last_sorted_max:
  fixes xs :: "'a::linorder list"
  assumes "sorted xs" and "m \<in> set xs" and "\<And>x. x \<in> set xs \<Longrightarrow> x \<le> m"
  shows "last xs = m"
proof -
  from assms(2) have "xs \<noteq> []" by auto
  then obtain ys y where xs: "xs = ys @ [y]" by (metis append_butlast_last_id)
  with assms show ?thesis by (force simp: sorted_append intro: antisym)
qed

text \<open>A saved configuration that no upstream is newer than is the latest one.\<close>

lemma save_new_upstream_latest:
  assumes dir: "schain_config_dir e n \<in> set (dirs w)"
    and us: "get_upstream_configs e n w = Inr us"
    and newer: "\<And>u. u \<in> set us \<Longrightarrow> u \<le> UpstreamConfigFilename n rid (clock w)"
    and pos: "0 \<le> rid" "0 \<le> clock w"
    and save: "save_new_upstream e n rid config w = (r, w')"
  shows "r = Inr ()"
    and "latest_upstream_path e n w' =
           Inr (Some (upstream_path e n (UpstreamConfigFilename n rid (clock w))))"
    and "latest_upstream_config e n w' = Inr (Some config)"
    and "upstream_exist_for_rotation_id e n rid w' = Inr True"
proof -
  let ?u = "UpstreamConfigFilename n rid (clock w)"
  let ?p = "upstream_path e n ?u"
  have w': "w' = w\<lparr>files := write_json ?p config (files w)\<rparr>" and "r = Inr ()"
    using save by (simp_all add: save_new_upstream_def get_new_upstream_filepath_def act_simps)
  then show "r = Inr ()" by simp
  have p: "?p \<in> set (upstream_files e n w')"
    using dir upstream_filename_prefix
      re_search_append [where p = "re_upstream (upstream_prefix n)"
        and s = "upstream_filename ?u" and t = "schain_config_dir e n @ ''/''"]
      re_upstream_filename [OF pos, of n]
    by (simp add: upstream_files_iff w' upstream_path_def path_join_def)
  have files: "set (upstream_files e n w') = insert ?p (set (upstream_files e n w))"
    using p by (auto simp: upstream_files_iff w')
  have parse: "from_filename (snd ?p) = Inr ?u"
    by (simp add: upstream_path_def from_filename_roundtrip)
  have "\<exists>us'. get_upstream_configs e n w' = Inr us'"
    using get_upstream_configs_success [of e n w] us parse
    by (subst get_upstream_configs_success) (auto simp: files)
  then obtain us' where us': "get_upstream_configs e n w' = Inr us'" ..
  have set': "set us' = insert ?u (set us)"
    using get_upstream_configs_set [OF us'] get_upstream_configs_set [OF us] parse
    by (auto simp: files)
  have "last us' = ?u"
    by (rule last_sorted_max [OF get_upstream_configs_sorted [OF us']]) (auto simp: set' newer)
  moreover have "us' \<noteq> []" using set' by auto
  ultimately show path: "latest_upstream_path e n w' = Inr (Some ?p)"
    by (simp add: latest_upstream_path_def us')
  have "isfile (files w') ?p" and "read_json (files w') ?p = Inr config"
    by (simp_all add: w')
  with path show "latest_upstream_config e n w' = Inr (Some config)"
    by (simp add: latest_upstream_config_def upstream_config_exists_def)
  have "?u \<in> set (filter (\<lambda>u. ucf_rotation_id u = rid) us')" using set' by simp
  then show "upstream_exist_for_rotation_id e n rid w' = Inr True"
    by (auto simp: upstream_exist_for_rotation_id_def upstreams_by_rotation_id_def us'
        simp del: set_filter dest: length_pos_if_in_set)
qed

text \<open>Writing or removing the skaled configuration leaves the upstreams as they are.\<close>

lemma upstream_files_put_skaled:
  "upstream_files e n (w\<lparr>files := tab_put (skaled_config_path e n) c (files w)\<rparr>) =
   upstream_files e n w"
  using skaled_filename_no_prefix [of n]
  by (auto simp: upstream_files_def get_files_with_prefix_def listdir_put skaled_config_path_def)

lemma upstream_path_not_skaled: "ucf_name u = n \<Longrightarrow> upstream_path e n u \<noteq> skaled_config_path e n"
  using skaled_filename_no_prefix upstream_filename_prefix
  by (cases u) (metis prod.inject skaled_config_path_def upstream_config_filename.sel(1) upstream_path_def)

lemma latest_upstream_path_put_skaled:
  "latest_upstream_path e n (w\<lparr>files := tab_put (skaled_config_path e n) c (files w)\<rparr>) =
   latest_upstream_path e n w"
  by (simp add: latest_upstream_path_def get_upstream_configs_def upstream_files_put_skaled)

text \<open>Syncing makes the skaled configuration a copy of the latest upstream.\<close>

lemma sync_skaled_config:
  assumes path: "latest_upstream_path e n w = Inr (Some p)"
    and cfg: "read_json (files w) p = Inr j" and wf: "json_wf j"
    and sync: "sync_skaled_config_with_upstream e n w = (r, w')"
  shows "r = Inr True" and "skaled_config e n w' = Inr (Some j)"
    and "skaled_config_synced_with_upstream e n w' = Inr True"
    and "latest_upstream_path e n w' = Inr (Some p)"
proof -
  let ?s = "skaled_config_path e n"
  from cfg obtain fc where fc: "tab_get (files w) p = Some (JsonFile j)"
    by (auto simp: read_json_def split: option.splits file_content.splits)
  have ex: "upstream_config_exists e n w = Inr True"
    by (simp add: upstream_config_exists_def path isfile_def fc)
  have w': "w' = w\<lparr>files := tab_put ?s (JsonFile j) (files w)\<rparr>" and r: "r = Inr True"
    using sync
    by (simp_all add: sync_skaled_config_with_upstream_def act_simps ex path copy_file_def fc)
  then show "r = Inr True" by simp
  show cfg': "skaled_config e n w' = Inr (Some j)"
    by (simp add: skaled_config_def skaled_config_exists_def w' isfile_def read_json_def alist_simps)
  show path': "latest_upstream_path e n w' = Inr (Some p)"
    using path by (simp add: w' latest_upstream_path_put_skaled)
  have p': "isfile (files w') p" "read_json (files w') p = Inr j"
    and s': "skaled_config_exists e n w'"
    by (simp_all add: w' isfile_def read_json_def fc alist_simps skaled_config_exists_def)
  have "latest_upstream_config e n w' = Inr (Some j)"
    and "upstream_config_exists e n w' = Inr True"
    by (simp_all add: latest_upstream_config_def upstream_config_exists_def path' p')
  with cfg' s' json_eq_refl [OF wf] show "skaled_config_synced_with_upstream e n w' = Inr True"
    by (simp add: skaled_config_synced_with_upstream_def)
qed

lemma remove_skaled_config_spec:
  "\<exists>w'. remove_skaled_config e n w = (Inr (), w') \<and> \<not> skaled_config_exists e n w' \<and>
     (\<forall>p. p \<noteq> skaled_config_path e n \<longrightarrow> tab_get (files w') p = tab_get (files w) p)"
  by (auto simp: remove_skaled_config_def skaled_config_exists_def os_remove_def isfile_def
      act_simps alist_simps)

end
