(* ===== verification/Config_Reader.thy ===== *)
theory Config_Reader
  imports Config_Files
begin

text \<open>
  What the code reads out of a chain's configuration: \<^verbatim>\<open>core/schains/config/helper.py\<close>
  (addresses, ports, endpoints) and \<^verbatim>\<open>core/schains/config/main.py\<close> (rotation ids, finish
  times, the record's configuration version). A configuration is the loaded JSON document, or
  None where the file is missing; indexing None is a TypeError. Addresses are strings and
  finish times numbers or null; another type is reported as a TypeError where Python would
  hand it on.
\<close>

section \<open>Typed reads\<close>

fun json_str :: "json \<Rightarrow> string res" where
  "json_str (JStr s) = Inr s"
| "json_str _ = Inl (TypeError ''str'')"

fun json_opt_int :: "json \<Rightarrow> int option res" where
  "json_opt_int JNull = Inr None"
| "json_opt_int (JInt i) = Inr (Some i)"
| "json_opt_int _ = Inl (TypeError ''int'')"

fun json_num :: "json \<Rightarrow> int res" where
  "json_num (JInt i) = Inr i"
| "json_num _ = Inl (TypeError ''int'')"

definition config_path :: "json option \<Rightarrow> string list \<Rightarrow> json res" where
  "config_path config ks =
     (case config of None \<Rightarrow> Inl (TypeError ''NoneType'') | Some c \<Rightarrow> json_path c ks)"

section \<open>core/schains/config/helper.py\<close>

definition schain_nodes :: "json option \<Rightarrow> json list res" where
  "schain_nodes config =
     res_bind (config_path config [''skaleConfig'', ''sChain'', ''nodes'']) json_elems"

definition get_node_ips_from_config :: "json option \<Rightarrow> string list res" where
  "get_node_ips_from_config config =
     (if config = None then Inr []
      else res_bind (schain_nodes config)
             (res_map (\<lambda>node. res_bind (json_item node ''ip'') json_str)))"

definition get_base_port_from_config :: "json option \<Rightarrow> int res" where
  "get_base_port_from_config config =
     res_bind (config_path config [''skaleConfig'', ''nodeInfo'', ''basePort'']) json_num"

fun find_own_ip :: "json \<Rightarrow> json list \<Rightarrow> string option res" where
  "find_own_ip own_id [] = Inr None"
| "find_own_ip own_id (node # nodes) =
     res_bind (json_item node ''nodeID'') (\<lambda>i.
       if json_eq i own_id
       then res_bind (json_item node ''ip'') (\<lambda>ip. res_bind (json_str ip) (\<lambda>s. Inr (Some s)))
       else find_own_ip own_id nodes)"

definition get_own_ip_from_config :: "json option \<Rightarrow> string option res" where
  "get_own_ip_from_config config =
     res_bind (schain_nodes config) (\<lambda>nodes.
     res_bind (config_path config [''skaleConfig'', ''nodeInfo'', ''nodeID'']) (\<lambda>own_id.
     find_own_ip own_id nodes))"

definition node_info_int :: "json option \<Rightarrow> string \<Rightarrow> int res" where
  "node_info_int config k =
     res_bind (config_path config [''skaleConfig'', ''nodeInfo'', k]) json_int"

definition get_schain_ports_from_config :: "json option \<Rightarrow> (string \<times> int) list res" where
  "get_schain_ports_from_config config =
     (if config = None then Inr []
      else res_map (\<lambda>(name, key). res_bind (node_info_int config key) (\<lambda>p. Inr (name, p)))
             [(''http'', ''httpRpcPort''), (''ws'', ''wsRpcPort''), (''https'', ''httpsRpcPort''),
              (''wss'', ''wssRpcPort''), (''info_http'', ''infoHttpRpcPort'')])"

definition get_schain_env :: "bool \<Rightarrow> (string \<times> string) list" where
  "get_schain_env ulimit_check =
     (''SEGFAULT_SIGNALS'', ''all'') # (if ulimit_check then [] else [(''NO_ULIMIT_CHECK'', ''1'')])"

definition get_schain_rpc_ports_from_config :: "json option \<Rightarrow> (int \<times> int) res" where
  "get_schain_rpc_ports_from_config config =
     res_bind (node_info_int config ''httpRpcPort'') (\<lambda>h.
     res_bind (node_info_int config ''wsRpcPort'') (\<lambda>w. Inr (h, w)))"

definition get_local_schain_http_endpoint_from_config :: "json option \<Rightarrow> string res" where
  "get_local_schain_http_endpoint_from_config config =
     res_bind (get_schain_rpc_ports_from_config config) (\<lambda>(http_port, _).
     Inr (''http://127.0.0.1:'' @ str_of_int http_port))"

definition get_schain_ssl_rpc_ports_from_config :: "json option \<Rightarrow> (int \<times> int) res" where
  "get_schain_ssl_rpc_ports_from_config config =
     res_bind (node_info_int config ''httpsRpcPort'') (\<lambda>h.
     res_bind (node_info_int config ''wssRpcPort'') (\<lambda>w. Inr (h, w)))"

text \<open>Four coordinates separated by colons; more are ignored, fewer an IndexError.\<close>

definition parse_public_key_info :: "string \<Rightarrow> json res" where
  "parse_public_key_info bls_public_key =
     (case split_on CHR '':'' bls_public_key of
        a # b # c # d # _ \<Rightarrow>
          Inr (JObj [(''blsPublicKey0'', JStr a), (''blsPublicKey1'', JStr b),
                     (''blsPublicKey2'', JStr c), (''blsPublicKey3'', JStr d)])
      | _ \<Rightarrow> Inl IndexError)"

lemma parse_public_key_info_join:
  assumes "CHR '':'' \<notin> set a \<union> set b \<union> set c \<union> set d"
  shows "parse_public_key_info (join '':'' [a, b, c, d]) =
    Inr (JObj [(''blsPublicKey0'', JStr a), (''blsPublicKey1'', JStr b),
               (''blsPublicKey2'', JStr c), (''blsPublicKey3'', JStr d)])"
proof -
  have "split_on CHR '':'' (join [CHR '':''] [a, b, c, d]) = [a, b, c, d]"
    by (rule split_join) (use assms in auto)
  then show ?thesis by (simp add: parse_public_key_info_def)
qed

section \<open>core/schains/config/main.py\<close>

definition update_schain_config_version ::
  "('d, 'f) env \<Rightarrow> schain_record \<Rightarrow> ('d, 'f, schain_record) wact" where
  "update_schain_config_version e rec = on_record (set_config_version (node_version e)) rec"

definition schain_config_version_match :: "('d, 'f) env \<Rightarrow> schain_record \<Rightarrow> bool" where
  "schain_config_version_match e rec = (config_version rec = node_version e)"

definition get_node_groups_from_config :: "json option \<Rightarrow> json res" where
  "get_node_groups_from_config config =
     config_path config [''skaleConfig'', ''sChain'', ''nodeGroups'']"

definition node_group_ids :: "json \<Rightarrow> int list res" where
  "node_group_ids groups = res_bind (json_keys groups) (res_map int_of_str)"

definition get_rotation_ids_from_config :: "json option \<Rightarrow> int list res" where
  "get_rotation_ids_from_config config =
     (if config = None \<or> \<not> truthy (the config) then Inr []
      else res_bind (get_node_groups_from_config config) (\<lambda>g.
           res_bind (node_group_ids g) (\<lambda>ids. Inr (sort ids))))"

definition get_upstream_config_rotation_ids ::
  "('d, 'f) env \<Rightarrow> string \<Rightarrow> ('d, 'f) world \<Rightarrow> int list res" where
  "get_upstream_config_rotation_ids e n w =
     res_bind (latest_upstream_config e n w) get_rotation_ids_from_config"

definition get_skaled_config_rotations_ids ::
  "('d, 'f) env \<Rightarrow> string \<Rightarrow> ('d, 'f) world \<Rightarrow> int list res" where
  "get_skaled_config_rotations_ids e n w =
     res_bind (skaled_config e n w) get_rotation_ids_from_config"

text \<open>The finish time of the newest group that has one.\<close>

fun first_finish_ts :: "json \<Rightarrow> int list \<Rightarrow> int option res" where
  "first_finish_ts groups [] = Inr None"
| "first_finish_ts groups (rid # rids) =
     res_bind (json_path groups [str_of_int rid, ''finish_ts'']) (\<lambda>v.
     res_bind (json_opt_int v) (\<lambda>ts.
       case ts of Some t \<Rightarrow> Inr (Some t) | None \<Rightarrow> first_finish_ts groups rids))"

definition get_latest_finish_ts :: "json option \<Rightarrow> int option res" where
  "get_latest_finish_ts config =
     res_bind (get_node_groups_from_config config) (\<lambda>groups.
     res_bind (node_group_ids groups) (\<lambda>ids. first_finish_ts groups (rev (sort ids))))"

definition get_finish_ts_from_latest_upstream ::
  "('d, 'f) env \<Rightarrow> string \<Rightarrow> ('d, 'f) world \<Rightarrow> int option res" where
  "get_finish_ts_from_latest_upstream e n w =
     res_bind (latest_upstream_config e n w) (\<lambda>config.
       if config = None \<or> \<not> truthy (the config) then Inr None else get_latest_finish_ts config)"

definition get_finish_ts_from_skaled_config ::
  "('d, 'f) env \<Rightarrow> string \<Rightarrow> ('d, 'f) world \<Rightarrow> int option res" where
  "get_finish_ts_from_skaled_config e n w = res_bind (skaled_config e n w) get_latest_finish_ts"

definition get_number_of_secret_shares ::
  "('d, 'f) env \<Rightarrow> string \<Rightarrow> ('d, 'f) world \<Rightarrow> nat" where
  "get_number_of_secret_shares e n w =
     length (get_files_with_prefix w (schain_config_dir e n) ''secret_key_'')"

text \<open>\<^verbatim>\<open>SCHAIN_CONFIG_DIR_SKALED\<close> is the mount point inside the container.\<close>

definition SCHAIN_CONFIG_DIR_SKALED :: string where
  "SCHAIN_CONFIG_DIR_SKALED = ''/schain_config''"

definition get_skaled_container_config_path :: "string \<Rightarrow> string" where
  "get_skaled_container_config_path n = path_join SCHAIN_CONFIG_DIR_SKALED (skaled_filename n)"

section \<open>The latest finish time\<close>

text \<open>A group's finish time as the configuration gives it.\<close>

definition group_finish_ts :: "json \<Rightarrow> int \<Rightarrow> int option res" where
  "group_finish_ts groups rid =
     res_bind (json_path groups [str_of_int rid, ''finish_ts'']) json_opt_int"

lemma first_finish_ts_step:
  "first_finish_ts groups (rid # rids) =
     res_bind (group_finish_ts groups rid) (\<lambda>ts.
       case ts of Some t \<Rightarrow> Inr (Some t) | None \<Rightarrow> first_finish_ts groups rids)"
  by (auto simp: group_finish_ts_def res_bind_def split: sum.splits)

lemma first_finish_ts_None:
  "first_finish_ts groups rids = Inr None \<longleftrightarrow> (\<forall>r \<in> set rids. group_finish_ts groups r = Inr None)"
  by (induction rids)
    (auto simp: first_finish_ts_step res_bind_Inr_iff simp del: first_finish_ts.simps(2)
      split: option.splits)

lemma first_finish_ts_Some:
  assumes "sorted (rev rids)" and "first_finish_ts groups rids = Inr (Some t)"
  shows "\<exists>r \<in> set rids. group_finish_ts groups r = Inr (Some t) \<and>
           (\<forall>r' \<in> set rids. r < r' \<longrightarrow> group_finish_ts groups r' = Inr None)"
  using assms
proof (induction rids)
  case Nil
  then show ?case by simp
next
  case (Cons rid rids)
  have le: "\<forall>r \<in> set rids. r \<le> rid" and srt: "sorted (rev rids)"
    using Cons.prems(1) by (auto simp: sorted_append)
  from Cons.prems(2) obtain ts where ts: "group_finish_ts groups rid = Inr ts"
    and rest: "(case ts of Some t \<Rightarrow> Inr (Some t) | None \<Rightarrow> first_finish_ts groups rids) = Inr (Some t)"
    by (auto simp: first_finish_ts_step res_bind_Inr_iff simp del: first_finish_ts.simps(2))
  show ?case
  proof (cases ts)
    case None
    with rest Cons.IH [OF srt] ts show ?thesis by auto
  next
    case (Some t')
    with rest ts le show ?thesis by auto
  qed
qed

text \<open>\<open>get_latest_finish_ts\<close> is the finish time of the greatest rotation id that has one.\<close>

lemma get_latest_finish_ts_Some:
  assumes "get_latest_finish_ts config = Inr (Some t)"
  obtains groups ids r where "get_node_groups_from_config config = Inr groups"
    and "node_group_ids groups = Inr ids" and "r \<in> set ids"
    and "group_finish_ts groups r = Inr (Some t)"
    and "\<forall>r' \<in> set ids. r < r' \<longrightarrow> group_finish_ts groups r' = Inr None"
proof -
  from assms obtain groups ids where g: "get_node_groups_from_config config = Inr groups"
    and ids: "node_group_ids groups = Inr ids"
    and f: "first_finish_ts groups (rev (sort ids)) = Inr (Some t)"
    by (auto simp: get_latest_finish_ts_def res_bind_Inr_iff)
  from first_finish_ts_Some [OF _ f] obtain r where "r \<in> set ids"
    "group_finish_ts groups r = Inr (Some t)"
    "\<forall>r' \<in> set ids. r < r' \<longrightarrow> group_finish_ts groups r' = Inr None"
    by auto
  with that g ids show thesis by blast
qed

lemma get_latest_finish_ts_None:
  assumes "get_latest_finish_ts config = Inr None"
    and "get_node_groups_from_config config = Inr groups"
    and "node_group_ids groups = Inr ids" and "r \<in> set ids"
  shows "group_finish_ts groups r = Inr None"
  using assms by (simp add: get_latest_finish_ts_def first_finish_ts_None)

lemma get_rotation_ids_sorted:
  "get_rotation_ids_from_config config = Inr ids \<Longrightarrow> sorted ids"
  by (auto simp: get_rotation_ids_from_config_def res_bind_Inr_iff split: if_splits)

end
