(* ===== verification/Ipv4.thy ===== *)
theory Ipv4
  imports Json Py_Strings
begin

text \<open>
  What the firewall uses of Python's \<^verbatim>\<open>ipaddress\<close>: \<^verbatim>\<open>ip_network(s)\<close> for IPv4 (an address, or
  an address with a prefix length; strict, so a network with host bits set is a ValueError),
  its text, and the first element of \<^verbatim>\<open>hosts()\<close>, which is a list for a prefix of 31 or 32
  bits and a generator, that cannot be indexed, for a shorter one. The main lemma is that
  parsing and printing an address gives the same text back, so addresses can be compared as
  strings.
\<close>

definition parse_octet :: "string \<Rightarrow> nat res" where
  "parse_octet s =
     (if s \<noteq> [] \<and> length s \<le> 3 \<and> list_all is_digit s \<and> (length s = 1 \<or> hd s \<noteq> CHR ''0'')
         \<and> nat_of_digits s \<le> 255
      then Inr (nat_of_digits s) else Inl (ValueError s))"

definition parse_ipv4 :: "string \<Rightarrow> nat list res" where
  "parse_ipv4 s =
     (let ps = split_on CHR ''.'' s
      in if length ps = 4 then res_map parse_octet ps else Inl (ValueError s))"

definition print_ipv4 :: "nat list \<Rightarrow> string" where
  "print_ipv4 os = join ''.'' (map str_of_nat os)"

definition is_ipv4 :: "string \<Rightarrow> bool" where
  "is_ipv4 s = (\<not> isl (parse_ipv4 s))"

definition ipv4_value :: "nat list \<Rightarrow> nat" where
  "ipv4_value os = foldl (\<lambda>a b. 256 * a + b) 0 os"

definition parse_prefixlen :: "string \<Rightarrow> nat res" where
  "parse_prefixlen s =
     (if s \<noteq> [] \<and> list_all is_digit s \<and> nat_of_digits s \<le> 32
      then Inr (nat_of_digits s) else Inl (ValueError s))"

definition ip_network :: "string \<Rightarrow> (nat list \<times> nat) res" where
  "ip_network s =
     (case split_on CHR ''/'' s of
        [a] \<Rightarrow> res_bind (parse_ipv4 a) (\<lambda>os. Inr (os, 32))
      | [a, l] \<Rightarrow>
          res_bind (parse_ipv4 a) (\<lambda>os.
          res_bind (parse_prefixlen l) (\<lambda>n.
            if ipv4_value os mod 2 ^ (32 - n) = 0 then Inr (os, n) else Inl (ValueError s)))
      | _ \<Rightarrow> Inl (ValueError s))"

definition str_network :: "nat list \<times> nat \<Rightarrow> string" where
  "str_network p = print_ipv4 (fst p) @ ''/'' @ str_of_nat (snd p)"

definition first_host :: "nat list \<times> nat \<Rightarrow> string res" where
  "first_host p =
     (if 31 \<le> snd p then Inr (print_ipv4 (fst p)) else Inl (TypeError ''not subscriptable''))"

section \<open>Printing what was parsed\<close>

lemma digit_char_val: "is_digit c \<Longrightarrow> digit_char (digit_val c) = c"
  by (simp add: is_digit_def digit_char_def digit_val_def)

lemma digit_val_less: "is_digit c \<Longrightarrow> digit_val c < 10"
  unfolding is_digit_def digit_val_def by linarith

lemma digit_val_zero: "is_digit c \<Longrightarrow> digit_val c = 0 \<longleftrightarrow> c = CHR ''0''"
proof
  assume "is_digit c" and "digit_val c = 0"
  then have "c = digit_char 0" by (metis digit_char_val)
  then show "c = CHR ''0''" by (simp add: digit_char_eval)
qed (simp add: digit_val_def)

lemma nat_of_digits_pos:
  "s \<noteq> [] \<Longrightarrow> list_all is_digit s \<Longrightarrow> hd s \<noteq> CHR ''0'' \<Longrightarrow> 0 < nat_of_digits s"
proof (induction s rule: rev_induct)
  case (snoc c s)
  then show ?case
    by (cases "s = []") (auto simp: nat_of_digits_snoc nat_of_digits_def digit_val_zero
        intro!: gr0I)
qed simp

lemma str_of_nat_of_digits:
  assumes "s \<noteq> []" and "list_all is_digit s" and "length s = 1 \<or> hd s \<noteq> CHR ''0''"
  shows "str_of_nat (nat_of_digits s) = s"
  using assms
proof (induction s rule: rev_induct)
  case (snoc c s)
  from snoc.prems have c: "is_digit c" by simp
  show ?case
  proof (cases "s = []")
    case True
    with c show ?thesis
      by (subst str_of_nat.simps) (simp add: nat_of_digits_def digit_val_less digit_char_val)
  next
    case False
    with snoc.prems have "hd s \<noteq> CHR ''0''" and "list_all is_digit s" by auto
    with snoc.IH False have "str_of_nat (nat_of_digits s) = s" and "0 < nat_of_digits s"
      by (auto intro: nat_of_digits_pos)
    with c show ?thesis
      by (subst str_of_nat.simps) (simp add: nat_of_digits_snoc digit_val_less digit_char_val)
  qed
qed simp

lemma parse_octet_print: "parse_octet s = Inr n \<Longrightarrow> str_of_nat n = s"
  by (auto simp: parse_octet_def str_of_nat_of_digits split: if_splits)

lemma parse_octets_print: "res_map parse_octet ps = Inr ns \<Longrightarrow> map str_of_nat ns = ps"
  by (induction ps arbitrary: ns) (auto simp: res_bind_Inr_iff parse_octet_print)

lemma parse_ipv4_print: "parse_ipv4 s = Inr os \<Longrightarrow> print_ipv4 os = s"
  by (auto simp: parse_ipv4_def print_ipv4_def Let_def parse_octets_print join_split
      split: if_splits)

lemma parse_octet_chars:
  "\<not> is_digit c \<Longrightarrow> parse_octet s = Inr n \<Longrightarrow> c \<notin> set s"
  by (auto simp: parse_octet_def list_all_iff split: if_splits)

lemma set_join: "set (join sep xs) \<subseteq> set sep \<union> (\<Union>x \<in> set xs. set x)"
  by (induction sep xs rule: join.induct) auto

lemma is_ipv4_chars:
  assumes "is_ipv4 s" and "\<not> is_digit c" and "c \<noteq> CHR ''.''"
  shows "c \<notin> set s"
proof -
  from assms(1) obtain os where "parse_ipv4 s = Inr os"
    by (cases "parse_ipv4 s") (auto simp: is_ipv4_def)
  then have "res_map parse_octet (split_on CHR ''.'' s) = Inr os"
    by (auto simp: parse_ipv4_def Let_def split: if_splits)
  then have "\<forall>p \<in> set (split_on CHR ''.'' s). \<exists>n. parse_octet p = Inr n"
    using res_map_success by metis
  then have "\<forall>p \<in> set (split_on CHR ''.'' s). c \<notin> set p"
    using parse_octet_chars [OF assms(2)] by metis
  with set_join [of "''.''" "split_on CHR ''.'' s"] assms(3) show ?thesis
    by (auto simp: join_split)
qed

lemma is_ipv4_nonempty: "is_ipv4 s \<Longrightarrow> s \<noteq> []"
  by (auto simp: is_ipv4_def parse_ipv4_def Let_def)

lemma is_digit_slash [simp]: "\<not> is_digit CHR ''/''"
  by (simp add: is_digit_def)

text \<open>An address becomes its one-host network and comes back.\<close>

lemma ip_network_address:
  assumes "is_ipv4 s"
  shows "\<exists>os. ip_network s = Inr (os, 32) \<and> str_network (os, 32) = s @ ''/32'' \<and>
           ip_network (s @ ''/32'') = Inr (os, 32) \<and> first_host (os, 32) = Inr s"
proof -
  from assms obtain os where os: "parse_ipv4 s = Inr os"
    by (cases "parse_ipv4 s") (auto simp: is_ipv4_def)
  have slash: "CHR ''/'' \<notin> set s" using is_ipv4_chars [OF assms] by simp
  have "str_of_nat 32 = ''32''"
    by (simp add: str_of_nat.simps digit_char_eval)
  moreover have "parse_prefixlen ''32'' = Inr 32"
    by (simp add: parse_prefixlen_def is_digit_def nat_of_digits_def digit_val_def)
  moreover have "split_on CHR ''/'' (s @ ''/32'') = [s, ''32'']"
    using split_on_append [OF slash, of "''32''"] by simp
  ultimately show ?thesis
    using os parse_ipv4_print [OF os] split_on_no_sep [OF slash]
    by (auto simp: ip_network_def str_network_def first_host_def)
qed

end
