(* ===== verification/Firewall_Types.thy ===== *)
theory Firewall_Types
  imports World Ipv4 "HOL-Library.Option_ord"
begin

text \<open>
  \<^verbatim>\<open>core/schains/firewall/types.py\<close>: the rule \<^verbatim>\<open>SChainRule\<close> (a TCP port opened for everyone,
  for one address or for a range of addresses), its comparison, and the range \<^verbatim>\<open>IpRange\<close>.
  The comparison agrees with the linear order declared here on every rule without an empty
  string for an address (\<open>rule_wf\<close>), so that sorting rules is sorting in that order.
\<close>

section \<open>SChainRule\<close>

datatype schain_rule = Rule (r_port: int) (r_first_ip: "string option") (r_last_ip: "string option")

definition int_truthy :: "int option \<Rightarrow> bool" where
  "int_truthy v = (case v of None \<Rightarrow> False | Some i \<Rightarrow> i \<noteq> 0)"

definition str_truthy :: "string option \<Rightarrow> bool" where
  "str_truthy s = (case s of None \<Rightarrow> False | Some t \<Rightarrow> t \<noteq> [])"

text \<open>\<^verbatim>\<open>SChainRule.__new__\<close>: a rule for one address has it as both ends.\<close>

definition SChainRule :: "int \<Rightarrow> string option \<Rightarrow> string option \<Rightarrow> schain_rule" where
  "SChainRule port fip lip =
     Rule port fip (if str_truthy fip \<and> \<not> str_truthy lip then fip else lip)"

text \<open>\<^verbatim>\<open>__eq__\<close>\<close>

definition rule_eq :: "schain_rule \<Rightarrow> schain_rule \<Rightarrow> bool" where
  "rule_eq a b =
     (r_port a = r_port b \<and> r_first_ip a = r_first_ip b \<and> r_last_ip a = r_last_ip b)"

definition ip_or_empty :: "string option \<Rightarrow> string" where
  "ip_or_empty s = (case s of None \<Rightarrow> [] | Some t \<Rightarrow> t)"

text \<open>\<^verbatim>\<open>__lt__\<close>; a rule is "less" than itself.\<close>

definition rule_lt :: "schain_rule \<Rightarrow> schain_rule \<Rightarrow> bool" where
  "rule_lt a b =
     (if r_port a \<noteq> r_port b then r_port a < r_port b
      else if r_first_ip a \<noteq> r_first_ip b then ip_or_empty (r_first_ip a) < ip_or_empty (r_first_ip b)
      else if r_last_ip a \<noteq> r_last_ip b then ip_or_empty (r_last_ip a) < ip_or_empty (r_last_ip b)
      else True)"

lemma rule_eq_eq [simp]: "rule_eq a b \<longleftrightarrow> a = b"
  by (cases a; cases b) (simp add: rule_eq_def)

instantiation schain_rule :: linorder
begin

definition less_schain_rule :: "schain_rule \<Rightarrow> schain_rule \<Rightarrow> bool" where
  "less_schain_rule a b =
     (if r_port a \<noteq> r_port b then r_port a < r_port b
      else if r_first_ip a \<noteq> r_first_ip b then r_first_ip a < r_first_ip b
      else r_last_ip a < r_last_ip b)"

definition less_eq_schain_rule :: "schain_rule \<Rightarrow> schain_rule \<Rightarrow> bool" where
  "less_eq_schain_rule a b = (a < b \<or> a = b)"

instance
proof
  fix a b c :: schain_rule
  show "(a < b) = (a \<le> b \<and> \<not> b \<le> a)"
    by (auto simp: less_schain_rule_def less_eq_schain_rule_def split: if_splits)
  show "a \<le> a" by (simp add: less_eq_schain_rule_def)
  show "a \<le> b \<Longrightarrow> b \<le> c \<Longrightarrow> a \<le> c"
    by (auto simp: less_schain_rule_def less_eq_schain_rule_def split: if_splits)
  show "a \<le> b \<Longrightarrow> b \<le> a \<Longrightarrow> a = b"
    by (auto simp: less_schain_rule_def less_eq_schain_rule_def split: if_splits)
  show "a \<le> b \<or> b \<le> a"
    by (auto simp: less_schain_rule_def less_eq_schain_rule_def intro: schain_rule.expand)
qed

end

definition rule_wf :: "schain_rule \<Rightarrow> bool" where
  "rule_wf r = (r_first_ip r \<noteq> Some [] \<and> r_last_ip r \<noteq> Some [])"

lemma ip_or_empty_less:
  "a \<noteq> Some [] \<Longrightarrow> b \<noteq> Some [] \<Longrightarrow> a \<noteq> b \<Longrightarrow> ip_or_empty a < ip_or_empty b \<longleftrightarrow> a < b"
  by (cases a; cases b) (auto simp: ip_or_empty_def neq_Nil_conv)

lemma rule_lt_less:
  "rule_wf a \<Longrightarrow> rule_wf b \<Longrightarrow> a \<noteq> b \<Longrightarrow> rule_lt a b \<longleftrightarrow> a < b"
  by (cases a; cases b)
    (auto simp: rule_wf_def rule_lt_def less_schain_rule_def ip_or_empty_less)

lemma sorted_rules:
  assumes "\<And>r. r \<in> set rs \<Longrightarrow> rule_wf r"
  shows "py_sorted rule_lt rs = sort rs"
proof (rule py_sorted_sort')
  fix x y assume "x \<in> set rs" and "y \<in> set rs"
  with assms rule_lt_less [of y x] show "if rule_lt y x then y \<le> x else x \<le> y"
    by (cases "x = y") auto
qed

section \<open>IpRange\<close>

datatype ip_range = IpRange (start_ip: string) (end_ip: string)

text \<open>A named tuple compares as a tuple.\<close>

definition range_lt :: "ip_range \<Rightarrow> ip_range \<Rightarrow> bool" where
  "range_lt a b =
     (if start_ip a \<noteq> start_ip b then start_ip a < start_ip b else end_ip a < end_ip b)"

instantiation ip_range :: linorder
begin

definition less_ip_range :: "ip_range \<Rightarrow> ip_range \<Rightarrow> bool" where
  "less_ip_range a b = range_lt a b"

definition less_eq_ip_range :: "ip_range \<Rightarrow> ip_range \<Rightarrow> bool" where
  "less_eq_ip_range a b = (range_lt a b \<or> a = b)"

instance
proof
  fix a b c :: ip_range
  show "(a < b) = (a \<le> b \<and> \<not> b \<le> a)"
    by (auto simp: less_ip_range_def less_eq_ip_range_def range_lt_def split: if_splits)
  show "a \<le> a" by (simp add: less_eq_ip_range_def)
  show "a \<le> b \<Longrightarrow> b \<le> c \<Longrightarrow> a \<le> c"
    by (auto simp: less_eq_ip_range_def range_lt_def split: if_splits)
  show "a \<le> b \<Longrightarrow> b \<le> a \<Longrightarrow> a = b"
    by (auto simp: less_eq_ip_range_def range_lt_def split: if_splits)
  show "a \<le> b \<or> b \<le> a"
    by (auto simp: less_eq_ip_range_def range_lt_def intro: ip_range.expand)
qed

end

lemma py_sorted_ranges: "py_sorted range_lt rs = sort rs"
  by (rule py_sorted_sort) (simp add: less_ip_range_def)

end
