(* ===== verification/Status_Files.thy ===== *)
theory Status_Files
  imports Config_Reader Firewall_Types
begin

text \<open>
  The small files of a chain's directory: skaled's status file and the node client's status
  file (\<^verbatim>\<open>core/schains/status.py\<close>, with \<^verbatim>\<open>tools/config_utils.py\<close>), the external state
  (\<^verbatim>\<open>core/schains/external_config.py\<close>), the exit schedule
  (\<^verbatim>\<open>core/schains/exit_scheduler.py\<close>). A Python None is \<open>JNull\<close>.
\<close>

section \<open>Status files\<close>

text \<open>\<^verbatim>\<open>config_getter\<close>: None without the file or with a broken one.\<close>

definition config_getter :: "string \<Rightarrow> path \<Rightarrow> ('d, 'f) world \<Rightarrow> json res" where
  "config_getter field p w =
     (if \<not> isfile (files w) p then Inr JNull
      else case read_json (files w) p of
          Inl (JSONDecodeError _) \<Rightarrow> Inr JNull
        | Inl x \<Rightarrow> Inl x
        | Inr config \<Rightarrow> json_get config field JNull)"

text \<open>\<^verbatim>\<open>config_setter\<close> (the lock makes it one step).\<close>

definition config_setter :: "string \<Rightarrow> json \<Rightarrow> path \<Rightarrow> ('d, 'f, unit) wact" where
  "config_setter field v p =
     act_bind (act_res (\<lambda>w. read_json (files w) p)) (\<lambda>config.
     act_bind (act_res (\<lambda>_. json_set config field v)) (\<lambda>config'.
     modify_files (write_json p config')))"

text \<open>\<^verbatim>\<open>IStatus.all\<close>\<close>

definition status_all :: "path \<Rightarrow> ('d, 'f) world \<Rightarrow> json res" where
  "status_all p w =
     (if \<not> isfile (files w) p then Inr JNull
      else case read_json (files w) p of
          Inl (JSONDecodeError _) \<Rightarrow> Inr (JObj [])
        | r \<Rightarrow> r)"

definition subsystem_running :: "path \<Rightarrow> ('d, 'f) world \<Rightarrow> json res" where
  "subsystem_running = config_getter ''subsystemRunning''"

definition exit_state :: "path \<Rightarrow> ('d, 'f) world \<Rightarrow> json res" where
  "exit_state = config_getter ''exitState''"

text \<open>A second-level field: None without the first level.\<close>

definition sub_field :: "json res \<Rightarrow> string \<Rightarrow> json res" where
  "sub_field parent k = res_bind parent (\<lambda>j. if truthy j then json_item j k else Inr JNull)"

definition downloading_snapshot :: "path \<Rightarrow> ('d, 'f) world \<Rightarrow> json res" where
  "downloading_snapshot p w = sub_field (subsystem_running p w) ''SnapshotDownloader''"

definition exit_time_reached :: "path \<Rightarrow> ('d, 'f) world \<Rightarrow> json res" where
  "exit_time_reached p w = sub_field (exit_state p w) ''ExitTimeReached''"

definition clear_data_dir :: "path \<Rightarrow> ('d, 'f) world \<Rightarrow> json res" where
  "clear_data_dir p w = sub_field (exit_state p w) ''ClearDataDir''"

definition start_again :: "path \<Rightarrow> ('d, 'f) world \<Rightarrow> json res" where
  "start_again p w = sub_field (exit_state p w) ''StartAgain''"

definition start_from_snapshot :: "path \<Rightarrow> ('d, 'f) world \<Rightarrow> json res" where
  "start_from_snapshot p w = sub_field (exit_state p w) ''StartFromSnapshot''"

definition ncli_repair_ts :: "path \<Rightarrow> ('d, 'f) world \<Rightarrow> json res" where
  "ncli_repair_ts = config_getter ''repair_ts''"

definition ncli_snapshot_from :: "path \<Rightarrow> ('d, 'f) world \<Rightarrow> json res" where
  "ncli_snapshot_from = config_getter ''snapshot_from''"

definition init_skaled_status :: "('d, 'f) env \<Rightarrow> string \<Rightarrow> path" where
  "init_skaled_status e n = skaled_status_filepath e n"

definition get_skaled_status :: "('d, 'f) env \<Rightarrow> string \<Rightarrow> ('d, 'f) world \<Rightarrow> path option" where
  "get_skaled_status e n w =
     (let p = skaled_status_filepath e n in if isfile (files w) p then Some p else None)"

definition init_node_cli_status :: "('d, 'f) env \<Rightarrow> string \<Rightarrow> path" where
  "init_node_cli_status e n = node_cli_status_filepath e n"

definition get_node_cli_status :: "('d, 'f) env \<Rightarrow> string \<Rightarrow> ('d, 'f) world \<Rightarrow> path option" where
  "get_node_cli_status e n w =
     (let p = node_cli_status_filepath e n in if isfile (files w) p then Some p else None)"

text \<open>Without the file, or with a broken one, every field reads as None: nothing is
  reported as running, reached or requested.\<close>

lemma status_unreadable:
  assumes "tab_get (files w) p = None \<or> tab_get (files w) p = Some (Text s)"
  shows "downloading_snapshot p w = Inr JNull" and "exit_time_reached p w = Inr JNull"
    and "clear_data_dir p w = Inr JNull" and "start_again p w = Inr JNull"
    and "start_from_snapshot p w = Inr JNull"
    and "ncli_repair_ts p w = Inr JNull" and "ncli_snapshot_from p w = Inr JNull"
  using assms
  by (auto simp: downloading_snapshot_def exit_time_reached_def clear_data_dir_def start_again_def
      start_from_snapshot_def ncli_repair_ts_def ncli_snapshot_from_def subsystem_running_def
      exit_state_def sub_field_def config_getter_def isfile_def read_json_def)

section \<open>External state\<close>

record external_state =
  es_chain_id :: json
  es_ranges :: "ip_range list"
  es_ima_linked :: json
  es_reload_ts :: json

definition external_to_dict :: "external_state \<Rightarrow> json" where
  "external_to_dict s =
     JObj [(''chain_id'', es_chain_id s), (''ima_linked'', es_ima_linked s),
           (''ranges'', JList (map (\<lambda>r. JList [JStr (start_ip r), JStr (end_ip r)]) (es_ranges s))),
           (''reload_ts'', es_reload_ts s)]"

definition external_path :: "('d, 'f) env \<Rightarrow> string \<Rightarrow> path" where
  "external_path e n = (schain_config_dir e n, ''external.json'')"

definition external_read :: "('d, 'f) env \<Rightarrow> string \<Rightarrow> ('d, 'f) world \<Rightarrow> json res" where
  "external_read e n w =
     (if isfile (files w) (external_path e n) then read_json (files w) (external_path e n)
      else Inr (JObj []))"

definition external_field ::
  "('d, 'f) env \<Rightarrow> string \<Rightarrow> string \<Rightarrow> json \<Rightarrow> ('d, 'f) world \<Rightarrow> json res" where
  "external_field e n k d w = res_bind (external_read e n w) (\<lambda>j. json_get j k d)"

definition ext_ima_linked :: "('d, 'f) env \<Rightarrow> string \<Rightarrow> ('d, 'f) world \<Rightarrow> json res" where
  "ext_ima_linked e n = external_field e n ''ima_linked'' (JBool True)"

definition ext_chain_id :: "('d, 'f) env \<Rightarrow> string \<Rightarrow> ('d, 'f) world \<Rightarrow> json res" where
  "ext_chain_id e n = external_field e n ''chain_id'' JNull"

definition ext_reload_ts :: "('d, 'f) env \<Rightarrow> string \<Rightarrow> ('d, 'f) world \<Rightarrow> json res" where
  "ext_reload_ts e n = external_field e n ''reload_ts'' JNull"

text \<open>\<^verbatim>\<open>IpRange(*r)\<close>\<close>

definition plain_range :: "json \<Rightarrow> ip_range res" where
  "plain_range r =
     res_bind (json_elems r) (\<lambda>xs.
       case xs of
         [a, b] \<Rightarrow> res_bind (json_str a) (\<lambda>s. res_bind (json_str b) (\<lambda>t. Inr (IpRange s t)))
       | _ \<Rightarrow> Inl (TypeError ''IpRange''))"

definition plain_ranges :: "json \<Rightarrow> ip_range list res" where
  "plain_ranges j =
     res_bind (json_elems j) (\<lambda>xs.
     res_bind (res_map plain_range xs) (\<lambda>rs. Inr (py_sorted range_lt rs)))"

definition ext_ranges :: "('d, 'f) env \<Rightarrow> string \<Rightarrow> ('d, 'f) world \<Rightarrow> ip_range list res" where
  "ext_ranges e n w = res_bind (external_field e n ''ranges'' (JList []) w) plain_ranges"

definition external_get ::
  "('d, 'f) env \<Rightarrow> string \<Rightarrow> ('d, 'f) world \<Rightarrow> external_state option res" where
  "external_get e n w =
     res_bind (external_read e n w) (\<lambda>plain.
       if \<not> truthy plain then Inr None
       else res_bind (json_item plain ''chain_id'') (\<lambda>c.
            res_bind (json_item plain ''ima_linked'') (\<lambda>l.
            res_bind (json_item plain ''ranges'') (\<lambda>r.
            res_bind (plain_ranges r) (\<lambda>rs.
            res_bind (json_get plain ''reload_ts'' JNull) (\<lambda>t.
            Inr (Some \<lparr>es_chain_id = c, es_ranges = rs, es_ima_linked = l, es_reload_ts = t\<rparr>)))))))"

definition external_update ::
  "('d, 'f) env \<Rightarrow> string \<Rightarrow> external_state \<Rightarrow> ('d, 'f, unit) wact" where
  "external_update e n s = modify_files (write_json (external_path e n) (external_to_dict s))"

definition external_eq :: "external_state \<Rightarrow> external_state \<Rightarrow> bool" where
  "external_eq a b =
     (json_eq (es_chain_id a) (es_chain_id b) \<and> es_ranges a = es_ranges b \<and>
      json_eq (es_ima_linked a) (es_ima_linked b) \<and> json_eq (es_reload_ts a) (es_reload_ts b))"

definition external_synced ::
  "('d, 'f) env \<Rightarrow> string \<Rightarrow> external_state \<Rightarrow> ('d, 'f) world \<Rightarrow> bool res" where
  "external_synced e n s w =
     res_bind (external_get e n w) (\<lambda>c.
       Inr (case c of None \<Rightarrow> False | Some t \<Rightarrow> external_eq t s))"

lemma plain_range_to_dict [simp]: "plain_range (JList [JStr a, JStr b]) = Inr (IpRange a b)"
  by (simp add: plain_range_def)

lemma plain_ranges_to_dict [simp]:
  "plain_ranges (JList (map (\<lambda>r. JList [JStr (start_ip r), JStr (end_ip r)]) rs)) = Inr (sort rs)"
proof -
  have "res_map plain_range (map (\<lambda>r. JList [JStr (start_ip r), JStr (end_ip r)]) rs) = Inr rs"
    by (induction rs) simp_all
  then show ?thesis by (simp add: plain_ranges_def py_sorted_ranges)
qed

text \<open>Reading back what was written: the same state with its ranges sorted.\<close>

lemma external_get_update:
  assumes "external_update e n s w = (r, w')"
  shows "external_get e n w' = Inr (Some (s\<lparr>es_ranges := sort (es_ranges s)\<rparr>))"
    and "ext_ima_linked e n w' = Inr (es_ima_linked s)"
    and "ext_chain_id e n w' = Inr (es_chain_id s)"
    and "ext_reload_ts e n w' = Inr (es_reload_ts s)"
    and "ext_ranges e n w' = Inr (sort (es_ranges s))"
proof -
  have rd: "external_read e n w' = Inr (external_to_dict s)"
    using assms by (auto simp: external_update_def act_simps external_read_def)
  show "external_get e n w' = Inr (Some (s\<lparr>es_ranges := sort (es_ranges s)\<rparr>))"
    using rd by (simp add: external_get_def external_to_dict_def)
  show "ext_ima_linked e n w' = Inr (es_ima_linked s)"
    and "ext_chain_id e n w' = Inr (es_chain_id s)"
    and "ext_reload_ts e n w' = Inr (es_reload_ts s)"
    and "ext_ranges e n w' = Inr (sort (es_ranges s))"
    using rd by (simp_all add: ext_ima_linked_def ext_chain_id_def ext_reload_ts_def
        ext_ranges_def external_field_def external_to_dict_def)
qed

definition external_wf :: "external_state \<Rightarrow> bool" where
  "external_wf s = (json_wf (es_chain_id s) \<and> json_wf (es_ima_linked s) \<and> json_wf (es_reload_ts s))"

lemma sort_eq_iff: "sort xs = xs \<longleftrightarrow> sorted (xs :: 'a::linorder list)"
  by (metis sorted_sort sorted_sort_id)

lemma external_synced_update:
  assumes "external_wf s" and "external_update e n s w = (r, w')"
  shows "external_synced e n s w' = Inr (sorted (es_ranges s))"
  using external_get_update(1) [OF assms(2)] assms(1)
  by (simp add: external_synced_def external_eq_def external_wf_def json_eq_refl sort_eq_iff)

section \<open>Exit schedule\<close>

definition exit_schedule_path :: "('d, 'f) env \<Rightarrow> string \<Rightarrow> path" where
  "exit_schedule_path e n = (path_join (path_join (NODE_DATA_PATH e) ''schains'') n, ''rotation.json'')"

definition exit_schedule_exists :: "('d, 'f) env \<Rightarrow> string \<Rightarrow> ('d, 'f) world \<Rightarrow> bool" where
  "exit_schedule_exists e n w = isfile (files w) (exit_schedule_path e n)"

definition exit_schedule_rm :: "('d, 'f) env \<Rightarrow> string \<Rightarrow> ('d, 'f, unit) wact" where
  "exit_schedule_rm e n = on_files (os_remove (exit_schedule_path e n))"

definition get_exit_ts :: "('d, 'f) env \<Rightarrow> string \<Rightarrow> ('d, 'f) world \<Rightarrow> json res" where
  "get_exit_ts e n w =
     res_bind (read_json (files w) (exit_schedule_path e n)) (\<lambda>j. json_item j ''timestamp'')"

text \<open>Written to a temporary file that is moved over the schedule.\<close>

definition exit_tmp_path :: "('d, 'f) env \<Rightarrow> string \<Rightarrow> path" where
  "exit_tmp_path e n = (fst (exit_schedule_path e n), ''.rotation.json.tmp'')"

definition move_file :: "path \<Rightarrow> path \<Rightarrow> files \<Rightarrow> unit res \<times> files" where
  "move_file src dst fs =
     (case tab_get fs src of
        None \<Rightarrow> (Inl (FileNotFoundError (snd src)), fs)
      | Some c \<Rightarrow> (Inr (), tab_put dst c (tab_del src fs)))"

definition set_exit_ts :: "('d, 'f) env \<Rightarrow> string \<Rightarrow> int \<Rightarrow> ('d, 'f, unit) wact" where
  "set_exit_ts e n ts =
     act_then (modify_files (write_json (exit_tmp_path e n) (JObj [(''timestamp'', JInt ts)])))
       (on_files (move_file (exit_tmp_path e n) (exit_schedule_path e n)))"

lemma exit_tmp_path_neq: "exit_tmp_path e n \<noteq> exit_schedule_path e n"
  by (simp add: exit_tmp_path_def exit_schedule_path_def)

lemma set_exit_ts_spec:
  "\<exists>w'. set_exit_ts e n ts w = (Inr (), w') \<and> exit_schedule_exists e n w' \<and>
     get_exit_ts e n w' = Inr (JInt ts) \<and> \<not> isfile (files w') (exit_tmp_path e n)"
  using exit_tmp_path_neq [of e n]
  by (auto simp: set_exit_ts_def act_simps move_file_def write_json_def alist_simps get_exit_ts_def
      exit_schedule_exists_def isfile_def read_json_def)

end
