(* ===== verification/Runner.thy ===== *)
theory Runner
  imports Docker_Utils Status_Files
begin

text \<open>
  Containers of a chain: names, images, options and commands. \<^verbatim>\<open>core/schains/runner.py\<close>,
  \<^verbatim>\<open>volume.py\<close>, \<^verbatim>\<open>limits.py\<close>, \<^verbatim>\<open>cmd.py\<close>, \<^verbatim>\<open>ssl.py\<close>, \<^verbatim>\<open>rpc.py\<close> and the
  environment of the IMA container from \<^verbatim>\<open>ima.py\<close>. The images, default options and
  resource allocation are JSON settings of the node (\<open>containers_info\<close>,
  \<open>resource_allocation\<close>, \<open>static_params\<close> of the surroundings).
\<close>

section \<open>The chain's structure on the contracts\<close>

record schain_structure =
  sch_name :: string
  part_of_node :: int
  generation :: int
  mainnet_owner :: string
  originator :: string
  allocation_type :: string
  multitransaction_mode :: bool

section \<open>Types and limits\<close>

datatype schain_type = test_type | test4_type | large_type | medium_type | small_type | sync_node_type

definition SchainType :: "int \<Rightarrow> schain_type res" where
  "SchainType v =
     (if v = 0 then Inr test_type else if v = 32 then Inr test4_type
      else if v = 128 then Inr large_type else if v = 16 then Inr medium_type
      else if v = 1 then Inr small_type else if v = 314 then Inr sync_node_type
      else Inl (ValueError ''SchainType''))"

fun schain_type_name :: "schain_type \<Rightarrow> string" where
  "schain_type_name test_type = ''test''"
| "schain_type_name test4_type = ''test4''"
| "schain_type_name large_type = ''large''"
| "schain_type_name medium_type = ''medium''"
| "schain_type_name small_type = ''small''"
| "schain_type_name sync_node_type = ''sync_node''"

datatype container_type = base_container | schain_container | ima_container

fun container_type_name :: "container_type \<Rightarrow> string" where
  "container_type_name base_container = ''base''"
| "container_type_name schain_container = ''schain''"
| "container_type_name ima_container = ''ima''"

datatype metric_type = cpu_shares | mem | disk | volume_limits | leveldb_limits

fun metric_type_name :: "metric_type \<Rightarrow> string" where
  "metric_type_name cpu_shares = ''cpu_shares''"
| "metric_type_name mem = ''mem''"
| "metric_type_name disk = ''disk''"
| "metric_type_name volume_limits = ''volume_limits''"
| "metric_type_name leveldb_limits = ''leveldb_limits''"

definition get_schain_type :: "int \<Rightarrow> schain_type res" where
  "get_schain_type schain_part_of_node = SchainType schain_part_of_node"

definition get_limit :: "metric_type \<Rightarrow> schain_type \<Rightarrow> container_type \<Rightarrow> json \<Rightarrow> json res" where
  "get_limit m t c alloc =
     json_path alloc [container_type_name c, metric_type_name m, schain_type_name t]"

definition get_schain_limit :: "('d, 'f) env \<Rightarrow> schain_type \<Rightarrow> metric_type \<Rightarrow> json res" where
  "get_schain_limit e t m = get_limit m t schain_container (resource_allocation e)"

definition get_ima_limit :: "('d, 'f) env \<Rightarrow> schain_type \<Rightarrow> metric_type \<Rightarrow> json res" where
  "get_ima_limit e t m = get_limit m t ima_container (resource_allocation e)"

definition get_fs_allocated_storage :: "('d, 'f) env \<Rightarrow> schain_type \<Rightarrow> string \<Rightarrow> json res" where
  "get_fs_allocated_storage e t allocation_type_name =
     res_bind (get_schain_limit e t volume_limits) (\<lambda>j.
     json_path j [allocation_type_name, ''max_file_storage_bytes''])"

section \<open>Volumes\<close>

definition SCHAIN_STATE_PATH :: "('d, 'f) env \<Rightarrow> string" where
  "SCHAIN_STATE_PATH e = path_join (SKALE_LIB_PATH e) ''schains''"

definition SCHAIN_STATIC_PATH :: "('d, 'f) env \<Rightarrow> string" where
  "SCHAIN_STATIC_PATH e = path_join (SKALE_LIB_PATH e) ''filestorage''"

definition SHARED_SPACE_VOLUME_NAME :: string where
  "SHARED_SPACE_VOLUME_NAME = ''shared-space''"

definition SHARED_SPACE_CONTAINER_PATH :: string where
  "SHARED_SPACE_CONTAINER_PATH = ''/shared-space''"

definition DATA_DIR_CONTAINER_PATH :: string where
  "DATA_DIR_CONTAINER_PATH = ''/data_dir''"

definition is_volume_exists ::
  "('d, 'f) env \<Rightarrow> string \<Rightarrow> bool \<Rightarrow> ('d, 'f) world \<Rightarrow> bool res" where
  "is_volume_exists e n sync_node w =
     (if sync_node
      then Inr (isdir w (path_join (SCHAIN_STATE_PATH e) n) \<and>
                islink w (path_join (SCHAIN_STATIC_PATH e) n))
      else is_data_volume_exists (docker e) n (daemon w))"

definition ensure_data_dir_path :: "('d, 'f) env \<Rightarrow> string \<Rightarrow> ('d, 'f, unit) wact" where
  "ensure_data_dir_path e n =
     (let schain_state = path_join (SCHAIN_STATE_PATH e) n;
          schain_filestorage_state = path_join schain_state ''filestorage'';
          schain_static_path = path_join (SCHAIN_STATIC_PATH e) n
      in act_block
          [makedirs schain_state,
           act_if (act_gets (\<lambda>w. islink w schain_static_path))
             (unlink schain_static_path) (act_return ()),
           symlink schain_filestorage_state schain_static_path])"

definition remove_data_dir :: "('d, 'f) env \<Rightarrow> string \<Rightarrow> ('d, 'f, unit) wact" where
  "remove_data_dir e n =
     act_then (unlink (path_join (SCHAIN_STATIC_PATH e) n))
       (rmtree (path_join (SCHAIN_STATE_PATH e) n))"

definition init_data_volume ::
  "('d, 'f) env \<Rightarrow> schain_structure \<Rightarrow> bool \<Rightarrow> ('d, 'f, unit) wact" where
  "init_data_volume e sch sync_node =
     act_if (act_res (is_volume_exists e (sch_name sch) sync_node)) (act_return ())
       (if sync_node then ensure_data_dir_path e (sch_name sch)
        else act_bind (act_res (\<lambda>_. get_schain_type (part_of_node sch))) (\<lambda>t.
             act_bind (act_res (\<lambda>_. get_schain_limit e t disk)) (\<lambda>j.
             act_bind (act_res (\<lambda>_. json_num j)) (\<lambda>disk_limit.
             on_daemon (create_data_volume (docker e) (volume_driver e) (sch_name sch)
               (Some disk_limit))))))"

text \<open>Volumes are triples (source, mount point, mode).\<close>

type_synonym volumes = "(string, string \<times> string) table"

definition get_schain_volume_config ::
  "('d, 'f) env \<Rightarrow> string \<Rightarrow> string \<Rightarrow> string option \<Rightarrow> bool \<Rightarrow> volumes" where
  "get_schain_volume_config e n mount_path mode sync_node =
     (let m = (if str_truthy mode then the mode else ''rw'');
          datadir_src = (if sync_node then path_join (SCHAIN_STATE_PATH e) n else n);
          shared_space_src = (if sync_node
            then path_join (SCHAIN_STATE_PATH e) SHARED_SPACE_VOLUME_NAME
            else SHARED_SPACE_VOLUME_NAME)
      in tab_put shared_space_src (SHARED_SPACE_CONTAINER_PATH, m) [(datadir_src, (mount_path, m))])"

section \<open>SSL certificates\<close>

definition is_ssl_folder_empty :: "('d, 'f) env \<Rightarrow> bool" where
  "is_ssl_folder_empty e = (ssl_cert_mtime e = None)"

definition get_ssl_filepath :: "('d, 'f) env \<Rightarrow> string \<times> string" where
  "get_ssl_filepath e =
     (if is_ssl_folder_empty e then (''NULL'', ''NULL'')
      else (path_join (SSL_CERTIFICATES_FILEPATH e) ''ssl_key'',
            path_join (SSL_CERTIFICATES_FILEPATH e) ''ssl_cert''))"

definition get_ssl_files_change_date :: "('d, 'f) env \<Rightarrow> int option" where
  "get_ssl_files_change_date e = map_option utcfromtimestamp (ssl_cert_mtime e)"

definition update_ssl_change_date ::
  "('d, 'f) env \<Rightarrow> schain_record \<Rightarrow> ('d, 'f, bool \<times> schain_record) wact" where
  "update_ssl_change_date e rec =
     (case get_ssl_files_change_date e of
        None \<Rightarrow> act_return (False, rec)
      | Some d \<Rightarrow> act_bind (on_record (set_ssl_change_date d) rec) (\<lambda>rec'. act_return (True, rec')))"

definition ssl_reload_needed :: "('d, 'f) env \<Rightarrow> schain_record \<Rightarrow> bool" where
  "ssl_reload_needed e rec =
     (case get_ssl_files_change_date e of None \<Rightarrow> False | Some d \<Rightarrow> d \<noteq> ssl_change_date rec)"

section \<open>Calls to a chain's endpoint\<close>

definition POST_REQUEST_TIMEOUT :: int where "POST_REQUEST_TIMEOUT = 30"
definition DEFAULT_RPC_CHECK_TIMEOUT :: int where "DEFAULT_RPC_CHECK_TIMEOUT = 30"
definition RPC_CHECK_TIMEOUT_STEP :: int where "RPC_CHECK_TIMEOUT_STEP = 10"
definition ALLOWED_TIMESTAMP_DIFF :: int where "ALLOWED_TIMESTAMP_DIFF = 120"

text \<open>A response is true when its status is below 400.\<close>

definition make_rpc_call ::
  "('d, 'f) env \<Rightarrow> string \<Rightarrow> string \<Rightarrow> int option \<Rightarrow> (int \<times> json res) option" where
  "make_rpc_call e endpoint meth timeout =
     rpc_post e endpoint meth (if int_truthy timeout then the timeout else POST_REQUEST_TIMEOUT)"

definition get_endpoint_alive_check_timeout :: "int \<Rightarrow> int" where
  "get_endpoint_alive_check_timeout failed_count =
     (if failed_count = 0 then DEFAULT_RPC_CHECK_TIMEOUT
      else DEFAULT_RPC_CHECK_TIMEOUT + failed_count * RPC_CHECK_TIMEOUT_STEP)"

definition check_endpoint_alive :: "('d, 'f) env \<Rightarrow> string \<Rightarrow> int option \<Rightarrow> bool" where
  "check_endpoint_alive e endpoint timeout =
     (let t = (if int_truthy timeout then the timeout else DEFAULT_RPC_CHECK_TIMEOUT)
      in case make_rpc_call e endpoint ''eth_blockNumber'' (Some t) of
           None \<Rightarrow> False
         | Some (status, _) \<Rightarrow> status < 400 \<and> status = 200)"

text \<open>\<^verbatim>\<open>int(s, 16)\<close>, with or without \<^verbatim>\<open>0x\<close>.\<close>

definition hex_val :: "char \<Rightarrow> nat option" where
  "hex_val c =
     (let k = of_char c :: nat
      in if 48 \<le> k \<and> k \<le> 57 then Some (k - 48)
         else if 97 \<le> k \<and> k \<le> 102 then Some (k - 87)
         else if 65 \<le> k \<and> k \<le> 70 then Some (k - 55) else None)"

definition int_of_hex :: "string \<Rightarrow> int res" where
  "int_of_hex s =
     (let ds = (if startswith s ''0x'' then drop 2 s else s)
      in if ds \<noteq> [] \<and> list_all (\<lambda>c. hex_val c \<noteq> None) ds
         then Inr (int (foldl (\<lambda>n c. 16 * n + the (hex_val c)) 0 ds))
         else Inl (ValueError s))"

text \<open>Parse errors count as unhealthy; a response without an object where one is indexed is
  a TypeError, which is not caught.\<close>

fun caught_parse_error :: "exn \<Rightarrow> bool" where
  "caught_parse_error (JSONDecodeError _) = True"
| "caught_parse_error (KeyError _) = True"
| "caught_parse_error (ValueError _) = True"
| "caught_parse_error _ = False"

definition check_endpoint_blocks ::
  "('d, 'f) env \<Rightarrow> string \<Rightarrow> ('d, 'f) world \<Rightarrow> bool res" where
  "check_endpoint_blocks e endpoint w =
     (case make_rpc_call e endpoint ''eth_getBlockByNumber'' None of
        None \<Rightarrow> Inr False
      | Some (status, body) \<Rightarrow>
          if \<not> status < 400 then Inr False
          else case res_bind body (\<lambda>j.
                    res_bind (json_path j [''result'', ''timestamp'']) (\<lambda>t.
                    res_bind (json_str t) (\<lambda>s.
                    res_bind (int_of_hex s) (\<lambda>ts.
                    Inr (\<bar>ts - clock w\<bar> < ALLOWED_TIMESTAMP_DIFF))))) of
                 Inl x \<Rightarrow> if caught_parse_error x then Inr False else Inl x
               | Inr b \<Rightarrow> Inr b)"

section \<open>The command of skaled\<close>

definition get_static_schain_cmd :: "('d, 'f) env \<Rightarrow> string list res" where
  "get_static_schain_cmd e =
     res_bind (json_item (static_params e) ''schain_cmd'') (\<lambda>j.
     if truthy j then res_bind (json_elems j) (res_map json_str) else Inr [])"

definition port_option :: "(string \<times> int) list \<Rightarrow> string \<Rightarrow> string \<Rightarrow> string res" where
  "port_option ports opt k =
     (case map_of ports k of
        None \<Rightarrow> Inl (KeyError k)
      | Some p \<Rightarrow> Inr (opt @ '' '' @ str_of_int p))"

definition get_schain_container_base_opts ::
  "('d, 'f) env \<Rightarrow> string \<Rightarrow> bool \<Rightarrow> bool \<Rightarrow> ('d, 'f) world \<Rightarrow> string list res" where
  "get_schain_container_base_opts e n enable_ssl sync_node w =
     (let config_filepath = get_skaled_container_config_path n;
          (ssl_key, ssl_cert) = get_ssl_filepath e
      in res_bind (skaled_config e n w) (\<lambda>config.
         res_bind (get_schain_ports_from_config config) (\<lambda>ports.
         res_bind (get_static_schain_cmd e) (\<lambda>static_cmd.
         res_bind (port_option ports ''--http-port'' ''http'') (\<lambda>http.
         res_bind (port_option ports ''--https-port'' ''https'') (\<lambda>https.
         res_bind (port_option ports ''--ws-port'' ''ws'') (\<lambda>ws.
         res_bind (port_option ports ''--wss-port'' ''wss'') (\<lambda>wss.
         Inr ([''--config '' @ config_filepath, ''-d '' @ DATA_DIR_CONTAINER_PATH,
               ''--ipcpath '' @ DATA_DIR_CONTAINER_PATH, http, https, ws, wss,
               ''--main-net-url '' @ ENDPOINT e] @
              (if sync_node then []
               else [''--sgx-url '' @ SGX_SERVER_URL e,
                     ''--shared-space-path '' @ SHARED_SPACE_CONTAINER_PATH @ ''/data'']) @
              static_cmd @
              (if enable_ssl then [''--ssl-key '' @ ssl_key, ''--ssl-cert '' @ ssl_cert]
               else []))))))))))"

definition get_schain_container_sync_opts :: "int option \<Rightarrow> string list" where
  "get_schain_container_sync_opts start_ts =
     ''--download-snapshot readfromconfig'' #
     (if int_truthy start_ts then [''--start-timestamp '' @ str_of_int (the start_ts)] else [])"

definition get_schain_container_cmd ::
  "('d, 'f) env \<Rightarrow> string \<Rightarrow> int option \<Rightarrow> bool \<Rightarrow> bool \<Rightarrow> bool \<Rightarrow> string option \<Rightarrow>
   ('d, 'f) world \<Rightarrow> string res" where
  "get_schain_container_cmd e n start_ts download_snapshot enable_ssl sync_node snap_from w =
     res_bind (get_schain_container_base_opts e n enable_ssl sync_node w) (\<lambda>opts.
     Inr (join '' ''
       (opts @
        (if str_truthy snap_from then [''--no-snapshot-majority'', the snap_from] else []) @
        (if download_snapshot then get_schain_container_sync_opts start_ts else []))))"

section \<open>The environment of the IMA container\<close>

text \<open>\<^verbatim>\<open>get_current_node_from_nodes\<close>: the node with the id, None when there is none.\<close>

fun get_current_node_from_nodes :: "json \<Rightarrow> json list \<Rightarrow> json option res" where
  "get_current_node_from_nodes node_id [] = Inr None"
| "get_current_node_from_nodes node_id (node # nodes) =
     res_bind (json_item node ''nodeID'') (\<lambda>i.
       if json_eq i node_id then Inr (Some node) else get_current_node_from_nodes node_id nodes)"

definition schain_index_to_node_number :: "json option \<Rightarrow> int res" where
  "schain_index_to_node_number node =
     res_bind (config_path node [''schainIndex'']) (\<lambda>j.
     res_bind (json_int j) (\<lambda>i. Inr (i - 1)))"

definition get_localhost_http_endpoint ::
  "('d, 'f) env \<Rightarrow> string \<Rightarrow> ('d, 'f) world \<Rightarrow> string res" where
  "get_localhost_http_endpoint e n w =
     res_bind (skaled_config e n w) (\<lambda>config.
     res_bind (get_schain_ports_from_config config) (\<lambda>ports.
     case map_of ports ''http'' of
       None \<Rightarrow> Inl (KeyError ''http'')
     | Some p \<Rightarrow> Inr (''http://127.0.0.1:'' @ str_of_int p)))"

definition get_ima_rpc_port :: "('d, 'f) env \<Rightarrow> string \<Rightarrow> ('d, 'f) world \<Rightarrow> int res" where
  "get_ima_rpc_port e n w =
     res_bind (skaled_config e n w) (\<lambda>config.
     res_bind (get_base_port_from_config config) (\<lambda>bp. Inr (bp + IMA_RPC_OFFSET e)))"

definition ima_const :: "('d, 'f) env \<Rightarrow> string \<Rightarrow> json" where
  "ima_const e k = (case map_of (ima_env_consts e) k of None \<Rightarrow> JNull | Some v \<Rightarrow> v)"

definition get_schain_ima_abi_filepath :: "('d, 'f) env \<Rightarrow> string \<Rightarrow> string" where
  "get_schain_ima_abi_filepath e n = path_join (schain_config_dir e n) ''schain_ima_abi.json''"

text \<open>The settings' values that no configuration holds come from \<open>ima_env_consts\<close>.\<close>

record ima_env =
  ie_schain_dir :: string
  ie_manager_abi_path :: json
  ie_mainnet_proxy_path :: json
  ie_schain_proxy_path :: string
  ie_state_file :: json
  ie_schain_name :: string
  ie_schain_rpc_url :: string
  ie_mainnet_rpc_url :: string
  ie_node_number :: int
  ie_nodes_count :: int
  ie_sgx_url :: string
  ie_ecdsa_key_name :: json
  ie_bls_key_name :: json
  ie_sgx_ssl_key_path :: json
  ie_sgx_ssl_cert_path :: json
  ie_node_address :: json
  ie_tm_url_mainnet :: json
  ie_cid_main_net :: json
  ie_cid_schain :: string
  ie_monitoring_port :: json
  ie_rpc_port :: int
  ie_time_framing :: int
  ie_network_browser_data_path :: json

definition ImaEnv_to_dict :: "ima_env \<Rightarrow> (string \<times> json) list" where
  "ImaEnv_to_dict env =
     [(''SCHAIN_DIR'', JStr (ie_schain_dir env)),
      (''MANAGER_ABI_PATH'', ie_manager_abi_path env),
      (''MAINNET_PROXY_PATH'', ie_mainnet_proxy_path env),
      (''SCHAIN_PROXY_PATH'', JStr (ie_schain_proxy_path env)),
      (''STATE_FILE'', ie_state_file env),
      (''SCHAIN_NAME'', JStr (ie_schain_name env)),
      (''SCHAIN_RPC_URL'', JStr (ie_schain_rpc_url env)),
      (''MAINNET_RPC_URL'', JStr (ie_mainnet_rpc_url env)),
      (''NODE_NUMBER'', JInt (ie_node_number env)),
      (''NODES_COUNT'', JInt (ie_nodes_count env)),
      (''SGX_URL'', JStr (ie_sgx_url env)),
      (''ECDSA_KEY_NAME'', ie_ecdsa_key_name env),
      (''BLS_KEY_NAME'', ie_bls_key_name env),
      (''SGX_SSL_KEY_PATH'', ie_sgx_ssl_key_path env),
      (''SGX_SSL_CERT_PATH'', ie_sgx_ssl_cert_path env),
      (''NODE_ADDRESS'', ie_node_address env),
      (''TM_URL_MAIN_NET'', ie_tm_url_mainnet env),
      (''CID_MAIN_NET'', ie_cid_main_net env),
      (''CID_SCHAIN'', JStr (ie_cid_schain env)),
      (''MONITORING_PORT'', ie_monitoring_port env),
      (''RPC_PORT'', JInt (ie_rpc_port env)),
      (''TIME_FRAMING'', JInt (ie_time_framing env)),
      (''IMA_NETWORK_BROWSER_DATA_PATH'', ie_network_browser_data_path env)]"

definition get_ima_env ::
  "('d, 'f) env \<Rightarrow> string \<Rightarrow> json \<Rightarrow> int \<Rightarrow> ('d, 'f) world \<Rightarrow> ima_env res" where
  "get_ima_env e n mainnet_chain_id time_frame w =
     res_bind (skaled_config e n w) (\<lambda>config.
     res_bind (config_path config [''skaleConfig'', ''nodeInfo'']) (\<lambda>node_info.
     res_bind (json_path node_info [''wallets'', ''ima'', ''keyShareName'']) (\<lambda>bls_key_name.
     res_bind (schain_nodes config) (\<lambda>nodes.
     res_bind (json_item node_info ''nodeID'') (\<lambda>node_id.
     res_bind (get_current_node_from_nodes node_id nodes) (\<lambda>public_node_info.
     res_bind (schain_index_to_node_number public_node_info) (\<lambda>schain_index.
     res_bind (config_path public_node_info [''owner'']) (\<lambda>node_address.
     res_bind (get_localhost_http_endpoint e n w) (\<lambda>rpc_url.
     res_bind (json_item node_info ''ecdsaKeyName'') (\<lambda>ecdsa_key_name.
     res_bind (json_item node_info ''imaMonitoringPort'') (\<lambda>monitoring_port.
     res_bind (get_ima_rpc_port e n w) (\<lambda>rpc_port.
     Inr
      \<lparr>ie_schain_dir = schain_config_dir e n,
       ie_manager_abi_path = ima_const e ''ABI_FILEPATH'',
       ie_mainnet_proxy_path = ima_const e ''MAINNET_IMA_ABI_FILEPATH'',
       ie_schain_proxy_path = get_schain_ima_abi_filepath e n,
       ie_state_file = ima_const e ''IMA_STATE_CONTAINER_PATH'',
       ie_schain_name = n,
       ie_schain_rpc_url = rpc_url,
       ie_mainnet_rpc_url = ENDPOINT e,
       ie_node_number = schain_index,
       ie_nodes_count = int (length nodes),
       ie_sgx_url = SGX_SERVER_URL e,
       ie_ecdsa_key_name = ecdsa_key_name,
       ie_bls_key_name = bls_key_name,
       ie_sgx_ssl_key_path = ima_const e ''SGX_SSL_KEY_FILEPATH'',
       ie_sgx_ssl_cert_path = ima_const e ''SGX_SSL_CERT_FILEPATH'',
       ie_node_address = node_address,
       ie_tm_url_mainnet = ima_const e ''REDIS_URI'',
       ie_cid_main_net = mainnet_chain_id,
       ie_cid_schain = get_chain_id e n,
       ie_monitoring_port = monitoring_port,
       ie_rpc_port = rpc_port,
       ie_time_framing = time_frame,
       ie_network_browser_data_path = ima_const e ''IMA_NETWORK_BROWSER_FILEPATH''\<rparr>))))))))))))"

text \<open>Migration to a new IMA image: the chain's time in the schedule (0 without one) and the
  time frame before and after it.\<close>

definition DEFAULT_TIME_FRAME :: int where "DEFAULT_TIME_FRAME = 1800"

definition get_migration_ts :: "('d, 'f) env \<Rightarrow> string \<Rightarrow> int res" where
  "get_migration_ts e n =
     (case ima_migration_schedule e of
        None \<Rightarrow> Inr 0
      | Some schedule \<Rightarrow> res_bind (json_get schedule n (JInt 0)) json_num)"

definition json_has :: "json \<Rightarrow> string \<Rightarrow> bool" where
  "json_has j k = (case j of JObj kvs \<Rightarrow> map_of kvs k \<noteq> None | _ \<Rightarrow> False)"

definition get_ima_time_frame :: "('d, 'f) env \<Rightarrow> string \<Rightarrow> bool \<Rightarrow> int res" where
  "get_ima_time_frame e n after =
     (let params = static_params e
      in if \<not> json_has params ''ima'' \<or>
            (case json_item params ''ima'' of Inl _ \<Rightarrow> True | Inr j \<Rightarrow> \<not> json_has j ''time_frame'')
         then Inr DEFAULT_TIME_FRAME
         else res_bind (json_path params [''ima'', ''time_frame'', if after then ''after'' else ''before''])
                json_num)"

section \<open>runner.py\<close>

definition SCHAIN_CONTAINER :: string where "SCHAIN_CONTAINER = ''schain''"
definition IMA_CONTAINER :: string where "IMA_CONTAINER = ''ima''"
definition CONTAINER_NAME_PREFIX :: string where "CONTAINER_NAME_PREFIX = ''skale''"
definition HISTORIC_STATE_IMAGE_POSTFIX :: string where "HISTORIC_STATE_IMAGE_POSTFIX = ''-historic''"
definition SCHAIN_STOP_TIMEOUT :: int where "SCHAIN_STOP_TIMEOUT = 300"
definition EC_SUCCESS :: int where "EC_SUCCESS = 0"

definition get_container_name :: "string \<Rightarrow> string \<Rightarrow> string" where
  "get_container_name image_type n = CONTAINER_NAME_PREFIX @ ''_'' @ image_type @ ''_'' @ n"

definition is_container_exists ::
  "('d, 'f) env \<Rightarrow> string \<Rightarrow> string \<Rightarrow> ('d, 'f) world \<Rightarrow> bool res" where
  "is_container_exists e n ctype w =
     docker_is_container_exists (docker e) (get_container_name ctype n) (daemon w)"

definition get_container_image ::
  "('d, 'f) env \<Rightarrow> string \<Rightarrow> string \<Rightarrow> ('d, 'f) world \<Rightarrow> string option res" where
  "get_container_image e n ctype w =
     get_container_image_name (docker e) (get_container_name ctype n) (daemon w)"

definition is_container_running ::
  "('d, 'f) env \<Rightarrow> string \<Rightarrow> string \<Rightarrow> ('d, 'f) world \<Rightarrow> bool res" where
  "is_container_running e n ctype w =
     docker_is_container_running (docker e) (get_container_name ctype n) (daemon w)"

definition get_image_name :: "('d, 'f) env \<Rightarrow> string \<Rightarrow> bool \<Rightarrow> bool \<Rightarrow> string res" where
  "get_image_name e image_type new historic_state =
     (let tag_field = (if image_type = IMA_CONTAINER \<and> new then ''new_version'' else ''version'')
      in res_bind (json_item (containers_info e) image_type) (\<lambda>info.
         res_bind (json_item info ''name'') (\<lambda>nm.
         res_bind (json_str nm) (\<lambda>s.
         res_bind (json_item info tag_field) (\<lambda>tg.
         res_bind (json_str tg) (\<lambda>t.
         Inr (s @ '':'' @ t @
              (if historic_state \<and> image_type = SCHAIN_CONTAINER
               then HISTORIC_STATE_IMAGE_POSTFIX else []))))))))"

definition get_container_args :: "('d, 'f) env \<Rightarrow> string \<Rightarrow> json res" where
  "get_container_args e image_type = json_path (containers_info e) [image_type, ''args'']"

definition get_container_custom_args :: "('d, 'f) env \<Rightarrow> string \<Rightarrow> json res" where
  "get_container_custom_args e image_type = json_path (containers_info e) [image_type, ''custom_args'']"

definition get_container_info ::
  "('d, 'f) env \<Rightarrow> string \<Rightarrow> string \<Rightarrow> bool \<Rightarrow> (string \<times> string \<times> json \<times> json) res" where
  "get_container_info e image_type n historic_state =
     res_bind (get_image_name e image_type False historic_state) (\<lambda>img.
     res_bind (get_container_args e image_type) (\<lambda>args.
     res_bind (get_container_custom_args e image_type) (\<lambda>custom_args.
     Inr (img, get_container_name image_type n, args, custom_args))))"

definition get_ulimits_config :: "json \<Rightarrow> json res" where
  "get_ulimits_config config =
     res_bind (json_elems config) (\<lambda>xs.
     res_bind (res_map (\<lambda>u.
        res_bind (json_item u ''name'') (\<lambda>nm.
        res_bind (json_item u ''soft'') (\<lambda>s.
        res_bind (json_item u ''hard'') (\<lambda>h.
        Inr (JObj [(''name'', nm), (''soft'', s), (''hard'', h)]))))) xs) (\<lambda>us.
     Inr (JList us)))"

text \<open>The three mounts every container gets; with a mode given, all of them in that mode.\<close>

definition add_config_volume ::
  "('d, 'f) env \<Rightarrow> string \<Rightarrow> string option \<Rightarrow> volumes \<Rightarrow> volumes" where
  "add_config_volume e n mode vols =
     (let m = (\<lambda>dflt. if str_truthy mode then the mode else dflt)
      in tab_put (schain_config_dir_host e n) (SCHAIN_CONFIG_DIR_SKALED, m ''rw'')
          (tab_put (SKALE_DIR_HOST e) (SKALE_VOLUME_PATH e, m ''ro'')
            (tab_put (NODE_DATA_PATH_HOST e) (SCHAIN_NODE_DATA_PATH e, m ''ro'') vols)))"

text \<open>The volumes among the default options (none when there is no such key).\<close>

definition volumes_of_args :: "json \<Rightarrow> volumes res" where
  "volumes_of_args args =
     res_bind (json_get args ''volumes'' JNull) (\<lambda>v.
       if \<not> truthy v then Inr []
       else case v of
           JObj kvs \<Rightarrow> res_map (\<lambda>(src, j).
              res_bind (json_item j ''bind'') (\<lambda>b. res_bind (json_str b) (\<lambda>bs.
              res_bind (json_item j ''mode'') (\<lambda>m. res_bind (json_str m) (\<lambda>ms.
              Inr (src, (bs, ms))))))) kvs
         | _ \<Rightarrow> Inl (TypeError ''volumes''))"

definition option_when :: "bool \<Rightarrow> 'a \<Rightarrow> 'a list" where
  "option_when b x = (if b then [x] else [])"

definition run_container ::
  "('d, 'f) env \<Rightarrow> string \<Rightarrow> string \<Rightarrow> (string \<times> json) list \<Rightarrow> string option \<Rightarrow> volumes \<Rightarrow>
   int option \<Rightarrow> int option \<Rightarrow> string option \<Rightarrow> string option \<Rightarrow> bool \<Rightarrow> ('d, 'f, unit) wact" where
  "run_container e image_type n environ cmd volume_config cpu_limit mem_limit img volume_mode
     historic_state =
     act_bind (act_res (\<lambda>_. get_container_info e image_type n historic_state))
       (\<lambda>(default_image, container_name, args, custom_args).
     act_bind (act_res (\<lambda>_. volumes_of_args args)) (\<lambda>vols0.
     act_bind (act_res (\<lambda>_. json_get custom_args ''logs'' JNull)) (\<lambda>logs.
     act_bind (act_res (\<lambda>_. json_get custom_args ''ulimits_list'' JNull)) (\<lambda>ulimits_list.
     act_bind (act_res (\<lambda>_. if truthy ulimits_list then get_ulimits_config ulimits_list else Inr JNull))
       (\<lambda>ulimits.
     let image_name = (if str_truthy img then the img else default_image);
         vols1 = add_config_volume e n volume_mode vols0;
         vols = fold (\<lambda>(k, v) t. tab_put k v t) volume_config vols1;
         extra = (case args of JObj kvs \<Rightarrow> filter (\<lambda>kv. fst kv \<noteq> ''volumes'') kvs | _ \<Rightarrow> []) @
                 option_when (truthy logs) (''log_config'', logs) @
                 option_when (truthy ulimits_list) (''ulimits'', ulimits);
         run_args = \<lparr>ra_volumes = map (\<lambda>(k, b, m). (k, b, m)) vols, ra_environment = environ,
                     ra_cpu_shares = (if int_truthy cpu_limit then cpu_limit else None),
                     ra_mem_limit = (if int_truthy mem_limit then mem_limit else None),
                     ra_command = (if str_truthy cmd then cmd else None), ra_extra = extra\<rparr>
     in act_drop (on_daemon (docker_run_container (docker e) image_name container_name run_args)))))))"

definition restart_container :: "('d, 'f) env \<Rightarrow> string \<Rightarrow> schain_structure \<Rightarrow> ('d, 'f, unit) wact" where
  "restart_container e ctype sch =
     on_daemon (docker_restart (docker e) (get_container_name ctype (sch_name sch)) SCHAIN_STOP_TIMEOUT)"

definition json_limit :: "json res \<Rightarrow> int option res" where
  "json_limit r = res_bind r (\<lambda>j. res_bind (json_num j) (\<lambda>i. Inr (Some i)))"

definition run_schain_container ::
  "('d, 'f) env \<Rightarrow> schain_structure \<Rightarrow> bool \<Rightarrow> int option \<Rightarrow> string option \<Rightarrow> bool \<Rightarrow> bool \<Rightarrow>
   string option \<Rightarrow> bool \<Rightarrow> bool \<Rightarrow> ('d, 'f, unit) wact" where
  "run_schain_container e sch download_snapshot start_ts volume_mode ulimit_check enable_ssl
     snap_from sync_node historic_state =
     act_bind (act_res (\<lambda>_. get_schain_type (part_of_node sch))) (\<lambda>t.
     act_bind (act_res (\<lambda>_. if sync_node then Inr None else json_limit (get_schain_limit e t cpu_shares)))
       (\<lambda>cpu_limit.
     act_bind (act_res (\<lambda>_. if sync_node then Inr None else json_limit (get_schain_limit e t mem)))
       (\<lambda>mem_limit.
     let volume_config =
           get_schain_volume_config e (sch_name sch) DATA_DIR_CONTAINER_PATH volume_mode sync_node;
         environ = map (\<lambda>(k, v). (k, JStr v)) (get_schain_env ulimit_check)
     in act_bind (act_res (get_schain_container_cmd e (sch_name sch) start_ts download_snapshot
                     enable_ssl sync_node snap_from)) (\<lambda>cmd.
        run_container e SCHAIN_CONTAINER (sch_name sch) environ (Some cmd) volume_config cpu_limit
          mem_limit None volume_mode historic_state))))"

definition run_ima_container ::
  "('d, 'f) env \<Rightarrow> schain_structure \<Rightarrow> json \<Rightarrow> int \<Rightarrow> string \<Rightarrow> ('d, 'f, unit) wact" where
  "run_ima_container e sch mainnet_chain_id time_frame img =
     act_bind (act_res (get_ima_env e (sch_name sch) mainnet_chain_id time_frame)) (\<lambda>env.
     act_bind (act_res (\<lambda>_. get_schain_type (part_of_node sch))) (\<lambda>t.
     act_bind (act_res (\<lambda>_. json_limit (get_ima_limit e t cpu_shares))) (\<lambda>cpu_limit.
     act_bind (act_res (\<lambda>_. json_limit (get_ima_limit e t mem))) (\<lambda>mem_limit.
     run_container e IMA_CONTAINER (sch_name sch) (ImaEnv_to_dict env) None [] cpu_limit mem_limit (Some img)
       None False))))"

definition is_exited ::
  "('d, 'f) env \<Rightarrow> string \<Rightarrow> container_type \<Rightarrow> ('d, 'f) world \<Rightarrow> bool res" where
  "is_exited e n ctype w =
     is_container_exited (docker e) (get_container_name (container_type_name ctype) n) (daemon w)"

definition is_schain_container_failed ::
  "('d, 'f) env \<Rightarrow> string \<Rightarrow> ('d, 'f) world \<Rightarrow> bool res" where
  "is_schain_container_failed e n w =
     (let nm = get_container_name SCHAIN_CONTAINER n
      in res_bind (is_container_created (docker e) nm (daemon w)) (\<lambda>created.
         res_bind (is_container_exited (docker e) nm (daemon w)) (\<lambda>exited.
         res_bind (container_exit_code (docker e) nm (daemon w)) (\<lambda>exit_code.
         Inr (created \<or> exited \<and> exit_code \<noteq> EC_SUCCESS)))))"

definition is_new_image_pulled ::
  "('d, 'f) env \<Rightarrow> string \<Rightarrow> ('d, 'f) world \<Rightarrow> bool res" where
  "is_new_image_pulled e image_type w =
     res_bind (get_image_name e image_type True False) (\<lambda>img. pulled (docker e) img (daemon w))"

definition remove_container :: "('d, 'f) env \<Rightarrow> string \<Rightarrow> string \<Rightarrow> ('d, 'f, unit) wact" where
  "remove_container e n image_type =
     safe_rm (docker e) (get_container_name image_type n) DOCKER_DEFAULT_STOP_TIMEOUT"

definition pull_new_image :: "('d, 'f) env \<Rightarrow> string \<Rightarrow> ('d, 'f, unit) wact" where
  "pull_new_image e image_type =
     act_bind (act_res (\<lambda>_. get_image_name e image_type True False)) (\<lambda>img.
     act_unless (act_res (\<lambda>w. pulled (docker e) img (daemon w)))
       (on_daemon (docker_pull (docker e) img)))"

definition get_ima_container_time_frame ::
  "('d, 'f) env \<Rightarrow> string \<Rightarrow> ('d, 'f) world \<Rightarrow> int res" where
  "get_ima_container_time_frame e n w =
     res_bind (get_container_env_value (docker e) (get_container_name IMA_CONTAINER n)
                 ''TIME_FRAMING'' (daemon w)) (\<lambda>v.
       case v of None \<Rightarrow> Inl (TypeError ''int'') | Some s \<Rightarrow> int_of_str s)"

end
