(* ===== verification/Node_Info.thy ===== *)
theory Node_Info
  imports Status_Files
begin

text \<open>
  What the monitors need of \<^verbatim>\<open>core/node.py\<close> (the nodes of a chain, when a node reloads
  after an address change), of \<^verbatim>\<open>core/schains/process.py\<close> (the report and the liveness of a
  monitor process) and of \<^verbatim>\<open>tools/helper.py\<close>. The contracts' answers are parameters.
\<close>

section \<open>Nodes of a chain\<close>

record node_info =
  n_id :: int
  n_ip :: string
  ip_change_ts :: int

definition get_current_ips :: "node_info list \<Rightarrow> string list" where
  "get_current_ips current_nodes = map n_ip current_nodes"

text \<open>\<^verbatim>\<open>get_current_nodes\<close>: none when the contracts do not know the chain; the time of the last
  address change comes from the contracts by node id.\<close>

definition get_current_nodes ::
  "bool \<Rightarrow> node_info list \<Rightarrow> (int \<Rightarrow> int) \<Rightarrow> node_info list" where
  "get_current_nodes is_schain_exist nodes_for_schain last_change_ip_time =
     (if \<not> is_schain_exist then []
      else map (\<lambda>node. node\<lparr>ip_change_ts := last_change_ip_time (n_id node)\<rparr>) nodes_for_schain)"

text \<open>\<^verbatim>\<open>max\<close> of no node is a ValueError.\<close>

definition get_max_ip_change_ts :: "node_info list \<Rightarrow> int option res" where
  "get_max_ip_change_ts current_nodes =
     (if current_nodes = [] then Inl (ValueError ''max() arg is an empty sequence'')
      else let m = Max (set (map ip_change_ts current_nodes))
           in Inr (if m = 0 then None else Some m))"

definition CHANGE_IP_DELAY :: int where "CHANGE_IP_DELAY = 300"

definition get_node_delay :: "int \<Rightarrow> int" where
  "get_node_delay node_index = CHANGE_IP_DELAY * (node_index + 1)"

definition calc_reload_ts :: "node_info list \<Rightarrow> int \<Rightarrow> int option res" where
  "calc_reload_ts current_nodes node_index =
     res_bind (get_max_ip_change_ts current_nodes) (\<lambda>m.
     Inr (map_option (\<lambda>t. t + get_node_delay node_index) m))"

text \<open>The position of the node in the group, None when it is not in it.\<close>

fun index_of :: "int \<Rightarrow> int list \<Rightarrow> nat option" where
  "index_of x [] = None"
| "index_of x (y # ys) = (if x = y then Some 0 else map_option Suc (index_of x ys))"

definition get_node_index_in_group :: "int list \<Rightarrow> int \<Rightarrow> int option" where
  "get_node_index_in_group node_ids node_id = map_option int (index_of node_id node_ids)"

text \<open>\<^verbatim>\<open>is_node_part_of_chain\<close>\<close>

definition is_node_part_of_chain :: "bool \<Rightarrow> int list \<Rightarrow> int \<Rightarrow> bool" where
  "is_node_part_of_chain is_schain_exist node_ids node_id =
     (is_schain_exist \<and> node_id \<in> set node_ids)"

lemma index_of_Some: "index_of x xs = Some i \<longleftrightarrow> i < length xs \<and> xs ! i = x \<and> (\<forall>j < i. xs ! j \<noteq> x)"
proof (induction xs arbitrary: i)
  case (Cons y ys)
  show ?case by (cases i) (auto simp: Cons.IH nth_Cons' less_Suc_eq_0_disj)
qed simp

lemma index_of_None: "index_of x xs = None \<longleftrightarrow> x \<notin> set xs"
  by (induction xs) auto

text \<open>Nodes of one group reload one after the other: the times are \<open>CHANGE_IP_DELAY\<close> apart
  per position in the group.\<close>

lemma calc_reload_ts_delay:
  assumes "calc_reload_ts nodes i = Inr (Some a)" and "calc_reload_ts nodes j = Inr (Some b)"
  shows "b - a = CHANGE_IP_DELAY * (j - i)"
  using assms by (auto simp: calc_reload_ts_def res_bind_Inr_iff get_node_delay_def algebra_simps)

lemma calc_reload_ts_after_change:
  assumes "calc_reload_ts nodes i = Inr (Some t)" and "0 \<le> i" and "n \<in> set nodes"
  shows "ip_change_ts n + CHANGE_IP_DELAY \<le> t"
proof -
  from assms(1) obtain m where m: "get_max_ip_change_ts nodes = Inr (Some m)"
    and t: "t = m + get_node_delay i"
    by (auto simp: calc_reload_ts_def res_bind_Inr_iff)
  have "m = Max (set (map ip_change_ts nodes))"
    using m by (auto simp: get_max_ip_change_ts_def Let_def split: if_splits)
  with assms(3) have "ip_change_ts n \<le> m" by simp
  with t assms(2) show ?thesis by (simp add: get_node_delay_def CHANGE_IP_DELAY_def)
qed

section \<open>Monitor processes\<close>

definition process_report_path :: "('d, 'f) env \<Rightarrow> string \<Rightarrow> path" where
  "process_report_path e n = (schain_config_dir e n, ''process.json'')"

definition process_tmp_path :: "('d, 'f) env \<Rightarrow> string \<Rightarrow> path" where
  "process_tmp_path e n = (schain_config_dir e n, ''.tmp.process.json'')"

text \<open>\<^verbatim>\<open>ProcessReport(name)\<close> makes the chain's directory.\<close>

definition ProcessReport :: "('d, 'f) env \<Rightarrow> string \<Rightarrow> ('d, 'f, unit) wact" where
  "ProcessReport e n = makedirs (schain_config_dir e n)"

definition report_is_exist :: "('d, 'f) env \<Rightarrow> string \<Rightarrow> ('d, 'f) world \<Rightarrow> bool" where
  "report_is_exist e n w = isfile (files w) (process_report_path e n)"

definition report_read :: "('d, 'f) env \<Rightarrow> string \<Rightarrow> ('d, 'f) world \<Rightarrow> json res" where
  "report_read e n w = read_json (files w) (process_report_path e n)"

definition report_ts :: "('d, 'f) env \<Rightarrow> string \<Rightarrow> ('d, 'f) world \<Rightarrow> int res" where
  "report_ts e n w = res_bind (report_read e n w) (\<lambda>j. res_bind (json_item j ''ts'') json_num)"

definition report_pid :: "('d, 'f) env \<Rightarrow> string \<Rightarrow> ('d, 'f) world \<Rightarrow> int res" where
  "report_pid e n w = res_bind (report_read e n w) (\<lambda>j. res_bind (json_item j ''pid'') json_num)"

text \<open>\<^verbatim>\<open>_save_tmp\<close> and \<^verbatim>\<open>_move\<close>\<close>

definition report_save :: "('d, 'f) env \<Rightarrow> string \<Rightarrow> json \<Rightarrow> ('d, 'f, unit) wact" where
  "report_save e n report =
     act_then (modify_files (write_json (process_tmp_path e n) report))
       (act_if (act_gets (\<lambda>w. isfile (files w) (process_tmp_path e n)))
         (on_files (move_file (process_tmp_path e n) (process_report_path e n)))
         (act_return ()))"

definition report_set :: "('d, 'f) env \<Rightarrow> string \<Rightarrow> string \<Rightarrow> int \<Rightarrow> ('d, 'f, unit) wact" where
  "report_set e n k v =
     act_bind (act_res (\<lambda>w. if report_is_exist e n w then report_read e n w else Inr (JObj [])))
       (\<lambda>report.
     act_bind (act_res (\<lambda>_. json_set report k (JInt v))) (report_save e n))"

definition set_report_ts :: "('d, 'f) env \<Rightarrow> string \<Rightarrow> int \<Rightarrow> ('d, 'f, unit) wact" where
  "set_report_ts e n v = report_set e n ''ts'' v"

definition set_report_pid :: "('d, 'f) env \<Rightarrow> string \<Rightarrow> int \<Rightarrow> ('d, 'f, unit) wact" where
  "set_report_pid e n v = report_set e n ''pid'' v"

definition report_update :: "('d, 'f) env \<Rightarrow> string \<Rightarrow> int \<Rightarrow> int \<Rightarrow> ('d, 'f, unit) wact" where
  "report_update e n pid ts =
     report_save e n (JObj [(''pid'', JInt pid), (''ts'', JInt ts)])"

definition report_cleanup :: "('d, 'f) env \<Rightarrow> string \<Rightarrow> ('d, 'f, unit) wact" where
  "report_cleanup e n = on_files (os_remove (process_report_path e n))"

definition is_schain_process_report_exist :: "('d, 'f) env \<Rightarrow> string \<Rightarrow> ('d, 'f) world \<Rightarrow> bool" where
  "is_schain_process_report_exist e n w = isfile (files w) (process_report_path e n)"

text \<open>The process id and the time of the report, None twice without one.\<close>

definition get_schain_process_info ::
  "('d, 'f) env \<Rightarrow> string \<Rightarrow> ('d, 'f, (int \<times> int) option) wact" where
  "get_schain_process_info e n =
     act_then (ProcessReport e n)
       (act_if (act_gets (report_is_exist e n))
         (act_bind (act_res (report_pid e n)) (\<lambda>pid.
          act_bind (act_res (report_ts e n)) (\<lambda>ts. act_return (Some (pid, ts)))))
         (act_return None))"

definition check_pid :: "int \<Rightarrow> ('d, 'f) world \<Rightarrow> bool" where
  "check_pid pid w = (pid \<in> set (pids w))"

definition is_monitor_process_alive :: "int \<Rightarrow> ('d, 'f) world \<Rightarrow> bool" where
  "is_monitor_process_alive monitor_pid w = (monitor_pid \<noteq> 0 \<and> check_pid monitor_pid w)"

text \<open>How a process answers a termination: it ends within the timeout, it has to be killed,
  or the signal cannot be sent (the exception is logged).\<close>

datatype term_result = Terminates | Times_out | Signal_fails

definition terminate_process :: "(int \<Rightarrow> term_result) \<Rightarrow> int \<Rightarrow> ('d, 'f, unit) wact" where
  "terminate_process answer pid =
     (if pid = 0 then act_return ()
      else act_modify (\<lambda>w.
        if \<not> check_pid pid w then w
        else case answer pid of
            Signal_fails \<Rightarrow> w
          | _ \<Rightarrow> w\<lparr>pids := removeAll pid (pids w)\<rparr>))"

lemma process_paths_neq: "process_tmp_path e n \<noteq> process_report_path e n"
  by (simp add: process_tmp_path_def process_report_path_def)

lemma report_save_eval:
  "\<exists>w'. report_save e n j w = (Inr (), w') \<and>
     tab_get (files w') (process_report_path e n) = Some (JsonFile j) \<and>
     (\<forall>p. p \<noteq> process_report_path e n \<and> p \<noteq> process_tmp_path e n \<longrightarrow>
          tab_get (files w') p = tab_get (files w) p) \<and>
     db w' = db w \<and> pids w' = pids w \<and> clock w' = clock w \<and> dirs w' = dirs w"
  using process_paths_neq [of e n]
  by (simp add: report_save_def act_simps isfile_def write_json_def move_file_def alist_simps)

lemma report_update_spec:
  "\<exists>w'. report_update e n pid ts w = (Inr (), w') \<and>
     report_pid e n w' = Inr pid \<and> report_ts e n w' = Inr ts \<and> report_is_exist e n w' \<and>
     db w' = db w \<and> pids w' = pids w \<and> clock w' = clock w"
  using report_save_eval [of e n "JObj [(''pid'', JInt pid), (''ts'', JInt ts)]" w]
  by (auto simp: report_update_def report_pid_def report_ts_def report_read_def report_is_exist_def
      isfile_def read_json_def)

text \<open>Setting the time keeps the process id, and the other way round.\<close>

lemma set_report_ts_spec:
  assumes "report_pid e n w = Inr pid"
  shows "\<exists>w'. set_report_ts e n v w = (Inr (), w') \<and> report_pid e n w' = Inr pid \<and>
           report_ts e n w' = Inr v \<and> pids w' = pids w \<and> clock w' = clock w"
proof -
  from assms obtain j where rd: "read_json (files w) (process_report_path e n) = Inr j"
    and p: "json_item j ''pid'' = Inr (JInt pid)"
    by (auto simp: report_pid_def report_read_def res_bind_Inr_iff elim!: json_num.elims)
  then obtain kvs where j: "j = JObj kvs" by (cases j) auto
  then obtain j' where j': "json_set j ''ts'' (JInt v) = Inr j'" by simp
  from rd have ex: "report_is_exist e n w"
    by (auto simp: report_is_exist_def isfile_def read_json_def split: option.splits)
  obtain w' where w': "report_save e n j' w = (Inr (), w')"
    "tab_get (files w') (process_report_path e n) = Some (JsonFile j')"
    "pids w' = pids w" "clock w' = clock w"
    using report_save_eval [of e n j' w] by blast
  have "set_report_ts e n v w = (Inr (), w')"
    using ex rd j' w'(1) by (simp add: set_report_ts_def report_set_def act_simps report_read_def)
  moreover have "report_pid e n w' = Inr pid" "report_ts e n w' = Inr v"
    using w'(2) json_item_set [OF j'] p
    by (simp_all add: report_pid_def report_ts_def report_read_def read_json_def)
  ultimately show ?thesis using w' by blast
qed

end
