(* ===== verification/Firewall_Host.thy ===== *)
theory Firewall_Host
  imports Firewall_Types
begin

text \<open>
  The host's packet filter behind \<^verbatim>\<open>IHostFirewallController\<close>: the interface
  (\<open>host_controller\<close>, and its contract, the locale \<open>host_firewall\<close>) and its
  implementation \<^verbatim>\<open>core/schains/firewall/iptables.py\<close> (\<open>IptablesController\<close>) over the
  package \<^verbatim>\<open>iptc\<close>, whose documented behaviour is the locale \<open>iptc_package\<close>. The contract
  follows from the package's behaviour (\<^theory_text>\<open>sublocale\<close>): an added rule is among the rules,
  a removed one is not, no other managed rule changes. \<open>ref_iptc\<close> is a small table that
  behaves like the package.
\<close>

section \<open>The interface\<close>

record 's host_controller =
  hc_add_rule :: "schain_rule \<Rightarrow> ('s, unit) act"
  hc_remove_rule :: "schain_rule \<Rightarrow> ('s, unit) act"
  hc_rules :: "'s \<Rightarrow> schain_rule list res"
  hc_has_rule :: "schain_rule \<Rightarrow> 's \<Rightarrow> bool res"

text \<open>What a manager of rules may rely on. \<open>ok\<close> says the host's table can be read and holds
  no managed rule twice; \<open>good\<close> which rules the host can hold.\<close>

locale host_firewall =
  fixes hc :: "'s host_controller"
    and ok :: "'s \<Rightarrow> bool"
    and good :: "schain_rule \<Rightarrow> bool"
  assumes good_wf: "good r \<Longrightarrow> rule_wf r"
    and rules_ok: "ok s \<Longrightarrow> \<exists>rs. hc_rules hc s = Inr rs \<and> distinct rs \<and> (\<forall>r \<in> set rs. good r)"
    and add_ok: "ok s \<Longrightarrow> hc_rules hc s = Inr rs \<Longrightarrow> good r \<Longrightarrow>
       \<exists>s' rs'. hc_add_rule hc r s = (Inr (), s') \<and> ok s' \<and> hc_rules hc s' = Inr rs' \<and>
                set rs' = insert r (set rs)"
    and remove_ok: "ok s \<Longrightarrow> hc_rules hc s = Inr rs \<Longrightarrow> good r \<Longrightarrow>
       \<exists>s' rs'. hc_remove_rule hc r s = (Inr (), s') \<and> ok s' \<and> hc_rules hc s' = Inr rs' \<and>
                set rs' = set rs - {r}"
begin

lemma add_all:
  assumes "ok s" and "hc_rules hc s = Inr rs" and "\<And>r. r \<in> set xs \<Longrightarrow> good r"
  shows "\<exists>s' rs'. act_for xs (hc_add_rule hc) s = (Inr (), s') \<and> ok s' \<and>
           hc_rules hc s' = Inr rs' \<and> set rs' = set xs \<union> set rs"
  using assms
proof (induction xs arbitrary: s rs)
  case Nil
  then show ?case by (auto simp: act_simps)
next
  case (Cons x xs)
  from add_ok [OF Cons.prems(1,2), of x] Cons.prems(3) obtain s1 rs1 where
    s1: "hc_add_rule hc x s = (Inr (), s1)" "ok s1" "hc_rules hc s1 = Inr rs1"
      "set rs1 = insert x (set rs)" by auto
  from Cons.IH [OF s1(2,3)] Cons.prems(3) obtain s' rs' where
    "act_for xs (hc_add_rule hc) s1 = (Inr (), s')" "ok s'" "hc_rules hc s' = Inr rs'"
    "set rs' = set xs \<union> set rs1" by auto
  with s1 show ?case by (auto simp: act_simps)
qed

lemma remove_all:
  assumes "ok s" and "hc_rules hc s = Inr rs" and "\<And>r. r \<in> set xs \<Longrightarrow> good r"
  shows "\<exists>s' rs'. act_for xs (hc_remove_rule hc) s = (Inr (), s') \<and> ok s' \<and>
           hc_rules hc s' = Inr rs' \<and> set rs' = set rs - set xs"
  using assms
proof (induction xs arbitrary: s rs)
  case Nil
  then show ?case by (auto simp: act_simps)
next
  case (Cons x xs)
  from remove_ok [OF Cons.prems(1,2), of x] Cons.prems(3) obtain s1 rs1 where
    s1: "hc_remove_rule hc x s = (Inr (), s1)" "ok s1" "hc_rules hc s1 = Inr rs1"
      "set rs1 = set rs - {x}" by auto
  from Cons.IH [OF s1(2,3)] Cons.prems(3) obtain s' rs' where
    "act_for xs (hc_remove_rule hc) s1 = (Inr (), s')" "ok s'" "hc_rules hc s' = Inr rs'"
    "set rs' = set rs1 - set xs" by auto
  with s1 show ?case by (auto simp: act_simps)
qed

end

section \<open>IptablesController\<close>

definition is_like_number :: "string option \<Rightarrow> bool" where
  "is_like_number v = (case v of None \<Rightarrow> False | Some s \<Rightarrow> \<not> isl (int_of_str s))"

definition is_manageable :: "rule_d \<Rightarrow> bool" where
  "is_manageable d =
     (rd_protocol d = Some ''tcp'' \<and> rd_target d = Some ''ACCEPT'' \<and> is_like_number (rd_dport d))"

definition from_ip_network :: "string \<Rightarrow> string res" where
  "from_ip_network ip = res_bind (ip_network ip) first_host"

definition to_ip_network :: "string \<Rightarrow> string res" where
  "to_ip_network ip = res_bind (ip_network ip) (\<lambda>n. Inr (str_network n))"

definition schain_rule_to_rule_d :: "schain_rule \<Rightarrow> rule_d res" where
  "schain_rule_to_rule_d r =
     (let rule = \<lparr>rd_protocol = Some ''tcp'', rd_target = Some ''ACCEPT'',
                  rd_dport = Some (str_of_int (r_port r)), rd_src = None, rd_src_range = None\<rparr>
      in case r_first_ip r of
           None \<Rightarrow> Inr rule
         | Some fip \<Rightarrow>
             (case r_last_ip r of
                None \<Rightarrow> res_bind (to_ip_network fip) (\<lambda>src. Inr (rule\<lparr>rd_src := Some src\<rparr>))
              | Some lip \<Rightarrow>
                  if fip = lip
                  then res_bind (to_ip_network fip) (\<lambda>src. Inr (rule\<lparr>rd_src := Some src\<rparr>))
                  else Inr (rule\<lparr>rd_src_range := Some (fip @ ''-'' @ lip)\<rparr>)))"

definition rule_d_ips :: "rule_d \<Rightarrow> (string option \<times> string option) res" where
  "rule_d_ips d =
     (case rd_src_range d of
        Some rng \<Rightarrow>
          (case split_on CHR ''-'' rng of
             [fip, lip] \<Rightarrow> Inr (Some fip, Some lip)
           | _ \<Rightarrow> Inl (ValueError rng))
      | None \<Rightarrow>
          if str_truthy (rd_src d)
          then res_bind (from_ip_network (the (rd_src d))) (\<lambda>ip. Inr (Some ip, None))
          else Inr (None, None))"

definition rule_d_to_schain_rule :: "rule_d \<Rightarrow> schain_rule res" where
  "rule_d_to_schain_rule d =
     res_bind (rule_d_ips d) (\<lambda>(fip, lip).
     case rd_dport d of
       None \<Rightarrow> Inl (KeyError ''tcp'')
     | Some p \<Rightarrow> res_bind (int_of_str p) (\<lambda>port. Inr (SChainRule port fip lip)))"

definition iptables_rules :: "'f iptc_api \<Rightarrow> 'f \<Rightarrow> schain_rule list res" where
  "iptables_rules api f = res_map rule_d_to_schain_rule (filter is_manageable (iptc_rules api f))"

definition iptables_has_rule :: "'f iptc_api \<Rightarrow> schain_rule \<Rightarrow> 'f \<Rightarrow> bool res" where
  "iptables_has_rule api r f =
     res_bind (schain_rule_to_rule_d r) (\<lambda>d. Inr (iptc_has_rule api d f))"

definition iptables_add_rule :: "'f iptc_api \<Rightarrow> schain_rule \<Rightarrow> ('f, unit) act" where
  "iptables_add_rule api r =
     act_bind (act_res (iptables_has_rule api r)) (\<lambda>has.
       if has then act_return ()
       else act_bind (act_res (\<lambda>_. schain_rule_to_rule_d r)) (\<lambda>d.
            act_modify (iptc_insert_rule api d)))"

definition iptables_remove_rule :: "'f iptc_api \<Rightarrow> schain_rule \<Rightarrow> ('f, unit) act" where
  "iptables_remove_rule api r =
     act_bind (act_res (iptables_has_rule api r)) (\<lambda>has.
       if has then act_bind (act_res (\<lambda>_. schain_rule_to_rule_d r)) (\<lambda>d.
            act_modify (iptc_delete_rule api d))
       else act_return ())"

definition IptablesController :: "'f iptc_api \<Rightarrow> 'f host_controller" where
  "IptablesController api =
     \<lparr>hc_add_rule = iptables_add_rule api, hc_remove_rule = iptables_remove_rule api,
      hc_rules = iptables_rules api, hc_has_rule = iptables_has_rule api\<rparr>"

section \<open>Translation of rules\<close>

text \<open>The rules iptables can hold: for everyone, or between two IPv4 addresses.\<close>

definition iptables_rule :: "schain_rule \<Rightarrow> bool" where
  "iptables_rule r =
     (case r_first_ip r of
        None \<Rightarrow> r_last_ip r = None
      | Some a \<Rightarrow> is_ipv4 a \<and> (case r_last_ip r of None \<Rightarrow> False | Some b \<Rightarrow> is_ipv4 b))"

definition rule_image :: "rule_d \<Rightarrow> bool" where
  "rule_image d = (\<exists>r. iptables_rule r \<and> schain_rule_to_rule_d r = Inr d)"

lemma is_digit_hyphen_not: "is_ipv4 s \<Longrightarrow> CHR ''-'' \<notin> set s"
  by (rule is_ipv4_chars) simp_all

lemma range_split:
  "is_ipv4 a \<Longrightarrow> is_ipv4 b \<Longrightarrow> split_on CHR ''-'' (a @ CHR ''-'' # b) = [a, b]"
  using split_on_append [OF is_digit_hyphen_not] split_on_no_sep [OF is_digit_hyphen_not] by metis

lemma rule_translation:
  assumes "iptables_rule r"
  shows "\<exists>d. schain_rule_to_rule_d r = Inr d \<and> is_manageable d \<and> rule_d_to_schain_rule d = Inr r"
proof (cases "r_first_ip r")
  case None
  with assms have "r = Rule (r_port r) None None"
    by (cases r) (simp add: iptables_rule_def)
  then show ?thesis
    by (cases r) (simp add: schain_rule_to_rule_d_def is_manageable_def is_like_number_def
        rule_d_to_schain_rule_def rule_d_ips_def str_truthy_def SChainRule_def)
next
  case (Some a)
  with assms obtain b where a: "is_ipv4 a" and b: "is_ipv4 b" and r: "r = Rule (r_port r) (Some a) (Some b)"
    by (cases r) (auto simp: iptables_rule_def split: option.splits)
  from ip_network_address [OF a] have net: "to_ip_network a = Inr (a @ ''/32'')"
    and host: "from_ip_network (a @ ''/32'') = Inr a"
    by (auto simp: to_ip_network_def from_ip_network_def)
  have "a \<noteq> []" and "b \<noteq> []" using a b is_ipv4_nonempty by auto
  then show ?thesis
  proof (cases "a = b")
    case True
    with r net host \<open>a \<noteq> []\<close> show ?thesis
      by (cases r) (auto simp: schain_rule_to_rule_d_def is_manageable_def is_like_number_def
          rule_d_to_schain_rule_def rule_d_ips_def str_truthy_def SChainRule_def)
  next
    case False
    with r range_split [OF a b] \<open>b \<noteq> []\<close> show ?thesis
      by (cases r) (auto simp: schain_rule_to_rule_d_def is_manageable_def is_like_number_def
          rule_d_to_schain_rule_def rule_d_ips_def str_truthy_def SChainRule_def)
  qed
qed

lemma rule_translation_image:
  assumes "rule_image d"
  obtains r where "iptables_rule r" and "schain_rule_to_rule_d r = Inr d"
    and "is_manageable d" and "rule_d_to_schain_rule d = Inr r"
  using assms rule_translation unfolding rule_image_def by fastforce

lemma iptables_rule_wf: "iptables_rule r \<Longrightarrow> rule_wf r"
  using is_ipv4_nonempty
  by (cases r) (auto simp: iptables_rule_def rule_wf_def split: option.splits)

section \<open>The package and the contract\<close>

text \<open>The documented behaviour of \<^verbatim>\<open>iptc.easy\<close> on the dictionaries this code builds: a rule
  is found exactly when the chain lists it, inserting adds one occurrence, deleting drops
  one.\<close>

locale iptc_package =
  fixes api :: "'f iptc_api"
  assumes has_rule: "rule_image d \<Longrightarrow> iptc_has_rule api d f \<longleftrightarrow> d \<in> set (iptc_rules api f)"
    and insert_rule: "rule_image d \<Longrightarrow>
       mset (iptc_rules api (iptc_insert_rule api d f)) = add_mset d (mset (iptc_rules api f))"
    and delete_rule: "rule_image d \<Longrightarrow> d \<in> set (iptc_rules api f) \<Longrightarrow>
       mset (iptc_rules api (iptc_delete_rule api d f)) = mset (iptc_rules api f) - {#d#}"

text \<open>A table that can be read: every manageable rule in it is one this code could have
  written, and none is there twice.\<close>

definition host_table_ok :: "'f iptc_api \<Rightarrow> 'f \<Rightarrow> bool" where
  "host_table_ok api f =
     (let ds = filter is_manageable (iptc_rules api f)
      in distinct ds \<and> (\<forall>d \<in> set ds. rule_image d))"

definition managed :: "'f iptc_api \<Rightarrow> 'f \<Rightarrow> rule_d multiset" where
  "managed api f = filter_mset is_manageable (mset (iptc_rules api f))"

lemma host_table_ok_managed:
  "host_table_ok api f \<longleftrightarrow>
     (\<forall>d. count (managed api f) d \<le> 1) \<and> (\<forall>d \<in># managed api f. rule_image d)"
proof -
  define ds where "ds = filter is_manageable (iptc_rules api f)"
  have m: "managed api f = mset ds" by (simp add: managed_def ds_def)
  have "distinct ds \<longleftrightarrow> (\<forall>d. count (mset ds) d \<le> 1)"
  proof
    assume "distinct ds"
    then show "\<forall>d. count (mset ds) d \<le> 1" by (simp add: distinct_count_atmost_1)
  next
    assume "\<forall>d. count (mset ds) d \<le> 1"
    then have "count (mset ds) d = (if d \<in> set ds then 1 else 0)" for d
      using count_mset_0_iff [of ds d] by (cases "d \<in> set ds") (auto simp: le_Suc_eq)
    then show "distinct ds" by (simp add: distinct_count_atmost_1)
  qed
  then show ?thesis by (simp add: host_table_ok_def m ds_def [symmetric] Let_def)
qed

lemma res_map_distinct:
  assumes "res_map g xs = Inr ys" and "distinct xs"
    and "\<And>x x' y. x \<in> set xs \<Longrightarrow> x' \<in> set xs \<Longrightarrow> g x = Inr y \<Longrightarrow> g x' = Inr y \<Longrightarrow> x = x'"
  shows "distinct ys"
  using assms
proof (induction xs arbitrary: ys)
  case (Cons x xs)
  then obtain y zs where y: "g x = Inr y" and zs: "res_map g xs = Inr zs" and ys: "ys = y # zs"
    by (auto simp: res_bind_Inr_iff)
  have "distinct zs"
    by (rule Cons.IH [OF zs]) (use Cons.prems(2,3) in auto)
  moreover have "y \<notin> set zs"
  proof
    assume "y \<in> set zs"
    then obtain x' where "x' \<in> set xs" and "g x' = Inr y"
      using res_map_set [OF zs] by auto
    with Cons.prems(2,3) y show False by auto
  qed
  ultimately show ?case by (simp add: ys)
qed simp

lemma iptables_rules_image:
  assumes "host_table_ok api f"
  shows "\<exists>rs. iptables_rules api f = Inr rs \<and> distinct rs \<and> (\<forall>r \<in> set rs. iptables_rule r) \<and>
           (\<forall>r. iptables_rule r \<longrightarrow> (r \<in> set rs \<longleftrightarrow>
              (\<exists>d \<in># managed api f. schain_rule_to_rule_d r = Inr d)))"
proof -
  let ?ds = "filter is_manageable (iptc_rules api f)"
  have img: "\<forall>d \<in> set ?ds. rule_image d" and dist: "distinct ?ds"
    using assms by (simp_all add: host_table_ok_def Let_def)
  have "\<forall>d \<in> set ?ds. \<exists>r. rule_d_to_schain_rule d = Inr r"
    using img rule_translation_image by metis
  then obtain rs where rs: "res_map rule_d_to_schain_rule ?ds = Inr rs"
    using res_map_success by metis
  have origin: "iptables_rule r \<and> schain_rule_to_rule_d r = Inr d"
    if "d \<in> set ?ds" "rule_d_to_schain_rule d = Inr r" for d r
    using img that rule_translation_image by (metis sum.inject(2))
  have set_rs: "set rs = {r. \<exists>d \<in> set ?ds. rule_d_to_schain_rule d = Inr r}"
    by (rule res_map_set [OF rs])
  have good: "\<forall>r \<in> set rs. iptables_rule r" using origin set_rs by auto
  have mem: "r \<in> set rs \<longleftrightarrow> (\<exists>d \<in># managed api f. schain_rule_to_rule_d r = Inr d)"
    if "iptables_rule r" for r
    using that rule_translation [OF that] origin
    by (auto simp: set_rs managed_def mset_filter [symmetric] simp del: mset_filter)
  have "distinct rs"
    by (rule res_map_distinct [OF rs dist]) (use origin in \<open>metis sum.inject(2)\<close>)
  with rs good mem show ?thesis by (auto simp: iptables_rules_def)
qed

text \<open>A rule the code can write is translated to one entry, and different rules to different
  entries.\<close>

lemma rule_translation_inj:
  assumes "iptables_rule r" and "iptables_rule r'"
    and "schain_rule_to_rule_d r = Inr d" and "schain_rule_to_rule_d r' = Inr d"
  shows "r = r'"
  using rule_translation [OF assms(1)] rule_translation [OF assms(2)] assms(3,4) by auto

lemma rule_image_manageable: "rule_image d \<Longrightarrow> is_manageable d"
  by (erule rule_translation_image)

text \<open>The contract of the firewall follows from the package's.\<close>

context iptc_package
begin

lemma managed_insert:
  "rule_image d \<Longrightarrow> managed api (iptc_insert_rule api d f) = add_mset d (managed api f)"
  by (simp add: managed_def insert_rule rule_image_manageable)

lemma managed_delete:
  "rule_image d \<Longrightarrow> d \<in> set (iptc_rules api f) \<Longrightarrow>
   managed api (iptc_delete_rule api d f) = managed api f - {#d#}"
  by (simp add: managed_def delete_rule filter_diff_mset rule_image_manageable)

lemma has_rule_managed:
  "rule_image d \<Longrightarrow> iptc_has_rule api d f \<longleftrightarrow> d \<in># managed api f"
  by (simp add: managed_def has_rule rule_image_manageable)

lemma foreign_insert:
  "rule_image d \<Longrightarrow> filter_mset (Not \<circ> is_manageable) (mset (iptc_rules api (iptc_insert_rule api d f))) =
     filter_mset (Not \<circ> is_manageable) (mset (iptc_rules api f))"
  by (simp add: insert_rule rule_image_manageable)

lemma foreign_delete:
  "rule_image d \<Longrightarrow> d \<in> set (iptc_rules api f) \<Longrightarrow>
     filter_mset (Not \<circ> is_manageable) (mset (iptc_rules api (iptc_delete_rule api d f))) =
     filter_mset (Not \<circ> is_manageable) (mset (iptc_rules api f))"
  by (simp add: delete_rule filter_diff_mset rule_image_manageable)

end

lemma IptablesController_sel [simp]:
  "hc_add_rule (IptablesController api) = iptables_add_rule api"
  "hc_remove_rule (IptablesController api) = iptables_remove_rule api"
  "hc_rules (IptablesController api) = iptables_rules api"
  "hc_has_rule (IptablesController api) = iptables_has_rule api"
  by (simp_all add: IptablesController_def)

lemma iptables_rules_members:
  assumes "host_table_ok api f" and "iptables_rules api f = Inr rs"
  shows "r \<in> set rs \<longleftrightarrow> iptables_rule r \<and> (\<exists>d \<in># managed api f. schain_rule_to_rule_d r = Inr d)"
  using iptables_rules_image [OF assms(1)] assms(2) by auto

lemma iptables_rules_members':
  assumes "host_table_ok api f" and "iptables_rules api f = Inr rs" and "iptables_rule r"
    and "schain_rule_to_rule_d r = Inr d"
  shows "r \<in> set rs \<longleftrightarrow> d \<in># managed api f"
  using iptables_rules_members [OF assms(1,2)] assms(3,4) by auto

context iptc_package
begin

text \<open>Adding a rule: at most one entry more, the readable table stays readable.\<close>

lemma add_rule_spec:
  assumes ok: "host_table_ok api f" and rs: "iptables_rules api f = Inr rs" and r: "iptables_rule r"
  shows "\<exists>f' rs'. iptables_add_rule api r f = (Inr (), f') \<and> host_table_ok api f' \<and>
           iptables_rules api f' = Inr rs' \<and> set rs' = insert r (set rs)"
proof -
  from rule_translation [OF r] obtain d where d: "schain_rule_to_rule_d r = Inr d" by blast
  then have img: "rule_image d" using r by (auto simp: rule_image_def)
  have mem: "r \<in> set rs \<longleftrightarrow> d \<in># managed api f"
    by (rule iptables_rules_members' [OF ok rs r d])
  show ?thesis
  proof (cases "d \<in># managed api f")
    case True
    with ok rs mem show ?thesis
      by (auto simp: iptables_add_rule_def iptables_has_rule_def act_simps d
          has_rule_managed [OF img])
  next
    case False
    let ?f = "iptc_insert_rule api d f"
    have m: "managed api ?f = add_mset d (managed api f)" by (rule managed_insert [OF img])
    have ok': "host_table_ok api ?f"
      using ok False img by (auto simp: host_table_ok_managed m not_in_iff)
    from iptables_rules_image [OF ok'] obtain rs' where rs': "iptables_rules api ?f = Inr rs'"
      by blast
    have "x \<in> set rs' \<longleftrightarrow> x = r \<or> x \<in> set rs" for x
      using iptables_rules_members [OF ok' rs', of x] iptables_rules_members [OF ok rs, of x]
        rule_translation_inj [OF r, of x d] d r by (auto simp: m)
    with ok' rs' False show ?thesis
      by (auto simp: iptables_add_rule_def iptables_has_rule_def act_simps d
          has_rule_managed [OF img])
  qed
qed

text \<open>Removing a rule: its one entry goes.\<close>

lemma remove_rule_spec:
  assumes ok: "host_table_ok api f" and rs: "iptables_rules api f = Inr rs" and r: "iptables_rule r"
  shows "\<exists>f' rs'. iptables_remove_rule api r f = (Inr (), f') \<and> host_table_ok api f' \<and>
           iptables_rules api f' = Inr rs' \<and> set rs' = set rs - {r}"
proof -
  from rule_translation [OF r] obtain d where d: "schain_rule_to_rule_d r = Inr d" by blast
  then have img: "rule_image d" using r by (auto simp: rule_image_def)
  have mem: "r \<in> set rs \<longleftrightarrow> d \<in># managed api f"
    by (rule iptables_rules_members' [OF ok rs r d])
  show ?thesis
  proof (cases "d \<in># managed api f")
    case False
    with ok rs mem show ?thesis
      by (auto simp: iptables_remove_rule_def iptables_has_rule_def act_simps d
          has_rule_managed [OF img])
  next
    case True
    let ?f = "iptc_delete_rule api d f"
    have "d \<in> set (iptc_rules api f)" using True by (simp add: managed_def)
    then have m: "managed api ?f = managed api f - {#d#}" by (rule managed_delete [OF img])
    have le: "count (managed api f) x \<le> 1" for x
      using ok by (simp add: host_table_ok_managed)
    have elem: "x \<in># managed api ?f \<longleftrightarrow> x \<in># managed api f \<and> x \<noteq> d" for x
      using le [of x] by (auto simp: m in_diff_count count_eq_zero_iff [symmetric] le_Suc_eq
          simp del: count_eq_zero_iff)
    have ok': "host_table_ok api ?f"
      using ok by (auto simp: host_table_ok_managed m intro: order_trans [OF diff_le_self]
          dest: in_diffD)
    from iptables_rules_image [OF ok'] obtain rs' where rs': "iptables_rules api ?f = Inr rs'"
      by blast
    have "x \<in> set rs' \<longleftrightarrow> x \<in> set rs \<and> x \<noteq> r" for x
      using iptables_rules_members [OF ok' rs', of x] iptables_rules_members [OF ok rs, of x]
        rule_translation_inj [OF r, of x d] d r by (auto simp: elem)
    with ok' rs' True show ?thesis
      by (auto simp: iptables_remove_rule_def iptables_has_rule_def act_simps d
          has_rule_managed [OF img])
  qed
qed

end

sublocale iptc_package \<subseteq> iptables: host_firewall "IptablesController api" "host_table_ok api" iptables_rule
proof
  show "iptables_rule r \<Longrightarrow> rule_wf r" for r
    by (rule iptables_rule_wf)
  show "host_table_ok api s \<Longrightarrow>
      \<exists>rs. hc_rules (IptablesController api) s = Inr rs \<and> distinct rs \<and> Ball (set rs) iptables_rule" for s
    using iptables_rules_image by fastforce
  show "\<exists>s' rs'. hc_add_rule (IptablesController api) r s = (Inr (), s') \<and> host_table_ok api s' \<and>
      hc_rules (IptablesController api) s' = Inr rs' \<and> set rs' = insert r (set rs)"
    if "host_table_ok api s" "hc_rules (IptablesController api) s = Inr rs" "iptables_rule r" for s rs r
    using add_rule_spec that by simp
  show "\<exists>s' rs'. hc_remove_rule (IptablesController api) r s = (Inr (), s') \<and> host_table_ok api s' \<and>
      hc_rules (IptablesController api) s' = Inr rs' \<and> set rs' = set rs - {r}"
    if "host_table_ok api s" "hc_rules (IptablesController api) s = Inr rs" "iptables_rule r" for s rs r
    using remove_rule_spec that by simp
qed

section \<open>Rules of others\<close>

text \<open>What this code does not manage, it never touches: every entry of another kind stays.\<close>

definition foreign :: "'f iptc_api \<Rightarrow> 'f \<Rightarrow> rule_d multiset" where
  "foreign api f = filter_mset (Not \<circ> is_manageable) (mset (iptc_rules api f))"

context iptc_package
begin

lemma foreign_add:
  assumes "iptables_rule r"
  shows "keeps (\<lambda>f. foreign api f = F) (iptables_add_rule api r)"
proof -
  from rule_translation [OF assms] obtain d where d: "schain_rule_to_rule_d r = Inr d" by blast
  with assms have img: "rule_image d" by (auto simp: rule_image_def)
  show ?thesis
    by (rule keepsI) (simp add: iptables_add_rule_def iptables_has_rule_def act_simps foreign_def d
        foreign_insert [OF img])
qed

lemma foreign_remove:
  assumes "iptables_rule r"
  shows "keeps (\<lambda>f. foreign api f = F) (iptables_remove_rule api r)"
proof -
  from rule_translation [OF assms] obtain d where d: "schain_rule_to_rule_d r = Inr d" by blast
  with assms have img: "rule_image d" by (auto simp: rule_image_def)
  show ?thesis
    by (rule keepsI) (simp add: iptables_remove_rule_def iptables_has_rule_def act_simps foreign_def
        d has_rule [OF img] foreign_delete [OF img])
qed

end

section \<open>A small table\<close>

definition ref_iptc :: "rule_d list iptc_api" where
  "ref_iptc = \<lparr>iptc_rules = (\<lambda>ds. ds), iptc_has_rule = (\<lambda>d ds. List.member ds d),
               iptc_insert_rule = Cons, iptc_delete_rule = remove1\<rparr>"

interpretation ref_iptc: iptc_package ref_iptc
  by unfold_locales (simp_all add: ref_iptc_def)

end
