(* ===== verification/Firewall_Rules.thy ===== *)
theory Firewall_Rules
  imports Firewall_Host
begin

text \<open>
  The rules of one chain: \<^verbatim>\<open>core/schains/firewall/firewall_manager.py\<close> (the managed rules
  inside a chain's port range and their update), \<^verbatim>\<open>rule_controller.py\<close> (which rules a chain
  needs: internal ports for the other nodes, public ports for everyone, two ports for the sync
  agents' address ranges) and \<^verbatim>\<open>utils.py\<close>. They run over any host filter that keeps the
  contract \<open>host_firewall\<close>; the properties use it through \<open>iptc_package\<close>.

  The port offsets \<^verbatim>\<open>SkaledPorts\<close> and \<^verbatim>\<open>PORTS_PER_SCHAIN\<close> belong to the package
  \<^verbatim>\<open>skale\<close>: they are fields of the controller. A set of rules is iterated in list order,
  which nothing depends on.
\<close>

section \<open>SChainFirewallManager\<close>

record firewall_manager =
  fm_name :: string
  first_port :: int
  last_port :: int

definition in_port_range :: "firewall_manager \<Rightarrow> schain_rule \<Rightarrow> bool" where
  "in_port_range fm r = (first_port fm \<le> r_port r \<and> r_port r \<le> last_port fm)"

definition manager_rules ::
  "'s host_controller \<Rightarrow> firewall_manager \<Rightarrow> 's \<Rightarrow> schain_rule list res" where
  "manager_rules hc fm s =
     res_bind (hc_rules hc s) (\<lambda>rs. Inr (py_sorted rule_lt (filter (in_port_range fm) rs)))"

definition add_rules :: "'s host_controller \<Rightarrow> schain_rule list \<Rightarrow> ('s, unit) act" where
  "add_rules hc rs = act_for (py_sorted rule_lt rs) (hc_add_rule hc)"

definition remove_rules :: "'s host_controller \<Rightarrow> schain_rule list \<Rightarrow> ('s, unit) act" where
  "remove_rules hc rs = act_for rs (hc_remove_rule hc)"

definition update_rules ::
  "'s host_controller \<Rightarrow> firewall_manager \<Rightarrow> schain_rule list \<Rightarrow> ('s, unit) act" where
  "update_rules hc fm rules =
     act_bind (act_res (manager_rules hc fm)) (\<lambda>actual.
       let rules_to_add = filter (\<lambda>r. r \<notin> set actual) (remdups rules);
           rules_to_remove = filter (\<lambda>r. r \<notin> set rules) (remdups actual)
       in act_then (add_rules hc rules_to_add) (remove_rules hc rules_to_remove))"

definition flush :: "'s host_controller \<Rightarrow> firewall_manager \<Rightarrow> ('s, unit) act" where
  "flush hc fm = act_bind (act_res (manager_rules hc fm)) (remove_rules hc)"

section \<open>SChainRuleController\<close>

record skaled_ports =
  CATCHUP :: int
  PROPOSAL :: int
  BINARY_CONSENSUS :: int
  ZMQ_BROADCAST :: int
  IMA_RPC :: int
  HTTP_JSON :: int
  HTTPS_JSON :: int
  WS_JSON :: int
  WSS_JSON :: int
  INFO_HTTP_JSON :: int

record rule_controller =
  rc_name :: string
  base_port :: "int option"
  own_ip :: "string option"
  node_ips :: "string list"
  sync_ip_ranges :: "ip_range list"
  port_allocation :: skaled_ports
  ports_per_schain :: int
  rc_firewall_manager :: "firewall_manager option"

text \<open>\<^verbatim>\<open>get_default_rule_controller\<close>\<close>

definition get_default_rule_controller ::
  "skaled_ports \<Rightarrow> int \<Rightarrow> string \<Rightarrow> int option \<Rightarrow> string option \<Rightarrow> string list \<Rightarrow>
   ip_range list option \<Rightarrow> rule_controller" where
  "get_default_rule_controller ports pps n bp own ips ranges =
     \<lparr>rc_name = n, base_port = bp, own_ip = own, node_ips = ips,
      sync_ip_ranges = (case ranges of None \<Rightarrow> [] | Some rs \<Rightarrow> rs),
      port_allocation = ports, ports_per_schain = pps, rc_firewall_manager = None\<rparr>"

definition get_missing :: "rule_controller \<Rightarrow> string list" where
  "get_missing rc =
     (if int_truthy (base_port rc) then [] else [''base_port'']) @
     (if str_truthy (own_ip rc) then [] else [''own_ip'']) @
     (if node_ips rc \<noteq> [] then [] else [''node_ips''])"

definition is_configured :: "rule_controller \<Rightarrow> bool" where
  "is_configured rc = (int_truthy (base_port rc) \<and> node_ips rc \<noteq> [])"

text \<open>\<^verbatim>\<open>configured_only\<close>\<close>

definition configured_only :: "rule_controller \<Rightarrow> 'a \<Rightarrow> 'a res" where
  "configured_only rc a =
     (if is_configured rc then Inr a else Inl (NotInitializedError (get_missing rc)))"

definition configure ::
  "int option \<Rightarrow> string option \<Rightarrow> string list option \<Rightarrow> ip_range list option \<Rightarrow>
   skaled_ports option \<Rightarrow> rule_controller \<Rightarrow> rule_controller" where
  "configure bp own ips ranges ports rc =
     rc\<lparr>base_port := if int_truthy bp then bp else base_port rc,
        own_ip := if str_truthy own then own else own_ip rc,
        node_ips := (case ips of None \<Rightarrow> node_ips rc | Some xs \<Rightarrow> if xs \<noteq> [] then xs else node_ips rc),
        sync_ip_ranges :=
          (case ranges of None \<Rightarrow> sync_ip_ranges rc
                        | Some xs \<Rightarrow> if xs \<noteq> [] then xs else sync_ip_ranges rc),
        port_allocation := (case ports of None \<Rightarrow> port_allocation rc | Some p \<Rightarrow> p)\<rparr>"

definition ports_at :: "rule_controller \<Rightarrow> (skaled_ports \<Rightarrow> int) list \<Rightarrow> int list" where
  "ports_at rc offs = map (\<lambda>off. the (base_port rc) + off (port_allocation rc)) offs"

definition internal_ports :: "rule_controller \<Rightarrow> int list" where
  "internal_ports rc = ports_at rc [CATCHUP, PROPOSAL, BINARY_CONSENSUS, ZMQ_BROADCAST, IMA_RPC]"

definition public_ports :: "rule_controller \<Rightarrow> int list" where
  "public_ports rc = ports_at rc [HTTP_JSON, HTTPS_JSON, WS_JSON, WSS_JSON, INFO_HTTP_JSON]"

definition sync_agent_ports :: "rule_controller \<Rightarrow> int list" where
  "sync_agent_ports rc = ports_at rc [CATCHUP, ZMQ_BROADCAST]"

definition internal_rules :: "rule_controller \<Rightarrow> schain_rule list" where
  "internal_rules rc =
     concat (map (\<lambda>ip. if Some ip \<noteq> own_ip rc
                       then map (\<lambda>port. SChainRule port (Some ip) None) (internal_ports rc)
                       else [])
       (node_ips rc))"

definition public_rules :: "rule_controller \<Rightarrow> schain_rule list" where
  "public_rules rc = map (\<lambda>port. SChainRule port None None) (public_ports rc)"

definition sync_agent_rules :: "rule_controller \<Rightarrow> schain_rule list" where
  "sync_agent_rules rc =
     concat (map (\<lambda>r. map (\<lambda>port. SChainRule port (Some (start_ip r)) (Some (end_ip r)))
                          (sync_agent_ports rc))
       (sync_ip_ranges rc))"

definition expected_rules :: "rule_controller \<Rightarrow> schain_rule list res" where
  "expected_rules rc =
     configured_only rc
       (py_sorted rule_lt (internal_rules rc @ public_rules rc @ sync_agent_rules rc))"

definition create_firewall_manager :: "rule_controller \<Rightarrow> firewall_manager res" where
  "create_firewall_manager rc =
     configured_only rc
       \<lparr>fm_name = rc_name rc, first_port = the (base_port rc),
        last_port = the (base_port rc) + ports_per_schain rc - 1\<rparr>"

text \<open>The property \<^verbatim>\<open>firewall_manager\<close>: made once and kept; the controller after it.\<close>

definition get_firewall_manager :: "rule_controller \<Rightarrow> (firewall_manager \<times> rule_controller) res" where
  "get_firewall_manager rc =
     (case rc_firewall_manager rc of
        Some fm \<Rightarrow> Inr (fm, rc)
      | None \<Rightarrow> res_bind (create_firewall_manager rc) (\<lambda>fm.
                Inr (fm, rc\<lparr>rc_firewall_manager := Some fm\<rparr>)))"

definition actual_rules ::
  "'s host_controller \<Rightarrow> rule_controller \<Rightarrow> 's \<Rightarrow> (schain_rule list \<times> rule_controller) res" where
  "actual_rules hc rc s =
     res_bind (get_firewall_manager rc) (\<lambda>(fm, rc').
     res_bind (manager_rules hc fm s) (\<lambda>rs. Inr (py_sorted rule_lt rs, rc')))"

definition is_rules_synced ::
  "'s host_controller \<Rightarrow> rule_controller \<Rightarrow> 's \<Rightarrow> (bool \<times> rule_controller) res" where
  "is_rules_synced hc rc s =
     res_bind (actual_rules hc rc s) (\<lambda>(actual, rc').
     res_bind (expected_rules rc') (\<lambda>expected. Inr (set actual = set expected, rc')))"

definition rules_sync ::
  "'s host_controller \<Rightarrow> rule_controller \<Rightarrow> ('s, rule_controller) act" where
  "rules_sync hc rc =
     act_bind (act_res (\<lambda>_. expected_rules rc)) (\<lambda>erules.
     act_bind (act_res (\<lambda>_. get_firewall_manager rc)) (\<lambda>(fm, rc').
     act_then (update_rules hc fm erules) (act_return rc')))"

definition rules_cleanup ::
  "'s host_controller \<Rightarrow> rule_controller \<Rightarrow> ('s, rule_controller) act" where
  "rules_cleanup hc rc =
     act_bind (act_res (\<lambda>_. get_firewall_manager rc)) (\<lambda>(fm, rc').
     act_then (flush hc fm) (act_return rc'))"

section \<open>Sync agents' ranges\<close>

text \<open>\<^verbatim>\<open>get_sync_agent_ranges\<close>: the contract's number of ranges and its range by index.\<close>

definition get_sync_agent_ranges :: "nat \<Rightarrow> (nat \<Rightarrow> ip_range) \<Rightarrow> ip_range list" where
  "get_sync_agent_ranges rnum range_by_index = py_sorted range_lt (map range_by_index [0..<rnum])"

definition save_sync_ranges :: "ip_range list \<Rightarrow> path \<Rightarrow> files \<Rightarrow> files" where
  "save_sync_ranges rs p =
     write_json p
       (JObj [(''ranges'', JList (map (\<lambda>r. JList [JStr (start_ip r), JStr (end_ip r)]) rs))])"

definition ranges_from_plain_tuples :: "(string \<times> string) list \<Rightarrow> ip_range list" where
  "ranges_from_plain_tuples ps = py_sorted range_lt (map (\<lambda>(a, b). IpRange a b) ps)"

section \<open>The manager over any host filter\<close>

lemma manager_rules_set:
  "hc_rules hc s = Inr rs \<Longrightarrow>
   \<exists>xs. manager_rules hc fm s = Inr xs \<and> set xs = {r \<in> set rs. in_port_range fm r}"
  by (auto simp: manager_rules_def)

context host_firewall
begin

text \<open>An update leaves exactly the wanted rules and those outside the chain's range.\<close>

lemma update_rules_spec:
  assumes ok: "ok s" and rs: "hc_rules hc s = Inr rs" and good: "\<And>r. r \<in> set rules \<Longrightarrow> good r"
  shows "\<exists>s' rs'. update_rules hc fm rules s = (Inr (), s') \<and> ok s' \<and> hc_rules hc s' = Inr rs' \<and>
           set rs' = set rules \<union> {r \<in> set rs. \<not> in_port_range fm r}"
proof -
  from manager_rules_set [OF rs] obtain actual where
    act: "manager_rules hc fm s = Inr actual" "set actual = {r \<in> set rs. in_port_range fm r}"
    by blast
  let ?add = "py_sorted rule_lt (filter (\<lambda>r. r \<notin> set actual) (remdups rules))"
  let ?rem = "filter (\<lambda>r. r \<notin> set rules) (remdups actual)"
  have "good r" if "r \<in> set actual" for r
    using that act rules_ok [OF ok] rs by auto
  moreover obtain s1 rs1 where
    s1: "act_for ?add (hc_add_rule hc) s = (Inr (), s1)" "ok s1" "hc_rules hc s1 = Inr rs1"
      "set rs1 = set ?add \<union> set rs"
    using add_all [OF ok rs, of ?add] good by auto
  ultimately obtain s' rs' where
    "act_for ?rem (hc_remove_rule hc) s1 = (Inr (), s')" "ok s'" "hc_rules hc s' = Inr rs'"
      "set rs' = set rs1 - set ?rem"
    using remove_all [OF s1(2,3), of ?rem] by auto
  with s1 act show ?thesis
    by (auto simp: update_rules_def act_simps add_rules_def remove_rules_def Let_def)
qed

lemma flush_spec:
  assumes ok: "ok s" and rs: "hc_rules hc s = Inr rs"
  shows "\<exists>s' rs'. flush hc fm s = (Inr (), s') \<and> ok s' \<and> hc_rules hc s' = Inr rs' \<and>
           set rs' = {r \<in> set rs. \<not> in_port_range fm r}"
proof -
  from manager_rules_set [OF rs] obtain actual where
    act: "manager_rules hc fm s = Inr actual" "set actual = {r \<in> set rs. in_port_range fm r}"
    by blast
  have "good r" if "r \<in> set actual" for r
    using that act rules_ok [OF ok] rs by auto
  with remove_all [OF ok rs, of actual] act show ?thesis
    by (auto simp: flush_def act_simps remove_rules_def)
qed

text \<open>The controller: a sync leaves the expected rules in the range and nothing else there,
  reports as synced, and a second one changes no rule.\<close>

lemma rules_sync_spec:
  assumes ok: "ok s" and rs: "hc_rules hc s = Inr rs"
    and erules: "expected_rules rc = Inr erules" and good: "\<And>r. r \<in> set erules \<Longrightarrow> good r"
    and fm: "get_firewall_manager rc = Inr (fm, rc')"
  shows "\<exists>s' rs'. rules_sync hc rc s = (Inr rc', s') \<and> ok s' \<and> hc_rules hc s' = Inr rs' \<and>
           set rs' = set erules \<union> {r \<in> set rs. \<not> in_port_range fm r}"
  using update_rules_spec [OF ok rs, of erules fm] good
  by (auto simp: rules_sync_def act_simps erules fm)

lemma rules_cleanup_spec:
  assumes ok: "ok s" and rs: "hc_rules hc s = Inr rs"
    and fm: "get_firewall_manager rc = Inr (fm, rc')"
  shows "\<exists>s' rs'. rules_cleanup hc rc s = (Inr rc', s') \<and> ok s' \<and> hc_rules hc s' = Inr rs' \<and>
           set rs' = {r \<in> set rs. \<not> in_port_range fm r}"
  using flush_spec [OF ok rs, of fm] by (auto simp: rules_cleanup_def act_simps fm)

end

section \<open>Which rules are expected\<close>

text \<open>The chain's ports lie in the range its manager looks at.\<close>

definition ports_in_range :: "rule_controller \<Rightarrow> bool" where
  "ports_in_range rc =
     (let p = port_allocation rc; offs = [CATCHUP p, PROPOSAL p, BINARY_CONSENSUS p,
        ZMQ_BROADCAST p, IMA_RPC p, HTTP_JSON p, HTTPS_JSON p, WS_JSON p, WSS_JSON p,
        INFO_HTTP_JSON p]
      in \<forall>off \<in> set offs. 0 \<le> off \<and> off < ports_per_schain rc)"

text \<open>Addresses as the contracts deliver them.\<close>

definition addresses_ok :: "rule_controller \<Rightarrow> bool" where
  "addresses_ok rc =
     ((\<forall>ip \<in> set (node_ips rc). is_ipv4 ip) \<and>
      (\<forall>r \<in> set (sync_ip_ranges rc). is_ipv4 (start_ip r) \<and> is_ipv4 (end_ip r)))"

lemma expected_rules_set:
  assumes "expected_rules rc = Inr rs"
  shows "set rs = set (internal_rules rc) \<union> set (public_rules rc) \<union> set (sync_agent_rules rc)"
  using assms by (auto simp: expected_rules_def configured_only_def split: if_splits)

lemma SChainRule_eval:
  "fip \<noteq> [] \<Longrightarrow> SChainRule p (Some fip) None = Rule p (Some fip) (Some fip)"
  "SChainRule p None None = Rule p None None"
  "lip \<noteq> [] \<Longrightarrow> SChainRule p (Some fip) (Some lip) = Rule p (Some fip) (Some lip)"
  by (simp_all add: SChainRule_def str_truthy_def)

lemma internal_rule_form:
  "r \<in> set (internal_rules rc) \<Longrightarrow>
   \<exists>ip \<in> set (node_ips rc). \<exists>p \<in> set (internal_ports rc). r = SChainRule p (Some ip) None"
  unfolding internal_rules_def by (fastforce split: if_splits)

lemma public_rule_form:
  "r \<in> set (public_rules rc) \<Longrightarrow> \<exists>p \<in> set (public_ports rc). r = SChainRule p None None"
  unfolding public_rules_def by auto

lemma sync_rule_form:
  "r \<in> set (sync_agent_rules rc) \<Longrightarrow>
   \<exists>g \<in> set (sync_ip_ranges rc). \<exists>p \<in> set (sync_agent_ports rc).
     r = SChainRule p (Some (start_ip g)) (Some (end_ip g))"
  unfolding sync_agent_rules_def by auto

lemma expected_rules_good:
  assumes ok: "addresses_ok rc" and rs: "expected_rules rc = Inr rs" and r: "r \<in> set rs"
  shows "iptables_rule r"
proof -
  from r expected_rules_set [OF rs] consider "r \<in> set (internal_rules rc)"
    | "r \<in> set (public_rules rc)" | "r \<in> set (sync_agent_rules rc)" by blast
  then show ?thesis
  proof cases
    case 1
    with internal_rule_form ok is_ipv4_nonempty show ?thesis
      unfolding addresses_ok_def by (fastforce simp: SChainRule_eval iptables_rule_def)
  next
    case 2
    with public_rule_form show ?thesis by (fastforce simp: SChainRule_eval iptables_rule_def)
  next
    case 3
    with sync_rule_form ok is_ipv4_nonempty show ?thesis
      unfolding addresses_ok_def by (fastforce simp: SChainRule_eval iptables_rule_def)
  qed
qed

lemma expected_rules_in_range:
  assumes ports: "ports_in_range rc" and rs: "expected_rules rc = Inr rs" and r: "r \<in> set rs"
    and fm: "create_firewall_manager rc = Inr fm"
  shows "in_port_range fm r"
proof -
  have fm': "first_port fm = the (base_port rc)"
    "last_port fm = the (base_port rc) + ports_per_schain rc - 1"
    using fm by (auto simp: create_firewall_manager_def configured_only_def split: if_splits)
  have "r_port r \<in> set (internal_ports rc) \<union> set (public_ports rc)"
  proof -
    have "set (sync_agent_ports rc) \<subseteq> set (internal_ports rc)"
      by (auto simp: sync_agent_ports_def internal_ports_def ports_at_def)
    with r expected_rules_set [OF rs] show ?thesis
      by (auto dest!: internal_rule_form public_rule_form sync_rule_form simp: SChainRule_def)
  qed
  with ports show ?thesis
    by (auto simp: in_port_range_def fm' ports_in_range_def internal_ports_def public_ports_def
        ports_at_def Let_def)
qed

text \<open>Membership, spelt out.\<close>

lemma internal_rules_iff:
  assumes "addresses_ok rc"
  shows "Rule p fip lip \<in> set (internal_rules rc) \<longleftrightarrow>
     (\<exists>ip \<in> set (node_ips rc). Some ip \<noteq> own_ip rc \<and> fip = Some ip \<and> lip = Some ip) \<and>
     p \<in> set (internal_ports rc)"
  using assms is_ipv4_nonempty
  by (auto simp: internal_rules_def addresses_ok_def SChainRule_eval split: if_splits)

lemma public_rules_iff:
  "Rule p fip lip \<in> set (public_rules rc) \<longleftrightarrow> fip = None \<and> lip = None \<and> p \<in> set (public_ports rc)"
  by (auto simp: public_rules_def SChainRule_eval)

lemma sync_rules_iff:
  assumes "addresses_ok rc"
  shows "Rule p (Some a) (Some b) \<in> set (sync_agent_rules rc) \<longleftrightarrow>
     p \<in> set (sync_agent_ports rc) \<and> (\<exists>g \<in> set (sync_ip_ranges rc). start_ip g = a \<and> end_ip g = b)"
    and "Rule p None None \<notin> set (sync_agent_rules rc)"
  using assms is_ipv4_nonempty
  by (auto simp: sync_agent_rules_def addresses_ok_def SChainRule_eval)

section \<open>The chain's rules on the packet filter\<close>

text \<open>A controller that can manage its chain: configured, with the addresses and the ports the
  contracts deliver.\<close>

definition controller_ok :: "rule_controller \<Rightarrow> bool" where
  "controller_ok rc =
     (is_configured rc \<and> addresses_ok rc \<and> ports_in_range rc \<and> rc_firewall_manager rc = None)"

definition chain_port :: "rule_controller \<Rightarrow> int \<Rightarrow> bool" where
  "chain_port rc p = (the (base_port rc) \<le> p \<and> p < the (base_port rc) + ports_per_schain rc)"

definition expected_set :: "rule_controller \<Rightarrow> schain_rule set" where
  "expected_set rc = set (internal_rules rc) \<union> set (public_rules rc) \<union> set (sync_agent_rules rc)"

definition chain_manager :: "rule_controller \<Rightarrow> firewall_manager" where
  "chain_manager rc =
     \<lparr>fm_name = rc_name rc, first_port = the (base_port rc),
      last_port = the (base_port rc) + ports_per_schain rc - 1\<rparr>"

lemma chain_manager_range: "in_port_range (chain_manager rc) r \<longleftrightarrow> chain_port rc (r_port r)"
  by (auto simp: in_port_range_def chain_manager_def chain_port_def)

lemma controller_ok_eval:
  assumes "controller_ok rc"
  shows "create_firewall_manager rc = Inr (chain_manager rc)"
    and "get_firewall_manager rc = Inr (chain_manager rc, rc\<lparr>rc_firewall_manager := Some (chain_manager rc)\<rparr>)"
    and "\<exists>rs. expected_rules rc = Inr rs \<and> set rs = expected_set rc"
  using assms
  by (auto simp: controller_ok_def create_firewall_manager_def configured_only_def chain_manager_def
      get_firewall_manager_def expected_rules_def expected_set_def)

lemma expected_set_good:
  assumes "controller_ok rc" and "r \<in> expected_set rc"
  shows "iptables_rule r" and "chain_port rc (r_port r)"
proof -
  from controller_ok_eval(3) [OF assms(1)] obtain rs where
    rs: "expected_rules rc = Inr rs" "set rs = expected_set rc" by blast
  with assms expected_rules_good [of rc rs r] show "iptables_rule r" by (simp add: controller_ok_def)
  from assms rs expected_rules_in_range [of rc rs r, OF _ _ _ controller_ok_eval(1)]
  show "chain_port rc (r_port r)" by (simp add: controller_ok_def chain_manager_range)
qed

definition host_rules :: "'f iptc_api \<Rightarrow> 'f \<Rightarrow> schain_rule set" where
  "host_rules api f = (case iptables_rules api f of Inl _ \<Rightarrow> {} | Inr rs \<Rightarrow> set rs)"

text \<open>A sync that finds the expected rules changes nothing.\<close>

lemma update_rules_same:
  assumes "manager_rules hc fm s = Inr actual" and "set actual = set rules"
  shows "update_rules hc fm rules s = (Inr (), s)"
  using assms by (simp add: update_rules_def act_simps add_rules_def remove_rules_def Let_def
      filter_False py_sorted_def)

lemma synced_no_change:
  assumes es: "expected_rules rc = Inr es" and fm: "get_firewall_manager rc = Inr (fm, rc')"
    and ms: "manager_rules hc fm s = Inr actual" "set actual = set es"
  shows "rules_sync hc rc s = (Inr rc', s)"
  by (simp add: rules_sync_def act_simps es fm update_rules_same [OF ms])

context iptc_package
begin

lemma host_rules_ex:
  assumes "host_table_ok api f"
  shows "\<exists>rs. iptables_rules api f = Inr rs \<and> set rs = host_rules api f \<and>
           (\<forall>r \<in> set rs. iptables_rule r)"
  using iptables.rules_ok [OF assms] by (auto simp: host_rules_def)

lemma update_rules_foreign:
  assumes ok: "host_table_ok api f" and good: "\<And>r. r \<in> set rules \<Longrightarrow> iptables_rule r"
  shows "foreign api (snd (update_rules (IptablesController api) fm rules f)) = foreign api f"
proof -
  from host_rules_ex [OF ok] obtain rs where
    rs: "hc_rules (IptablesController api) f = Inr rs" "\<forall>r \<in> set rs. iptables_rule r" by auto
  from manager_rules_set [OF rs(1)] obtain actual where
    act: "manager_rules (IptablesController api) fm f = Inr actual"
      "set actual = {r \<in> set rs. in_port_range fm r}" by blast
  have "keeps (\<lambda>g. foreign api g = foreign api f)
     (act_then (add_rules (IptablesController api) (filter (\<lambda>r. r \<notin> set actual) (remdups rules)))
        (remove_rules (IptablesController api) (filter (\<lambda>r. r \<notin> set rules) (remdups actual))))"
    unfolding add_rules_def remove_rules_def using good rs(2) act(2)
    by (intro keeps_then keeps_for; auto intro: foreign_add foreign_remove)
  from keepsD [OF this, of f] show ?thesis
    by (simp add: update_rules_def act_bind_eval act_eval act Let_def)
qed

lemma flush_foreign:
  assumes ok: "host_table_ok api f"
  shows "foreign api (snd (flush (IptablesController api) fm f)) = foreign api f"
proof -
  from host_rules_ex [OF ok] obtain rs where
    rs: "hc_rules (IptablesController api) f = Inr rs" "\<forall>r \<in> set rs. iptables_rule r" by auto
  from manager_rules_set [OF rs(1)] obtain actual where
    act: "manager_rules (IptablesController api) fm f = Inr actual"
      "set actual = {r \<in> set rs. in_port_range fm r}" by blast
  have "keeps (\<lambda>g. foreign api g = foreign api f) (remove_rules (IptablesController api) actual)"
    unfolding remove_rules_def using rs(2) act(2)
    by (intro keeps_for) (auto intro: foreign_remove)
  from keepsD [OF this, of f] show ?thesis
    by (simp add: flush_def act_bind_eval act_eval act)
qed

lemma sync_iptables:
  assumes ok: "host_table_ok api f" and rc: "controller_ok rc"
  shows "\<exists>f'. rules_sync (IptablesController api) rc f =
             (Inr (rc\<lparr>rc_firewall_manager := Some (chain_manager rc)\<rparr>), f') \<and>
           host_table_ok api f' \<and> foreign api f' = foreign api f \<and>
           host_rules api f' =
             expected_set rc \<union> {r \<in> host_rules api f. \<not> chain_port rc (r_port r)}"
proof -
  from host_rules_ex [OF ok] obtain rs where
    rs: "hc_rules (IptablesController api) f = Inr rs" "set rs = host_rules api f" by auto
  obtain es where es: "expected_rules rc = Inr es" "set es = expected_set rc"
    using controller_ok_eval(3) [OF rc] by blast
  have good: "\<And>r. r \<in> set es \<Longrightarrow> iptables_rule r" using expected_set_good [OF rc] es by simp
  from iptables.rules_sync_spec [OF ok rs(1) es(1) good controller_ok_eval(2) [OF rc]]
  obtain f' rs' where f': "rules_sync (IptablesController api) rc f =
        (Inr (rc\<lparr>rc_firewall_manager := Some (chain_manager rc)\<rparr>), f')"
      "host_table_ok api f'" "hc_rules (IptablesController api) f' = Inr rs'"
      "set rs' = set es \<union> {r \<in> set rs. \<not> in_port_range (chain_manager rc) r}" by blast
  have "foreign api f' = foreign api f"
    using update_rules_foreign [OF ok, of es "chain_manager rc"] good f'(1)
    by (auto simp: rules_sync_def act_simps es(1) controller_ok_eval(2) [OF rc]
        split: prod.splits sum.splits)
  with f' rs es show ?thesis by (auto simp: host_rules_def chain_manager_range)
qed

lemma cleanup_iptables:
  assumes ok: "host_table_ok api f" and rc: "controller_ok rc"
  shows "\<exists>f'. rules_cleanup (IptablesController api) rc f =
             (Inr (rc\<lparr>rc_firewall_manager := Some (chain_manager rc)\<rparr>), f') \<and>
           host_table_ok api f' \<and> foreign api f' = foreign api f \<and>
           host_rules api f' = {r \<in> host_rules api f. \<not> chain_port rc (r_port r)}"
proof -
  from host_rules_ex [OF ok] obtain rs where
    rs: "hc_rules (IptablesController api) f = Inr rs" "set rs = host_rules api f" by auto
  from iptables.rules_cleanup_spec [OF ok rs(1) controller_ok_eval(2) [OF rc]]
  obtain f' rs' where f': "rules_cleanup (IptablesController api) rc f =
        (Inr (rc\<lparr>rc_firewall_manager := Some (chain_manager rc)\<rparr>), f')"
      "host_table_ok api f'" "hc_rules (IptablesController api) f' = Inr rs'"
      "set rs' = {r \<in> set rs. \<not> in_port_range (chain_manager rc) r}" by blast
  have "foreign api f' = foreign api f"
    using flush_foreign [OF ok, where fm = "chain_manager rc"] f'(1)
    by (auto simp: rules_cleanup_def act_simps controller_ok_eval(2) [OF rc]
        split: prod.splits sum.splits)
  with f' rs show ?thesis by (auto simp: host_rules_def chain_manager_range)
qed

text \<open>What the check of the rules compares.\<close>

lemma synced_iff:
  assumes ok: "host_table_ok api f" and rc: "controller_ok rc"
  shows "is_rules_synced (IptablesController api) rc f =
    Inr ({r \<in> host_rules api f. chain_port rc (r_port r)} = expected_set rc,
         rc\<lparr>rc_firewall_manager := Some (chain_manager rc)\<rparr>)"
proof -
  from host_rules_ex [OF ok] obtain rs where
    rs: "hc_rules (IptablesController api) f = Inr rs" "set rs = host_rules api f" by auto
  from manager_rules_set [OF rs(1)] obtain actual where
    act: "manager_rules (IptablesController api) (chain_manager rc) f = Inr actual"
      "set actual = {r \<in> set rs. in_port_range (chain_manager rc) r}" by blast
  have "\<exists>es. expected_rules (rc\<lparr>rc_firewall_manager := Some m\<rparr>) = Inr es \<and> set es = expected_set rc" for m
    using controller_ok_eval(3) [OF rc]
    by (auto simp: expected_rules_def configured_only_def is_configured_def internal_rules_def
        public_rules_def sync_agent_rules_def internal_ports_def public_ports_def sync_agent_ports_def
        ports_at_def split: if_splits)
  then obtain es where "expected_rules (rc\<lparr>rc_firewall_manager := Some (chain_manager rc)\<rparr>) = Inr es"
    "set es = expected_set rc" by blast
  then show ?thesis
    by (simp add: is_rules_synced_def actual_rules_def controller_ok_eval(2) [OF rc] act rs
        chain_manager_range)
qed

lemma sync_idempotent:
  assumes ok: "host_table_ok api f" and rc: "controller_ok rc"
    and synced: "{r \<in> host_rules api f. chain_port rc (r_port r)} = expected_set rc"
  shows "rules_sync (IptablesController api) rc f =
    (Inr (rc\<lparr>rc_firewall_manager := Some (chain_manager rc)\<rparr>), f)"
proof -
  from host_rules_ex [OF ok] obtain rs where
    rs: "hc_rules (IptablesController api) f = Inr rs" "set rs = host_rules api f" by auto
  from manager_rules_set [OF rs(1)] obtain actual where
    act: "manager_rules (IptablesController api) (chain_manager rc) f = Inr actual"
      "set actual = {r \<in> set rs. in_port_range (chain_manager rc) r}" by blast
  obtain es where es: "expected_rules rc = Inr es" "set es = expected_set rc"
    using controller_ok_eval(3) [OF rc] by blast
  from synced_no_change [OF es(1) controller_ok_eval(2) [OF rc] act(1)] act(2) es(2) rs(2) synced
  show ?thesis by (simp add: chain_manager_range)
qed

end

end
