(* ===== verification/Checks.thy ===== *)
theory Checks
  imports Runner Node_Info Firewall_Rules
begin

text \<open>
  \<^verbatim>\<open>core/schains/checks.py\<close>: the checks of a chain's configuration (\<open>config_checks\<close>)
  and of its skaled (\<open>skaled_checks\<close>), and how they are collected. A check is a statement
  over the monitor's state \<open>mstate\<close>: the node, the rule controller of the chain (which the
  firewall check configures), the external state of the configuration monitor and the blocks
  its action manager has executed. The record instance a check object holds is the one fetched
  when it was made.
\<close>

section \<open>State of a monitor\<close>

record executed_block =
  eb_ts :: int
  eb_te :: int
  eb_initial_status :: "bool option"

record ('d, 'f) mstate =
  wld :: "('d, 'f) world"
  rctl :: rule_controller
  estate :: external_state
  executed_blocks :: "(string, executed_block) table"

type_synonym ('d, 'f, 'a) mact = "(('d, 'f) mstate, 'a) act"

definition on_world :: "('d, 'f, 'a) wact \<Rightarrow> ('d, 'f, 'a) mact" where
  "on_world m = (\<lambda>s. case m (wld s) of (r, w') \<Rightarrow> (r, s\<lparr>wld := w'\<rparr>))"

definition in_world :: "(('d, 'f) world \<Rightarrow> 'a res) \<Rightarrow> ('d, 'f, 'a) mact" where
  "in_world q = act_res (\<lambda>s. q (wld s))"

text \<open>A call of the rule controller: it works on the host's filter and may keep its
  manager.\<close>

definition on_rule_controller ::
  "(rule_controller \<Rightarrow> ('f, rule_controller) act) \<Rightarrow> ('d, 'f, unit) mact" where
  "on_rule_controller m =
     (\<lambda>s. case m (rctl s) (netfilter (wld s)) of
        (Inl x, f') \<Rightarrow> (Inl x, s\<lparr>wld := wld s\<lparr>netfilter := f'\<rparr>\<rparr>)
      | (Inr rc', f') \<Rightarrow> (Inr (), s\<lparr>wld := wld s\<lparr>netfilter := f'\<rparr>, rctl := rc'\<rparr>))"

lemma mact_eval [act_simps]:
  "on_world m s = (case m (wld s) of (r, w') \<Rightarrow> (r, s\<lparr>wld := w'\<rparr>))"
  "in_world q s = (q (wld s), s)"
  by (simp_all add: on_world_def in_world_def act_simps)

section \<open>SkaledChecks\<close>

record skaled_checks =
  sk_name :: string
  sk_record :: schain_record
  sk_sync_node :: bool

definition sk_container_name :: "skaled_checks \<Rightarrow> string" where
  "sk_container_name c = get_container_name SCHAIN_CONTAINER (sk_name c)"

definition check_upstream_exists ::
  "('d, 'f) env \<Rightarrow> skaled_checks \<Rightarrow> ('d, 'f) world \<Rightarrow> bool res" where
  "check_upstream_exists e c w = upstream_config_exists e (sk_name c) w"

definition check_config :: "('d, 'f) env \<Rightarrow> skaled_checks \<Rightarrow> ('d, 'f) world \<Rightarrow> bool res" where
  "check_config e c w = Inr (skaled_config_exists e (sk_name c) w)"

definition check_rotation_id_updated ::
  "('d, 'f) env \<Rightarrow> skaled_checks \<Rightarrow> ('d, 'f) world \<Rightarrow> bool res" where
  "check_rotation_id_updated e c w =
     (if \<not> skaled_config_exists e (sk_name c) w then Inr False
      else res_bind (get_upstream_config_rotation_ids e (sk_name c) w) (\<lambda>us.
           res_bind (get_skaled_config_rotations_ids e (sk_name c) w) (\<lambda>cs. Inr (us = cs))))"

definition check_config_updated ::
  "('d, 'f) env \<Rightarrow> skaled_checks \<Rightarrow> ('d, 'f) world \<Rightarrow> bool res" where
  "check_config_updated e c w =
     (if \<not> skaled_config_exists e (sk_name c) w then Inr False
      else skaled_config_synced_with_upstream e (sk_name c) w)"

definition check_volume :: "('d, 'f) env \<Rightarrow> skaled_checks \<Rightarrow> ('d, 'f) world \<Rightarrow> bool res" where
  "check_volume e c w = is_volume_exists e (sk_name c) (sk_sync_node c) w"

text \<open>The controller is configured from the skaled configuration before it compares.\<close>

definition configure_from ::
  "('d, 'f) env \<Rightarrow> string \<Rightarrow> json option \<Rightarrow> ('d, 'f, unit) mact" where
  "configure_from e n conf =
     act_bind (act_res (\<lambda>_. get_base_port_from_config conf)) (\<lambda>bp.
     act_bind (act_res (\<lambda>_. get_node_ips_from_config conf)) (\<lambda>ips.
     act_bind (act_res (\<lambda>_. get_own_ip_from_config conf)) (\<lambda>own.
     act_bind (in_world (ext_ranges e n)) (\<lambda>ranges.
     act_modify (\<lambda>s. s\<lparr>rctl := configure (Some bp) own (Some ips) (Some ranges)
                                (Some (port_allocation (rctl s))) (rctl s)\<rparr>)))))"

definition check_is_rules_synced :: "('d, 'f) env \<Rightarrow> ('d, 'f, bool) mact" where
  "check_is_rules_synced e =
     (\<lambda>s. case is_rules_synced (IptablesController (iptc e)) (rctl s) (netfilter (wld s)) of
        Inl x \<Rightarrow> (Inl x, s)
      | Inr (b, rc') \<Rightarrow> (Inr b, s\<lparr>rctl := rc'\<rparr>))"

definition check_firewall_rules ::
  "('d, 'f) env \<Rightarrow> skaled_checks \<Rightarrow> ('d, 'f, bool) mact" where
  "check_firewall_rules e c =
     act_if (in_world (check_config e c))
       (act_bind (in_world (skaled_config e (sk_name c))) (\<lambda>conf.
        act_then (configure_from e (sk_name c) conf)
          (act_then (act_drop (act_res (\<lambda>s. expected_rules (rctl s))))
             (check_is_rules_synced e))))
       (act_return False)"

definition check_skaled_container ::
  "('d, 'f) env \<Rightarrow> skaled_checks \<Rightarrow> ('d, 'f) world \<Rightarrow> bool res" where
  "check_skaled_container e c w =
     docker_is_container_running (docker e) (sk_container_name c) (daemon w)"

definition EC_STATE_ROOT_MISMATCH :: int where "EC_STATE_ROOT_MISMATCH = 200"

definition check_exit_code_ok ::
  "('d, 'f) env \<Rightarrow> skaled_checks \<Rightarrow> ('d, 'f) world \<Rightarrow> bool res" where
  "check_exit_code_ok e c w =
     res_bind (container_exit_code (docker e) (sk_container_name c) (daemon w)) (\<lambda>code.
     Inr (code \<noteq> EC_STATE_ROOT_MISMATCH))"

text \<open>Not linked to IMA: nothing to check. Otherwise the container runs, the new image is
  pulled, and a running container has the image and time frame due at this time.\<close>

definition check_ima_container ::
  "('d, 'f) env \<Rightarrow> skaled_checks \<Rightarrow> ('d, 'f) world \<Rightarrow> bool res" where
  "check_ima_container e c w =
     res_bind (ext_ima_linked e (sk_name c) w) (\<lambda>linked.
     if \<not> truthy linked then Inr True
     else
     let nm = get_container_name IMA_CONTAINER (sk_name c)
     in res_bind (is_new_image_pulled e IMA_CONTAINER w) (\<lambda>new_image_pulled.
        res_bind (get_migration_ts e (sk_name c)) (\<lambda>migration_ts.
        let after = clock w > migration_ts
        in res_bind (docker_is_container_running (docker e) nm (daemon w)) (\<lambda>running.
        if \<not> running then Inr False
        else
        res_bind (get_image_name e IMA_CONTAINER after False) (\<lambda>expected_image.
        res_bind (get_container_image_name (docker e) nm (daemon w)) (\<lambda>img.
        res_bind (get_ima_time_frame e (sk_name c) after) (\<lambda>time_frame.
        res_bind (get_ima_container_time_frame e (sk_name c) w) (\<lambda>container_time_frame.
        Inr (img = Some expected_image \<and> new_image_pulled \<and>
             time_frame = container_time_frame)))))))))"

definition check_rpc :: "('d, 'f) env \<Rightarrow> skaled_checks \<Rightarrow> ('d, 'f) world \<Rightarrow> bool res" where
  "check_rpc e c w =
     (if \<not> skaled_config_exists e (sk_name c) w then Inr False
      else res_bind (skaled_config e (sk_name c) w) (\<lambda>config.
           res_bind (get_local_schain_http_endpoint_from_config config) (\<lambda>http_endpoint.
           let timeout = get_endpoint_alive_check_timeout (failed_rpc_count (sk_record c))
           in Inr (check_endpoint_alive e http_endpoint (Some timeout)))))"

definition check_blocks :: "('d, 'f) env \<Rightarrow> skaled_checks \<Rightarrow> ('d, 'f) world \<Rightarrow> bool res" where
  "check_blocks e c w =
     (if \<not> skaled_config_exists e (sk_name c) w then Inr False
      else res_bind (skaled_config e (sk_name c) w) (\<lambda>config.
           res_bind (get_local_schain_http_endpoint_from_config config) (\<lambda>http_endpoint.
           check_endpoint_blocks e http_endpoint w)))"

definition check_process :: "('d, 'f) env \<Rightarrow> skaled_checks \<Rightarrow> ('d, 'f) world \<Rightarrow> bool res" where
  "check_process e c w = Inr (is_monitor_process_alive (monitor_id (sk_record c)) w)"

definition check_exit_zero :: "('d, 'f) env \<Rightarrow> skaled_checks \<Rightarrow> ('d, 'f) world \<Rightarrow> bool res" where
  "check_exit_zero e c w =
     res_bind (docker_is_container_running (docker e) (sk_container_name c) (daemon w)) (\<lambda>running.
     if running then Inr False
     else res_bind (container_exit_code (docker e) (sk_container_name c) (daemon w)) (\<lambda>code.
          Inr (code = EC_SUCCESS)))"

section \<open>ConfigChecks\<close>

record config_checks =
  cc_name :: string
  cc_record :: schain_record
  cc_rotation_id :: int
  cc_stream_version :: string
  cc_current_nodes :: "node_info list"
  cc_last_dkg_successful :: bool

definition get_secret_key_share_filepath :: "('d, 'f) env \<Rightarrow> string \<Rightarrow> int \<Rightarrow> path" where
  "get_secret_key_share_filepath e n rotation_id =
     (path_join (path_join (NODE_DATA_PATH e) ''schains'') n,
      ''secret_key_'' @ str_of_int rotation_id @ ''.json'')"

definition check_config_dir :: "('d, 'f) env \<Rightarrow> config_checks \<Rightarrow> ('d, 'f) world \<Rightarrow> bool res" where
  "check_config_dir e c w = Inr (isdir w (schain_config_dir e (cc_name c)))"

definition check_last_dkg_successful :: "config_checks \<Rightarrow> ('d, 'f) world \<Rightarrow> bool res" where
  "check_last_dkg_successful c w = Inr (cc_last_dkg_successful c)"

definition check_dkg :: "('d, 'f) env \<Rightarrow> config_checks \<Rightarrow> ('d, 'f) world \<Rightarrow> bool res" where
  "check_dkg e c w =
     Inr (isfile (files w) (get_secret_key_share_filepath e (cc_name c) (cc_rotation_id c)))"

definition check_skaled_node_ips ::
  "('d, 'f) env \<Rightarrow> config_checks \<Rightarrow> ('d, 'f) world \<Rightarrow> bool res" where
  "check_skaled_node_ips e c w =
     (if \<not> skaled_config_exists e (cc_name c) w then Inr False
      else res_bind (skaled_config e (cc_name c) w) (\<lambda>conf.
           res_bind (get_node_ips_from_config conf) (\<lambda>ips.
           Inr (set ips = set (get_current_ips (cc_current_nodes c))))))"

definition check_upstream_config ::
  "('d, 'f) env \<Rightarrow> config_checks \<Rightarrow> ('d, 'f) world \<Rightarrow> bool res" where
  "check_upstream_config e c w =
     res_bind (upstream_exist_for_rotation_id e (cc_name c) (cc_rotation_id c) w) (\<lambda>ex.
     let stream_updated = config_version (cc_record c) = cc_stream_version c;
         triggered = sync_config_run (cc_record c)
     in if \<not> ex then Inr False
        else res_bind (latest_upstream_config e (cc_name c) w) (\<lambda>conf.
             res_bind (get_node_ips_from_config conf) (\<lambda>ips.
             Inr (set ips = set (get_current_ips (cc_current_nodes c)) \<and> stream_updated \<and>
                  \<not> triggered))))"

definition check_external_state ::
  "('d, 'f) env \<Rightarrow> config_checks \<Rightarrow> ('d, 'f, bool) mact" where
  "check_external_state e c =
     act_then (act_drop (in_world (external_get e (cc_name c))))
       (act_res (\<lambda>s. external_synced e (cc_name c) (estate s) (wld s)))"

section \<open>Collecting checks\<close>

text \<open>The checks of a class by name, in the order of \<^verbatim>\<open>dir\<close>: alphabetical.\<close>

definition skaled_check_table ::
  "('d, 'f) env \<Rightarrow> skaled_checks \<Rightarrow> (string \<times> ('d, 'f, bool) mact) list" where
  "skaled_check_table e c =
     [(''blocks'', in_world (check_blocks e c)),
      (''config'', in_world (check_config e c)),
      (''config_updated'', in_world (check_config_updated e c)),
      (''exit_code_ok'', in_world (check_exit_code_ok e c)),
      (''exit_zero'', in_world (check_exit_zero e c)),
      (''firewall_rules'', check_firewall_rules e c),
      (''ima_container'', in_world (check_ima_container e c)),
      (''process'', in_world (check_process e c)),
      (''rotation_id_updated'', in_world (check_rotation_id_updated e c)),
      (''rpc'', in_world (check_rpc e c)),
      (''skaled_container'', in_world (check_skaled_container e c)),
      (''upstream_exists'', in_world (check_upstream_exists e c)),
      (''volume'', in_world (check_volume e c))]"

definition config_check_table ::
  "('d, 'f) env \<Rightarrow> config_checks \<Rightarrow> (string \<times> ('d, 'f, bool) mact) list" where
  "config_check_table e c =
     [(''config_dir'', in_world (check_config_dir e c)),
      (''dkg'', in_world (check_dkg e c)),
      (''external_state'', check_external_state e c),
      (''last_dkg_successful'', in_world (check_last_dkg_successful c)),
      (''skaled_node_ips'', in_world (check_skaled_node_ips e c)),
      (''upstream_config'', in_world (check_upstream_config e c))]"

type_synonym check_status = "(string, bool) table"

text \<open>\<^verbatim>\<open>hasattr(self, name)\<close> runs the check once (an AttributeError means there is no such
  attribute), \<^verbatim>\<open>getattr\<close> runs it again.\<close>

definition run_check ::
  "(string \<times> ('d, 'f, bool) mact) list \<Rightarrow> string \<Rightarrow> check_status \<Rightarrow> ('d, 'f, check_status) mact" where
  "run_check table n st =
     (case map_of table n of
        None \<Rightarrow> act_return st
      | Some chk \<Rightarrow>
          (\<lambda>s. case chk s of
             (Inl (AttributeError _), s') \<Rightarrow> (Inr st, s')
           | (Inl x, s') \<Rightarrow> (Inl x, s')
           | (Inr _, s') \<Rightarrow> act_bind chk (\<lambda>b. act_return (tab_put n b st)) s'))"

fun run_checks ::
  "(string \<times> ('d, 'f, bool) mact) list \<Rightarrow> string list \<Rightarrow> check_status \<Rightarrow> ('d, 'f, check_status) mact"
where
  "run_checks table [] st = act_return st"
| "run_checks table (n # ns) st = act_bind (run_check table n st) (run_checks table ns)"

definition checks_get_all ::
  "(string \<times> ('d, 'f, bool) mact) list \<Rightarrow> string list \<Rightarrow> ('d, 'f, check_status) mact" where
  "checks_get_all table needed =
     run_checks table (if needed \<noteq> [] then needed else map fst table) []"

definition is_healthy :: "(string \<times> ('d, 'f, bool) mact) list \<Rightarrow> ('d, 'f, bool) mact" where
  "is_healthy table =
     act_bind (checks_get_all table []) (\<lambda>st. act_return (False \<notin> set (map snd st)))"

definition API_ALLOWED_CHECKS :: "string list" where
  "API_ALLOWED_CHECKS =
     [''config_dir'', ''dkg'', ''config'', ''volume'', ''firewall_rules'', ''skaled_container'',
      ''exit_code_ok'', ''rpc'', ''blocks'', ''process'', ''ima_container'']"

definition TG_ALLOWED_CHECKS :: "string list" where
  "TG_ALLOWED_CHECKS =
     [''volume'', ''firewall_rules'', ''skaled_container'', ''exit_code_ok'', ''rpc'', ''blocks'',
      ''process'', ''ima_container'']"

definition save_checks_dict ::
  "('d, 'f) env \<Rightarrow> string \<Rightarrow> check_status \<Rightarrow> ('d, 'f, unit) mact" where
  "save_checks_dict e n st =
     on_world (\<lambda>w. modify_files (write_json (get_schain_check_filepath e n)
       (JObj [(''time'', JInt (clock w)),
              (''checks'', JObj (map (\<lambda>(k, b). (k, JBool b)) st))])) w)"

text \<open>\<^verbatim>\<open>SChainChecks\<close> holds the two classes' checks of a chain.\<close>

definition SChainChecks ::
  "string \<Rightarrow> schain_record \<Rightarrow> string \<Rightarrow> node_info list \<Rightarrow> bool \<Rightarrow> int \<Rightarrow> bool \<Rightarrow>
   config_checks \<times> skaled_checks" where
  "SChainChecks schain_name rec stream_version current_nodes last_dkg_successful rotation_id sync_node =
     (\<lparr>cc_name = schain_name, cc_record = rec, cc_rotation_id = rotation_id,
       cc_stream_version = stream_version, cc_current_nodes = current_nodes,
       cc_last_dkg_successful = last_dkg_successful\<rparr>,
      \<lparr>sk_name = schain_name, sk_record = rec, sk_sync_node = sync_node\<rparr>)"

text \<open>\<^verbatim>\<open>SChainChecks.get_all\<close>: both classes' checks among the ones wanted; the IMA check only
  for a linked chain.\<close>

definition schain_checks_get_all ::
  "('d, 'f) env \<Rightarrow> config_checks \<Rightarrow> skaled_checks \<Rightarrow> bool \<Rightarrow> string list \<Rightarrow>
   ('d, 'f, check_status) mact" where
  "schain_checks_get_all e cc sc save_them needed =
     (let names = (if needed \<noteq> [] then needed else API_ALLOWED_CHECKS)
      in act_bind (checks_get_all (config_check_table e cc) names) (\<lambda>st1.
         act_bind (checks_get_all (skaled_check_table e sc) names) (\<lambda>st2.
         act_bind (act_gets (\<lambda>s. truthy (es_ima_linked (estate s)))) (\<lambda>linked.
         let st = fold (\<lambda>(k, b) t. tab_put k b t) st2 st1;
             st' = (if linked then st else tab_del ''ima_container'' st)
         in act_then (act_when save_them (save_checks_dict e (cc_name cc) st'))
              (act_return st')))))"

definition get_api_checks_status :: "check_status \<Rightarrow> string list \<Rightarrow> check_status" where
  "get_api_checks_status st allowed = filter (\<lambda>r. fst r \<in> set allowed) st"

definition get_failed_checks :: "check_status \<Rightarrow> string list" where
  "get_failed_checks st = map fst (filter (\<lambda>r. \<not> snd r) st)"

section \<open>What the checks mean\<close>

lemma check_upstream_config_True:
  assumes "check_upstream_config e c w = Inr True"
  shows "upstream_exist_for_rotation_id e (cc_name c) (cc_rotation_id c) w = Inr True"
    and "config_version (cc_record c) = cc_stream_version c"
    and "\<not> sync_config_run (cc_record c)"
    and "\<exists>conf ips. latest_upstream_config e (cc_name c) w = Inr conf \<and>
           get_node_ips_from_config conf = Inr ips \<and>
           set ips = set (map n_ip (cc_current_nodes c))"
  using assms
  by (auto simp: check_upstream_config_def res_bind_Inr_iff Let_def get_current_ips_def
      split: if_splits)

text \<open>Checks that only look leave the state as it is.\<close>

lemma in_world_state: "snd (in_world q s) = s"
  by (simp add: act_simps)

text \<open>The firewall check changes no rule and no file: only the controller object.\<close>

lemma configure_from_keeps: "snd (configure_from e n conf s) = s\<lparr>rctl := rctl (snd (configure_from e n conf s))\<rparr>"
  by (simp add: configure_from_def act_simps split: sum.split)

lemma check_firewall_rules_frame:
  "wld (snd (check_firewall_rules e c s)) = wld s"
  "estate (snd (check_firewall_rules e c s)) = estate s"
  "executed_blocks (snd (check_firewall_rules e c s)) = executed_blocks s"
  by (simp_all add: check_firewall_rules_def check_is_rules_synced_def configure_from_def act_simps
      split: sum.split prod.split)

lemma check_table_frame:
  assumes "(n, chk) \<in> set (skaled_check_table e c) \<union> set (config_check_table e cc)"
  shows "wld (snd (chk s)) = wld s \<and> estate (snd (chk s)) = estate s \<and>
         executed_blocks (snd (chk s)) = executed_blocks s"
  using assms
  by (auto simp: skaled_check_table_def config_check_table_def in_world_state
      check_firewall_rules_frame check_external_state_def act_simps split: sum.split)

lemma run_check_frame:
  assumes chk: "\<And>chk s. map_of table n = Some chk \<Longrightarrow>
      wld (snd (chk s)) = wld s \<and> estate (snd (chk s)) = estate s \<and>
      executed_blocks (snd (chk s)) = executed_blocks s"
  shows "wld (snd (run_check table n st s)) = wld s \<and>
         estate (snd (run_check table n st s)) = estate s \<and>
         executed_blocks (snd (run_check table n st s)) = executed_blocks s"
proof (cases "map_of table n")
  case None
  then show ?thesis by (simp add: run_check_def act_simps)
next
  case (Some c)
  obtain r s1 where r: "c s = (r, s1)" by fastforce
  obtain q s2 where q: "c s1 = (q, s2)" by fastforce
  from chk [OF Some, of s] chk [OF Some, of s1] Some r q show ?thesis
    by (simp add: run_check_def act_simps split: sum.split exn.split)
qed

lemma run_checks_frame:
  assumes chk: "\<And>n chk s. map_of table n = Some chk \<Longrightarrow>
      wld (snd (chk s)) = wld s \<and> estate (snd (chk s)) = estate s \<and>
      executed_blocks (snd (chk s)) = executed_blocks s"
  shows "wld (snd (run_checks table ns st s)) = wld s \<and>
         estate (snd (run_checks table ns st s)) = estate s \<and>
         executed_blocks (snd (run_checks table ns st s)) = executed_blocks s"
proof (induction ns arbitrary: st s)
  case Nil
  then show ?case by (simp add: act_simps)
next
  case (Cons n ns)
  obtain r s1 where r: "run_check table n st s = (r, s1)" by fastforce
  have "wld s1 = wld s \<and> estate s1 = estate s \<and> executed_blocks s1 = executed_blocks s"
    using run_check_frame [of table n st s] chk r by auto
  with Cons.IH [of _ s1] r show ?case by (simp add: act_simps split: sum.split)
qed

text \<open>Collecting checks observes only: the node stays as it is.\<close>

lemma skaled_checks_get_all_frame:
  "wld (snd (checks_get_all (skaled_check_table e c) needed s)) = wld s"
  unfolding checks_get_all_def
  using run_checks_frame [of "skaled_check_table e c"] check_table_frame [of _ _ e c]
  by (meson UnI1 map_of_SomeD)

lemma config_checks_get_all_frame:
  "wld (snd (checks_get_all (config_check_table e c) needed s)) = wld s"
  unfolding checks_get_all_def
  using run_checks_frame [of "config_check_table e c"] check_table_frame [of _ _ e _ c]
  by (meson UnI2 map_of_SomeD)

end
