(* ===== verification/Container_Monitor.thy ===== *)
theory Container_Monitor
  imports Runner
begin

text \<open>
  Keeping a chain's containers running: \<^verbatim>\<open>core/schains/monitor/containers.py\<close> (skaled and
  IMA) and \<^verbatim>\<open>core/schains/monitor/rpc.py\<close> (restart on a silent endpoint). Each is a
  statement on the node that gets the chain's record instance; \<open>status\<close> is the path of
  skaled's status file.
\<close>

definition MAX_SCHAIN_RESTART_COUNT :: int where "MAX_SCHAIN_RESTART_COUNT = 5"
definition MAX_SCHAIN_FAILED_RPC_COUNT :: int where "MAX_SCHAIN_FAILED_RPC_COUNT = 5"

definition truthy_res :: "(('d, 'f) world \<Rightarrow> json res) \<Rightarrow> ('d, 'f, bool) wact" where
  "truthy_res q = act_res (\<lambda>w. res_bind (q w) (\<lambda>j. Inr (truthy j)))"

text \<open>A setter called for its effect on the table.\<close>

definition set_record :: "setter \<Rightarrow> schain_record \<Rightarrow> ('d, 'f, unit) wact" where
  "set_record f rec = act_drop (on_record f rec)"

lemma set_record_eval [act_simps]:
  "set_record f rec w = (Inr (), w\<lparr>db := snd (f rec (db w))\<rparr>)"
  by (simp add: set_record_def act_simps split: prod.split)

section \<open>skaled\<close>

definition optional_str :: "json \<Rightarrow> string option res" where
  "optional_str v = (if truthy v then res_bind (json_str v) (\<lambda>s. Inr (Some s)) else Inr None)"

definition monitor_schain_container ::
  "('d, 'f) env \<Rightarrow> schain_structure \<Rightarrow> schain_record \<Rightarrow> path \<Rightarrow> bool \<Rightarrow> int option \<Rightarrow> json \<Rightarrow>
   bool \<Rightarrow> bool \<Rightarrow> bool \<Rightarrow> ('d, 'f, unit) wact" where
  "monitor_schain_container e sch rec status download_snapshot start_ts snap_from abort_on_exit
     sync_node historic_state =
     act_unless (act_bind (act_res (is_volume_exists e (sch_name sch) sync_node))
                   (\<lambda>vol. act_return (\<not> vol)))
    (act_if (act_bind (truthy_res (exit_time_reached status))
               (\<lambda>reached. act_return (reached \<and> abort_on_exit)))
       (set_record reset_failed_counters rec)
    (act_if (act_bind (act_res (is_container_exists e (sch_name sch) SCHAIN_CONTAINER))
               (\<lambda>ex. act_return (\<not> ex)))
       (act_bind (act_res (\<lambda>_. optional_str snap_from)) (\<lambda>snap.
        act_then (run_schain_container e sch download_snapshot start_ts None True True snap
                    sync_node historic_state)
          (act_bind (update_ssl_change_date e rec) (\<lambda>(_, rec').
           set_record reset_failed_counters rec'))))
    (act_if (act_bind (truthy_res (clear_data_dir status)) (\<lambda>clear.
             if clear then truthy_res (start_from_snapshot status) else act_return False))
       (set_record reset_failed_counters rec)
    (act_if (act_res (is_schain_container_failed e (sch_name sch)))
       (if restart_count rec < MAX_SCHAIN_RESTART_COUNT
        then act_then (restart_container e SCHAIN_CONTAINER sch)
              (act_bind (update_ssl_change_date e rec) (\<lambda>(_, rec1).
               act_bind (on_record (set_restart_count (restart_count rec1 + 1)) rec1) (\<lambda>rec2.
               set_record (set_failed_rpc_count 0) rec2)))
        else act_return ())
       (set_record (set_restart_count 0) rec)))))"

section \<open>IMA\<close>

record ima_data =
  linked :: json
  ima_chain_id :: json

definition SCHAIN_IMA_ABI_FILEPATH :: "('d, 'f) env \<Rightarrow> path" where
  "SCHAIN_IMA_ABI_FILEPATH e = (path_join (SKALE_VOLUME_PATH e) ''contracts_info'', ''schain_ima_abi.json'')"

definition copy_schain_ima_abi :: "('d, 'f) env \<Rightarrow> string \<Rightarrow> ('d, 'f, unit) wact" where
  "copy_schain_ima_abi e n =
     on_files (copy_file (SCHAIN_IMA_ABI_FILEPATH e) (schain_config_dir e n, ''schain_ima_abi.json''))"

text \<open>After the migration time the new image and the new time frame are due: an old container
  is removed and a new one created.\<close>

definition monitor_ima_container ::
  "('d, 'f) env \<Rightarrow> schain_structure \<Rightarrow> ima_data \<Rightarrow> int \<Rightarrow> ('d, 'f, unit) wact" where
  "monitor_ima_container e sch ima migration_ts =
     (let n = sch_name sch in
      if SYNC_NODE e then act_return ()
      else if \<not> truthy (linked ima) then act_return ()
      else
        act_then (copy_schain_ima_abi e n)
        (act_bind (act_res (is_container_exists e n IMA_CONTAINER)) (\<lambda>container_exists.
         act_bind (act_gets clock) (\<lambda>now.
         act_bind
           (if now > migration_ts
            then
              act_bind (act_res (\<lambda>_. get_image_name e IMA_CONTAINER True False)) (\<lambda>img.
              act_bind (act_res (\<lambda>_. get_ima_time_frame e n True)) (\<lambda>time_frame.
              if container_exists
              then act_bind (act_res (get_container_image e n IMA_CONTAINER)) (\<lambda>cimg.
                   act_bind (act_res (get_ima_container_time_frame e n)) (\<lambda>ctf.
                   if Some img \<noteq> cimg \<or> time_frame \<noteq> ctf
                   then act_then (remove_container e n IMA_CONTAINER)
                          (act_return (img, time_frame, False))
                   else act_return (img, time_frame, True)))
              else act_return (img, time_frame, False)))
            else
              act_bind (act_res (\<lambda>_. get_ima_time_frame e n False)) (\<lambda>time_frame.
              act_bind (act_res (\<lambda>_. get_image_name e IMA_CONTAINER False False)) (\<lambda>img.
              act_return (img, time_frame, container_exists))))
           (\<lambda>(img, time_frame, ex).
            if \<not> ex then run_ima_container e sch (ima_chain_id ima) time_frame img
            else act_return ())))))"

section \<open>A silent endpoint\<close>

definition handle_failed_schain_rpc ::
  "('d, 'f) env \<Rightarrow> schain_structure \<Rightarrow> schain_record \<Rightarrow> path \<Rightarrow> ('d, 'f, unit) wact" where
  "handle_failed_schain_rpc e sch rec status =
     act_unless (act_bind (act_res (is_container_exists e (sch_name sch) SCHAIN_CONTAINER))
                   (\<lambda>ex. act_return (\<not> ex)))
    (act_unless (act_bind (act_res (is_container_running e (sch_name sch) SCHAIN_CONTAINER))
                   (\<lambda>running. act_return (\<not> running)))
    (act_if (truthy_res (exit_time_reached status))
       (set_record (set_failed_rpc_count 0) rec)
    (act_if (truthy_res (downloading_snapshot status))
       (set_record (set_failed_rpc_count 0) rec)
       (if failed_rpc_count rec > MAX_SCHAIN_FAILED_RPC_COUNT
        then act_bind
              (if restart_count rec < MAX_SCHAIN_RESTART_COUNT
               then act_then (restart_container e SCHAIN_CONTAINER sch)
                      (on_record (set_restart_count (restart_count rec + 1)) rec)
               else act_return rec)
              (set_record (set_failed_rpc_count 0))
        else set_record (set_failed_rpc_count (failed_rpc_count rec + 1)) rec))))"

section \<open>Counters stay within their bounds\<close>

text \<open>At most \<open>MAX_SCHAIN_RESTART_COUNT\<close> restarts in a row, and at most one failed call
  more than the limit.\<close>

definition counters_ok :: "schain_record \<Rightarrow> bool" where
  "counters_ok r =
     (0 \<le> restart_count r \<and> restart_count r \<le> MAX_SCHAIN_RESTART_COUNT \<and>
      0 \<le> failed_rpc_count r \<and> failed_rpc_count r \<le> MAX_SCHAIN_FAILED_RPC_COUNT + 1)"

definition db_counters_ok :: "db \<Rightarrow> bool" where
  "db_counters_ok d = (db_wf d \<and> (\<forall>n r. tab_get d n = Some r \<longrightarrow> counters_ok r))"

lemma db_counters_ok_save:
  "db_counters_ok d \<Longrightarrow> counters_ok r \<Longrightarrow> db_counters_ok (save r d)"
proof -
  assume d: "db_counters_ok d" and r: "counters_ok r"
  have "db_wf (save r d)" using d by (auto simp: db_counters_ok_def save_def intro: db_wf_put)
  moreover have "counters_ok q" if "tab_get (save r d) n = Some q" for n q
    using that d r by (auto simp: save_get db_counters_ok_def split: if_splits)
  ultimately show ?thesis by (simp add: db_counters_ok_def)
qed

lemma db_counters_ok_save_with:
  "db_counters_ok d \<Longrightarrow> counters_ok (f r) \<Longrightarrow> db_counters_ok (snd (save_with f r d))"
  by (simp add: save_with_def db_counters_ok_save)

lemma db_keeps_docker: "keeps (\<lambda>w. db w = D) (on_daemon m)"
  by (simp add: keeps_def act_simps split: prod.split)

lemma run_container_db: "keeps (\<lambda>w. db w = D) (run_container e t n v cmd vc cl ml img vm hs)"
  unfolding run_container_def Let_def
  by (intro keeps_intros db_keeps_docker)

lemma run_schain_container_db:
  "keeps (\<lambda>w. db w = D) (run_schain_container e sch ds ts vm uc ssl sf sn hs)"
  unfolding run_schain_container_def Let_def
  by (intro keeps_intros run_container_db)

lemma run_ima_container_db: "keeps (\<lambda>w. db w = D) (run_ima_container e sch c tf img)"
  unfolding run_ima_container_def
  by (intro keeps_intros run_container_db)

lemma keeps_db: "(\<And>D. keeps (\<lambda>w. db w = D) m) \<Longrightarrow> keeps (\<lambda>w. P (db w)) m"
  by (simp add: keeps_def)

definition wok :: "('d, 'f) world \<Rightarrow> bool" where
  "wok w = db_counters_ok (db w)"

lemma wok_keeps_db: "(\<And>D. keeps (\<lambda>w. db w = D) m) \<Longrightarrow> keeps wok m"
  by (simp add: keeps_def wok_def)

lemma wok_set_record:
  "(\<And>d. db_counters_ok d \<Longrightarrow> db_counters_ok (snd (f rec d))) \<Longrightarrow> keeps wok (set_record f rec)"
  by (simp add: keeps_def wok_def act_simps)

lemma counters_setters:
  assumes "counters_ok r"
  shows "db_counters_ok d \<Longrightarrow> db_counters_ok (snd (reset_failed_counters r d))"
    and "0 \<le> v \<Longrightarrow> v \<le> MAX_SCHAIN_RESTART_COUNT \<Longrightarrow> db_counters_ok d \<Longrightarrow>
         db_counters_ok (snd (set_restart_count v r d))"
    and "0 \<le> v \<Longrightarrow> v \<le> MAX_SCHAIN_FAILED_RPC_COUNT + 1 \<Longrightarrow> db_counters_ok d \<Longrightarrow>
         db_counters_ok (snd (set_failed_rpc_count v r d))"
    and "db_counters_ok d \<Longrightarrow> db_counters_ok (snd (set_ssl_change_date v' r d))"
  using assms
  by (auto simp: reset_failed_counters_def setter_defs counters_ok_def
      intro!: db_counters_ok_save)

lemma update_ssl_eval:
  "update_ssl_change_date e rec w =
     (case get_ssl_files_change_date e of
        None \<Rightarrow> (Inr (False, rec), w)
      | Some d \<Rightarrow> (Inr (True, rec\<lparr>ssl_change_date := d\<rparr>),
                  w\<lparr>db := save (rec\<lparr>ssl_change_date := d\<rparr>) (db w)\<rparr>))"
  by (simp add: update_ssl_change_date_def act_simps setter_defs split: option.split)

lemma counters_ok_ssl [simp]: "counters_ok (rec\<lparr>ssl_change_date := d\<rparr>) = counters_ok rec"
  by (simp add: counters_ok_def)

text \<open>After the SSL date is written, a statement on the refreshed instance.\<close>

lemma wok_after_ssl:
  assumes "counters_ok rec" and "\<And>d. keeps wok (k (rec\<lparr>ssl_change_date := d\<rparr>))" and "keeps wok (k rec)"
  shows "keeps wok (act_bind (update_ssl_change_date e rec) (\<lambda>(_, r). k r))"
proof (rule keepsI)
  fix w :: "('a, 'b) world" assume "wok w"
  with assms db_counters_ok_save [of "db w"] show
    "wok (snd (act_bind (update_ssl_change_date e rec) (\<lambda>(_, r). k r) w))"
    by (auto simp: act_bind_eval update_ssl_eval keeps_def wok_def split: option.split)
qed

lemma wok_tests [intro!, simp]:
  "keeps wok (act_bind (act_res q) (\<lambda>b. act_return (g b)))"
  "keeps wok (truthy_res q')"
  "keeps wok (act_bind (truthy_res q') (\<lambda>b. act_return (g b)))"
  by (simp_all add: keeps_def act_simps truthy_res_def split: sum.split)

lemma restart_container_db: "keeps (\<lambda>w. db w = D) (restart_container e t sch)"
  unfolding restart_container_def by (rule db_keeps_docker)

lemma monitor_schain_container_wok:
  assumes "counters_ok rec"
  shows "keeps wok (monitor_schain_container e sch rec st ds ts sf ab sn hs)"
proof -
  have reset: "keeps wok (set_record reset_failed_counters r)" if "counters_ok r" for r
    using counters_setters(1) [OF that] by (rule wok_set_record)
  have run: "keeps wok (run_schain_container e sch ds ts None True True snap sn hs)" for snap
    by (rule wok_keeps_db [OF run_schain_container_db])
  have create: "keeps wok (act_bind (update_ssl_change_date e rec)
      (\<lambda>(_, rec'). set_record reset_failed_counters rec'))"
    by (rule wok_after_ssl [OF assms]) (simp_all add: reset assms)
  have zero: "keeps wok (set_record (set_restart_count 0) rec)"
    using counters_setters(2) [OF assms] by (intro wok_set_record) (simp add: MAX_SCHAIN_RESTART_COUNT_def)
  have bump: "keeps wok (act_bind (on_record (set_restart_count (restart_count r + 1)) r)
      (\<lambda>r2. set_record (set_failed_rpc_count 0) r2) :: ('u, 'v, unit) wact)"
    if "counters_ok r" "restart_count r < MAX_SCHAIN_RESTART_COUNT" for r
  proof (rule keepsI)
    fix w :: "('u, 'v) world" assume "wok w"
    with that show "wok (snd (act_bind (on_record (set_restart_count (restart_count r + 1)) r)
      (\<lambda>r2. set_record (set_failed_rpc_count 0) r2) w))"
      by (auto simp: act_simps setter_defs wok_def counters_ok_def MAX_SCHAIN_FAILED_RPC_COUNT_def
          intro!: db_counters_ok_save)
  qed
  have bump_ssl: "keeps wok (act_bind
      (on_record (set_restart_count (restart_count rec + 1)) (rec\<lparr>ssl_change_date := d\<rparr>))
      (set_record (set_failed_rpc_count 0)) :: ('u, 'v, unit) wact)"
    if "restart_count rec < MAX_SCHAIN_RESTART_COUNT" for d
    using bump [of "rec\<lparr>ssl_change_date := d\<rparr>"] that assms by simp
  have failed: "keeps wok (if restart_count rec < MAX_SCHAIN_RESTART_COUNT
        then act_then (restart_container e SCHAIN_CONTAINER sch)
              (act_bind (update_ssl_change_date e rec) (\<lambda>(_, rec1).
               act_bind (on_record (set_restart_count (restart_count rec1 + 1)) rec1) (\<lambda>rec2.
               set_record (set_failed_rpc_count 0) rec2)))
        else act_return ())"
    by (intro keeps_ite keeps_then wok_keeps_db [OF restart_container_db] wok_after_ssl [OF assms]
        keeps_pure)
      (use bump [OF assms] bump_ssl in simp_all)
  show ?thesis
    unfolding monitor_schain_container_def
    by (intro keeps_unless keeps_if wok_tests reset [OF assms] zero failed keeps_bind [OF keeps_pure(4)]
        keeps_then run create keeps_ite keeps_pure keeps_bind [OF wok_tests(2)])
qed

lemma handle_failed_schain_rpc_wok:
  assumes "counters_ok rec"
  shows "keeps wok (handle_failed_schain_rpc e sch rec st)"
proof -
  have fail0: "keeps wok (set_record (set_failed_rpc_count 0) r)" if "counters_ok r" for r
    using counters_setters(3) [OF that]
    by (intro wok_set_record) (simp add: MAX_SCHAIN_FAILED_RPC_COUNT_def)
  have step: "keeps wok (set_record (set_failed_rpc_count (failed_rpc_count rec + 1)) rec)"
    if "\<not> failed_rpc_count rec > MAX_SCHAIN_FAILED_RPC_COUNT"
    using counters_setters(3) [OF assms, of "failed_rpc_count rec + 1"] that assms
    by (intro wok_set_record) (auto simp: counters_ok_def)
  have stuck: "keeps wok (act_bind
              (if restart_count rec < MAX_SCHAIN_RESTART_COUNT
               then act_then (restart_container e SCHAIN_CONTAINER sch)
                      (on_record (set_restart_count (restart_count rec + 1)) rec)
               else act_return rec)
              (set_record (set_failed_rpc_count 0)))"
  proof (cases "restart_count rec < MAX_SCHAIN_RESTART_COUNT")
    case True
    show ?thesis
    proof (rule keepsI)
      fix w :: "('a, 'b) world" assume w: "wok w"
      obtain r w1 where r: "restart_container e SCHAIN_CONTAINER sch w = (r, w1)" by fastforce
      have "db w1 = db w"
        using keepsD_eq [OF restart_container_db refl r] by simp
      with True w r assms show "wok (snd (act_bind
              (if restart_count rec < MAX_SCHAIN_RESTART_COUNT
               then act_then (restart_container e SCHAIN_CONTAINER sch)
                      (on_record (set_restart_count (restart_count rec + 1)) rec)
               else act_return rec)
              (set_record (set_failed_rpc_count 0)) w))"
        by (cases r) (auto simp: act_simps setter_defs wok_def counters_ok_def
            MAX_SCHAIN_FAILED_RPC_COUNT_def intro!: db_counters_ok_save)
    qed
  next
    case False
    then show ?thesis
      using fail0 [OF assms] by (simp add: keeps_def act_simps)
  qed
  show ?thesis
    unfolding handle_failed_schain_rpc_def
    by (intro keeps_unless keeps_if wok_tests fail0 [OF assms] keeps_ite step stuck) auto
qed

end
