(* ===== verification/Contracts.thy ===== *)
theory Contracts
  imports Checks Container_Monitor
begin

text \<open>
  What the code asks the SKALE contracts, through the package \<^verbatim>\<open>skale\<close>: a record of
  functions, parameters of the definitions that use them. A call may raise (\<open>Inl\<close>). A node
  of the network is known by its id; \<open>contracts\<close> holds the answers of one moment.
\<close>

record rotation_data =
  rotation_id :: int
  new_schain_rotation :: bool

record leaving_record =
  lv_schain_id :: string
  finished_rotation :: int

record contracts =
  get_schains_for_node :: "int \<Rightarrow> schain_structure list res"
  get_active_schains_for_node :: "int \<Rightarrow> schain_structure list res"
  get_schain_by_name :: "string \<Rightarrow> schain_structure res"
  get_schain :: "string \<Rightarrow> schain_structure res"
  is_active :: "string \<Rightarrow> bool"
  is_schain_exist :: "string \<Rightarrow> bool res"
  get_node_ids_for_schain :: "string \<Rightarrow> int list res"
  get_nodes_for_schain :: "string \<Rightarrow> node_info list res"
  get_last_change_ip_time :: "int \<Rightarrow> int"
  is_rotation_active :: "string \<Rightarrow> bool res"
  get_rotation :: "string \<Rightarrow> rotation_data res"
  get_leaving_history :: "int \<Rightarrow> leaving_record list res"
  get_last_rotation_id :: "string \<Rightarrow> int res"
  is_last_dkg_successful :: "string \<Rightarrow> bool res"
  get_ip_ranges_number :: nat
  get_ip_range_by_index :: "nat \<Rightarrow> ip_range"
  get_dkg_timeout :: int
  has_schain_linked :: "string \<Rightarrow> bool res"
  mainnet_chain_id :: int

definition contract_current_nodes :: "contracts \<Rightarrow> string \<Rightarrow> node_info list res" where
  "contract_current_nodes k n =
     res_bind (is_schain_exist k n) (\<lambda>ex.
       if \<not> ex then Inr []
       else res_bind (get_nodes_for_schain k n) (\<lambda>nodes.
            Inr (get_current_nodes True nodes (get_last_change_ip_time k))))"

definition contract_is_node_part_of_chain :: "contracts \<Rightarrow> string \<Rightarrow> int \<Rightarrow> bool res" where
  "contract_is_node_part_of_chain k n node_id =
     res_bind (is_schain_exist k n) (\<lambda>ex.
       if \<not> ex then Inr False
       else res_bind (get_node_ids_for_schain k n) (\<lambda>ids.
            Inr (is_node_part_of_chain True ids node_id)))"

definition contract_sync_agent_ranges :: "contracts \<Rightarrow> ip_range list" where
  "contract_sync_agent_ranges k =
     get_sync_agent_ranges (get_ip_ranges_number k) (get_ip_range_by_index k)"

text \<open>\<^verbatim>\<open>int(dkg_timeout * DKG_TIMEOUT_COEFFICIENT)\<close> with the coefficient 2.2 (the nearest
  double is a little above it, so rounding does not change the integer part).\<close>

definition dkg_stuck_timeout :: "contracts \<Rightarrow> int" where
  "dkg_stuck_timeout k = (get_dkg_timeout k * 22) div 10"

end
