(* ===== verification/Cleaner.thy ===== *)
theory Cleaner
  imports Contracts
begin

text \<open>
  \<^verbatim>\<open>core/schains/cleaner.py\<close>: removing what is left on the node of a chain that the contracts
  do not assign to it. \<open>monitor\<close> goes through the chains found on the node,
  \<open>ensure_schain_removed\<close> decides, \<open>remove_schain\<close> and \<open>cleanup_schain\<close> remove.
  Deleting a key share on the SGX server is a call that may raise; its effect is outside the
  node.
\<close>

section \<open>Removing one thing\<close>

definition remove_schain_volume :: "('d, 'f) env \<Rightarrow> string \<Rightarrow> ('d, 'f, unit) wact" where
  "remove_schain_volume e n = rm_vol (docker e) n True"

definition remove_schain_container :: "('d, 'f) env \<Rightarrow> string \<Rightarrow> ('d, 'f, unit) wact" where
  "remove_schain_container e n =
     safe_rm (docker e) (get_container_name SCHAIN_CONTAINER n) SCHAIN_STOP_TIMEOUT"

definition remove_ima_container :: "('d, 'f) env \<Rightarrow> string \<Rightarrow> ('d, 'f, unit) wact" where
  "remove_ima_container e n =
     safe_rm (docker e) (get_container_name IMA_CONTAINER n) DOCKER_DEFAULT_STOP_TIMEOUT"

definition remove_config_dir :: "('d, 'f) env \<Rightarrow> string \<Rightarrow> ('d, 'f, unit) wact" where
  "remove_config_dir e n = rmtree (schain_config_dir e n)"

section \<open>Chains on the node\<close>

definition get_schain_names_from_contract :: "contracts \<Rightarrow> int \<Rightarrow> string list res" where
  "get_schain_names_from_contract k node_id =
     res_bind (get_schains_for_node k node_id) (\<lambda>schs. Inr (map sch_name schs))"

definition get_schains_with_containers :: "('d, 'f) env \<Rightarrow> ('d, 'f) world \<Rightarrow> string list" where
  "get_schains_with_containers e w =
     map (\<lambda>c. replace_first ''skale_schain_'' [] (c_name c))
       (get_all_schain_containers (docker e) True (daemon w))"

text \<open>\<^verbatim>\<open>os.listdir\<close> of the chains' directory: its entries are directories or files.\<close>

definition child_name :: "string \<Rightarrow> string \<Rightarrow> string option" where
  "child_name base d =
     (if startswith d (base @ ''/'') \<and> CHR ''/'' \<notin> set (drop (length base + 1) d)
      then Some (drop (length base + 1) d) else None)"

definition listdir_all :: "('d, 'f) world \<Rightarrow> string \<Rightarrow> string list" where
  "listdir_all w base = List.map_filter (child_name base) (dirs w) @ listdir (files w) base"

definition merged_unique :: "string list list \<Rightarrow> string list" where
  "merged_unique xss = rev (remdups (rev (concat xss)))"

definition get_schains_on_node :: "('d, 'f) env \<Rightarrow> ('d, 'f) world \<Rightarrow> string list" where
  "get_schains_on_node e w =
     sort (merged_unique
       [listdir_all w (SCHAINS_DIR_PATH e), get_schains_with_containers e w,
        get_schains_names False (db w)])"

section \<open>Removing a chain\<close>

text \<open>Whatever goes wrong with one key share is logged and the next one is tried.\<close>

definition delete_bls_key_of ::
  "('d, 'f) env \<Rightarrow> (string \<Rightarrow> unit res) \<Rightarrow> string \<Rightarrow> int \<Rightarrow> ('d, 'f, unit) wact" where
  "delete_bls_key_of e sgx_delete n i =
     act_try
       (act_if (act_gets (\<lambda>w. isfile (files w) (get_secret_key_share_filepath e n i)))
         (act_bind (act_res (\<lambda>w. read_json (files w) (get_secret_key_share_filepath e n i))) (\<lambda>j.
          act_bind (act_res (\<lambda>_. json_get (if truthy j then j else JObj []) ''key_share_name'' JNull))
            (\<lambda>key_name.
          if truthy key_name
          then act_bind (act_res (\<lambda>_. json_str key_name)) (\<lambda>s. act_res (\<lambda>_. sgx_delete s))
          else act_return ())))
         (act_return ()))
       (\<lambda>_. act_return ())"

definition delete_bls_keys ::
  "('d, 'f) env \<Rightarrow> contracts \<Rightarrow> (string \<Rightarrow> unit res) \<Rightarrow> string \<Rightarrow> ('d, 'f, unit) wact" where
  "delete_bls_keys e k sgx_delete n =
     act_bind (act_res (\<lambda>_. get_last_rotation_id k n)) (\<lambda>last_id.
     act_for [0..last_id] (delete_bls_key_of e sgx_delete n))"

definition status_get :: "check_status \<Rightarrow> string \<Rightarrow> bool res" where
  "status_get st n = (case tab_get st n of None \<Rightarrow> Inl (KeyError n) | Some b \<Rightarrow> Inr b)"

text \<open>A monitor's state for the checks of a chain: a fresh rule controller. Without a saved
  external state nothing is linked.\<close>

definition estate_or_unlinked :: "external_state option \<Rightarrow> external_state" where
  "estate_or_unlinked est =
     (case est of
        Some x \<Rightarrow> x
      | None \<Rightarrow> \<lparr>es_chain_id = JNull, es_ranges = [], es_ima_linked = JNull, es_reload_ts = JNull\<rparr>)"

definition with_mstate ::
  "rule_controller \<Rightarrow> external_state \<Rightarrow> ('d, 'f, 'a) mact \<Rightarrow> ('d, 'f, 'a) wact" where
  "with_mstate rc est m =
     (\<lambda>w. case m \<lparr>wld = w, rctl = rc, estate = est, executed_blocks = []\<rparr> of (r, s) \<Rightarrow> (r, wld s))"

definition cleanup_firewall ::
  "('d, 'f) env \<Rightarrow> string \<Rightarrow> external_state option \<Rightarrow> ('d, 'f, unit) mact" where
  "cleanup_firewall e n est =
     act_bind (in_world (skaled_config e n)) (\<lambda>conf.
     act_bind (act_res (\<lambda>_. get_base_port_from_config conf)) (\<lambda>bp.
     act_bind (act_res (\<lambda>_. get_own_ip_from_config conf)) (\<lambda>own.
     act_bind (act_res (\<lambda>_. get_node_ips_from_config conf)) (\<lambda>ips.
     let ranges = (case est of None \<Rightarrow> [] | Some x \<Rightarrow> es_ranges x)
     in act_then
          (act_modify (\<lambda>s. s\<lparr>rctl := configure (Some bp) own (Some ips) (Some ranges)
                                    (Some (port_allocation (rctl s))) (rctl s)\<rparr>))
          (on_rule_controller (rules_cleanup (IptablesController (iptc e))))))))"

definition cleanup_steps ::
  "('d, 'f) env \<Rightarrow> string \<Rightarrow> external_state option \<Rightarrow> check_status \<Rightarrow> ('d, 'f, unit) mact" where
  "cleanup_steps e n est st =
     act_block
      [act_if (act_bind (act_res (\<lambda>_. status_get st ''skaled_container'')) (\<lambda>b.
               if b then act_return True else in_world (is_exited e n schain_container)))
         (on_world (remove_schain_container e n)) (act_return ()),
       act_if (act_res (\<lambda>_. status_get st ''volume''))
         (on_world (remove_schain_volume e n)) (act_return ()),
       act_if (act_res (\<lambda>_. status_get st ''firewall_rules''))
         (cleanup_firewall e n est) (act_return ()),
       (if est \<noteq> None \<and> truthy (es_ima_linked (the est))
        then act_if (if tab_get st ''ima_container'' = Some True then act_return True
                     else in_world (is_exited e n ima_container))
               (on_world (remove_ima_container e n)) (act_return ())
        else act_return ()),
       act_if (act_res (\<lambda>_. status_get st ''config_dir''))
         (on_world (remove_config_dir e n)) (act_return ()),
       on_world (modify_db (mark_schain_deleted n))]"

definition cleanup_schain ::
  "('d, 'f) env \<Rightarrow> skaled_ports \<Rightarrow> int \<Rightarrow> string \<Rightarrow> ip_range list \<Rightarrow> int \<Rightarrow> bool \<Rightarrow>
   node_info list \<Rightarrow> external_state option \<Rightarrow> ('d, 'f, unit) wact" where
  "cleanup_schain e ports pps n sync_agent_ranges rid last_dkg_ok current_nodes est =
     (\<lambda>w. let (rec_opt, db') = upsert_schain_record n (datetime_now e w) (import_dt e) (db w)
          in case rec_opt of
               None \<Rightarrow> (Inl (AttributeError ''NoneType''), w\<lparr>db := db'\<rparr>)
             | Some rec \<Rightarrow>
                 let rc = get_default_rule_controller ports pps n None None [] (Some sync_agent_ranges);
                     checks = SChainChecks n rec (node_version e) current_nodes last_dkg_ok rid
                                (SYNC_NODE e)
                 in with_mstate rc (estate_or_unlinked est)
                      (act_bind (schain_checks_get_all e (fst checks) (snd checks) False [])
                        (cleanup_steps e n est))
                      (w\<lparr>db := db'\<rparr>))"

definition remove_schain ::
  "('d, 'f) env \<Rightarrow> skaled_ports \<Rightarrow> int \<Rightarrow> contracts \<Rightarrow> (string \<Rightarrow> unit res) \<Rightarrow> (int \<Rightarrow> term_result) \<Rightarrow>
   string \<Rightarrow> ('d, 'f, unit) wact" where
  "remove_schain e ports pps k sgx_delete answer n =
     act_block
      [ProcessReport e n,
       act_if (act_gets (report_is_exist e n))
         (act_bind (act_res (report_pid e n)) (terminate_process answer)) (act_return ()),
       delete_bls_keys e k sgx_delete n,
       (let sync_agent_ranges = contract_sync_agent_ranges k
        in act_bind (act_res (\<lambda>_. get_rotation k n)) (\<lambda>rotation.
           act_bind (act_res (external_get e n)) (\<lambda>est.
           act_bind (act_res (\<lambda>_. contract_current_nodes k n)) (\<lambda>current_nodes.
           act_bind (act_res (\<lambda>_. is_last_dkg_successful k n)) (\<lambda>last_dkg_ok.
           cleanup_schain e ports pps n sync_agent_ranges (rotation_id rotation) last_dkg_ok
             current_nodes est)))))]"

definition ensure_schain_removed ::
  "('d, 'f) env \<Rightarrow> skaled_ports \<Rightarrow> int \<Rightarrow> contracts \<Rightarrow> (string \<Rightarrow> unit res) \<Rightarrow> (int \<Rightarrow> term_result) \<Rightarrow>
   int \<Rightarrow> string \<Rightarrow> ('d, 'f, unit) wact" where
  "ensure_schain_removed e ports pps k sgx_delete answer node_id n =
     act_bind (act_res (\<lambda>_. is_schain_exist k n)) (\<lambda>ex.
     if \<not> ex then remove_schain e ports pps k sgx_delete answer n
     else act_bind (act_res (\<lambda>_. is_rotation_active k n)) (\<lambda>active.
          if active then act_return ()
          else act_bind (act_res (\<lambda>_. contract_is_node_part_of_chain k n node_id)) (\<lambda>part.
               if \<not> part then remove_schain e ports pps k sgx_delete answer n
               else act_return ())))"

definition cleaner_monitor ::
  "('d, 'f) env \<Rightarrow> skaled_ports \<Rightarrow> int \<Rightarrow> contracts \<Rightarrow> (string \<Rightarrow> unit res) \<Rightarrow> (int \<Rightarrow> term_result) \<Rightarrow>
   int \<Rightarrow> ('d, 'f, unit) wact" where
  "cleaner_monitor e ports pps k sgx_delete answer node_id =
     act_bind (act_gets (get_schains_on_node e)) (\<lambda>on_node.
     act_bind (act_res (\<lambda>_. get_schain_names_from_contract k node_id)) (\<lambda>on_contracts.
     act_for on_node (\<lambda>n.
       if n \<notin> set on_contracts
       then act_try (ensure_schain_removed e ports pps k sgx_delete answer node_id n)
              (\<lambda>_. act_return ())
       else act_return ())))"

section \<open>Which chains may be removed\<close>

text \<open>A chain may be removed when the contracts do not have it, or it is not rotating and the
  node is not in its group.\<close>

definition removable :: "contracts \<Rightarrow> int \<Rightarrow> string \<Rightarrow> bool" where
  "removable k node_id n =
     (is_schain_exist k n = Inr False \<or>
      is_schain_exist k n = Inr True \<and> is_rotation_active k n = Inr False \<and>
      (\<exists>ids. get_node_ids_for_schain k n = Inr ids \<and> node_id \<notin> set ids))"

lemma ensure_schain_removed_cases:
  "ensure_schain_removed e ports pps k sgx_delete answer node_id n w =
     (if removable k node_id n then remove_schain e ports pps k sgx_delete answer n w
      else (fst (ensure_schain_removed e ports pps k sgx_delete answer node_id n w), w))"
  by (auto simp: ensure_schain_removed_def removable_def act_simps
      contract_is_node_part_of_chain_def is_node_part_of_chain_def res_bind_def
      split: sum.split sum.splits)

text \<open>The cleaner leaves the node as it is when no chain on it is both unassigned and
  removable.\<close>

lemma act_for_state:
  "(\<And>x. x \<in> set xs \<Longrightarrow> snd (f x s) = s) \<Longrightarrow> snd (act_for xs f s) = s"
proof (induction xs)
  case Nil
  then show ?case by (simp add: act_simps)
next
  case (Cons x xs)
  obtain r s' where r: "f x s = (r, s')" by fastforce
  with Cons.prems have "s' = s" by (metis list.set_intros(1) snd_conv)
  with r Cons show ?case by (simp add: act_simps split: sum.split)
qed

lemma cleaner_monitor_safe:
  assumes contract: "get_schain_names_from_contract k node_id = Inr names"
    and safe: "\<And>n. n \<in> set (get_schains_on_node e w) \<Longrightarrow> n \<in> set names \<or> \<not> removable k node_id n"
  shows "snd (cleaner_monitor e ports pps k sgx_delete answer node_id w) = w"
proof -
  have step: "snd ((if n \<notin> set names
       then act_try (ensure_schain_removed e ports pps k sgx_delete answer node_id n)
              (\<lambda>_. act_return ())
       else act_return ()) w) = w"
    if "n \<in> set (get_schains_on_node e w)" for n
    using safe [OF that] ensure_schain_removed_cases [of e ports pps k sgx_delete answer node_id n w]
    by (auto simp: act_simps split: sum.split prod.split dest: arg_cong [of _ _ snd])
  have "snd (act_for (get_schains_on_node e w) (\<lambda>n. if n \<notin> set names
       then act_try (ensure_schain_removed e ports pps k sgx_delete answer node_id n)
              (\<lambda>_. act_return ())
       else act_return ()) w) = w"
    by (rule act_for_state) (rule step)
  then show ?thesis
    by (simp add: cleaner_monitor_def act_bind_eval act_eval contract)
qed

section \<open>What removal removes\<close>

lemma get_container_name_inject:
  "get_container_name t n = get_container_name t m \<longleftrightarrow> n = m"
  "get_container_name SCHAIN_CONTAINER n \<noteq> get_container_name IMA_CONTAINER m"
  "get_container_name IMA_CONTAINER m \<noteq> get_container_name SCHAIN_CONTAINER n"
  by (auto simp: get_container_name_def SCHAIN_CONTAINER_def IMA_CONTAINER_def
      CONTAINER_NAME_PREFIX_def)

lemma below_refl: "below d d"
  by (simp add: below_def)

lemma rmtree_spec:
  assumes "isdir w d"
  shows "\<exists>w'. rmtree d w = (Inr (), w') \<and> \<not> isdir w' d \<and>
     (\<forall>x. \<not> below d x \<longrightarrow> isdir w' x = isdir w x) \<and>
     (\<forall>p. tab_get (files w') p = (if below d (fst p) then None else tab_get (files w) p)) \<and>
     db w' = db w \<and> daemon w' = daemon w"
proof -
  have "tab_get (filter (\<lambda>x. \<not> below d (fst (fst x))) fs) p =
      (if below d (fst p) then None else tab_get fs p)" for fs :: files and p
    by (induction fs) (auto simp: tab_get_def)
  with assms show ?thesis by (auto simp: rmtree_def isdir_def below_refl)
qed

lemma merged_unique_set [simp]: "set (merged_unique xss) = set (concat xss)"
  by (simp add: merged_unique_def)

lemma merged_unique_distinct [simp]: "distinct (merged_unique xss)"
  by (simp add: merged_unique_def)

lemma get_schains_on_node_set:
  "n \<in> set (get_schains_on_node e w) \<longleftrightarrow>
     n \<in> set (listdir_all w (SCHAINS_DIR_PATH e)) \<or> n \<in> set (get_schains_with_containers e w) \<or>
     n \<in> set (get_schains_names False (db w))"
  by (auto simp: get_schains_on_node_def)

end
