(* ===== verification/Actions.thy ===== *)
theory Actions
  imports Cleaner
begin

text \<open>
  The action managers of \<^verbatim>\<open>core/schains/monitor/action.py\<close>: what a monitor does about a
  failed check. \<open>config_am\<close> is \<^verbatim>\<open>ConfigActionManager\<close>, \<open>skaled_am\<close> is
  \<^verbatim>\<open>SkaledActionManager\<close>; both get the chain's record anew for every access. A decorated
  action (\<open>monitor_block\<close>) is noted among the executed blocks when it returns.
  The key generation and the configuration generator are arguments of the actions that use
  them; messages to the operator leave the node as it is.
\<close>

text \<open>A block that returns a value at its end.\<close>

definition act_block' :: "('s, unit) act list \<Rightarrow> 'a \<Rightarrow> ('s, 'a) act" where
  "act_block' ms a = act_then (act_block ms) (act_return a)"

lemma act_block'_eval [act_simps]:
  "act_block' ms a s = (case act_block ms s of (Inl x, s') \<Rightarrow> (Inl x, s') | (Inr _, s') \<Rightarrow> (Inr a, s'))"
  by (simp add: act_block'_def act_simps split: prod.split sum.split)

lemma keeps_block' [keeps_intros]: "list_all (keeps P) ms \<Longrightarrow> keeps P (act_block' ms a)"
  by (simp add: act_block'_def keeps_block keeps_then keeps_pure)

section \<open>BaseActionManager\<close>

definition monitor_block :: "string \<Rightarrow> ('d, 'f, bool option) mact \<Rightarrow> ('d, 'f, bool option) mact" where
  "monitor_block f m =
     act_bind (act_gets (\<lambda>s. clock (wld s))) (\<lambda>ts.
     act_bind m (\<lambda>initial_status.
     act_bind (act_gets (\<lambda>s. clock (wld s))) (\<lambda>te.
     act_then
       (act_modify (\<lambda>s. s\<lparr>executed_blocks :=
          tab_put f \<lparr>eb_ts = ts, eb_te = te, eb_initial_status = initial_status\<rparr>
            (executed_blocks s)\<rparr>))
       (act_return initial_status))))"

text \<open>The property \<^verbatim>\<open>schain_record\<close>: fetched, or added, at every access.\<close>

definition am_record :: "('d, 'f) env \<Rightarrow> string \<Rightarrow> ('d, 'f, schain_record) wact" where
  "am_record e n =
     (\<lambda>w. let (r, d') = upsert_schain_record n (datetime_now e w) (import_dt e) (db w)
          in case r of
               None \<Rightarrow> (Inl (AttributeError ''NoneType''), w\<lparr>db := d'\<rparr>)
             | Some rec \<Rightarrow> (Inr rec, w\<lparr>db := d'\<rparr>))"

definition am_set :: "('d, 'f) env \<Rightarrow> string \<Rightarrow> setter \<Rightarrow> ('d, 'f, unit) wact" where
  "am_set e n f = act_bind (am_record e n) (set_record f)"

definition upd_last_seen :: "('d, 'f) env \<Rightarrow> string \<Rightarrow> ('d, 'f, unit) wact" where
  "upd_last_seen e n = (\<lambda>w. am_set e n (set_monitor_last_seen (datetime_now e w)) w)"

definition upd_schain_record :: "('d, 'f) env \<Rightarrow> string \<Rightarrow> ('d, 'f, unit) wact" where
  "upd_schain_record e n =
     act_block
      [act_bind (am_record e n) (\<lambda>rec.
         act_when (first_run rec)
           (act_then (am_set e n (set_restart_count 0)) (am_set e n (set_failed_rpc_count 0)))),
       am_set e n (set_first_run False),
       am_set e n (set_new_schain False)]"

section \<open>ConfigActionManager\<close>

text \<open>A generated configuration: what is written to a file, and whether it equals (as a Python
  dictionary) a configuration loaded from one.\<close>

record generated_config =
  gc_json :: json
  gc_equals :: "json \<Rightarrow> bool"

record config_am =
  ca_name :: string
  ca_node_id :: int
  ca_rotation_id :: int
  ca_checks :: config_checks
  ca_current_nodes :: "node_info list"

definition config_dir_action :: "('d, 'f) env \<Rightarrow> config_am \<Rightarrow> ('d, 'f, bool option) mact" where
  "config_dir_action e am =
     monitor_block ''config_dir''
       (act_then (on_world (init_schain_config_dir e (ca_name am))) (act_return (Some True)))"

text \<open>\<^verbatim>\<open>save_dkg_results\<close>\<close>

definition save_dkg_results :: "json \<Rightarrow> path \<Rightarrow> ('d, 'f, unit) wact" where
  "save_dkg_results keys_data p = modify_files (write_json p keys_data)"

definition dkg_action ::
  "('d, 'f) env \<Rightarrow> config_am \<Rightarrow> ('d, 'f, DKGStatus \<times> json) wact \<Rightarrow> ('d, 'f, bool option) mact" where
  "dkg_action e am run_dkg =
     monitor_block ''dkg''
       (act_bind (in_world (check_dkg e (ca_checks am))) (\<lambda>initial_status.
        act_then
          (if initial_status then act_return ()
           else act_bind (on_world run_dkg) (\<lambda>(status, keys_data).
                act_block
                 [act_when (is_done status)
                    (on_world (save_dkg_results keys_data
                       (get_secret_key_share_filepath e (ca_name am) (ca_rotation_id am)))),
                  on_world (am_set e (ca_name am) (set_dkg_status status)),
                  act_when (\<not> is_done status) (act_raise (DkgError ''DKG failed''))]))
          (act_return (Some initial_status))))"

definition upstream_config_action ::
  "('d, 'f) env \<Rightarrow> config_am \<Rightarrow> ('d, 'f, generated_config) wact \<Rightarrow> ('d, 'f, bool option) mact" where
  "upstream_config_action e am generate =
     monitor_block ''upstream_config''
       (act_bind (on_world generate) (\<lambda>new_config.
        act_bind (in_world (upstream_config_exists e (ca_name am))) (\<lambda>ex.
        act_bind (if \<not> ex then act_return True
                  else act_bind (in_world (latest_upstream_config e (ca_name am))) (\<lambda>latest.
                       act_return (case latest of None \<Rightarrow> True
                                               | Some j \<Rightarrow> \<not> gc_equals new_config j))) (\<lambda>differs.
        act_then
          (act_when differs
             (on_world (save_new_upstream e (ca_name am) (ca_rotation_id am) (gc_json new_config))))
          (act_then
             (on_world (act_bind (am_record e (ca_name am)) (\<lambda>rec.
                act_drop (update_schain_config_version e rec))))
             (act_return (Some differs)))))))"

definition reset_config_record_action ::
  "('d, 'f) env \<Rightarrow> config_am \<Rightarrow> ('d, 'f, bool option) mact" where
  "reset_config_record_action e am =
     monitor_block ''reset_config_record''
       (act_then
          (on_world (act_then
             (act_bind (am_record e (ca_name am)) (\<lambda>rec.
                act_drop (update_schain_config_version e rec)))
             (am_set e (ca_name am) (set_sync_config_run False))))
          (act_return (Some True)))"

definition external_state_action ::
  "('d, 'f) env \<Rightarrow> config_am \<Rightarrow> ('d, 'f, bool option) mact" where
  "external_state_action e am =
     monitor_block ''external_state''
       (act_then (\<lambda>s. on_world (external_update e (ca_name am) (estate s)) s) (act_return (Some True)))"

definition save_reload_ts ::
  "('d, 'f) env \<Rightarrow> config_am \<Rightarrow> int option \<Rightarrow> ('d, 'f, unit) mact" where
  "save_reload_ts e am ts =
     act_then
       (act_modify (\<lambda>s. s\<lparr>estate := (estate s)\<lparr>es_reload_ts :=
          (case ts of None \<Rightarrow> JNull | Some t \<Rightarrow> JInt t)\<rparr>\<rparr>))
       (\<lambda>s. on_world (external_update e (ca_name am) (estate s)) s)"

definition update_reload_ts_action ::
  "('d, 'f) env \<Rightarrow> config_am \<Rightarrow> contracts \<Rightarrow> bool \<Rightarrow> bool \<Rightarrow> ('d, 'f, bool option) mact" where
  "update_reload_ts_action e am k ip_matched sync_node =
     monitor_block ''update_reload_ts''
       (if ip_matched
        then act_then (save_reload_ts e am None) (act_return (Some True))
        else act_bind
          (if sync_node then act_return (Some 0)
           else act_bind (act_res (\<lambda>_. get_node_ids_for_schain k (ca_name am))) (\<lambda>ids.
                act_return (get_node_index_in_group ids (ca_node_id am)))) (\<lambda>index.
          case index of
            None \<Rightarrow> act_return (Some False)
          | Some i \<Rightarrow>
              act_bind (act_res (\<lambda>_. calc_reload_ts (ca_current_nodes am) i)) (\<lambda>ts.
              act_then (save_reload_ts e am ts) (act_return (Some True)))))"

section \<open>SkaledActionManager\<close>

record skaled_am =
  sa_schain :: schain_structure
  sa_checks :: skaled_checks
  sa_ncli_status :: "path option"
  sa_historic_state :: bool

definition sa_name :: "skaled_am \<Rightarrow> string" where
  "sa_name am = sch_name (sa_schain am)"

definition volume_action :: "('d, 'f) env \<Rightarrow> skaled_am \<Rightarrow> ('d, 'f, bool option) mact" where
  "volume_action e am =
     monitor_block ''volume''
       (act_bind (in_world (check_volume e (sa_checks am))) (\<lambda>initial_status.
        act_then
          (if initial_status then act_return ()
           else on_world (init_data_volume e (sa_schain am) (SYNC_NODE e)))
          (act_return (Some initial_status))))"

definition firewall_rules_action ::
  "('d, 'f) env \<Rightarrow> skaled_am \<Rightarrow> bool \<Rightarrow> ('d, 'f, bool option) mact" where
  "firewall_rules_action e am upstream =
     monitor_block ''firewall_rules''
       (act_bind (check_firewall_rules e (sa_checks am)) (\<lambda>initial_status.
        act_then
          (if initial_status then act_return ()
           else act_bind (in_world (if upstream then latest_upstream_config e (sa_name am)
                                    else skaled_config e (sa_name am))) (\<lambda>conf.
                act_block
                 [configure_from e (sa_name am) conf,
                  act_drop (act_res (\<lambda>s. expected_rules (rctl s))),
                  on_rule_controller (rules_sync (IptablesController (iptc e)))]))
          (act_return (Some initial_status))))"

definition CONTAINER_POST_RUN_DELAY :: int where "CONTAINER_POST_RUN_DELAY = 20"
definition SCHAIN_CLEANUP_TIMEOUT :: int where "SCHAIN_CLEANUP_TIMEOUT = 10"

definition skaled_container_action ::
  "('d, 'f) env \<Rightarrow> skaled_am \<Rightarrow> bool \<Rightarrow> int option \<Rightarrow> bool \<Rightarrow> ('d, 'f, bool option) mact" where
  "skaled_container_action e am download_snapshot start_ts abort_on_exit =
     monitor_block ''skaled_container''
       (act_bind (in_world (case sa_ncli_status am of
                              None \<Rightarrow> (\<lambda>_. Inr JNull)
                            | Some p \<Rightarrow> ncli_snapshot_from p)) (\<lambda>snap_from.
        act_block'
          [on_world (act_bind (am_record e (sa_name am)) (\<lambda>rec.
             monitor_schain_container e (sa_schain am) rec (init_skaled_status e (sa_name am))
               download_snapshot start_ts snap_from abort_on_exit (SYNC_NODE e)
               (sa_historic_state am))),
           on_world (time_sleep CONTAINER_POST_RUN_DELAY)]
          (Some True)))"

definition restart_skaled_container_action ::
  "('d, 'f) env \<Rightarrow> skaled_am \<Rightarrow> ('d, 'f, bool option) mact" where
  "restart_skaled_container_action e am =
     monitor_block ''restart_skaled_container''
       (act_if (in_world (is_container_exists e (sa_name am) SCHAIN_CONTAINER))
          (act_block'
            [on_world (restart_container e SCHAIN_CONTAINER (sa_schain am)),
             on_world (act_bind (am_record e (sa_name am)) (\<lambda>rec.
               act_drop (update_ssl_change_date e rec)))]
            (Some True))
          (skaled_container_action e am False None True))"

definition ima_container_action ::
  "('d, 'f) env \<Rightarrow> skaled_am \<Rightarrow> ('d, 'f, bool option) mact" where
  "ima_container_action e am =
     act_bind (in_world (check_ima_container e (sa_checks am))) (\<lambda>initial_status.
     act_bind (act_res (\<lambda>_. get_migration_ts e (sa_name am))) (\<lambda>migration_ts.
     act_then
       (if initial_status then act_return ()
        else act_then (on_world (pull_new_image e IMA_CONTAINER))
          (act_bind (in_world (ext_ima_linked e (sa_name am))) (\<lambda>lnk.
           act_bind (in_world (ext_chain_id e (sa_name am))) (\<lambda>cid.
           on_world (monitor_ima_container e (sa_schain am)
             \<lparr>linked = lnk, ima_chain_id = cid\<rparr> migration_ts)))))
       (act_return (Some initial_status))))"

definition restart_ima_container_action ::
  "('d, 'f) env \<Rightarrow> skaled_am \<Rightarrow> ('d, 'f, bool option) mact" where
  "restart_ima_container_action e am =
     monitor_block ''restart_ima_container''
       (act_if (in_world (is_container_exists e (sa_name am) IMA_CONTAINER))
          (act_block' [on_world (restart_container e IMA_CONTAINER (sa_schain am))] (Some True))
          (ima_container_action e am))"

definition reset_restart_counter_action ::
  "('d, 'f) env \<Rightarrow> skaled_am \<Rightarrow> ('d, 'f, bool option) mact" where
  "reset_restart_counter_action e am =
     monitor_block ''reset_restart_counter''
       (act_block' [on_world (am_set e (sa_name am) (set_restart_count 0))] (Some True))"

definition reset_counters :: "('d, 'f) env \<Rightarrow> skaled_am \<Rightarrow> ('d, 'f, unit) mact" where
  "reset_counters e am =
     act_block
      [on_world (am_set e (sa_name am) (set_restart_count 0)),
       on_world (am_set e (sa_name am) (set_failed_rpc_count 0)),
       on_world (am_set e (sa_name am) (set_needs_reload False))]"

definition reloaded_skaled_container_action ::
  "('d, 'f) env \<Rightarrow> skaled_am \<Rightarrow> bool \<Rightarrow> ('d, 'f, bool option) mact" where
  "reloaded_skaled_container_action e am abort_on_exit =
     monitor_block ''reloaded_skaled_container''
       (act_then
         (act_block
           [act_if (in_world (is_container_exists e (sa_name am) SCHAIN_CONTAINER))
              (on_world (remove_schain_container e (sa_name am))) (act_return ()),
            reset_counters e am])
         (skaled_container_action e am False None abort_on_exit))"

definition recreated_schain_containers_action ::
  "('d, 'f) env \<Rightarrow> skaled_am \<Rightarrow> bool \<Rightarrow> ('d, 'f, bool option) mact" where
  "recreated_schain_containers_action e am abort_on_exit =
     monitor_block ''recreated_schain_containers''
       (act_bind (in_world (is_container_exists e (sa_name am) IMA_CONTAINER)) (\<lambda>ima_exists.
        act_then (act_when ima_exists (on_world (remove_ima_container e (sa_name am))))
       (act_bind (in_world (is_container_exists e (sa_name am) SCHAIN_CONTAINER)) (\<lambda>schain_exists.
        act_then (act_when schain_exists (on_world (remove_schain_container e (sa_name am))))
          (act_block'
            [reset_counters e am,
             act_drop (skaled_container_action e am False None abort_on_exit),
             act_drop (ima_container_action e am)]
            (Some (\<not> ima_exists \<and> \<not> schain_exists)))))))"

definition skaled_rpc_action :: "('d, 'f) env \<Rightarrow> skaled_am \<Rightarrow> ('d, 'f, bool option) mact" where
  "skaled_rpc_action e am =
     monitor_block ''skaled_rpc''
       (act_bind (in_world (check_rpc e (sa_checks am))) (\<lambda>initial_status.
        act_then
          (if initial_status then on_world (am_set e (sa_name am) (set_failed_rpc_count 0))
           else act_then
             (act_drop (in_world (is_container_exists e (sa_name am) SCHAIN_CONTAINER)))
             (on_world (act_bind (am_record e (sa_name am)) (\<lambda>rec.
                handle_failed_schain_rpc e (sa_schain am) rec
                  (init_skaled_status e (sa_name am))))))
          (act_return (Some initial_status))))"

definition cleanup_schain_docker_entity_action ::
  "('d, 'f) env \<Rightarrow> skaled_am \<Rightarrow> ('d, 'f, bool option) mact" where
  "cleanup_schain_docker_entity_action e am =
     monitor_block ''cleanup_schain_docker_entity''
       (act_block'
         [on_world (remove_schain_container e (sa_name am)),
          on_world (time_sleep SCHAIN_CLEANUP_TIMEOUT),
          on_world (remove_schain_volume e (sa_name am))]
         (Some True))"

definition update_config_action :: "('d, 'f) env \<Rightarrow> skaled_am \<Rightarrow> ('d, 'f, bool option) mact" where
  "update_config_action e am =
     monitor_block ''update_config''
       (act_bind (on_world (sync_skaled_config_with_upstream e (sa_name am))) (\<lambda>b.
        act_return (Some b)))"

definition schedule_skaled_exit_action ::
  "('d, 'f) env \<Rightarrow> skaled_am \<Rightarrow> int option \<Rightarrow> ('d, 'f, bool option) mact" where
  "schedule_skaled_exit_action e am exit_ts =
     monitor_block ''schedule_skaled_exit''
       (act_bind (on_world (truthy_res (exit_time_reached (init_skaled_status e (sa_name am)))))
         (\<lambda>reached.
        act_bind (act_gets (\<lambda>s. exit_schedule_exists e (sa_name am) (wld s))) (\<lambda>scheduled.
        act_block'
          [if reached \<or> scheduled then act_return ()
           else case exit_ts of
               None \<Rightarrow> act_return ()
             | Some ts \<Rightarrow> on_world (set_exit_ts e (sa_name am) ts)]
          None)))"

definition reset_exit_schedule_action ::
  "('d, 'f) env \<Rightarrow> skaled_am \<Rightarrow> ('d, 'f, bool option) mact" where
  "reset_exit_schedule_action e am =
     monitor_block ''reset_exit_schedule''
       (act_block'
         [act_if (act_gets (\<lambda>s. exit_schedule_exists e (sa_name am) (wld s)))
            (on_world (exit_schedule_rm e (sa_name am))) (act_return ())]
         None)"

definition disable_backup_run_action ::
  "('d, 'f) env \<Rightarrow> skaled_am \<Rightarrow> ('d, 'f, bool option) mact" where
  "disable_backup_run_action e am =
     monitor_block ''disable_backup_run''
       (act_block' [on_world (am_set e (sa_name am) (set_backup_run False))] None)"

definition notify_repair_mode_action :: "('d, 'f, bool option) mact" where
  "notify_repair_mode_action = monitor_block ''notify_repair_mode'' (act_return None)"

definition disable_repair_mode_action ::
  "('d, 'f) env \<Rightarrow> skaled_am \<Rightarrow> ('d, 'f, bool option) mact" where
  "disable_repair_mode_action e am =
     monitor_block ''disable_repair_mode''
       (act_block'
         [on_world (act_bind (am_record e (sa_name am)) (\<lambda>rec.
            act_when (repair_mode rec) (am_set e (sa_name am) (set_repair_mode False))))]
         None)"

definition update_repair_ts_action ::
  "('d, 'f) env \<Rightarrow> skaled_am \<Rightarrow> int \<Rightarrow> ('d, 'f, bool option) mact" where
  "update_repair_ts_action e am new_ts =
     monitor_block ''update_repair_ts''
       (act_block'
         [on_world (am_set e (sa_name am) (set_repair_date (utcfromtimestamp new_ts)))] None)"

definition upstream_config_path :: "('d, 'f) env \<Rightarrow> skaled_am \<Rightarrow> ('d, 'f) world \<Rightarrow> path option res" where
  "upstream_config_path e am w = latest_upstream_path e (sa_name am) w"

definition upstream_finish_ts :: "('d, 'f) env \<Rightarrow> skaled_am \<Rightarrow> ('d, 'f) world \<Rightarrow> int option res" where
  "upstream_finish_ts e am w = get_finish_ts_from_latest_upstream e (sa_name am) w"

definition finish_ts :: "('d, 'f) env \<Rightarrow> skaled_am \<Rightarrow> ('d, 'f) world \<Rightarrow> int option res" where
  "finish_ts e am w = get_finish_ts_from_skaled_config e (sa_name am) w"

end
