(* ===== verification/Skaled_Monitor.thy ===== *)
theory Skaled_Monitor
  imports Actions
begin

text \<open>
  \<^verbatim>\<open>core/schains/monitor/skaled_monitor.py\<close>: nine ways to look after a chain's skaled
  (\<open>skaled_monitor\<close>), what each does (\<open>execute\<close>), and which one is chosen
  (\<open>get_skaled_monitor\<close>) from the checks, the record and the status files. A monitor's
  \<open>run\<close> swallows exceptions. \<^verbatim>\<open>self.am.reset_restart_count()\<close>, which the repair monitor
  calls for a running container, does not exist: an AttributeError.
\<close>

section \<open>The monitors\<close>

datatype skaled_monitor =
    RegularSkaledMonitor
  | RepairSkaledMonitor
  | BackupSkaledMonitor
  | RecreateSkaledMonitor
  | UpdateConfigSkaledMonitor
  | ReloadGroupSkaledMonitor
  | ReloadIpSkaledMonitor
  | NoConfigSkaledMonitor
  | NewNodeSkaledMonitor

definition do_action :: "('d, 'f, bool option) mact \<Rightarrow> ('d, 'f, unit) mact" where
  "do_action m = act_drop m"

definition fix_firewall :: "('d, 'f) env \<Rightarrow> skaled_am \<Rightarrow> bool \<Rightarrow> ('d, 'f, unit) mact" where
  "fix_firewall e am upstream =
     act_unless (check_firewall_rules e (sa_checks am))
       (do_action (firewall_rules_action e am upstream))"

definition fix_volume :: "('d, 'f) env \<Rightarrow> skaled_am \<Rightarrow> ('d, 'f, unit) mact" where
  "fix_volume e am =
     act_unless (in_world (check_volume e (sa_checks am))) (do_action (volume_action e am))"

definition fix_skaled ::
  "('d, 'f) env \<Rightarrow> skaled_am \<Rightarrow> ('d, 'f, bool option) mact \<Rightarrow> ('d, 'f, bool option) mact \<Rightarrow>
   ('d, 'f, unit) mact" where
  "fix_skaled e am start otherwise_do =
     act_if (in_world (check_skaled_container e (sa_checks am)))
       (do_action otherwise_do) (do_action start)"

definition fix_rpc :: "('d, 'f) env \<Rightarrow> skaled_am \<Rightarrow> ('d, 'f, unit) mact" where
  "fix_rpc e am =
     act_unless (in_world (check_rpc e (sa_checks am))) (do_action (skaled_rpc_action e am))"

definition fix_ima :: "('d, 'f) env \<Rightarrow> skaled_am \<Rightarrow> ('d, 'f, unit) mact" where
  "fix_ima e am =
     act_unless (in_world (check_ima_container e (sa_checks am)))
       (do_action (ima_container_action e am))"

definition regular_execute :: "('d, 'f) env \<Rightarrow> skaled_am \<Rightarrow> ('d, 'f, unit) mact" where
  "regular_execute e am =
     act_block
      [fix_firewall e am False,
       fix_volume e am,
       fix_skaled e am (skaled_container_action e am False None True)
         (reset_restart_counter_action e am),
       fix_rpc e am,
       act_unless (in_world (check_ima_container e (sa_checks am)))
         (act_when (\<not> SYNC_NODE e) (do_action (ima_container_action e am)))]"

definition no_such_action :: "string \<Rightarrow> ('d, 'f, bool option) mact" where
  "no_such_action n = act_raise (AttributeError n)"

definition repair_execute :: "('d, 'f) env \<Rightarrow> skaled_am \<Rightarrow> ('d, 'f, unit) mact" where
  "repair_execute e am =
     act_block
      [act_drop (in_world (check_exit_code_ok e (sa_checks am))),
       do_action notify_repair_mode_action,
       do_action (cleanup_schain_docker_entity_action e am),
       fix_firewall e am False,
       fix_volume e am,
       fix_skaled e am (skaled_container_action e am True None True)
         (no_such_action ''reset_restart_count''),
       (\<lambda>s. do_action (update_repair_ts_action e am (clock (wld s))) s)]"

definition backup_execute :: "('d, 'f) env \<Rightarrow> skaled_am \<Rightarrow> ('d, 'f, unit) mact" where
  "backup_execute e am =
     act_block
      [fix_volume e am,
       fix_firewall e am False,
       fix_skaled e am (skaled_container_action e am True None True)
         (reset_restart_counter_action e am),
       fix_ima e am,
       do_action (disable_backup_run_action e am)]"

definition recreate_execute :: "('d, 'f) env \<Rightarrow> skaled_am \<Rightarrow> ('d, 'f, unit) mact" where
  "recreate_execute e am =
     act_block [fix_volume e am, do_action (reloaded_skaled_container_action e am True)]"

definition update_config_execute :: "('d, 'f) env \<Rightarrow> skaled_am \<Rightarrow> ('d, 'f, unit) mact" where
  "update_config_execute e am =
     act_block
      [act_unless (in_world (check_config_updated e (sa_checks am)))
         (do_action (update_config_action e am)),
       fix_firewall e am False,
       fix_volume e am,
       do_action (reset_exit_schedule_action e am),
       do_action (recreated_schain_containers_action e am False)]"

definition reload_steps ::
  "('d, 'f) env \<Rightarrow> skaled_am \<Rightarrow> bool \<Rightarrow> (('d, 'f) world \<Rightarrow> int option res) \<Rightarrow> ('d, 'f, unit) mact"
where
  "reload_steps e am upstream exit_ts =
     act_block
      [fix_firewall e am upstream,
       fix_volume e am,
       fix_skaled e am (skaled_container_action e am False None True)
         (reset_restart_counter_action e am),
       fix_rpc e am,
       fix_ima e am,
       act_bind (in_world exit_ts) (\<lambda>ts. do_action (schedule_skaled_exit_action e am ts))]"

definition econfig_reload_ts :: "('d, 'f) env \<Rightarrow> skaled_am \<Rightarrow> ('d, 'f) world \<Rightarrow> int option res" where
  "econfig_reload_ts e am w = res_bind (ext_reload_ts e (sa_name am) w) json_opt_int"

definition reload_group_execute :: "('d, 'f) env \<Rightarrow> skaled_am \<Rightarrow> ('d, 'f, unit) mact" where
  "reload_group_execute e am = reload_steps e am False (upstream_finish_ts e am)"

definition reload_ip_execute :: "('d, 'f) env \<Rightarrow> skaled_am \<Rightarrow> ('d, 'f, unit) mact" where
  "reload_ip_execute e am = reload_steps e am True (econfig_reload_ts e am)"

definition no_config_execute :: "('d, 'f) env \<Rightarrow> skaled_am \<Rightarrow> ('d, 'f, unit) mact" where
  "no_config_execute e am =
     act_if (in_world (check_upstream_exists e (sa_checks am)))
       (do_action (update_config_action e am)) (act_return ())"

definition new_node_execute :: "('d, 'f) env \<Rightarrow> skaled_am \<Rightarrow> ('d, 'f, unit) mact" where
  "new_node_execute e am =
     act_block
      [fix_volume e am,
       fix_firewall e am False,
       act_if (in_world (check_skaled_container e (sa_checks am)))
         (do_action (reset_restart_counter_action e am))
         (act_bind (in_world (finish_ts e am)) (\<lambda>ts.
          do_action (skaled_container_action e am True ts True))),
       fix_ima e am]"

fun execute :: "('d, 'f) env \<Rightarrow> skaled_am \<Rightarrow> skaled_monitor \<Rightarrow> ('d, 'f, unit) mact" where
  "execute e am RegularSkaledMonitor = regular_execute e am"
| "execute e am RepairSkaledMonitor = repair_execute e am"
| "execute e am BackupSkaledMonitor = backup_execute e am"
| "execute e am RecreateSkaledMonitor = recreate_execute e am"
| "execute e am UpdateConfigSkaledMonitor = update_config_execute e am"
| "execute e am ReloadGroupSkaledMonitor = reload_group_execute e am"
| "execute e am ReloadIpSkaledMonitor = reload_ip_execute e am"
| "execute e am NoConfigSkaledMonitor = no_config_execute e am"
| "execute e am NewNodeSkaledMonitor = new_node_execute e am"

definition run_skaled_monitor ::
  "('d, 'f) env \<Rightarrow> skaled_am \<Rightarrow> skaled_monitor \<Rightarrow> ('d, 'f, unit) mact" where
  "run_skaled_monitor e am mon =
     act_try
       (act_block
         [on_world (upd_last_seen e (sa_name am)),
          execute e am mon,
          on_world (upd_schain_record e (sa_name am)),
          on_world (upd_last_seen e (sa_name am))])
       (\<lambda>_. act_return ())"

section \<open>Choosing\<close>

definition is_backup_mode :: "schain_record \<Rightarrow> bool" where
  "is_backup_mode rec = (backup_run rec \<and> \<not> new_schain rec)"

text \<open>\<^verbatim>\<open>None > 0\<close> is a TypeError.\<close>

definition is_skaled_repair_internal ::
  "check_status \<Rightarrow> path option \<Rightarrow> ('d, 'f) world \<Rightarrow> bool res" where
  "is_skaled_repair_internal st skaled_status w =
     (case skaled_status of
        None \<Rightarrow> Inr False
      | Some p \<Rightarrow>
          res_bind (clear_data_dir p w) (\<lambda>c.
          res_bind (if truthy c then start_from_snapshot p w else Inr c) (\<lambda>needs_repair.
          res_bind (status_get st ''skaled_container'') (\<lambda>running.
          Inr (\<not> running \<and> truthy needs_repair)))))"

definition is_repair_mode ::
  "('d, 'f) env \<Rightarrow> schain_record \<Rightarrow> check_status \<Rightarrow> path option \<Rightarrow> path option \<Rightarrow> bool \<Rightarrow>
   ('d, 'f) world \<Rightarrow> bool res" where
  "is_repair_mode e rec st skaled_status ncli_status automatic_repair w =
     (let repair_ts = timestamp e (repair_date rec)
      in res_bind (case ncli_status of
                     None \<Rightarrow> Inr False
                   | Some p \<Rightarrow> res_bind (ncli_repair_ts p w) (\<lambda>j.
                               res_bind (json_num j) (\<lambda>ts. Inr (ts > repair_ts)))) (\<lambda>requested.
         if requested then Inr True
         else if automatic_repair then is_skaled_repair_internal st skaled_status w
         else Inr False))"

definition is_reload_group_mode :: "check_status \<Rightarrow> int option \<Rightarrow> ('d, 'f) world \<Rightarrow> bool res" where
  "is_reload_group_mode st finish w =
     (case finish of
        None \<Rightarrow> Inr False
      | Some t \<Rightarrow>
          if \<not> t > clock w then Inr False
          else res_bind (status_get st ''config'') (\<lambda>config.
               if \<not> config then Inr False
               else res_bind (status_get st ''config_updated'') (\<lambda>updated. Inr (\<not> updated))))"

definition is_reload_ip_mode :: "check_status \<Rightarrow> int option \<Rightarrow> bool res" where
  "is_reload_ip_mode st reload_ts =
     (case reload_ts of
        None \<Rightarrow> Inr False
      | Some _ \<Rightarrow>
          res_bind (status_get st ''config'') (\<lambda>config.
          if \<not> config then Inr False
          else res_bind (status_get st ''config_updated'') (\<lambda>updated. Inr (\<not> updated))))"

definition is_config_update_time ::
  "check_status \<Rightarrow> path option \<Rightarrow> ('d, 'f) world \<Rightarrow> bool res" where
  "is_config_update_time st skaled_status w =
     (case skaled_status of
        None \<Rightarrow> Inr False
      | Some p \<Rightarrow>
          res_bind (status_get st ''skaled_container'') (\<lambda>running.
          if running then Inr False
          else res_bind (exit_time_reached p w) (\<lambda>j. Inr (truthy j))))"

definition is_recreate_mode :: "('d, 'f) env \<Rightarrow> check_status \<Rightarrow> schain_record \<Rightarrow> bool res" where
  "is_recreate_mode e st rec =
     res_bind (status_get st ''skaled_container'') (\<lambda>running.
     Inr (running \<and> ssl_reload_needed e rec))"

definition is_new_node_mode ::
  "('d, 'f) env \<Rightarrow> schain_record \<Rightarrow> int option \<Rightarrow> ('d, 'f) world \<Rightarrow> bool" where
  "is_new_node_mode e rec finish w =
     (case finish of
        None \<Rightarrow> False
      | Some t \<Rightarrow> t > clock w \<and> get_number_of_secret_shares e (rec_name rec) w = 1)"

definition no_config :: "check_status \<Rightarrow> bool res" where
  "no_config st = res_bind (status_get st ''config'') (\<lambda>c. Inr (\<not> c))"

text \<open>\<^verbatim>\<open>if/elif\<close> over conditions that may raise.\<close>

fun first_match :: "(bool res \<times> 'a) list \<Rightarrow> 'a \<Rightarrow> 'a res" where
  "first_match [] dflt = Inr dflt"
| "first_match ((c, a) # rest) dflt =
     res_bind c (\<lambda>b. if b then Inr a else first_match rest dflt)"

text \<open>On a sync node the test for a missing configuration is an \<^verbatim>\<open>if\<close> of its own: it sets
  the default of the tests after it.\<close>

definition get_skaled_monitor ::
  "('d, 'f) env \<Rightarrow> skaled_am \<Rightarrow> check_status \<Rightarrow> schain_record \<Rightarrow> path option \<Rightarrow> path option \<Rightarrow>
   bool \<Rightarrow> ('d, 'f) world \<Rightarrow> skaled_monitor res" where
  "get_skaled_monitor e am st rec skaled_status ncli_status automatic_repair w =
     (if SYNC_NODE e
      then res_bind (no_config st) (\<lambda>nc.
        first_match
          [(is_recreate_mode e st rec, RecreateSkaledMonitor),
           (is_config_update_time st skaled_status w, UpdateConfigSkaledMonitor),
           (res_bind (upstream_finish_ts e am w) (\<lambda>t. is_reload_group_mode st t w),
            ReloadGroupSkaledMonitor),
           (res_bind (econfig_reload_ts e am w) (is_reload_ip_mode st), ReloadIpSkaledMonitor)]
          (if nc then NoConfigSkaledMonitor else RegularSkaledMonitor))
      else
        first_match
          [(no_config st, NoConfigSkaledMonitor),
           (Inr (is_backup_mode rec), BackupSkaledMonitor),
           (is_repair_mode e rec st skaled_status ncli_status automatic_repair w,
            RepairSkaledMonitor),
           (is_recreate_mode e st rec, RecreateSkaledMonitor),
           (res_bind (finish_ts e am w) (\<lambda>t. Inr (is_new_node_mode e rec t w)),
            NewNodeSkaledMonitor),
           (is_config_update_time st skaled_status w, UpdateConfigSkaledMonitor),
           (res_bind (upstream_finish_ts e am w) (\<lambda>t. is_reload_group_mode st t w),
            ReloadGroupSkaledMonitor),
           (res_bind (econfig_reload_ts e am w) (is_reload_ip_mode st), ReloadIpSkaledMonitor)]
          RegularSkaledMonitor)"

section \<open>Lemmas on the choice\<close>

lemma first_match_cases:
  assumes "first_match xs dflt = Inr a"
  shows "(\<exists>pre c post. xs = pre @ (c, a) # post \<and> c = Inr True \<and> (\<forall>p \<in> set pre. fst p = Inr False)) \<or>
         a = dflt \<and> (\<forall>p \<in> set xs. fst p = Inr False)"
  using assms
proof (induction xs)
  case Nil
  then show ?case by simp
next
  case (Cons x xs)
  obtain c b where x: "x = (c, b)" by fastforce
  show ?case
  proof (cases "c = Inr True")
    case True
    with Cons.prems x have "b = a" by simp
    with True x have "x # xs = [] @ (c, a) # xs \<and> c = Inr True \<and> (\<forall>p \<in> set []. fst p = Inr False)"
      by simp
    then show ?thesis by blast
  next
    case False
    with Cons.prems x have "c = Inr False" and "first_match xs dflt = Inr a"
      by (auto simp: res_bind_Inr_iff split: if_splits)
    from Cons.IH [OF this(2)] show ?thesis
    proof (elim disjE exE conjE)
      fix pre c' post
      assume "xs = pre @ (c', a) # post" "c' = Inr True" "\<forall>p \<in> set pre. fst p = Inr False"
      with x \<open>c = Inr False\<close> have "x # xs = (x # pre) @ (c', a) # post \<and> c' = Inr True \<and>
          (\<forall>p \<in> set (x # pre). fst p = Inr False)" by simp
      then show ?thesis by blast
    next
      assume "a = dflt" "\<forall>p \<in> set xs. fst p = Inr False"
      with x \<open>c = Inr False\<close> show ?thesis by simp
    qed
  qed
qed

lemma first_match_total:
  "(\<And>c a. (c, a) \<in> set xs \<Longrightarrow> \<not> isl c) \<Longrightarrow> \<not> isl (first_match xs dflt)"
proof (induction xs)
  case (Cons x xs)
  obtain c b where x: "x = (c, b)" by fastforce
  with Cons.prems have "\<not> isl c" by auto
  then obtain v where "c = Inr v" by (cases c) auto
  with Cons x show ?case by auto
qed simp

section \<open>What each mode asks for\<close>

lemma first_match_Cons:
  "first_match ((c, a) # xs) d = Inr b \<longleftrightarrow>
     c = Inr True \<and> b = a \<or> c = Inr False \<and> first_match xs d = Inr b"
  by (cases c) auto

lemma status_get_iff: "status_get st n = Inr b \<longleftrightarrow> tab_get st n = Some b"
  by (simp add: status_get_def split: option.split)

lemma no_config_iff: "no_config st = Inr b \<longleftrightarrow> tab_get st ''config'' = Some (\<not> b)"
  by (cases b) (auto simp: no_config_def res_bind_Inr_iff status_get_iff)

lemma is_repair_mode_True:
  "is_repair_mode e rec st sp np ar w = Inr True \<Longrightarrow>
     (\<exists>p j ts. np = Some p \<and> ncli_repair_ts p w = Inr j \<and> json_num j = Inr ts \<and>
        timestamp e (repair_date rec) < ts) \<or>
     ar \<and> (\<exists>p c f. sp = Some p \<and> clear_data_dir p w = Inr c \<and> truthy c \<and>
        start_from_snapshot p w = Inr f \<and> truthy f \<and> tab_get st ''skaled_container'' = Some False)"
  unfolding is_repair_mode_def is_skaled_repair_internal_def
  by (auto simp: res_bind_Inr_iff status_get_iff Let_def split: option.splits if_splits)

lemma is_recreate_mode_True:
  "is_recreate_mode e st rec = Inr True \<longleftrightarrow>
     tab_get st ''skaled_container'' = Some True \<and> ssl_reload_needed e rec"
  by (auto simp: is_recreate_mode_def res_bind_Inr_iff status_get_iff)

lemma is_recreate_mode_False:
  "is_recreate_mode e st rec = Inr False \<longleftrightarrow>
     (\<exists>b. tab_get st ''skaled_container'' = Some b \<and> \<not> (b \<and> ssl_reload_needed e rec))"
  by (auto simp: is_recreate_mode_def res_bind_Inr_iff status_get_iff)

lemma is_new_node_mode_iff:
  "is_new_node_mode e rec t w \<longleftrightarrow>
     (\<exists>ts. t = Some ts \<and> clock w < ts \<and> get_number_of_secret_shares e (rec_name rec) w = 1)"
  by (auto simp: is_new_node_mode_def split: option.split)

lemma is_config_update_time_True:
  "is_config_update_time st sp w = Inr True \<longleftrightarrow>
     tab_get st ''skaled_container'' = Some False \<and>
     (\<exists>p j. sp = Some p \<and> exit_time_reached p w = Inr j \<and> truthy j)"
  by (auto simp: is_config_update_time_def res_bind_Inr_iff status_get_iff split: option.split)

lemma is_reload_group_mode_True:
  "is_reload_group_mode st t w = Inr True \<longleftrightarrow>
     (\<exists>ts. t = Some ts \<and> clock w < ts) \<and> tab_get st ''config'' = Some True \<and>
     tab_get st ''config_updated'' = Some False"
  by (auto simp: is_reload_group_mode_def res_bind_Inr_iff status_get_iff split: option.split)

lemma is_reload_ip_mode_True:
  "is_reload_ip_mode st t = Inr True \<longleftrightarrow>
     t \<noteq> None \<and> tab_get st ''config'' = Some True \<and> tab_get st ''config_updated'' = Some False"
  by (auto simp: is_reload_ip_mode_def res_bind_Inr_iff status_get_iff split: option.split)

lemmas mode_simps = no_config_iff is_recreate_mode_True is_new_node_mode_iff
  is_config_update_time_True is_reload_group_mode_True is_reload_ip_mode_True

end
