(* ===== verification/Config_Monitor.thy ===== *)
theory Config_Monitor
  imports Actions
begin

text \<open>
  \<^verbatim>\<open>core/schains/monitor/config_monitor.py\<close>: bringing a chain's configuration up to date with
  the contracts, on a regular node and on a sync node.
\<close>

datatype config_monitor = RegularConfigMonitor | SyncConfigMonitor

definition upstream_unless ::
  "('d, 'f) env \<Rightarrow> config_am \<Rightarrow> ('d, 'f, generated_config) wact \<Rightarrow> ('d, 'f, unit) mact" where
  "upstream_unless e am generate =
     act_unless (in_world (check_upstream_config e (ca_checks am)))
       (act_drop (upstream_config_action e am generate))"

definition reload_ts_from_check ::
  "('d, 'f) env \<Rightarrow> config_am \<Rightarrow> contracts \<Rightarrow> bool \<Rightarrow> ('d, 'f, unit) mact" where
  "reload_ts_from_check e am k sync_node =
     act_bind (in_world (check_skaled_node_ips e (ca_checks am))) (\<lambda>ip_matched.
     act_drop (update_reload_ts_action e am k ip_matched sync_node))"

definition regular_config_execute ::
  "('d, 'f) env \<Rightarrow> config_am \<Rightarrow> contracts \<Rightarrow> ('d, 'f, DKGStatus \<times> json) wact \<Rightarrow>
   ('d, 'f, generated_config) wact \<Rightarrow> ('d, 'f, unit) mact" where
  "regular_config_execute e am k run_dkg generate =
     act_block
      [act_unless (in_world (check_config_dir e (ca_checks am))) (act_drop (config_dir_action e am)),
       act_unless (in_world (check_dkg e (ca_checks am))) (act_drop (dkg_action e am run_dkg)),
       act_unless (check_external_state e (ca_checks am)) (act_drop (external_state_action e am)),
       upstream_unless e am generate,
       reload_ts_from_check e am k False,
       act_drop (reset_config_record_action e am)]"

definition sync_config_execute ::
  "('d, 'f) env \<Rightarrow> config_am \<Rightarrow> contracts \<Rightarrow> ('d, 'f, generated_config) wact \<Rightarrow> ('d, 'f, unit) mact"
where
  "sync_config_execute e am k generate =
     act_block
      [act_unless (in_world (check_config_dir e (ca_checks am))) (act_drop (config_dir_action e am)),
       act_unless (check_external_state e (ca_checks am)) (act_drop (external_state_action e am)),
       act_if (act_bind (in_world (check_last_dkg_successful (ca_checks am))) (\<lambda>ok.
               if ok then act_bind (in_world (check_upstream_config e (ca_checks am)))
                            (\<lambda>up. act_return (\<not> up))
               else act_return False))
         (act_then (act_drop (upstream_config_action e am generate))
            (reload_ts_from_check e am k True))
         (act_return ()),
       act_drop (reset_config_record_action e am)]"

fun config_execute ::
  "('d, 'f) env \<Rightarrow> config_am \<Rightarrow> contracts \<Rightarrow> ('d, 'f, DKGStatus \<times> json) wact \<Rightarrow>
   ('d, 'f, generated_config) wact \<Rightarrow> config_monitor \<Rightarrow> ('d, 'f, unit) mact" where
  "config_execute e am k run_dkg generate RegularConfigMonitor =
     regular_config_execute e am k run_dkg generate"
| "config_execute e am k run_dkg generate SyncConfigMonitor = sync_config_execute e am k generate"

definition run_config_monitor ::
  "('d, 'f) env \<Rightarrow> config_am \<Rightarrow> contracts \<Rightarrow> ('d, 'f, DKGStatus \<times> json) wact \<Rightarrow>
   ('d, 'f, generated_config) wact \<Rightarrow> config_monitor \<Rightarrow> ('d, 'f, unit) mact" where
  "run_config_monitor e am k run_dkg generate mon =
     act_try
       (act_block
         [on_world (upd_last_seen e (ca_name am)),
          config_execute e am k run_dkg generate mon,
          on_world (upd_last_seen e (ca_name am))])
       (\<lambda>_. act_return ())"

end
