(* ===== verification/Pipelines.thy ===== *)
theory Pipelines
  imports Skaled_Monitor Config_Monitor
begin

text \<open>
  \<^verbatim>\<open>core/schains/monitor/main.py\<close>: the configuration pipeline and the skaled pipeline of a
  chain, when each is needed, and the prologue of the monitor process that runs them
  (\<open>start_tasks\<close>). A pipeline builds its checks, action manager and rule controller anew:
  it runs from a fresh monitor state.
\<close>

section \<open>The configuration pipeline\<close>

definition initial_estate :: "('d, 'f) env \<Rightarrow> contracts \<Rightarrow> bool \<Rightarrow> external_state" where
  "initial_estate e k ima_linked =
     \<lparr>es_chain_id = JInt (mainnet_chain_id k), es_ranges = contract_sync_agent_ranges k,
      es_ima_linked = JBool ima_linked, es_reload_ts = JNull\<rparr>"

definition run_config_pipeline ::
  "('d, 'f) env \<Rightarrow> skaled_ports \<Rightarrow> int \<Rightarrow> contracts \<Rightarrow> int \<Rightarrow> ('d, 'f, DKGStatus \<times> json) wact \<Rightarrow>
   ('d, 'f, generated_config) wact \<Rightarrow> string \<Rightarrow> ('d, 'f, unit) wact" where
  "run_config_pipeline e ports pps k node_id run_dkg generate n =
     act_bind (act_res (\<lambda>_. get_schain_by_name k n)) (\<lambda>sch.
     act_bind (act_res (\<lambda>w. get_by_name (db w) n)) (\<lambda>rec.
     act_bind (act_res (\<lambda>_. get_rotation k n)) (\<lambda>rotation.
     act_bind (act_res (\<lambda>_. if SYNC_NODE e then Inr False else has_schain_linked k n)) (\<lambda>lnk.
     act_bind (act_res (\<lambda>_. is_last_dkg_successful k n)) (\<lambda>last_dkg_ok.
     act_bind (act_res (\<lambda>_. contract_current_nodes k n)) (\<lambda>nodes.
     let cc = \<lparr>cc_name = n, cc_record = rec, cc_rotation_id = rotation_id rotation,
               cc_stream_version = node_version e, cc_current_nodes = nodes,
               cc_last_dkg_successful = last_dkg_ok\<rparr>;
         am = \<lparr>ca_name = sch_name sch, ca_node_id = node_id,
               ca_rotation_id = rotation_id rotation, ca_checks = cc, ca_current_nodes = nodes\<rparr>;
         mon = (if SYNC_NODE e then SyncConfigMonitor else RegularConfigMonitor)
     in with_mstate (get_default_rule_controller ports pps n None None [] None)
          (initial_estate e k lnk)
          (act_then (act_drop (checks_get_all (config_check_table e cc) []))
             (run_config_monitor e am k run_dkg generate mon))))))))"

section \<open>The skaled pipeline\<close>

text \<open>\<^verbatim>\<open>get_automatic_repair_option\<close>\<close>

definition get_automatic_repair_option :: "('d, 'f) env \<Rightarrow> bool res" where
  "get_automatic_repair_option e =
     res_bind (json_item (static_params e) ''node'') (\<lambda>node_params.
       if json_has node_params ''admin''
       then res_bind (json_item node_params ''admin'') (\<lambda>adm.
            res_bind (json_get adm ''automatic_repair'' (JBool True)) (\<lambda>v. Inr (truthy v)))
       else Inr True)"

definition skaled_pipeline_body ::
  "('d, 'f) env \<Rightarrow> skaled_am \<Rightarrow> schain_record \<Rightarrow> path option \<Rightarrow> path option \<Rightarrow>
   ('d, 'f, skaled_monitor) mact" where
  "skaled_pipeline_body e am rec skaled_status ncli_status =
     act_bind (checks_get_all (skaled_check_table e (sa_checks am)) []) (\<lambda>check_status.
     act_bind (act_res (\<lambda>_. get_automatic_repair_option e)) (\<lambda>automatic_repair.
     act_then (act_drop (in_world (upstream_config_path e am)))
       (act_bind (in_world (get_skaled_monitor e am check_status rec skaled_status ncli_status
                     automatic_repair)) (\<lambda>mon.
        act_then (run_skaled_monitor e am mon) (act_return mon)))))"

definition run_skaled_pipeline ::
  "('d, 'f) env \<Rightarrow> skaled_ports \<Rightarrow> int \<Rightarrow> contracts \<Rightarrow> string \<Rightarrow> ('d, 'f, skaled_monitor) wact" where
  "run_skaled_pipeline e ports pps k n =
     act_bind (act_res (\<lambda>_. get_schain_by_name k n)) (\<lambda>sch.
     act_bind (act_res (\<lambda>w. get_by_name (db w) n)) (\<lambda>rec.
     act_then (act_drop (act_res (\<lambda>_. to_dict (tz_offset e) rec)))
     (act_bind (act_gets (get_skaled_status e n)) (\<lambda>skaled_status.
      act_bind (act_gets (get_node_cli_status e n)) (\<lambda>ncli_status.
      act_bind (act_res (\<lambda>_. get_schain_type (part_of_node sch))) (\<lambda>_.
      let sc = \<lparr>sk_name = sch_name sch, sk_record = rec, sk_sync_node = SYNC_NODE e\<rparr>;
          am = \<lparr>sa_schain = sch, sa_checks = sc, sa_ncli_status = ncli_status,
                sa_historic_state = False\<rparr>
      in with_mstate (get_default_rule_controller ports pps n None None [] None)
           (estate_or_unlinked None)
           (skaled_pipeline_body e am rec skaled_status ncli_status)))))))"

section \<open>When a task is needed\<close>

definition config_task_needed ::
  "('d, 'f) env \<Rightarrow> contracts \<Rightarrow> int \<Rightarrow> string \<Rightarrow> bool res" where
  "config_task_needed e k node_id n =
     (if SYNC_NODE e then Inr True else contract_is_node_part_of_chain k n node_id)"

definition record_allows_skaled :: "string \<Rightarrow> schain_record \<Rightarrow> bool" where
  "record_allows_skaled stream_version rec =
     (config_version rec = stream_version \<and> (\<not> sync_config_run rec \<or> \<not> first_run rec))"

definition skaled_task_needed :: "('d, 'f) env \<Rightarrow> string \<Rightarrow> ('d, 'f, bool) wact" where
  "skaled_task_needed e n =
     act_bind (am_record e n) (\<lambda>rec. act_return (record_allows_skaled (node_version e) rec))"

section \<open>The monitor process\<close>

text \<open>The process reports itself, ends at once when the chain has left the node, and drops a
  configuration that has to be generated anew. The time of the last monitor is sent to statsd,
  which is left out, but reading it may raise. The value says whether the tasks are run.\<close>

definition start_tasks ::
  "('d, 'f) env \<Rightarrow> contracts \<Rightarrow> int \<Rightarrow> int \<Rightarrow> string \<Rightarrow> ('d, 'f, bool) wact" where
  "start_tasks e k node_id pid n =
     act_then (ProcessReport e n)
     (act_then (\<lambda>w. report_update e n pid (clock w) w)
     (act_bind (am_record e n) (\<lambda>rec.
      act_bind (act_res (\<lambda>_. is_rotation_active k n)) (\<lambda>rotation_active.
      act_bind (act_res (\<lambda>_. if SYNC_NODE e then Inr False
          else res_bind (contract_is_node_part_of_chain k n node_id) (\<lambda>part. Inr (\<not> part))))
        (\<lambda>leaving_chain.
      if leaving_chain \<and> \<not> rotation_active then act_return False
      else act_then (act_drop (act_res (\<lambda>_. last_seen_timestamp (tz_offset e) rec)))
      (act_then
        (if config_version rec \<noteq> node_version e \<or> (sync_config_run rec \<and> first_run rec)
         then remove_skaled_config e n else act_return ())
        (act_return True)))))))"

text \<open>A stale configuration is dropped exactly when the skaled task may not run.\<close>

lemma record_allows_skaled_negation:
  "(config_version rec \<noteq> v \<or> (sync_config_run rec \<and> first_run rec)) \<longleftrightarrow> \<not> record_allows_skaled v rec"
  by (auto simp: record_allows_skaled_def)

end
