(* ===== verification/Monitor_Invariants.thy ===== *)
theory Monitor_Invariants
  imports Pipelines
begin

text \<open>
  What every monitor keeps: the record table stays keyed by name and its counters within
  bounds (\<open>wok\<close> of \<^verbatim>\<open>Container_Monitor\<close>, lifted to a monitor's state by \<open>sok\<close>).
  \<open>wok_intros\<close> collects the statements of the library, \<open>sok_intros\<close> the actions.
\<close>

named_theorems wok_intros \<open>statements on the node keep the record table\<close>
named_theorems sok_intros \<open>actions keep the record table\<close>

definition sok :: "('d, 'f) mstate \<Rightarrow> bool" where
  "sok s = wok (wld s)"

section \<open>Setters\<close>

lemma db_counters_ok_save_only:
  assumes "db_counters_ok d" and "\<And>i row. rec_name (c i row) = rec_name row"
    and "\<And>i row. counters_ok row \<Longrightarrow> counters_ok (c i row)"
  shows "db_counters_ok (save_only c r d)"
proof -
  have wf: "db_wf d" using assms(1) by (simp add: db_counters_ok_def)
  have "db_wf (save_only c r d)"
    using wf db_wf_row_name [OF wf]
    by (auto simp: save_only_def assms(2) split: option.split intro!: db_wf_put)
  moreover have "counters_ok q" if "tab_get (save_only c r d) n = Some q" for n q
    using that assms by (auto simp: save_only_get db_counters_ok_def split: if_splits)
  ultimately show ?thesis by (simp add: db_counters_ok_def)
qed

definition counter_safe :: "setter \<Rightarrow> bool" where
  "counter_safe f \<longleftrightarrow>
     (\<forall>r d. counters_ok r \<longrightarrow> db_counters_ok d \<longrightarrow> db_counters_ok (snd (f r d)))"

lemma counter_safe_save_with: "(\<And>r. counters_ok r \<Longrightarrow> counters_ok (g r)) \<Longrightarrow> counter_safe (save_with g)"
  by (auto simp: counter_safe_def save_with_def intro: db_counters_ok_save)

lemma counter_safe_setters [wok_intros]:
  "counter_safe (set_dkg_status v1)" "counter_safe (set_monitor_last_seen v2)"
  "counter_safe (set_new_schain v3)" "counter_safe (set_needs_reload v4)"
  "counter_safe (set_config_version v5)" "counter_safe (set_sync_config_run v6)"
  "counter_safe (set_repair_mode v7)" "counter_safe (set_repair_date v8)"
  "counter_safe (set_ssl_change_date v9)" "counter_safe (set_restart_count 0)"
  "counter_safe (set_failed_rpc_count 0)"
  unfolding set_dkg_status_def set_monitor_last_seen_def set_new_schain_def set_needs_reload_def
    set_config_version_def set_sync_config_run_def set_repair_mode_def set_repair_date_def
    set_ssl_change_date_def set_restart_count_def set_failed_rpc_count_def
  by (rule counter_safe_save_with,
      simp add: counters_ok_def MAX_SCHAIN_RESTART_COUNT_def MAX_SCHAIN_FAILED_RPC_COUNT_def)+

lemma counter_safe_only [wok_intros]:
  "counter_safe (set_first_run v)" "counter_safe (set_backup_run v)"
  by (auto simp: counter_safe_def set_first_run_def set_backup_run_def Let_def counters_ok_def
      intro!: db_counters_ok_save_only)

section \<open>Statements on the node\<close>

lemma new_record_counters: "counters_ok (new_record n now idt)"
  by (simp add: counters_ok_def new_record_def MAX_SCHAIN_RESTART_COUNT_def
      MAX_SCHAIN_FAILED_RPC_COUNT_def)

lemma upsert_counters:
  assumes "db_counters_ok d" and "upsert_schain_record n now idt d = (r, d')"
  shows "db_counters_ok d'" and "r = Some rec \<Longrightarrow> counters_ok rec"
proof -
  have "db_wf d'" using upsert_wf [of d n now idt] assms by (simp add: db_counters_ok_def)
  moreover have "counters_ok q" if "tab_get d' k = Some q" for k q
    using assms that new_record_counters
    by (auto simp: upsert_schain_record_def add_record_def Let_def alist_simps db_counters_ok_def
        split: if_splits)
  ultimately show "db_counters_ok d'" by (simp add: db_counters_ok_def)
  then show "counters_ok rec" if "r = Some rec"
    using upsert_get [OF assms(2)] that by (auto simp: db_counters_ok_def)
qed

lemma am_record_spec:
  assumes "am_record e n w = (Inr rec, w')"
  shows "tab_get (db w') n = Some rec" and "wok w \<Longrightarrow> wok w' \<and> counters_ok rec \<and> rec_name rec = n"
    and "\<exists>d'. w' = w\<lparr>db := d'\<rparr>"
proof -
  obtain r d' where u: "upsert_schain_record n (datetime_now e w) (import_dt e) (db w) = (r, d')"
    by fastforce
  with assms have r: "r = Some rec" and w': "w' = w\<lparr>db := d'\<rparr>"
    by (auto simp: am_record_def split: option.splits)
  show "tab_get (db w') n = Some rec" using upsert_get [OF u] by (simp add: w' r)
  show "\<exists>d'. w' = w\<lparr>db := d'\<rparr>" using w' by blast
  show "wok w \<Longrightarrow> wok w' \<and> counters_ok rec \<and> rec_name rec = n"
    using upsert_counters [OF _ u] upsert_name [of "db w" n "datetime_now e w" "import_dt e" rec]
    by (auto simp: wok_def w' u r db_counters_ok_def)
qed

lemma am_record_wok: "wok w \<Longrightarrow> wok (snd (am_record e n w))"
proof -
  assume w: "wok w"
  obtain r d' where u: "upsert_schain_record n (datetime_now e w) (import_dt e) (db w) = (r, d')"
    by fastforce
  with upsert_counters(1) [OF _ u] w show ?thesis
    by (auto simp: am_record_def wok_def split: option.split)
qed

lemma wok_am_record [wok_intros]:
  assumes "\<And>rec. counters_ok rec \<Longrightarrow> keeps wok (k rec)"
  shows "keeps wok (act_bind (am_record e n) k)"
proof (rule keepsI)
  fix w :: "('a, 'b) world" assume w: "wok w"
  obtain r w1 where m: "am_record e n w = (r, w1)" by fastforce
  show "wok (snd (act_bind (am_record e n) k w))"
  proof (cases r)
    case (Inl x)
    with m am_record_wok [OF w, of e n] show ?thesis by (simp add: act_bind_eval)
  next
    case (Inr rec)
    with am_record_spec(2) [of e n w rec w1] m w assms show ?thesis
      by (simp add: act_bind_eval keeps_def)
  qed
qed

lemma wok_set_record_safe [wok_intros]:
  "counters_ok rec \<Longrightarrow> counter_safe f \<Longrightarrow> keeps wok (set_record f rec)"
  by (rule wok_set_record) (simp add: counter_safe_def)

lemma wok_am_set [wok_intros]: "counter_safe f \<Longrightarrow> keeps wok (am_set e n f)"
  unfolding am_set_def by (intro wok_am_record wok_set_record_safe)

lemma wok_no_db: "(\<And>w. db (snd (m w)) = db w) \<Longrightarrow> keeps wok m"
  by (simp add: keeps_def wok_def)

lemma wok_plain [wok_intros]:
  "keeps wok (time_sleep t)" "keeps wok (makedirs d)" "keeps wok (rmtree d)" "keeps wok (unlink p)"
  "keeps wok (symlink p q)" "keeps wok (on_daemon m)" "keeps wok (on_files m')"
  "keeps wok (modify_files g)"
  by (intro wok_no_db; simp add: act_simps rmtree_def unlink_def symlink_def split: prod.split)+

lemma wok_rm_vol [wok_intros]: "keeps wok (rm_vol api n b)"
proof (rule keepsI)
  fix w :: "('a, 'b) world" assume "wok w"
  moreover obtain r w' where r: "rm_vol api n b w = (r, w')" by fastforce
  moreover have "db w' = db w"
    using rm_vol_loop_frame [OF r [unfolded rm_vol_def]] by auto
  ultimately show "wok (snd (rm_vol api n b w))" by (simp add: wok_def)
qed

lemma wok_safe_rm [wok_intros]: "keeps wok (safe_rm api n t)"
proof -
  have "keeps wok (backup_container_logs api n h k)" for h k
    by (rule wok_no_db) (simp add: backup_container_logs_def save_container_logs_def act_simps
        split: prod.split sum.split)
  then show ?thesis unfolding safe_rm_def by (intro keeps_intros wok_intros)
qed

lemma wok_removals [wok_intros]:
  "keeps wok (remove_schain_container e n)" "keeps wok (remove_ima_container e n)"
  "keeps wok (remove_container e n t)" "keeps wok (restart_container e t sch)"
  "keeps wok (remove_schain_volume e n)" "keeps wok (pull_new_image e t)"
  unfolding remove_schain_container_def remove_ima_container_def remove_container_def
    restart_container_def remove_schain_volume_def pull_new_image_def
  by (intro keeps_intros wok_intros)+

lemma wok_init_data_volume [wok_intros]: "keeps wok (init_data_volume e sch b)"
  unfolding init_data_volume_def ensure_data_dir_path_def Let_def
  by (intro keeps_intros wok_intros; simp add: keeps_intros wok_intros)

lemma wok_update_ssl [wok_intros]:
  "counters_ok rec \<Longrightarrow> keeps wok (act_drop (update_ssl_change_date e rec))"
  using db_counters_ok_save
  by (auto simp: keeps_def act_simps update_ssl_eval wok_def split: option.split)

lemma wok_monitor_ima [wok_intros]: "keeps wok (monitor_ima_container e sch ima ts)"
  unfolding monitor_ima_container_def copy_schain_ima_abi_def Let_def
  by (intro keeps_intros wok_intros wok_keeps_db [OF run_ima_container_db])

lemma wok_update_config_version [wok_intros]:
  "counters_ok rec \<Longrightarrow> keeps wok (act_drop (update_schain_config_version e rec))"
  using wok_set_record_safe [of rec "set_config_version (node_version e)"]
  by (simp add: update_schain_config_version_def set_record_def counter_safe_setters)

lemma wok_truthy_res [wok_intros]: "keeps wok (truthy_res q)"
  by (rule wok_tests)

lemmas wok_monitored [wok_intros] = monitor_schain_container_wok handle_failed_schain_rpc_wok

section \<open>Actions\<close>

lemma sok_on_world [sok_intros]: "keeps wok m \<Longrightarrow> keeps sok (on_world m)"
  by (auto simp: keeps_def sok_def act_simps split: prod.split dest: spec [where x = "wld s" for s])

lemma sok_in_world [sok_intros]: "keeps sok (in_world q)"
  by (simp add: keeps_def act_simps)

lemma sok_same_world: "(\<And>s. wld (snd (m s)) = wld s) \<Longrightarrow> keeps sok m"
  by (simp add: keeps_def sok_def)

lemma sok_same_db: "(\<And>s. db (wld (snd (m s))) = db (wld s)) \<Longrightarrow> keeps sok m"
  by (simp add: keeps_def sok_def wok_def)

lemma sok_checks [sok_intros]:
  "keeps sok (check_firewall_rules e c)" "keeps sok (configure_from e n conf)"
  "keeps sok (check_external_state e cc)"
  by (intro sok_same_world; simp add: check_firewall_rules_frame configure_from_def
      check_external_state_def act_simps split: sum.split)+

lemma sok_rule_controller [sok_intros]: "keeps sok (on_rule_controller m)"
  by (rule sok_same_db) (simp add: on_rule_controller_def split: sum.split prod.split)

lemma sok_modify [sok_intros]:
  "(\<And>s. wld (g s) = wld s) \<Longrightarrow> keeps sok (act_modify g)"
  by (rule sok_same_world) (simp add: act_simps)

lemma sok_monitor_block [sok_intros]: "keeps sok m \<Longrightarrow> keeps sok (monitor_block f m)"
  unfolding monitor_block_def by (intro keeps_intros sok_modify) simp_all

lemma sok_skaled_container [sok_intros]: "keeps sok (skaled_container_action e am ds ts ab)"
  unfolding skaled_container_action_def
  by (intro sok_intros keeps_bind keeps_block'; simp add: sok_intros wok_intros)

lemma sok_restart [sok_intros]:
  "keeps sok (restart_skaled_container_action e am)"
  "keeps sok (reset_restart_counter_action e am)"
  "keeps sok (cleanup_schain_docker_entity_action e am)"
  "keeps sok (update_config_action e am)" "keeps sok (reset_exit_schedule_action e am)"
  "keeps sok (disable_backup_run_action e am)" "keeps sok notify_repair_mode_action"
  "keeps sok (update_repair_ts_action e am t)" "keeps sok (volume_action e am)"
  unfolding restart_skaled_container_action_def reset_restart_counter_action_def
    cleanup_schain_docker_entity_action_def update_config_action_def
    reset_exit_schedule_action_def disable_backup_run_action_def notify_repair_mode_action_def
    update_repair_ts_action_def volume_action_def exit_schedule_rm_def
    sync_skaled_config_with_upstream_def Let_def
  by (intro sok_intros wok_intros keeps_intros; simp add: sok_intros wok_intros keeps_intros)+

lemma sok_disable_repair [sok_intros]: "keeps sok (disable_repair_mode_action e am)"
  unfolding disable_repair_mode_action_def
  by (intro sok_intros keeps_block'; simp add: sok_intros wok_intros keeps_intros)

lemma sok_ima [sok_intros]: "keeps sok (ima_container_action e am)"
  unfolding ima_container_action_def
  by (intro keeps_intros sok_intros wok_intros)

lemma sok_reset_counters [sok_intros]: "keeps sok (reset_counters e am)"
  unfolding reset_counters_def
  by (rule keeps_block) (simp add: sok_intros wok_intros)

lemma sok_reloaded [sok_intros]: "keeps sok (reloaded_skaled_container_action e am ab)"
  unfolding reloaded_skaled_container_action_def
  by (intro sok_monitor_block keeps_then keeps_block sok_intros)
    (simp add: sok_intros wok_intros keeps_intros)

lemma sok_recreated [sok_intros]: "keeps sok (recreated_schain_containers_action e am ab)"
  unfolding recreated_schain_containers_action_def
  by (intro sok_monitor_block keeps_bind keeps_then keeps_when keeps_block' sok_intros wok_intros)
    (simp add: sok_intros keeps_intros)

lemma sok_rpc [sok_intros]: "keeps sok (skaled_rpc_action e am)"
  unfolding skaled_rpc_action_def
  by (intro sok_intros wok_intros keeps_intros)

lemma sok_firewall [sok_intros]: "keeps sok (firewall_rules_action e am up)"
  unfolding firewall_rules_action_def
  by (intro sok_monitor_block keeps_bind sok_intros keeps_then keeps_ite keeps_pure keeps_block)
    (simp add: sok_intros keeps_intros)

lemma sok_schedule [sok_intros]: "keeps sok (schedule_skaled_exit_action e am ts)"
  unfolding schedule_skaled_exit_action_def set_exit_ts_def
  by (intro sok_monitor_block keeps_bind sok_intros keeps_pure keeps_block' wok_intros)
    (auto intro!: sok_intros wok_intros keeps_intros split: option.split)

section \<open>Monitors\<close>

lemma sok_fix [sok_intros]:
  "keeps sok (fix_firewall e am up)" "keeps sok (fix_volume e am)" "keeps sok (fix_rpc e am)"
  "keeps sok (fix_ima e am)"
  unfolding fix_firewall_def fix_volume_def fix_rpc_def fix_ima_def do_action_def
  by (intro keeps_intros sok_intros)+

lemma sok_fix_skaled [sok_intros]:
  "keeps sok a \<Longrightarrow> keeps sok b \<Longrightarrow> keeps sok (fix_skaled e am a b)"
  unfolding fix_skaled_def do_action_def by (intro keeps_intros sok_intros)

lemma sok_do_action [sok_intros]: "keeps sok m \<Longrightarrow> keeps sok (do_action m)"
  unfolding do_action_def by (rule keeps_drop)

lemma sok_no_such_action [sok_intros]: "keeps sok (no_such_action n)"
  by (simp add: no_such_action_def keeps_pure)

lemma sok_repair_ts: "keeps sok (\<lambda>s. do_action (update_repair_ts_action e am (clock (wld s))) s)"
proof (rule keepsI)
  fix s :: "('a, 'b) mstate" assume "sok s"
  then show "sok (snd (do_action (update_repair_ts_action e am (clock (wld s))) s))"
    by (rule keepsD [OF sok_do_action [OF sok_restart(8)]])
qed

lemma sok_reload_steps [sok_intros]: "keeps sok (reload_steps e am up q)"
  unfolding reload_steps_def
  by (rule keeps_block) (simp add: sok_intros keeps_intros)

lemma sok_execute [sok_intros]: "keeps sok (execute e am mon)"
proof (cases mon)
  case RegularSkaledMonitor
  then show ?thesis
    by (simp add: regular_execute_def sok_intros keeps_intros)
next
  case RepairSkaledMonitor
  then show ?thesis
    by (simp add: repair_execute_def sok_intros keeps_intros sok_repair_ts)
next
  case BackupSkaledMonitor
  then show ?thesis
    by (simp add: backup_execute_def sok_intros keeps_intros)
next
  case RecreateSkaledMonitor
  then show ?thesis
    by (simp add: recreate_execute_def sok_intros keeps_intros)
next
  case UpdateConfigSkaledMonitor
  then show ?thesis
    by (simp add: update_config_execute_def sok_intros keeps_intros)
next
  case ReloadGroupSkaledMonitor
  then show ?thesis by (simp add: reload_group_execute_def sok_intros)
next
  case ReloadIpSkaledMonitor
  then show ?thesis by (simp add: reload_ip_execute_def sok_intros)
next
  case NoConfigSkaledMonitor
  then show ?thesis by (simp add: no_config_execute_def sok_intros keeps_intros)
next
  case NewNodeSkaledMonitor
  then show ?thesis
    by (simp add: new_node_execute_def sok_intros keeps_intros)
qed

lemma wok_upd [wok_intros]:
  "keeps wok (upd_last_seen e n)" "keeps wok (upd_schain_record e n)"
proof -
  show "keeps wok (upd_last_seen e n)"
  proof (rule keepsI)
    fix s :: "('a, 'b) world" assume "wok s"
    then show "wok (snd (upd_last_seen e n s))"
      unfolding upd_last_seen_def
      by (rule keepsD [OF wok_am_set [OF counter_safe_setters(2)]])
  qed
  show "keeps wok (upd_schain_record e n)"
    unfolding upd_schain_record_def
    by (rule keeps_block) (simp add: wok_intros keeps_intros)
qed

lemma sok_run_skaled_monitor: "keeps sok (run_skaled_monitor e am mon)"
  unfolding run_skaled_monitor_def
  by (intro keeps_try keeps_block keeps_pure) (simp add: sok_intros wok_intros)

lemma sok_checks_get_all: "keeps sok (checks_get_all (skaled_check_table e c) needed)"
  by (rule sok_same_world) (rule skaled_checks_get_all_frame)

lemma sok_pipeline_body: "keeps sok (skaled_pipeline_body e am rec ss ns)"
  unfolding skaled_pipeline_body_def
  by (intro keeps_intros sok_intros sok_checks_get_all sok_run_skaled_monitor)

lemma with_mstate_wok:
  assumes "keeps sok m"
  shows "keeps wok (with_mstate rc est m)"
proof (rule keepsI)
  fix w :: "('a, 'b) world" assume w: "wok w"
  obtain r s where r: "m \<lparr>wld = w, rctl = rc, estate = est, executed_blocks = []\<rparr> = (r, s)"
    by fastforce
  have "sok s" by (rule keepsD_eq [OF assms _ r]) (simp add: sok_def w)
  with r show "wok (snd (with_mstate rc est m w))" by (simp add: with_mstate_def sok_def)
qed

lemma run_skaled_pipeline_wok: "keeps wok (run_skaled_pipeline e ports pps k n)"
  unfolding run_skaled_pipeline_def Let_def
  by (intro keeps_intros with_mstate_wok sok_pipeline_body)

section \<open>The configuration monitors\<close>

lemma wok_update_version [wok_intros]:
  "keeps wok (act_bind (am_record e n) (\<lambda>rec. act_drop (update_schain_config_version e rec)))"
  by (intro wok_am_record wok_update_config_version)

lemma sok_config_actions [sok_intros]:
  "keeps sok (config_dir_action e am)" "keeps sok (external_state_action e am)"
  "keeps sok (reset_config_record_action e am)"
  unfolding config_dir_action_def external_state_action_def reset_config_record_action_def
  subgoal by (intro sok_monitor_block keeps_then keeps_pure sok_on_world) (simp add: wok_no_db init_schain_config_dir_def act_simps)
  subgoal by (intro sok_monitor_block keeps_then keeps_pure sok_same_db) (simp add: external_update_def act_simps)
  subgoal by (intro sok_monitor_block keeps_then keeps_pure sok_on_world wok_intros)
  done

lemma sok_save_reload_ts [sok_intros]: "keeps sok (save_reload_ts e am t)"
  by (rule sok_same_db) (simp add: save_reload_ts_def external_update_def act_simps)

lemma sok_update_reload_ts [sok_intros]: "keeps sok (update_reload_ts_action e am k ipm sn)"
  unfolding update_reload_ts_action_def
  by (intro sok_monitor_block keeps_intros sok_intros)

lemma sok_dkg_action [sok_intros]:
  assumes "keeps wok run_dkg"
  shows "keeps sok (dkg_action e am run_dkg)"
  unfolding dkg_action_def save_dkg_results_def
  by (intro sok_monitor_block keeps_bind keeps_then keeps_ite sok_in_world keeps_pure sok_on_world assms
      keeps_case_prod keeps_block)
    (simp add: sok_intros wok_intros keeps_intros)

lemma sok_upstream_action [sok_intros]:
  assumes "keeps wok generate"
  shows "keeps sok (upstream_config_action e am generate)"
proof -
  have save: "keeps wok (save_new_upstream e n r j)" for n r j
    by (rule wok_no_db) (simp add: save_new_upstream_def act_simps)
  show ?thesis
    unfolding upstream_config_action_def
    by (intro sok_monitor_block keeps_intros sok_intros assms wok_update_version save) 
qed

lemma sok_config_execute:
  assumes "keeps wok run_dkg" and "keeps wok generate"
  shows "keeps sok (config_execute e am k run_dkg generate mon)"
  using assms
  by (cases mon) (simp_all add: regular_config_execute_def sync_config_execute_def
      upstream_unless_def reload_ts_from_check_def sok_intros keeps_intros)
section \<open>After a configuration run\<close>

lemma am_record_added: "tab_get (db w) n = Some rec \<Longrightarrow> am_record e n w = (Inr rec, w)"
  by (simp add: am_record_def upsert_schain_record_def added_def)

lemma am_record_eval:
  assumes "wok w"
  obtains rec d' where "am_record e n w = (Inr rec, w\<lparr>db := d'\<rparr>)" and "tab_get d' n = Some rec"
    and "rec_name rec = n"
proof -
  obtain r d' where u: "upsert_schain_record n (datetime_now e w) (import_dt e) (db w) = (r, d')"
    by fastforce
  moreover from upsert_get [OF u] obtain rec where "r = Some rec" "tab_get d' n = Some rec" by auto
  moreover have "rec_name rec = n"
    using upsert_name [of "db w" n "datetime_now e w" "import_dt e" rec] assms u calculation(2)
    by (simp add: wok_def db_counters_ok_def)
  ultimately show ?thesis by (intro that) (simp_all add: am_record_def)
qed

lemma reset_config_record_spec:
  assumes "sok s" and "reset_config_record_action e am s = (Inr v, s')"
  shows "\<exists>rec. tab_get (db (wld s')) (ca_name am) = Some rec \<and>
           config_version rec = node_version e \<and> \<not> sync_config_run rec"
proof -
  from assms(1) am_record_eval [of "wld s" e "ca_name am"] obtain rec d' where
    r: "am_record e (ca_name am) (wld s) = (Inr rec, wld s\<lparr>db := d'\<rparr>)"
      "tab_get d' (ca_name am) = Some rec" "rec_name rec = ca_name am"
    by (auto simp: sok_def)
  let ?r = "rec\<lparr>config_version := node_version e\<rparr>"
  have a: "am_record e (ca_name am) (wld s\<lparr>db := save ?r d'\<rparr>) = (Inr ?r, wld s\<lparr>db := save ?r d'\<rparr>)"
    by (rule am_record_added) (simp add: save_get r added_def)
  show ?thesis
    using assms(2)
    by (auto simp: reset_config_record_action_def monitor_block_def act_simps r am_set_def a
        update_schain_config_version_def set_config_version_def set_sync_config_run_def save_with_def
        save_get added_def)
qed

text \<open>Everything a configuration monitor does before it resets the record.\<close>

definition config_steps ::
  "('d, 'f) env \<Rightarrow> config_am \<Rightarrow> contracts \<Rightarrow> ('d, 'f, DKGStatus \<times> json) wact \<Rightarrow>
   ('d, 'f, generated_config) wact \<Rightarrow> config_monitor \<Rightarrow> ('d, 'f, unit) mact list" where
  "config_steps e am k run_dkg generate mon =
     (case mon of
        RegularConfigMonitor \<Rightarrow>
          [act_unless (in_world (check_config_dir e (ca_checks am))) (act_drop (config_dir_action e am)),
           act_unless (in_world (check_dkg e (ca_checks am))) (act_drop (dkg_action e am run_dkg)),
           act_unless (check_external_state e (ca_checks am)) (act_drop (external_state_action e am)),
           upstream_unless e am generate,
           reload_ts_from_check e am k False]
      | SyncConfigMonitor \<Rightarrow>
          [act_unless (in_world (check_config_dir e (ca_checks am))) (act_drop (config_dir_action e am)),
           act_unless (check_external_state e (ca_checks am)) (act_drop (external_state_action e am)),
           act_if (act_bind (in_world (check_last_dkg_successful (ca_checks am))) (\<lambda>ok.
                   if ok then act_bind (in_world (check_upstream_config e (ca_checks am)))
                                (\<lambda>up. act_return (\<not> up))
                   else act_return False))
             (act_then (act_drop (upstream_config_action e am generate))
                (reload_ts_from_check e am k True))
             (act_return ())])"

lemma config_execute_snoc:
  "config_execute e am k run_dkg generate mon = 
   act_block (config_steps e am k run_dkg generate mon @ [act_drop (reset_config_record_action e am)])"
  by (cases mon) (simp_all add: config_steps_def regular_config_execute_def sync_config_execute_def)

lemma config_execute_allows_skaled:
  assumes dkg: "keeps wok run_dkg" and gen: "keeps wok generate" and s: "sok s"
    and run: "config_execute e am k run_dkg generate mon s = (Inr (), s')"
  shows "\<exists>rec. tab_get (db (wld s')) (ca_name am) = Some rec \<and>
           record_allows_skaled (node_version e) rec"
proof -
  from act_block_snoc [OF run [unfolded config_execute_snoc]] obtain s1 where
    s1: "act_block (config_steps e am k run_dkg generate mon) s = (Inr (), s1)"
      "act_drop (reset_config_record_action e am) s1 = (Inr (), s')" by blast
  have "list_all (keeps sok) (config_steps e am k run_dkg generate mon)"
    using dkg gen by (cases mon) (simp_all add: config_steps_def upstream_unless_def
      reload_ts_from_check_def sok_intros keeps_intros)
  from keepsD_eq [OF keeps_block [OF this] s s1(1)] have "sok s1" .
  moreover obtain v where "reset_config_record_action e am s1 = (Inr v, s')"
    using s1(2) by (auto simp: act_simps split: prod.splits sum.splits)
  ultimately show ?thesis
    using reset_config_record_spec by (fastforce simp: record_allows_skaled_def)
qed

section \<open>The process's prologue\<close>

lemma start_tasks_True:
  assumes w: "wok w" and run: "start_tasks e k node_id pid n w = (Inr True, w')"
  shows "\<exists>rec. tab_get (db w') n = Some rec \<and>
           (record_allows_skaled (node_version e) rec \<or> \<not> skaled_config_exists e n w') \<and>
           report_pid e n w' = Inr pid \<and> report_ts e n w' = Inr (clock w)"
proof -
  let ?w0 = "w\<lparr>dirs := List.insert (schain_config_dir e n) (dirs w)\<rparr>"
  from report_update_spec [of e n pid "clock w" ?w0] obtain w1 where
    w1: "report_update e n pid (clock w) ?w0 = (Inr (), w1)" "report_pid e n w1 = Inr pid"
      "report_ts e n w1 = Inr (clock w)" "db w1 = db w" by auto
  have "wok w1" using w w1 by (simp add: wok_def)
  from am_record_eval [OF this, of e n] obtain rec d' where
    r: "am_record e n w1 = (Inr rec, w1\<lparr>db := d'\<rparr>)" "tab_get d' n = Some rec" .
  let ?w2 = "w1\<lparr>db := d'\<rparr>"
  from remove_skaled_config_spec [of e n ?w2] obtain w3 where
    w3: "remove_skaled_config e n ?w2 = (Inr (), w3)" "\<not> skaled_config_exists e n w3"
      "\<forall>p. p \<noteq> skaled_config_path e n \<longrightarrow> tab_get (files w3) p = tab_get (files w1) p" by auto
  have db3: "db w3 = d'"
    using w3(1) by (auto simp: remove_skaled_config_def act_simps split: if_splits prod.splits)
  have ne: "process_report_path e n \<noteq> skaled_config_path e n"
    by (simp add: process_report_path_def skaled_config_path_def skaled_filename_def)
  have fe: "tab_get (files w3) (process_report_path e n) = tab_get (files w1) (process_report_path e n)"
    by (rule w3(3) [rule_format, OF ne])
  have rep: "report_pid e n w3 = Inr pid" "report_ts e n w3 = Inr (clock w)"
    using w1(2,3) by (simp_all add: report_pid_def report_ts_def report_read_def read_json_def fe)
  have rep2: "report_pid e n ?w2 = Inr pid" "report_ts e n ?w2 = Inr (clock w)"
    using w1 by (simp_all add: report_pid_def report_ts_def report_read_def)
  have "w' = (if record_allows_skaled (node_version e) rec then ?w2 else w3)"
    using run
    by (auto simp: start_tasks_def act_simps ProcessReport_def w1 r w3 record_allows_skaled_def
        split: sum.splits if_splits)
  then show ?thesis using r w3(2) db3 rep rep2 by auto
qed

text \<open>A row without the time of a last monitor: the start does not get to the tasks, and leaves the
  row as it is.\<close>

lemma start_tasks_unseen:
  assumes row: "tab_get (db w) n = Some rec" and unseen: "monitor_last_seen rec = None"
    and run: "start_tasks e k node_id pid n w = (r, w')"
  shows "((\<exists>x. r = Inl x) \<or> r = Inr False) \<and> db w' = db w \<and> report_pid e n w' = Inr pid \<and>
    (is_rotation_active k n = Inr True \<longrightarrow> SYNC_NODE e \<longrightarrow> r = Inl (AttributeError ''timestamp''))"
proof -
  let ?w0 = "w\<lparr>dirs := List.insert (schain_config_dir e n) (dirs w)\<rparr>"
  from report_update_spec [of e n pid "clock w" ?w0] obtain w1 where
    w1: "report_update e n pid (clock w) ?w0 = (Inr (), w1)" "report_pid e n w1 = Inr pid" "db w1 = db w"
    by auto
  have rec: "am_record e n w1 = (Inr rec, w1)"
    using row by (simp add: am_record_def upsert_schain_record_def added_def w1(3) Let_def)
  show ?thesis
    using run w1(2,3)
    by (auto simp: start_tasks_def act_simps ProcessReport_def w1(1) rec last_seen_timestamp_def unseen
        split: sum.splits if_splits) metis
qed

end
