(* ===== verification/Tasks.thy ===== *)
theory Tasks
  imports Pipelines
begin

text \<open>
  \<^verbatim>\<open>core/schains/monitor/tasks.py\<close>: the loop that keeps a chain's two tasks running
  (\<open>execute_tasks\<close>). One pass over the tasks is the function \<open>exec_pass\<close>; between
  passes the pool's threads start and finish futures and time goes by, so the loop with its
  surroundings is the step relation \<open>exec_step\<close>. A running future cannot be cancelled
  (\<^verbatim>\<open>Future.cancel\<close> returns False for it): a task that runs longer than its timeout is stuck,
  the report's time is set to 0 and the loop is left.
\<close>

section \<open>State\<close>

datatype future_state = Idle | Queued | Running | Finished

record task =
  t_name :: string
  t_future :: future_state
  t_start_ts :: int
  t_stuck_timeout :: int

record exec =
  x_tasks :: "task list"
  x_stucked :: "string list"
  x_clock :: int
  x_report_ts :: int
  x_done :: bool

definition SLEEP_INTERVAL_SECONDS :: int where "SLEEP_INTERVAL_SECONDS = 10"

definition future_running :: "task \<Rightarrow> bool" where
  "future_running t = (t_future t = Running)"

section \<open>One pass\<close>

definition visit_task ::
  "(string \<Rightarrow> bool) \<Rightarrow> int \<Rightarrow> task \<Rightarrow> string list \<Rightarrow> task \<times> string list" where
  "visit_task needed now t stucked =
     (if \<not> future_running t \<and> needed (t_name t) \<and> stucked = []
      then (t\<lparr>t_start_ts := now, t_future := Queued\<rparr>, stucked)
      else if future_running t
      then if now - t_start_ts t > t_stuck_timeout t
           then (t\<lparr>t_start_ts := -1\<rparr>, stucked @ [t_name t])
           else (t, stucked)
      else (t, stucked))"

fun visit_tasks ::
  "(string \<Rightarrow> bool) \<Rightarrow> int \<Rightarrow> task list \<Rightarrow> string list \<Rightarrow> task list \<times> string list" where
  "visit_tasks needed now [] stucked = ([], stucked)"
| "visit_tasks needed now (t # ts) stucked =
     (let (t', stucked') = visit_task needed now t stucked;
          (ts', stucked'') = visit_tasks needed now ts stucked'
      in (t' # ts', stucked''))"

definition exec_pass :: "(string \<Rightarrow> bool) \<Rightarrow> exec \<Rightarrow> exec" where
  "exec_pass needed x =
     (let (ts, stucked) = visit_tasks needed (x_clock x) (x_tasks x) (x_stucked x);
          now = x_clock x + SLEEP_INTERVAL_SECONDS
      in x\<lparr>x_tasks := ts, x_stucked := stucked, x_clock := now,
           x_report_ts := (if stucked \<noteq> [] then 0 else now),
           x_done := (stucked \<noteq> [])\<rparr>)"

section \<open>The loop and its surroundings\<close>

inductive exec_step :: "exec \<Rightarrow> exec \<Rightarrow> bool" where
  step_pass: "\<not> x_done x \<Longrightarrow> exec_step x (exec_pass needed x)"
| step_thread: "i < length (x_tasks x) \<Longrightarrow> t_future (x_tasks x ! i) = Queued \<Longrightarrow>
    exec_step x (x\<lparr>x_tasks := (x_tasks x)[i := (x_tasks x ! i)\<lparr>t_future := Running\<rparr>]\<rparr>)"
| step_finish: "i < length (x_tasks x) \<Longrightarrow> t_future (x_tasks x ! i) = Running \<Longrightarrow>
    exec_step x (x\<lparr>x_tasks := (x_tasks x)[i := (x_tasks x ! i)\<lparr>t_future := Finished\<rparr>]\<rparr>)"
| step_time: "0 \<le> d \<Longrightarrow> exec_step x (x\<lparr>x_clock := x_clock x + d\<rparr>)"

inductive_cases exec_stepE: "exec_step x y"

definition exec_init :: "exec \<Rightarrow> bool" where
  "exec_init x =
     (x_stucked x = [] \<and> \<not> x_done x \<and> 0 < x_clock x \<and> 0 < x_report_ts x \<and>
      x_report_ts x \<le> x_clock x \<and>
      (\<forall>t \<in> set (x_tasks x). t_future t = Idle \<and> t_start_ts t = 0))"

inductive exec_reachable :: "exec \<Rightarrow> bool" where
  reach_init: "exec_init x \<Longrightarrow> exec_reachable x"
| reach_step: "exec_reachable x \<Longrightarrow> exec_step x y \<Longrightarrow> exec_reachable y"

section \<open>Passes\<close>

text \<open>A task over its time.\<close>

definition overdue :: "int \<Rightarrow> task \<Rightarrow> bool" where
  "overdue now t = (future_running t \<and> now - t_start_ts t > t_stuck_timeout t)"

lemma visit_tasks_stucked:
  "snd (visit_tasks needed now ts stucked) = stucked @ map t_name (filter (overdue now) ts)"
  by (induction ts arbitrary: stucked)
    (auto simp: visit_task_def overdue_def Let_def split_beta)

lemma visit_tasks_names: "map t_name (fst (visit_tasks needed now ts stucked)) = map t_name ts"
  by (induction ts arbitrary: stucked) (auto simp: visit_task_def Let_def split_beta)

lemma visit_tasks_length [simp]: "length (fst (visit_tasks needed now ts stucked)) = length ts"
  by (metis length_map visit_tasks_names)

text \<open>What a pass makes of a task: starts it, marks it or leaves it.\<close>

lemma visit_tasks_elem:
  "t' \<in> set (fst (visit_tasks needed now ts stucked)) \<Longrightarrow>
   \<exists>t \<in> set ts. t' = t \<or>
     (t' = t\<lparr>t_start_ts := now, t_future := Queued\<rparr> \<and> \<not> future_running t \<and> needed (t_name t)) \<or>
     (t' = t\<lparr>t_start_ts := -1\<rparr> \<and> overdue now t)"
  by (induction ts arbitrary: stucked)
    (auto simp: visit_task_def overdue_def Let_def split_beta split: if_splits)

lemma exec_pass_stucked:
  "x_stucked (exec_pass needed x) = x_stucked x @ map t_name (filter (overdue (x_clock x)) (x_tasks x))"
  by (simp add: exec_pass_def Let_def split_beta visit_tasks_stucked)

lemma exec_pass_done:
  assumes "x_stucked x = []"
  shows "x_done (exec_pass needed x) \<longleftrightarrow> (\<exists>t \<in> set (x_tasks x). overdue (x_clock x) t)"
    and "x_report_ts (exec_pass needed x) =
           (if \<exists>t \<in> set (x_tasks x). overdue (x_clock x) t then 0
            else x_clock x + SLEEP_INTERVAL_SECONDS)"
  using assms
  by (auto simp: exec_pass_def Let_def split_beta visit_tasks_stucked filter_empty_conv)

section \<open>Invariants\<close>

definition exec_inv :: "exec \<Rightarrow> bool" where
  "exec_inv x =
     (0 < x_clock x \<and> 0 \<le> x_report_ts x \<and> x_report_ts x \<le> x_clock x \<and>
      (x_done x \<longleftrightarrow> x_stucked x \<noteq> []) \<and> (x_done x \<longleftrightarrow> x_report_ts x = 0) \<and>
      (\<forall>t \<in> set (x_tasks x). t_start_ts t \<le> x_clock x) \<and>
      set (x_stucked x) \<subseteq> set (map t_name (x_tasks x)))"

lemma exec_inv_pass:
  assumes inv: "exec_inv x" and nd: "\<not> x_done x"
  shows "exec_inv (exec_pass needed x)"
proof -
  have st: "x_stucked x = []" using inv nd by (simp add: exec_inv_def)
  have clk: "x_clock (exec_pass needed x) = x_clock x + SLEEP_INTERVAL_SECONDS"
    and tsk: "x_tasks (exec_pass needed x) = fst (visit_tasks needed (x_clock x) (x_tasks x) [])"
    and dn: "x_done (exec_pass needed x) \<longleftrightarrow> x_stucked (exec_pass needed x) \<noteq> []"
    by (simp_all add: exec_pass_def Let_def split_beta st)
  have "t_start_ts t \<le> x_clock x + SLEEP_INTERVAL_SECONDS" if "t \<in> set (x_tasks (exec_pass needed x))" for t
    using visit_tasks_elem [OF that [unfolded tsk]] inv
    by (auto simp: exec_inv_def SLEEP_INTERVAL_SECONDS_def)
  moreover have "set (x_stucked (exec_pass needed x)) \<subseteq> set (map t_name (x_tasks (exec_pass needed x)))"
    by (auto simp: exec_pass_stucked st tsk visit_tasks_names simp del: set_map)
      (metis filter_is_subset image_mono list.set_map subsetD visit_tasks_names)
  ultimately show ?thesis
    using inv exec_pass_done [OF st, of needed] dn
    by (auto simp: exec_inv_def clk SLEEP_INTERVAL_SECONDS_def)
qed

lemma exec_inv_future:
  assumes inv: "exec_inv x" and i: "i < length (x_tasks x)"
  shows "exec_inv (x\<lparr>x_tasks := (x_tasks x)[i := (x_tasks x ! i)\<lparr>t_future := f\<rparr>]\<rparr>)"
proof -
  let ?ts = "(x_tasks x)[i := (x_tasks x ! i)\<lparr>t_future := f\<rparr>]"
  have start: "\<forall>t \<in> set ?ts. t_start_ts t \<le> x_clock x"
    using inv i by (auto simp: exec_inv_def dest!: set_update_subset_insert [THEN subsetD])
  have names: "map t_name ?ts = map t_name (x_tasks x)"
    by (metis list_update_id map_update task.select_convs(1) task.surjective task.update_convs(2))
  have sel: "x_tasks (x\<lparr>x_tasks := ts\<rparr>) = ts" "x_clock (x\<lparr>x_tasks := ts\<rparr>) = x_clock x"
    "x_stucked (x\<lparr>x_tasks := ts\<rparr>) = x_stucked x" "x_done (x\<lparr>x_tasks := ts\<rparr>) = x_done x"
    "x_report_ts (x\<lparr>x_tasks := ts\<rparr>) = x_report_ts x" for ts
    by simp_all
  from inv start show ?thesis
    unfolding exec_inv_def sel names by blast
qed

lemma exec_inv_step:
  assumes "exec_inv x" and "exec_step x y"
  shows "exec_inv y"
  using assms(2)
proof (cases rule: exec_step.cases)
  case (step_pass needed)
  with exec_inv_pass [OF assms(1)] show ?thesis by simp
next
  case (step_thread i)
  with exec_inv_future [OF assms(1)] show ?thesis by simp
next
  case (step_finish i)
  with exec_inv_future [OF assms(1)] show ?thesis by simp
next
  case (step_time d)
  with assms(1) show ?thesis by (fastforce simp: exec_inv_def)
qed

lemma exec_reachable_inv: "exec_reachable x \<Longrightarrow> exec_inv x"
proof (induction rule: exec_reachable.induct)
  case (reach_init x)
  then show ?case by (auto simp: exec_init_def exec_inv_def)
next
  case (reach_step x y)
  then show ?case using exec_inv_step by blast
qed

text \<open>Once left, the loop starts nothing: no step from a left loop queues a task.\<close>

lemma exec_done_stays: "exec_step x y \<Longrightarrow> x_done x \<Longrightarrow> x_done y \<and> x_report_ts y = x_report_ts x"
  by (erule exec_stepE) auto

lemma exec_done_no_start:
  assumes "exec_step x y" and "x_done x"
    and "t \<in> set (x_tasks y)" and "t_future t = Queued"
  shows "t \<in> set (x_tasks x)"
  using assms
  by (elim exec_stepE) (auto dest!: set_update_subset_insert [THEN subsetD])

end
