(* ===== verification/Process_Manager.thy ===== *)
theory Process_Manager
  imports Tasks
begin

text \<open>
  \<^verbatim>\<open>core/schains/process_manager.py\<close>: one monitor process per chain, started when the
  reported one is not alive, terminated when its report is too old. \<open>spawn\<close> gives the
  process id the operating system assigns to a new process; the process itself runs
  \<open>start_tasks\<close>. Also the record updates of the admin's \<^verbatim>\<open>init\<close> (\<^verbatim>\<open>admin.py\<close>).
\<close>

definition start_process :: "(int list \<Rightarrow> int) \<Rightarrow> ('d, 'f, unit) wact" where
  "start_process spawn = act_modify (\<lambda>w. w\<lparr>pids := spawn (pids w) # pids w\<rparr>)"

definition run_pm_schain ::
  "('d, 'f) env \<Rightarrow> contracts \<Rightarrow> (int list \<Rightarrow> int) \<Rightarrow> (int \<Rightarrow> term_result) \<Rightarrow> string \<Rightarrow>
   int option \<Rightarrow> ('d, 'f, unit) wact" where
  "run_pm_schain e k spawn answer n timeout =
     (let allowed_diff = (case timeout of Some t \<Rightarrow> t | None \<Rightarrow> dkg_stuck_timeout k)
      in act_bind (get_schain_process_info e n) (\<lambda>info.
         case info of
           None \<Rightarrow> start_process spawn
         | Some (pid, pts) \<Rightarrow>
             (\<lambda>w. if is_monitor_process_alive pid w
                  then if clock w - pts > allowed_diff then terminate_process answer pid w
                       else act_return () w
                  else start_process spawn w)))"

definition get_leaving_schains_for_node :: "contracts \<Rightarrow> int \<Rightarrow> string list res" where
  "get_leaving_schains_for_node k node_id =
     res_bind (get_leaving_history k node_id) (\<lambda>hist.
     res_bind (res_map (\<lambda>l.
        res_bind (get_schain k (lv_schain_id l)) (\<lambda>sch.
        res_bind (is_rotation_active k (sch_name sch)) (\<lambda>active.
        Inr (if active \<and> sch_name sch \<noteq> [] then [sch_name sch] else [])))) hist) (\<lambda>xss.
     Inr (concat xss)))"

text \<open>The chains assigned to the node that are active, and those it is leaving (marked active
  by the loop above).\<close>

definition fetch_schains_to_monitor :: "contracts \<Rightarrow> int \<Rightarrow> string list res" where
  "fetch_schains_to_monitor k node_id =
     res_bind (get_schains_for_node k node_id) (\<lambda>schs.
     res_bind (get_leaving_schains_for_node k node_id) (\<lambda>leaving.
     Inr (filter (is_active k) (map sch_name schs) @ leaving)))"

text \<open>The flags the admin sets when it starts.\<close>

definition admin_init_records :: "bool \<Rightarrow> string option \<Rightarrow> db \<Rightarrow> db" where
  "admin_init_records backup pull_config_for d =
     (let d1 = set_schains_monitor_id (set_schains_first_run d);
          d2 = (if backup then set_schains_backup_run d1 else d1)
      in case pull_config_for of
           None \<Rightarrow> d2
         | Some chain \<Rightarrow> if chain = [] then d2 else set_schains_sync_config_run chain d2)"

section \<open>What one visit does\<close>

lemma get_schain_process_info_eval:
  assumes "report_pid e n w = Inr pid" and "report_ts e n w = Inr ts"
  shows "\<exists>w'. get_schain_process_info e n w = (Inr (Some (pid, ts)), w') \<and>
           pids w' = pids w \<and> clock w' = clock w \<and> files w' = files w"
proof -
  let ?w = "w\<lparr>dirs := List.insert (schain_config_dir e n) (dirs w)\<rparr>"
  have ex: "report_is_exist e n w"
    using assms(1)
    by (auto simp: report_pid_def report_read_def read_json_def report_is_exist_def isfile_def
        res_bind_Inr_iff split: option.splits)
  have "report_pid e n ?w = Inr pid" "report_ts e n ?w = Inr ts" "report_is_exist e n ?w"
    using assms ex by (simp_all add: report_pid_def report_ts_def report_read_def report_is_exist_def)
  then show ?thesis
    by (simp add: get_schain_process_info_def ProcessReport_def act_simps)
qed

lemma run_pm_schain_reported:
  assumes "report_pid e n w = Inr pid" and "report_ts e n w = Inr ts"
  shows "\<exists>w'. run_pm_schain e k spawn answer n timeout w = (Inr (), w') \<and>
     pids w' =
       (if pid \<noteq> 0 \<and> pid \<in> set (pids w)
        then if clock w - ts > (case timeout of Some t \<Rightarrow> t | None \<Rightarrow> dkg_stuck_timeout k) \<and> answer pid \<noteq> Signal_fails
             then removeAll pid (pids w) else pids w
        else spawn (pids w) # pids w)"
proof -
  from get_schain_process_info_eval [OF assms(1,2)] obtain w1 where
    w1: "get_schain_process_info e n w = (Inr (Some (pid, ts)), w1)"
      "pids w1 = pids w" "clock w1 = clock w" by blast
  show ?thesis
    by (auto simp: run_pm_schain_def act_simps w1 Let_def is_monitor_process_alive_def
        check_pid_def terminate_process_def start_process_def split: term_result.split)
qed

lemma run_pm_schain_unreported:
  assumes "\<not> report_is_exist e n w"
  shows "\<exists>w'. run_pm_schain e k spawn answer n timeout w = (Inr (), w') \<and>
           pids w' = spawn (pids w) # pids w"
  using assms
  by (simp add: run_pm_schain_def act_simps get_schain_process_info_def ProcessReport_def
      start_process_def report_is_exist_def Let_def)

end
