(* ===== verification/Reference_Node.thy ===== *)
theory Reference_Node
  imports Process_Manager
begin

text \<open>
  A small concrete node for the witnesses: the reference Docker engine and packet filter, the
  settings a node ships with (shortened), one chain \<^verbatim>\<open>alpha\<close> with its configuration.
\<close>

definition ref_containers_info :: json where
  "ref_containers_info = JObj
    [(''schain'', JObj [(''name'', JStr ''skaled''), (''version'', JStr ''1''),
       (''args'', JObj []), (''custom_args'', JObj [])]),
     (''ima'', JObj [(''name'', JStr ''ima''), (''version'', JStr ''1''),
       (''new_version'', JStr ''2''), (''args'', JObj []), (''custom_args'', JObj [])])]"

definition ref_resource_allocation :: json where
  "ref_resource_allocation =
     (let m = JObj [(''cpu_shares'', JObj [(''medium'', JInt 64)]),
                    (''mem'', JObj [(''medium'', JInt 1024)]),
                    (''disk'', JObj [(''medium'', JInt 4096)])]
      in JObj [(''schain'', m), (''ima'', m)])"

definition ref_env :: "(ref_daemon, rule_d list) env" where
  "ref_env =
     \<lparr>docker = ref_docker, iptc = ref_iptc, SYNC_NODE = False, NODE_DATA_PATH = ''/d'',
      NODE_DATA_PATH_HOST = ''/h'', SCHAINS_DIR_PATH = ''/d/schains'',
      SCHAINS_DIR_PATH_HOST = ''/h/schains'', SKALE_DIR_HOST = ''/s'',
      SCHAIN_NODE_DATA_PATH = ''/n'', SKALE_VOLUME_PATH = ''/v'', SKALE_LIB_PATH = ''/l'',
      SSL_CERTIFICATES_FILEPATH = ''/d/ssl'', SGX_SERVER_URL = ''https://sgx'',
      ENDPOINT = ''https://net'', volume_driver = ''lvmpy'', node_version = ''2.0.0'',
      import_dt = 0, tz_offset = 0, ssl_cert_mtime = None,
      rpc_post = (\<lambda>_ _ _. None), keccak_hexdigest = (\<lambda>_. ''1''),
      containers_info = ref_containers_info, resource_allocation = ref_resource_allocation,
      static_params = JObj [(''schain_cmd'', JList []), (''node'', JObj [])],
      ima_migration_schedule = None, ima_env_consts = [], IMA_RPC_OFFSET = 10\<rparr>"

definition ref_config :: json where
  "ref_config = JObj [(''skaleConfig'', JObj
    [(''nodeInfo'', JObj
       [(''nodeID'', JInt 1), (''basePort'', JInt 10000), (''httpRpcPort'', JInt 10003),
        (''wsRpcPort'', JInt 10002), (''httpsRpcPort'', JInt 10008), (''wssRpcPort'', JInt 10007),
        (''infoHttpRpcPort'', JInt 10009)]),
     (''sChain'', JObj
       [(''nodes'', JList
          [JObj [(''nodeID'', JInt 1), (''ip'', JStr ''10.0.0.1'')],
           JObj [(''nodeID'', JInt 2), (''ip'', JStr ''10.0.0.2'')]]),
        (''nodeGroups'', JObj
          [(''0'', JObj [(''finish_ts'', JInt 900)]), (''1'', JObj [(''finish_ts'', JNull)])])])])]"

definition ref_daemon0 :: ref_daemon where
  "ref_daemon0 = \<lparr>rd_containers = [], rd_volumes = [], rd_made = 0, rd_images = []\<rparr>"

definition ref_world :: "(ref_daemon, rule_d list) world" where
  "ref_world =
     \<lparr>clock = 1000, db = [(''alpha'', new_record ''alpha'' 500 0)], files = [],
      dirs = [''/d/schains/alpha''], links = [], daemon = ref_daemon0, netfilter = [], pids = [],
      removed_logs = []\<rparr>"

definition ref_ports :: skaled_ports where
  "ref_ports =
     \<lparr>CATCHUP = 1, PROPOSAL = 0, BINARY_CONSENSUS = 4, ZMQ_BROADCAST = 5, IMA_RPC = 10,
      HTTP_JSON = 3, HTTPS_JSON = 8, WS_JSON = 2, WSS_JSON = 7, INFO_HTTP_JSON = 9\<rparr>"

definition ref_schain :: schain_structure where
  "ref_schain =
     \<lparr>sch_name = ''alpha'', part_of_node = 16, generation = 1, mainnet_owner = ''0xa'',
      originator = ''0xb'', allocation_type = ''default'', multitransaction_mode = False\<rparr>"

definition ref_rule_controller :: rule_controller where
  "ref_rule_controller =
     \<lparr>rc_name = ''alpha'', base_port = Some 10000, own_ip = Some ''10.0.0.1'',
      node_ips = [''10.0.0.1'', ''10.0.0.2''],
      sync_ip_ranges = [IpRange ''10.1.0.1'' ''10.1.0.9''], port_allocation = ref_ports,
      ports_per_schain = 64, rc_firewall_manager = None\<rparr>"

definition ref_contracts :: contracts where
  "ref_contracts =
     \<lparr>get_schains_for_node = (\<lambda>_. Inr [ref_schain]),
      get_active_schains_for_node = (\<lambda>_. Inr [ref_schain]),
      get_schain_by_name = (\<lambda>_. Inr ref_schain), get_schain = (\<lambda>_. Inr ref_schain),
      is_active = (\<lambda>_. True), is_schain_exist = (\<lambda>n. Inr (n = ''alpha'')),
      get_node_ids_for_schain = (\<lambda>_. Inr [1, 2]), get_nodes_for_schain = (\<lambda>_. Inr []),
      get_last_change_ip_time = (\<lambda>_. 0), is_rotation_active = (\<lambda>_. Inr False),
      get_rotation = (\<lambda>_. Inr \<lparr>rotation_id = 0, new_schain_rotation = False\<rparr>),
      get_leaving_history = (\<lambda>_. Inr []), get_last_rotation_id = (\<lambda>_. Inr 0),
      is_last_dkg_successful = (\<lambda>_. Inr True), get_ip_ranges_number = 0,
      get_ip_range_by_index = (\<lambda>_. IpRange [] []), get_dkg_timeout = 600,
      has_schain_linked = (\<lambda>_. Inr False), mainnet_chain_id = 1\<rparr>"

definition ref_checks :: skaled_checks where
  "ref_checks =
     \<lparr>sk_name = ''alpha'', sk_record = new_record ''alpha'' 500 0, sk_sync_node = False\<rparr>"

definition ref_am :: skaled_am where
  "ref_am =
     \<lparr>sa_schain = ref_schain, sa_checks = ref_checks, sa_ncli_status = None,
      sa_historic_state = False\<rparr>"

definition ref_mstate :: "(ref_daemon, rule_d list) world \<Rightarrow> (ref_daemon, rule_d list) mstate" where
  "ref_mstate w =
     \<lparr>wld = w, rctl = ref_rule_controller, estate = estate_or_unlinked None, executed_blocks = []\<rparr>"

lemma ref_env_docker_laws: "docker_laws ref_view (docker ref_env)"
  by (simp add: ref_env_def ref_docker_laws)

lemma ref_env_iptc: "iptc_package (iptc ref_env)"
  by (simp add: ref_env_def ref_iptc.iptc_package_axioms)

definition ref_config_am :: config_am where
  "ref_config_am =
     \<lparr>ca_name = ''alpha'', ca_node_id = 1, ca_rotation_id = 0,
      ca_checks = \<lparr>cc_name = ''alpha'', cc_record = new_record ''alpha'' 500 0, cc_rotation_id = 0,
        cc_stream_version = ''2.0.0'', cc_current_nodes = [], cc_last_dkg_successful = False\<rparr>,
      ca_current_nodes = []\<rparr>"

lemma ref_world_wok: "wok ref_world"
  by (auto simp: wok_def db_counters_ok_def counters_ok_def db_wf_def tab_wf_def ref_world_def
      new_record_def tab_get_def MAX_SCHAIN_RESTART_COUNT_def MAX_SCHAIN_FAILED_RPC_COUNT_def
      split: if_splits)

lemma ref_table_empty: "host_table_ok ref_iptc []"
  by (simp add: host_table_ok_def ref_iptc_def)

lemma ref_host_rules_empty: "host_rules ref_iptc [] = {}"
  by (simp add: host_rules_def iptables_rules_def ref_iptc_def)

lemma ref_controller_ok: "controller_ok ref_rule_controller"
  by code_simp

end
