(* ===== verification/Chain_Isolation.thy ===== *)
theory Chain_Isolation
  imports Monitor_Invariants Reference_Node
begin

text \<open>
  What a chain's monitor does to the Docker engine. A predicate on the engine's state that
  the calls for one chain keep is kept by every monitor of that chain; \<open>volume_invariant\<close>
  asks for the creation of the chain's volume only, \<open>daemon_invariant\<close> for the calls on its
  two containers, \<open>removal_invariant\<close> for the removal of its volume too. The documented
  behaviour of the engine (\<open>docker_node\<close>) gives the instances: existing volumes, and
  everything that belongs to other chains.
\<close>

named_theorems dok_intros \<open>actions keep a predicate on the engine\<close>

definition dok :: "('d \<Rightarrow> bool) \<Rightarrow> ('d, 'f) mstate \<Rightarrow> bool" where
  "dok Q s = Q (daemon (wld s))"

definition wdok :: "('d \<Rightarrow> bool) \<Rightarrow> ('d, 'f) world \<Rightarrow> bool" where
  "wdok Q w = Q (daemon w)"

section \<open>Statements that do not reach the engine\<close>

lemma wdok_same: "(\<And>w. daemon (snd (m w)) = daemon w) \<Longrightarrow> keeps (wdok Q) m"
  by (simp add: keeps_def wdok_def)

lemma dok_same: "(\<And>s. daemon (wld (snd (m s))) = daemon (wld s)) \<Longrightarrow> keeps (dok Q) m"
  by (simp add: keeps_def dok_def)

lemma wdok_daemon [dok_intros]: "keeps Q m \<Longrightarrow> keeps (wdok Q) (on_daemon m)"
  by (auto simp: keeps_def wdok_def act_simps split: prod.split dest: spec [where x = "daemon w" for w])

lemma wdok_plain [dok_intros]:
  "keeps (wdok Q) (time_sleep t)" "keeps (wdok Q) (makedirs d)" "keeps (wdok Q) (unlink p)"
  "keeps (wdok Q) (symlink p q)" "keeps (wdok Q) (on_files m')" "keeps (wdok Q) (modify_files g)"
  "keeps (wdok Q) (set_record f rec)" "keeps (wdok Q) (on_record f rec)" "keeps (wdok Q) (truthy_res r)"
  "keeps (wdok Q) (am_record e n)" "keeps (wdok Q) (rmtree d)"
  by (intro wdok_same; simp add: act_simps rmtree_def unlink_def symlink_def truthy_res_def am_record_def Let_def split: prod.split option.split)+

lemma wdok_backup_logs [dok_intros]: "keeps (wdok Q) (backup_container_logs api n h t)"
  by (rule wdok_same) (simp add: backup_container_logs_def save_container_logs_def act_simps
      split: prod.split sum.split)

lemma wdok_am_set [dok_intros]: "keeps (wdok Q) (am_set e n f)"
  unfolding am_set_def by (intro keeps_intros dok_intros)

lemma wdok_update_ssl [dok_intros]: "keeps (wdok Q) (update_ssl_change_date e rec)"
  by (rule wdok_same) (simp add: update_ssl_eval split: option.split)

lemma wdok_upd_last_seen [dok_intros]: "keeps (wdok Q) (upd_last_seen e n)"
proof (rule keepsI)
  fix w :: "('a, 'b) world" assume "wdok Q w"
  then show "wdok Q (snd (upd_last_seen e n w))"
    unfolding upd_last_seen_def by (rule keepsD [OF wdok_am_set])
qed

lemma wdok_upd_schain_record [dok_intros]: "keeps (wdok Q) (upd_schain_record e n)"
  unfolding upd_schain_record_def
  by (rule keeps_block) (simp add: dok_intros keeps_intros)

lemma dok_on_world [dok_intros]: "keeps (wdok Q) m \<Longrightarrow> keeps (dok Q) (on_world m)"
  by (auto simp: keeps_def dok_def wdok_def act_simps split: prod.split dest: spec [where x = "wld s" for s])

lemma dok_in_world [dok_intros]: "keeps (dok Q) (in_world q)"
  by (simp add: keeps_def act_simps)

lemma dok_checks [dok_intros]:
  "keeps (dok Q) (check_firewall_rules e c)" "keeps (dok Q) (configure_from e n conf)"
  by (intro dok_same; simp add: check_firewall_rules_frame configure_from_def act_simps
      split: sum.split)+

lemma dok_rule_controller [dok_intros]: "keeps (dok Q) (on_rule_controller m)"
  by (rule dok_same) (simp add: on_rule_controller_def split: sum.split prod.split)

lemma dok_modify [dok_intros]: "(\<And>s. wld (g s) = wld s) \<Longrightarrow> keeps (dok Q) (act_modify g)"
  by (rule dok_same) (simp add: act_simps)

lemma dok_monitor_block [dok_intros]: "keeps (dok Q) m \<Longrightarrow> keeps (dok Q) (monitor_block f m)"
  unfolding monitor_block_def by (intro keeps_intros dok_modify) simp_all

lemma dok_do_action [dok_intros]: "keeps (dok Q) m \<Longrightarrow> keeps (dok Q) (do_action m)"
  unfolding do_action_def by (rule keeps_drop)

lemma dok_no_such_action [dok_intros]: "keeps (dok Q) (no_such_action n)"
  by (simp add: no_such_action_def keeps_pure)

lemma dok_file_actions [dok_intros]:
  "keeps (dok Q) (reset_restart_counter_action e am)" "keeps (dok Q) (update_config_action e am)"
  "keeps (dok Q) (reset_exit_schedule_action e am)" "keeps (dok Q) (disable_backup_run_action e am)"
  "keeps (dok Q) notify_repair_mode_action" "keeps (dok Q) (update_repair_ts_action e am t)"
  unfolding reset_restart_counter_action_def update_config_action_def
    reset_exit_schedule_action_def disable_backup_run_action_def notify_repair_mode_action_def
    update_repair_ts_action_def exit_schedule_rm_def sync_skaled_config_with_upstream_def Let_def
  by (intro dok_intros keeps_intros; simp add: dok_intros keeps_intros)+

lemma dok_reset_counters [dok_intros]: "keeps (dok Q) (reset_counters e am)"
  unfolding reset_counters_def by (rule keeps_block) (simp add: dok_intros)

lemma dok_firewall [dok_intros]: "keeps (dok Q) (firewall_rules_action e am up)"
  unfolding firewall_rules_action_def
  by (intro dok_monitor_block keeps_bind dok_intros keeps_then keeps_ite keeps_pure keeps_block)
    (simp add: dok_intros keeps_intros)

lemma dok_schedule [dok_intros]: "keeps (dok Q) (schedule_skaled_exit_action e am ts)"
  unfolding schedule_skaled_exit_action_def set_exit_ts_def
  by (intro dok_monitor_block keeps_bind dok_intros keeps_pure keeps_block')
    (auto intro!: dok_intros keeps_intros split: option.split)

lemma dok_fix_firewall [dok_intros]: "keeps (dok Q) (fix_firewall e am up)"
  unfolding fix_firewall_def by (intro keeps_intros dok_intros)

lemma dok_fix_skaled [dok_intros]:
  "keeps (dok Q) a \<Longrightarrow> keeps (dok Q) b \<Longrightarrow> keeps (dok Q) (fix_skaled e am a b)"
  unfolding fix_skaled_def by (intro keeps_intros dok_intros)

lemma dok_repair_ts:
  "keeps (dok Q) (\<lambda>s. do_action (update_repair_ts_action e am (clock (wld s))) s)"
proof (rule keepsI)
  fix s :: "('a, 'b) mstate" assume "dok Q s"
  then show "dok Q (snd (do_action (update_repair_ts_action e am (clock (wld s))) s))"
    by (rule keepsD [OF dok_do_action [OF dok_file_actions(6)]])
qed

section \<open>The chain's volume is created\<close>

locale volume_invariant =
  fixes e :: "('d, 'f) env" and n :: string and Q :: "'d \<Rightarrow> bool"
  assumes create: "keeps Q (volumes_create (docker e) n drv opts)"
begin

lemma init_data_volume_keeps:
  assumes [simp]: "sch_name sch = n"
  shows "keeps (wdok Q) (init_data_volume e sch b)"
  using create
  unfolding init_data_volume_def ensure_data_dir_path_def create_data_volume_def Let_def
  by (intro keeps_intros dok_intros; simp add: keeps_intros dok_intros)

lemma volume_action_keeps:
  assumes [simp]: "sa_name am = n"
  shows "keeps (dok Q) (volume_action e am)"
  unfolding volume_action_def sa_name_def
  by (intro dok_intros keeps_intros init_data_volume_keeps) (simp_all add: sa_name_def [symmetric])

lemma fix_volume_keeps:
  assumes [simp]: "sa_name am = n"
  shows "keeps (dok Q) (fix_volume e am)"
  unfolding fix_volume_def by (intro keeps_intros dok_intros volume_action_keeps) (simp_all add: sa_name_def [symmetric])

end

section \<open>The chain's containers are run, stopped, removed and restarted\<close>

definition own_container :: "string \<Rightarrow> string \<Rightarrow> bool" where
  "own_container n c =
     (c = get_container_name SCHAIN_CONTAINER n \<or> c = get_container_name IMA_CONTAINER n)"

lemma own_container_simps [simp]:
  "own_container n (get_container_name SCHAIN_CONTAINER n)"
  "own_container n (get_container_name IMA_CONTAINER n)"
  by (simp_all add: own_container_def)

lemma act_bind_const:
  "act_bind (act_res (\<lambda>_. Inl x)) k = act_raise x"
  "act_bind (act_res (\<lambda>_. Inr a)) k = k a"
  by (rule ext; simp add: act_simps)+

locale daemon_invariant = volume_invariant e n Q
  for e :: "('d, 'f) env" and n :: string and Q :: "'d \<Rightarrow> bool" +
  assumes run: "own_container n c \<Longrightarrow> keeps Q (containers_run (docker e) img c args)"
    and stop: "own_container n c \<Longrightarrow> keeps Q (container_stop (docker e) c t)"
    and remove: "own_container n c \<Longrightarrow> keeps Q (container_remove (docker e) c)"
    and restart: "own_container n c \<Longrightarrow> keeps Q (container_restart (docker e) c t)"
    and pull: "keeps Q (images_pull (docker e) repo tag)"
begin

lemma safe_rm_keeps: "own_container n c \<Longrightarrow> keeps (wdok Q) (safe_rm (docker e) c t)"
  unfolding safe_rm_def by (intro keeps_intros dok_intros stop remove)

lemma docker_restart_keeps: "own_container n c \<Longrightarrow> keeps Q (docker_restart (docker e) c t)"
  unfolding docker_restart_def by (intro keeps_intros restart)

lemma docker_pull_keeps: "keeps Q (docker_pull (docker e) img)"
  unfolding docker_pull_def by (auto split: list.split intro: pull)

lemma removals_keep:
  "keeps (wdok Q) (remove_schain_container e n)" "keeps (wdok Q) (remove_ima_container e n)"
  "keeps (wdok Q) (remove_container e n IMA_CONTAINER)" "keeps (wdok Q) (pull_new_image e t)"
  "sch_name sch = n \<Longrightarrow> keeps (wdok Q) (restart_container e SCHAIN_CONTAINER sch)"
  unfolding remove_schain_container_def remove_ima_container_def remove_container_def
    pull_new_image_def restart_container_def
  by (auto intro!: keeps_intros dok_intros safe_rm_keeps docker_pull_keeps docker_restart_keeps)

lemma run_container_keeps:
  assumes "own_container n (get_container_name t n)"
  shows "keeps (wdok Q) (run_container e t n environ cmd vc cl ml img vm hs)"
proof (cases "get_container_info e t n hs")
  case (Inl x)
  then show ?thesis by (simp add: run_container_def act_bind_const keeps_pure)
next
  case (Inr r)
  then obtain i a b where r: "get_container_info e t n hs = Inr (i, get_container_name t n, a, b)"
    by (auto simp: get_container_info_def res_bind_Inr_iff)
  show ?thesis
    unfolding run_container_def Let_def r act_bind_const prod.case docker_run_container_def
    by (intro keeps_bind keeps_pure keeps_drop wdok_daemon run assms)
qed

lemma run_schain_container_keeps:
  assumes [simp]: "sch_name sch = n"
  shows "keeps (wdok Q) (run_schain_container e sch ds ts vm uc ssl sf sn hs)"
  unfolding run_schain_container_def Let_def
  by (intro keeps_bind keeps_pure) (simp add: run_container_keeps)

lemma run_ima_container_keeps:
  assumes [simp]: "sch_name sch = n"
  shows "keeps (wdok Q) (run_ima_container e sch c tf img)"
  unfolding run_ima_container_def
  by (intro keeps_bind keeps_pure) (simp add: run_container_keeps)

lemma monitor_schain_keeps:
  assumes [simp]: "sch_name sch = n"
  shows "keeps (wdok Q) (monitor_schain_container e sch rec st ds ts sf ab sn hs)"
  unfolding monitor_schain_container_def
  by (intro keeps_unless keeps_if keeps_bind keeps_then keeps_ite keeps_pure keeps_case_prod
      dok_intros run_schain_container_keeps removals_keep(5)) simp_all

lemma monitor_ima_keeps:
  assumes [simp]: "sch_name sch = n"
  shows "keeps (wdok Q) (monitor_ima_container e sch ima ts)"
  unfolding monitor_ima_container_def copy_schain_ima_abi_def Let_def
  by (intro keeps_intros dok_intros run_ima_container_keeps)
    (auto intro: removals_keep)

lemma failed_rpc_keeps:
  assumes [simp]: "sch_name sch = n"
  shows "keeps (wdok Q) (handle_failed_schain_rpc e sch rec st)"
  unfolding handle_failed_schain_rpc_def
  by (intro keeps_unless keeps_if keeps_bind keeps_then keeps_ite keeps_pure dok_intros
      removals_keep(5)) simp_all

lemma skaled_container_keeps:
  assumes [simp]: "sa_name am = n"
  shows "keeps (dok Q) (skaled_container_action e am ds ts ab)"
  unfolding skaled_container_action_def
  by (intro dok_monitor_block keeps_bind dok_intros keeps_block')
    (auto simp: sa_name_def [symmetric] intro!: dok_intros keeps_intros monitor_schain_keeps)

lemma ima_container_keeps:
  assumes [simp]: "sa_name am = n"
  shows "keeps (dok Q) (ima_container_action e am)"
  unfolding ima_container_action_def
  by (intro keeps_bind keeps_then keeps_ite keeps_pure dok_intros removals_keep monitor_ima_keeps)
    (simp add: sa_name_def [symmetric])

lemma skaled_rpc_keeps:
  assumes [simp]: "sa_name am = n"
  shows "keeps (dok Q) (skaled_rpc_action e am)"
  unfolding skaled_rpc_action_def
  by (intro dok_monitor_block keeps_bind keeps_then keeps_ite keeps_pure keeps_drop dok_intros
      failed_rpc_keeps) (simp add: sa_name_def [symmetric])

lemma reloaded_keeps:
  assumes [simp]: "sa_name am = n"
  shows "keeps (dok Q) (reloaded_skaled_container_action e am ab)"
  unfolding reloaded_skaled_container_action_def
  by (intro dok_monitor_block keeps_then keeps_block skaled_container_keeps)
    (auto intro!: dok_intros keeps_intros removals_keep)

lemma recreated_keeps:
  assumes [simp]: "sa_name am = n"
  shows "keeps (dok Q) (recreated_schain_containers_action e am ab)"
  unfolding recreated_schain_containers_action_def
  by (intro dok_monitor_block keeps_bind keeps_then keeps_when keeps_block' dok_intros)
    (auto intro!: dok_intros keeps_intros removals_keep skaled_container_keeps ima_container_keeps)

lemmas component_keeps = fix_volume_keeps skaled_container_keeps ima_container_keeps
  skaled_rpc_keeps reloaded_keeps recreated_keeps

lemma fixes_keep:
  assumes [simp]: "sa_name am = n"
  shows "keeps (dok Q) (fix_rpc e am)" and "keeps (dok Q) (fix_ima e am)"
  unfolding fix_rpc_def fix_ima_def
  by (auto intro!: keeps_intros dok_intros component_keeps)

text \<open>Every monitor but the repair.\<close>

lemma execute_keeps:
  assumes "sa_name am = n" and "mon \<noteq> RepairSkaledMonitor"
  shows "keeps (dok Q) (execute e am mon)"
  using assms
  by (cases mon)
    (simp_all add: regular_execute_def backup_execute_def recreate_execute_def
      update_config_execute_def reload_group_execute_def reload_ip_execute_def reload_steps_def
      no_config_execute_def new_node_execute_def keeps_intros dok_intros component_keeps fixes_keep)

lemma run_keeps:
  assumes "sa_name am = n" and "keeps (dok Q) (execute e am mon)"
  shows "keeps (dok Q) (run_skaled_monitor e am mon)"
  unfolding run_skaled_monitor_def
  by (intro keeps_try keeps_block keeps_pure) (simp add: dok_intros assms)

end

section \<open>The chain's volume is removed\<close>

locale volume_removal_invariant =
  fixes e :: "('d, 'f) env" and n :: string and Q :: "'d \<Rightarrow> bool"
  assumes volume_removal: "keeps Q (volume_remove (docker e) n)"
begin

lemma rm_vol_loop_keeps: "keeps (wdok Q) (rm_vol_loop (docker e) n ts err :: ('d, 'f, unit) wact)"
proof (induction ts arbitrary: err)
  case Nil
  then show ?case by (auto intro: keeps_intros)
next
  case (Cons t ts)
  have "(rm_vol_loop (docker e) n (t # ts) err :: ('d, 'f, unit) wact) =
      act_bind (act_res (\<lambda>w. get_vol (docker e) n (daemon w))) (\<lambda>found.
        if \<not> found then act_return ()
        else act_try (act_drop (on_daemon (volume_remove (docker e) n)))
               (\<lambda>x. act_then (time_sleep t) (rm_vol_loop (docker e) n ts (Some x))))"
    by (rule ext) (simp add: act_simps split: prod.split sum.split)
  then show ?case
    by (simp only:) (intro keeps_intros dok_intros volume_removal Cons.IH)
qed

lemma remove_schain_volume_keeps: "keeps (wdok Q) (remove_schain_volume e n)"
  unfolding remove_schain_volume_def rm_vol_def by (rule rm_vol_loop_keeps)

end

locale removal_invariant = daemon_invariant e n Q + volume_removal_invariant e n Q
  for e :: "('d, 'f) env" and n :: string and Q :: "'d \<Rightarrow> bool"
begin

lemma cleanup_keeps:
  assumes [simp]: "sa_name am = n"
  shows "keeps (dok Q) (cleanup_schain_docker_entity_action e am)"
  unfolding cleanup_schain_docker_entity_action_def
  by (intro dok_monitor_block keeps_block')
    (simp add: dok_intros removals_keep remove_schain_volume_keeps)

lemma execute_keeps_all:
  assumes [simp]: "sa_name am = n"
  shows "keeps (dok Q) (execute e am mon)"
  using execute_keeps [of am mon]
  by (cases "mon = RepairSkaledMonitor")
    (simp_all add: repair_execute_def keeps_intros dok_intros component_keeps cleanup_keeps dok_repair_ts)

lemma pipeline_keeps:
  assumes [simp]: "sa_name am = n"
  shows "keeps (dok Q) (skaled_pipeline_body e am rec ss ns)"
  unfolding skaled_pipeline_body_def
  by (intro keeps_bind keeps_then keeps_drop keeps_pure dok_intros run_keeps execute_keeps_all)
    (simp_all add: keeps_def dok_def skaled_checks_get_all_frame)

end

section \<open>The documented engine\<close>

text \<open>Whatever belongs to another chain: a container with another name is as it was, and another
  volume that was there is still the same one.\<close>

definition elsewhere ::
  "'d engine_view \<Rightarrow> string \<Rightarrow> string \<Rightarrow> string \<Rightarrow> container option \<Rightarrow> int option \<Rightarrow> 'd \<Rightarrow> bool" where
  "elsewhere U n k v C i d = ((own_container n k \<or> ev_container U k d = C) \<and> (v = n \<or> volume_kept U v i d))"

locale docker_node =
  fixes e :: "('d, 'f) env" and U :: "'d engine_view"
  assumes laws: "docker_laws U (docker e)"
begin

lemma container_frame:
  "k \<noteq> c \<Longrightarrow> keeps (\<lambda>d. ev_container U k d = C) (containers_run (docker e) img c a)"
  "k \<noteq> c \<Longrightarrow> keeps (\<lambda>d. ev_container U k d = C) (container_stop (docker e) c t)"
  "k \<noteq> c \<Longrightarrow> keeps (\<lambda>d. ev_container U k d = C) (container_remove (docker e) c)"
  "k \<noteq> c \<Longrightarrow> keeps (\<lambda>d. ev_container U k d = C) (container_restart (docker e) c t)"
  "keeps (\<lambda>d. ev_container U k d = C) (volumes_create (docker e) n drv opts)"
  "keeps (\<lambda>d. ev_container U k d = C) (volume_remove (docker e) n)"
  "keeps (\<lambda>d. ev_container U k d = C) (images_pull (docker e) r i)"
  using laws
  by (auto simp: docker_laws_def law_containers_def law_volumes_def other_containers_def
      all_containers_def keeps_def)

lemma spares_keeps: "spares_volume U v m \<Longrightarrow> keeps (volume_kept U v i) m"
  by (simp add: spares_volume_def keeps_def)

lemma volume_frame:
  "keeps (volume_kept U v i) (containers_run (docker e) img c a)"
  "keeps (volume_kept U v i) (container_stop (docker e) c t)"
  "keeps (volume_kept U v i) (container_remove (docker e) c)"
  "keeps (volume_kept U v i) (container_restart (docker e) c t)"
  "keeps (volume_kept U v i) (volumes_create (docker e) n drv opts)"
  "v \<noteq> n \<Longrightarrow> keeps (volume_kept U v i) (volume_remove (docker e) n)"
  "keeps (volume_kept U v i) (images_pull (docker e) r tag)"
  using laws by (simp_all add: docker_laws_def law_containers_def law_volumes_def spares_keeps)

lemma keeps_elsewhere:
  assumes "\<not> own_container n k \<Longrightarrow> keeps (\<lambda>d. ev_container U k d = C) m"
    and "v \<noteq> n \<Longrightarrow> keeps (volume_kept U v i) m"
  shows "keeps (elsewhere U n k v C i) m"
  using assms by (auto simp: keeps_def elsewhere_def)

end

sublocale docker_node \<subseteq> existing: daemon_invariant e n "volume_kept U v i" for n v i
  by unfold_locales (rule volume_frame)+

sublocale docker_node \<subseteq> other: removal_invariant e n "elsewhere U n k v C i" for n k v C i
  by unfold_locales (rule keeps_elsewhere; auto intro: container_frame volume_frame)+

sublocale docker_node \<subseteq> status: volume_invariant e n "\<lambda>d. ev_container U k d = C" for n k C
  by unfold_locales (rule container_frame)

sublocale docker_node \<subseteq> status: volume_removal_invariant e n "\<lambda>d. ev_container U k d = C" for n k C
  by unfold_locales (rule container_frame)

interpretation ref: docker_node ref_env ref_view
  by unfold_locales (rule ref_env_docker_laws)

section \<open>What a monitor leaves alone\<close>

lemma check_skaled_container_view:
  assumes "docker_laws U (docker e)" and "check_skaled_container e c w = Inr b"
  shows "b = in_state RUNNING_STATUS (ev_container U (get_container_name SCHAIN_CONTAINER (sk_name c)) (daemon w))"
    and "containers_get (docker e) (get_container_name SCHAIN_CONTAINER (sk_name c)) (daemon w) = Inl x \<Longrightarrow>
      is_not_found x"
  using assms docker_running [OF assms(1)]
  by (auto simp: check_skaled_container_def sk_container_name_def)

context docker_node
begin

lemma run_keeps_volume:
  assumes "mon \<noteq> RepairSkaledMonitor"
  shows "keeps (dok (volume_kept U v i)) (run_skaled_monitor e am mon)"
  by (rule existing.run_keeps [OF refl existing.execute_keeps [OF refl assms]])

lemma run_keeps_elsewhere: "keeps (dok (elsewhere U (sa_name am) k v C i)) (run_skaled_monitor e am mon)"
  by (rule other.run_keeps [OF refl other.execute_keeps_all [OF refl]])

lemma pipeline_keeps_elsewhere:
  "keeps (dok (elsewhere U (sa_name am) k v C i)) (skaled_pipeline_body e am rec ss ns)"
  by (rule other.pipeline_keeps [OF refl])

text \<open>A cleanup that comes through has removed the container, unless the lookup of the container
  failed with another error than NotFound.\<close>

lemma cleanup_container_gone:
  fixes am defines "x \<equiv> get_container_name SCHAIN_CONTAINER (sa_name am)"
  assumes run: "cleanup_schain_docker_entity_action e am s = (Inr r, s')"
    and found: "\<And>err. containers_get (docker e) x (daemon (wld s)) = Inl err \<Longrightarrow> is_not_found err"
  shows "dok (\<lambda>d. ev_container U x d = None) s'"
proof -
  let ?Q = "\<lambda>d. ev_container U x d = None"
  obtain r1 w1 where w1: "remove_schain_container e (sa_name am) (wld s) = (r1, w1)" by fastforce
  let ?w = "w1\<lparr>clock := clock w1 + SCHAIN_CLEANUP_TIMEOUT\<rparr>"
  obtain r2 w2 where w2: "remove_schain_volume e (sa_name am) ?w = (r2, w2)" by fastforce
  have r1: "r1 = Inr ()" and s': "wld s' = w2"
    using run
    by (auto simp: cleanup_schain_docker_entity_action_def monitor_block_def act_simps w1 w2
        split: sum.splits)
  from safe_rm_gone [OF laws w1 [unfolded r1 remove_schain_container_def]] found
  have "wdok ?Q ?w" by (simp add: wdok_def x_def)
  from keepsD_eq [OF status.remove_schain_volume_keeps this w2] show ?thesis
    by (simp add: wdok_def dok_def s')
qed

text \<open>So the container is gone when the repair comes to start it.\<close>

lemma repair_container_absent:
  fixes am defines "x \<equiv> get_container_name SCHAIN_CONTAINER (sa_name am)"
  assumes run: "act_block [act_drop (in_world (check_exit_code_ok e (sa_checks am))),
       do_action notify_repair_mode_action,
       do_action (cleanup_schain_docker_entity_action e am),
       fix_firewall e am False, fix_volume e am] s = (Inr (), s')"
    and found: "\<And>err. containers_get (docker e) x (daemon (wld s)) = Inl err \<Longrightarrow> is_not_found err"
  shows "dok (\<lambda>d. ev_container U x d = None) s'"
proof -
  let ?Q = "\<lambda>d. ev_container U x d = None"
  let ?pre = "[act_drop (in_world (check_exit_code_ok e (sa_checks am))), do_action notify_repair_mode_action]"
  let ?rest = "[fix_firewall e am False, fix_volume e am]"
  from act_thenD [OF run [unfolded act_block.simps]] obtain s0 where
    s0: "act_drop (in_world (check_exit_code_ok e (sa_checks am))) s = (Inr (), s0)"
    and r0: "act_then (do_action notify_repair_mode_action)
       (act_then (do_action (cleanup_schain_docker_entity_action e am)) (act_block ?rest)) s0 = (Inr (), s')"
    by auto
  from act_thenD [OF r0] obtain s1 where s1: "do_action notify_repair_mode_action s0 = (Inr (), s1)"
    and r1: "act_then (do_action (cleanup_schain_docker_entity_action e am)) (act_block ?rest) s1 = (Inr (), s')"
    by auto
  from act_thenD [OF r1] obtain s2 where s2: "do_action (cleanup_schain_docker_entity_action e am) s1 = (Inr (), s2)"
    and r2: "act_block ?rest s2 = (Inr (), s')"
    by auto
  have same: "dok (\<lambda>d. d = daemon (wld s)) s" by (simp add: dok_def)
  have "keeps (dok (\<lambda>d. d = daemon (wld s))) (act_drop (in_world (check_exit_code_ok e (sa_checks am))))"
    and "keeps (dok (\<lambda>d. d = daemon (wld s))) (do_action notify_repair_mode_action)"
    by (intro keeps_drop dok_intros)+
  from keepsD_eq [OF this(2) keepsD_eq [OF this(1) same s0] s1]
  have "daemon (wld s1) = daemon (wld s)" by (simp add: dok_def)
  moreover from s2 obtain r where "cleanup_schain_docker_entity_action e am s1 = (Inr r, s2)"
    using act_dropD [of "cleanup_schain_docker_entity_action e am" s1 "()" s2]
    by (auto simp: do_action_def)
  ultimately have gone: "dok ?Q s2"
    using cleanup_container_gone [of am s1 r s2] found by (simp add: x_def)
  have "keeps (dok ?Q) (act_block ?rest)"
    by (intro keeps_block) (simp add: dok_intros status.fix_volume_keeps [OF refl])
  from keepsD_eq [OF this gone r2] show ?thesis .
qed

lemma fix_skaled_absent:
  assumes "dok (\<lambda>d. ev_container U (get_container_name SCHAIN_CONTAINER (sk_name (sa_checks am))) d = None) s"
  shows "fix_skaled e am start x s =
    act_then (act_drop (in_world (check_skaled_container e (sa_checks am)))) (do_action start) s"
proof (cases "check_skaled_container e (sa_checks am) (wld s)")
  case (Inr b)
  with check_skaled_container_view(1) [OF laws Inr] assms have "b = False"
    by (simp add: dok_def in_state_def)
  with Inr show ?thesis by (simp add: fix_skaled_def act_simps act_if_def)
qed (simp add: fix_skaled_def act_simps act_if_def)

end

end
