(* ===== verification/Dkg_Encoding.thy ===== *)
theory Dkg_Encoding
  imports "HOL-Library.Word" Json Py_Strings
begin

text \<open>
  The notations of the key generation (\<^verbatim>\<open>core/schains/dkg/client.py\<close>): hexadecimal numbers,
  points of the curve as decimal strings, as one hexadecimal string (SGX and the broadcast
  event) and as the objects of the package \<^verbatim>\<open>skale\<close>; secret key contributions in the order
  of the SGX server and in that of the event; names of keys on the SGX server.

  \<open>G2Point\<close> and \<open>KeyShare\<close> are classes of the package \<^verbatim>\<open>skale\<close>: an object stands for the
  arguments it was made from, which the contract calls (parameters as well) get.
\<close>

section \<open>Hexadecimal numbers\<close>

definition hex_digit :: "nat \<Rightarrow> char" where
  "hex_digit d = ''0123456789abcdef'' ! d"

definition hex_value :: "char \<Rightarrow> nat option" where
  "hex_value c =
     (let k = (of_char c :: nat)
      in if 48 \<le> k \<and> k \<le> 57 then Some (k - 48)
         else if 97 \<le> k \<and> k \<le> 102 then Some (k - 87)
         else if 65 \<le> k \<and> k \<le> 70 then Some (k - 55)
         else None)"

fun hex_of_nat :: "nat \<Rightarrow> string" where
  "hex_of_nat n = (if n < 16 then [hex_digit n]
                   else hex_of_nat (n div 16) @ [hex_digit (n mod 16)])"

declare hex_of_nat.simps [simp del]

text \<open>\<^verbatim>\<open>hex(i)\<close>\<close>

definition py_hex :: "int \<Rightarrow> string" where
  "py_hex i = (if i < 0 then ''-0x'' @ hex_of_nat (nat (- i)) else ''0x'' @ hex_of_nat (nat i))"

definition nat_of_hex :: "string \<Rightarrow> nat" where
  "nat_of_hex s = foldl (\<lambda>n c. 16 * n + (case hex_value c of Some d \<Rightarrow> d | None \<Rightarrow> 0)) 0 s"

definition is_hex :: "char \<Rightarrow> bool" where
  "is_hex c = (hex_value c \<noteq> None)"

text \<open>\<^verbatim>\<open>int(s, 16)\<close> for a string of hexadecimal digits, which is all that event data and keys
  hold (Python also reads a sign, the prefix \<^verbatim>\<open>0x\<close>, underscores and blanks).\<close>

definition parse_hex :: "string \<Rightarrow> int res" where
  "parse_hex s =
     (if s \<noteq> [] \<and> list_all is_hex s then Inr (int (nat_of_hex s)) else Inl (ValueError s))"

text \<open>\<^verbatim>\<open>bytes.fromhex(s)\<close>\<close>

fun bytes_fromhex :: "string \<Rightarrow> 8 word list res" where
  "bytes_fromhex [] = Inr []"
| "bytes_fromhex [c] = Inl (ValueError [c])"
| "bytes_fromhex (c # d # s) =
     (case (hex_value c, hex_value d) of
        (Some a, Some b) \<Rightarrow>
          res_bind (bytes_fromhex s) (\<lambda>bs. Inr (word_of_nat (16 * a + b) # bs))
      | _ \<Rightarrow> Inl (ValueError (c # d # s)))"

lemma hex_value_digit [simp]: "d < 16 \<Longrightarrow> hex_value (hex_digit d) = Some d"
proof -
  assume "d < 16"
  then have "d \<in> set [0..<16]" by simp
  moreover have "\<forall>d \<in> set [0..<16]. hex_value (hex_digit d) = Some d" by code_simp
  ultimately show ?thesis by blast
qed

lemma is_hex_digit [simp]: "d < 16 \<Longrightarrow> is_hex (hex_digit d)"
  by (simp add: is_hex_def)

lemma nat_of_hex_snoc:
  "nat_of_hex (s @ [c]) = 16 * nat_of_hex s + (case hex_value c of Some d \<Rightarrow> d | None \<Rightarrow> 0)"
  by (simp add: nat_of_hex_def)

lemma nat_of_hex_of_nat [simp]: "nat_of_hex (hex_of_nat n) = n"
proof (induction n rule: hex_of_nat.induct)
  case (1 n)
  then show ?case
    by (subst hex_of_nat.simps) (simp add: nat_of_hex_snoc, simp add: nat_of_hex_def)
qed

lemma hex_of_nat_is_hex: "list_all is_hex (hex_of_nat n)"
proof (induction n rule: hex_of_nat.induct)
  case (1 n)
  then show ?case by (subst hex_of_nat.simps) simp
qed

lemma hex_of_nat_Nil [simp]: "hex_of_nat n \<noteq> []"
  by (subst hex_of_nat.simps) simp

lemma length_hex_of_nat: "n < 16 ^ Suc k \<Longrightarrow> length (hex_of_nat n) \<le> Suc k"
proof (induction k arbitrary: n)
  case 0
  then show ?case by (subst hex_of_nat.simps) simp
next
  case (Suc k)
  have "n div 16 < 16 ^ Suc k" using Suc.prems by (simp add: less_mult_imp_div_less mult.commute)
  with Suc.IH [of "n div 16"] show ?case by (subst hex_of_nat.simps) simp
qed

lemma nat_of_hex_zeros [simp]: "nat_of_hex (replicate k CHR ''0'' @ s) = nat_of_hex s"
proof -
  have "hex_value CHR ''0'' = Some 0" by code_simp
  then have "foldl (\<lambda>n c. 16 * n + (case hex_value c of Some d \<Rightarrow> d | None \<Rightarrow> 0)) 0
               (replicate k CHR ''0'') = (0::nat)"
    by (induction k) simp_all
  then show ?thesis by (simp add: nat_of_hex_def)
qed

section \<open>Points\<close>

text \<open>A verification vector, as the client holds it: a hexadecimal string (also the initial
  \<^verbatim>\<open>'0'\<close>), or a list of points with decimal coordinates.\<close>

datatype vv = VHex string | VPoints "string list list"

datatype g2_point = G2Point int int int int

fun make_g2_point :: "int list \<Rightarrow> g2_point res" where
  "make_g2_point [a, b, c, d] = Inr (G2Point a b c d)"
| "make_g2_point _ = Inl (TypeError ''G2Point'')"

text \<open>What \<^verbatim>\<open>for point in data\<close> and \<^verbatim>\<open>for coord in point\<close> run over: a string is iterated by
  characters, and a character is a string of one character.\<close>

fun vv_points :: "vv \<Rightarrow> string list list" where
  "vv_points (VPoints ps) = ps"
| "vv_points (VHex s) = map (\<lambda>c. [[c]]) s"

definition convert_g2_points_to_array :: "vv \<Rightarrow> g2_point list res" where
  "convert_g2_points_to_array data =
     res_map (\<lambda>point. res_bind (res_map int_of_str point) make_g2_point) (vv_points data)"

function pad_zeros :: "string \<Rightarrow> string" where
  "pad_zeros temp = (if length temp < 64 then pad_zeros (CHR ''0'' # temp) else temp)"
  by pat_completeness auto
termination by (relation "measure (\<lambda>temp. 64 - length temp)") auto

declare pad_zeros.simps [simp del]

definition convert_g2_point_to_hex :: "string list \<Rightarrow> string res" where
  "convert_g2_point_to_hex data =
     res_bind (res_map (\<lambda>coord. res_bind (int_of_str coord) (\<lambda>i.
        Inr (pad_zeros (drop 2 (py_hex i))))) data) (\<lambda>hs. Inr (concat hs))"

definition convert_g2_array_to_hex :: "vv \<Rightarrow> string res" where
  "convert_g2_array_to_hex data =
     res_bind (res_map convert_g2_point_to_hex (vv_points data)) (\<lambda>hs. Inr (concat hs))"

function convert_hex_to_g2_array :: "string \<Rightarrow> string list list res" where
  "convert_hex_to_g2_array data =
     (if data = [] then Inr []
      else let cur = take 256 data
           in res_bind (res_map (\<lambda>i. res_bind (parse_hex (slice cur (64 * i) (64 * i + 64)))
                                       (\<lambda>x. Inr (str_of_int x))) [0, 1, 2, 3]) (\<lambda>point.
              res_bind (convert_hex_to_g2_array (drop 256 data)) (\<lambda>rest. Inr (point # rest))))"
  by pat_completeness auto
termination by (relation "measure length") auto

declare convert_hex_to_g2_array.simps [simp del]

lemma pad_zeros_eq: "pad_zeros s = replicate (64 - length s) CHR ''0'' @ s"
proof (induction s rule: pad_zeros.induct)
  case (1 s)
  show ?case
  proof (cases "length s < 64")
    case True
    with 1 have "pad_zeros s = replicate (63 - length s) CHR ''0'' @ CHR ''0'' # s"
      by (subst pad_zeros.simps) simp
    also have "\<dots> = replicate (Suc (63 - length s)) CHR ''0'' @ s"
      by (simp add: replicate_app_Cons_same)
    also have "Suc (63 - length s) = 64 - length s" using True by simp
    finally show ?thesis .
  next
    case False
    then show ?thesis by (subst pad_zeros.simps) simp
  qed
qed

lemma drop_py_hex: "0 \<le> i \<Longrightarrow> drop 2 (py_hex i) = hex_of_nat (nat i)"
  by (simp add: py_hex_def)

text \<open>A coordinate of the curve's field, as 64 hexadecimal digits.\<close>

definition hex64 :: "int \<Rightarrow> string" where
  "hex64 i = pad_zeros (hex_of_nat (nat i))"

lemma length_hex64:
  assumes "i < 2 ^ 256"
  shows "length (hex64 i) = 64"
proof -
  have "nat i < 16 ^ Suc 63" using assms by (simp add: nat_less_iff)
  from length_hex_of_nat [OF this] show ?thesis by (simp add: hex64_def pad_zeros_eq)
qed

lemma parse_hex64: "0 \<le> i \<Longrightarrow> parse_hex (hex64 i) = Inr i"
proof -
  have "is_hex CHR ''0''" by code_simp
  moreover assume "0 \<le> i"
  ultimately show ?thesis
    using hex_of_nat_is_hex [of "nat i"]
    by (auto simp: parse_hex_def hex64_def pad_zeros_eq list_all_iff)
qed

lemma convert_g2_point_to_hex_ints:
  assumes "\<And>i. i \<in> set is \<Longrightarrow> 0 \<le> i"
  shows "convert_g2_point_to_hex (map str_of_int is) = Inr (concat (map hex64 is))"
proof -
  have "res_map (\<lambda>coord. res_bind (int_of_str coord) (\<lambda>i. Inr (pad_zeros (drop 2 (py_hex i)))))
          (map str_of_int is) = Inr (map hex64 is)"
    using assms by (induction "is") (simp_all add: drop_py_hex hex64_def)
  then show ?thesis by (simp add: convert_g2_point_to_hex_def)
qed

definition field_point :: "int list \<Rightarrow> bool" where
  "field_point p = (length p = 4 \<and> list_all (\<lambda>i. 0 \<le> i \<and> i < 2 ^ 256) p)"

lemma field_pointE:
  assumes "field_point p"
  obtains a b c d where "p = [a, b, c, d]" "\<forall>i \<in> {a, b, c, d}. 0 \<le> i \<and> i < 2 ^ 256"
  using assms by (auto simp: field_point_def numeral_eq_Suc length_Suc_conv)

lemma convert_hex_to_g2_array_step:
  assumes "field_point p"
  shows "convert_hex_to_g2_array (concat (map hex64 p) @ s) =
    res_bind (convert_hex_to_g2_array s) (\<lambda>rest. Inr (map str_of_int p # rest))"
proof -
  obtain a b c d where p: "p = [a, b, c, d]"
    and f: "\<forall>i \<in> {a, b, c, d}. 0 \<le> i \<and> i < 2 ^ 256"
    using assms by (rule field_pointE)
  have l: "length (hex64 a) = 64" "length (hex64 b) = 64" "length (hex64 c) = 64"
    "length (hex64 d) = 64"
    using f by (simp_all add: length_hex64)
  have ne: "hex64 a \<noteq> []" using l(1) by (metis list.size(3) zero_neq_numeral)
  show ?thesis
    using f l ne by (subst convert_hex_to_g2_array.simps)
      (simp add: p slice_def Let_def parse_hex64)
qed

lemma g2_hex_inverse:
  assumes "\<And>p. p \<in> set ps \<Longrightarrow> field_point p"
  shows "\<exists>h. convert_g2_array_to_hex (VPoints (map (map str_of_int) ps)) = Inr h \<and>
    length h = 256 * length ps \<and>
    convert_hex_to_g2_array h = Inr (map (map str_of_int) ps)"
proof -
  let ?h = "concat (map (\<lambda>p. concat (map hex64 p)) ps)"
  have "res_map convert_g2_point_to_hex (map (map str_of_int) ps) =
        Inr (map (\<lambda>p. concat (map hex64 p)) ps)"
    using assms
  proof (induction ps)
    case (Cons p ps)
    then have "\<And>i. i \<in> set p \<Longrightarrow> 0 \<le> i" by (auto simp: field_point_def list_all_iff)
    with Cons show ?case by (simp add: convert_g2_point_to_hex_ints)
  qed simp
  then have "convert_g2_array_to_hex (VPoints (map (map str_of_int) ps)) = Inr ?h"
    by (simp add: convert_g2_array_to_hex_def)
  moreover have "length ?h = 256 * length ps \<and>
      convert_hex_to_g2_array ?h = Inr (map (map str_of_int) ps)"
    using assms
  proof (induction ps)
    case Nil
    then show ?case by (simp add: convert_hex_to_g2_array.simps)
  next
    case (Cons p ps)
    then have "field_point p" by simp
    moreover from this have "length (concat (map hex64 p)) = 256"
      by (elim field_pointE) (simp add: length_hex64)
    ultimately show ?case using Cons by (simp add: convert_hex_to_g2_array_step)
  qed
  ultimately show ?thesis by blast
qed

section \<open>Secret key contributions\<close>

datatype key_share = KeyShare string "8 word list"

definition to_verify :: "string \<Rightarrow> string" where
  "to_verify share = slice share 128 192 @ take 128 share"

definition convert_str_to_key_share :: "string \<Rightarrow> nat \<Rightarrow> key_share list res" where
  "convert_str_to_key_share sent_secret_key_contribution n =
     res_map (\<lambda>i.
       let public_key = slice sent_secret_key_contribution (i * 192 + 64) ((i + 1) * 192)
       in res_bind (bytes_fromhex (slice sent_secret_key_contribution (i * 192) (i * 192 + 64)))
            (\<lambda>key_share. Inr (KeyShare public_key key_share))) [0..<n]"

definition convert_key_share_to_str :: "string \<Rightarrow> nat \<Rightarrow> string" where
  "convert_key_share_to_str data n =
     concat (map to_verify (map (\<lambda>i. slice data (i * 192) ((i + 1) * 192)) [0..<n]))"

lemma slice_append:
  "length xs = k \<Longrightarrow> slice (xs @ ys) (k + a) (k + b) = slice ys a b"
  by (simp add: slice_def)

lemma slice_append_left: "b \<le> length xs \<Longrightarrow> slice (xs @ ys) a b = slice xs a b"
  by (simp add: slice_def)

lemma length_concat_blocks:
  "(\<And>b. b \<in> set bs \<Longrightarrow> length b = m) \<Longrightarrow> length (concat bs) = length bs * m"
  by (induction bs) simp_all

lemma slice_blocks:
  assumes "\<And>b. b \<in> set bs \<Longrightarrow> length b = m" and "i < length bs" and "b \<le> m"
  shows "slice (concat bs) (i * m + a) (i * m + b) = slice (bs ! i) a b"
proof -
  have "concat bs = concat (take i bs) @ bs ! i @ concat (drop (Suc i) bs)"
    using assms(2) by (metis concat.simps(2) concat_append id_take_nth_drop)
  moreover have "length (concat (take i bs)) = i * m"
    using assms(1,2) length_concat_blocks [of "take i bs" m] by (auto dest: in_set_takeD)
  ultimately show ?thesis
    using assms by (simp add: slice_append slice_append_left)
qed

lemma convert_key_share_to_str_blocks:
  assumes "\<And>b. b \<in> set bs \<Longrightarrow> length b = 192"
  shows "convert_key_share_to_str (concat bs) (length bs) = concat (map to_verify bs)"
proof -
  have "slice (concat bs) (i * 192) ((i + 1) * 192) = bs ! i" if "i < length bs" for i
  proof -
    have "slice (concat bs) (i * 192 + 0) (i * 192 + 192) = slice (bs ! i) 0 192"
      by (rule slice_blocks [OF assms that]) simp_all
    also have "\<dots> = bs ! i" using assms that by (simp add: slice_def)
    finally show ?thesis by (simp add: add.commute)
  qed
  then have "map (\<lambda>i. slice (concat bs) (i * 192) ((i + 1) * 192)) [0..<length bs] = bs"
    by (intro nth_equalityI) simp_all
  then show ?thesis by (simp only: convert_key_share_to_str_def)
qed

lemma res_map_upt_cong:
  "(\<And>i. i < length xs \<Longrightarrow> f i = g (xs ! i)) \<Longrightarrow> res_map f [0..<length xs] = res_map g xs"
proof (induction xs arbitrary: f)
  case (Cons x xs)
  have "res_map f [0..<length (x # xs)] = res_bind (f 0) (\<lambda>y.
      res_bind (res_map (\<lambda>i. f (Suc i)) [0..<length xs]) (\<lambda>ys. Inr (y # ys)))"
  proof -
    have "res_map f (map Suc is) = res_map (\<lambda>i. f (Suc i)) is" for "is"
      by (induction "is") simp_all
    then show ?thesis
      by (simp add: upt_conv_Cons map_Suc_upt [symmetric] del: upt_Suc)
  qed
  moreover have "res_map (\<lambda>i. f (Suc i)) [0..<length xs] = res_map g xs"
    using Cons.prems by (intro Cons.IH) force
  ultimately show ?case using Cons.prems [of 0] by simp
qed simp

lemma convert_str_to_key_share_blocks:
  assumes "\<And>b. b \<in> set bs \<Longrightarrow> length b = 192"
  shows "convert_str_to_key_share (concat bs) (length bs) =
    res_map (\<lambda>b. res_bind (bytes_fromhex (take 64 b)) (\<lambda>k. Inr (KeyShare (drop 64 b) k))) bs"
  unfolding convert_str_to_key_share_def
proof (rule res_map_upt_cong)
  fix i assume i: "i < length bs"
  then have l: "length (bs ! i) = 192" using assms by simp
  have "slice (concat bs) (i * 192 + 64) (i * 192 + 192) = slice (bs ! i) 64 192"
    "slice (concat bs) (i * 192 + 0) (i * 192 + 64) = slice (bs ! i) 0 64"
    by (rule slice_blocks [OF assms i]; simp)+
  then show "(let public_key = slice (concat bs) (i * 192 + 64) ((i + 1) * 192)
     in res_bind (bytes_fromhex (slice (concat bs) (i * 192) (i * 192 + 64)))
          (\<lambda>key_share. Inr (KeyShare public_key key_share))) =
     res_bind (bytes_fromhex (take 64 (bs ! i))) (\<lambda>k. Inr (KeyShare (drop 64 (bs ! i)) k))"
    using l by (simp add: slice_def add.commute)
qed

lemma bytes_fromhex_Inr:
  "even (length s) \<Longrightarrow> list_all is_hex s \<Longrightarrow>
   \<exists>bs. bytes_fromhex s = Inr bs \<and> length bs = length s div 2"
proof (induction s rule: bytes_fromhex.induct)
  case (3 c d s)
  then obtain a b where v: "hex_value c = Some a" "hex_value d = Some b" by (auto simp: is_hex_def)
  with 3 obtain bs where "bytes_fromhex s = Inr bs" "length bs = length s div 2" by force
  with v show ?case by simp
qed simp_all

section \<open>Names of keys on the SGX server\<close>

definition generate_poly_name :: "string \<Rightarrow> nat \<Rightarrow> int \<Rightarrow> string" where
  "generate_poly_name group_index_str node_id dkg_id =
     ''POLY:SCHAIN_ID:'' @ group_index_str @ '':NODE_ID:'' @ str_of_nat node_id @
     '':DKG_ID:'' @ str_of_int dkg_id"

definition generate_bls_key_name :: "string \<Rightarrow> nat \<Rightarrow> int \<Rightarrow> string" where
  "generate_bls_key_name group_index_str node_id dkg_id =
     ''BLS_KEY:SCHAIN_ID:'' @ group_index_str @ '':NODE_ID:'' @ str_of_nat node_id @
     '':DKG_ID:'' @ str_of_int dkg_id"

lemma colon_not_in_int: "CHR '':'' \<notin> set (str_of_int i)"
proof -
  have "\<not> is_digit CHR '':''" by code_simp
  then show ?thesis by (auto simp: str_of_int_def dest: str_of_nat_no_char)
qed

lemma colon_not_in_nat: "CHR '':'' \<notin> set (str_of_nat n)"
  using colon_not_in_int [of "int n"] by (simp add: str_of_int_def)

lemma key_name_fields:
  assumes "CHR '':'' \<notin> set p"
  shows "split_on CHR '':'' (p @ '':SCHAIN_ID:'' @ str_of_int g @ '':NODE_ID:'' @ str_of_nat m @
      '':DKG_ID:'' @ str_of_int k) =
    [p, ''SCHAIN_ID'', str_of_int g, ''NODE_ID'', str_of_nat m, ''DKG_ID'', str_of_int k]"
proof -
  let ?ws = "[p, ''SCHAIN_ID'', str_of_int g, ''NODE_ID'', str_of_nat m, ''DKG_ID'', str_of_int k]"
  have "split_on CHR '':'' (join '':'' ?ws) = ?ws"
    using assms colon_not_in_int colon_not_in_nat by (intro split_join) auto
  then show ?thesis by simp
qed

lemma poly_name_fields:
  "split_on CHR '':'' (generate_poly_name (str_of_int g) m k) =
    [''POLY'', ''SCHAIN_ID'', str_of_int g, ''NODE_ID'', str_of_nat m, ''DKG_ID'', str_of_int k]"
  using key_name_fields [of "''POLY''" g m k] by (simp add: generate_poly_name_def)

lemma bls_key_name_fields:
  "split_on CHR '':'' (generate_bls_key_name (str_of_int g) m k) =
    [''BLS_KEY'', ''SCHAIN_ID'', str_of_int g, ''NODE_ID'', str_of_nat m, ''DKG_ID'', str_of_int k]"
  using key_name_fields [of "''BLS_KEY''" g m k] by (simp add: generate_bls_key_name_def)

lemma str_of_int_inject [simp]: "str_of_int i = str_of_int j \<longleftrightarrow> i = j"
  by (metis int_of_str_of_int sum.inject(2))

end
