(* ===== verification/Dkg_Network.thy ===== *)
theory Dkg_Network
  imports Dkg_Encoding Dkg_Structures
begin

text \<open>
  What the key generation talks to, and how it reads the chain's broadcasts.

  \<open>dkg_api\<close> is the record of the third-party calls: the contracts and the web3 client of
  the package \<^verbatim>\<open>skale\<close> (\<open>dkg_\<dots>\<close>, \<open>w3_\<dots>\<close>), the SGX server of the package \<^verbatim>\<open>sgx\<close>
  (\<open>sgx_\<dots>\<close>) and \<^verbatim>\<open>time.sleep\<close>. All of them work on one opaque state \<open>'c\<close>, the network and
  the servers: every call may find that others have acted since the last one, so a call is a
  statement over \<open>'c\<close> and may raise.

  The second part is \<^verbatim>\<open>core/schains/dkg/broadcast_filter.py\<close>.
\<close>

section \<open>Third-party calls\<close>

text \<open>\<^verbatim>\<open>HexBytes\<close> values are lists of bytes; \<open>hexbytes_hex\<close> is their method \<^verbatim>\<open>hex\<close>. Absent
  keys of a dictionary are None.\<close>

type_synonym hexbytes = "8 word list"

record dkg_log =
  lg_topics :: "hexbytes list option"
  lg_data :: "hexbytes option"

record dkg_receipt =
  rcp_logs :: "dkg_log list option"

record dkg_tx =
  tx_to :: "string option"
  tx_hash :: "string option"

record dkg_node =
  dn_id :: int
  dn_publicKey :: string

record complaint_response_data =
  cr_share :: string
  cr_dh_key :: string
  cr_verification_vector_mult :: vv

record 'c dkg_api =
  api_sleep :: "nat \<Rightarrow> ('c, unit) act"
  name_to_group_id :: "string \<Rightarrow> hexbytes"
  w3_to_hex :: "hexbytes \<Rightarrow> string"
  w3_keccak :: "string \<Rightarrow> hexbytes"
  hexbytes_hex :: "hexbytes \<Rightarrow> string"
  w3_latest_timestamp :: "('c, int) act"
  w3_latest_number :: "('c, int) act"
  w3_block_transactions :: "int \<Rightarrow> ('c, dkg_tx list) act"
  w3_transaction_receipt :: "string \<Rightarrow> ('c, dkg_receipt) act"
  dkg_address :: string
  dkg_nodes_for_schain :: "string \<Rightarrow> ('c, dkg_node option list) act"
  dkg_rotation_counter :: "string \<Rightarrow> ('c, int) act"
  dkg_get_dkg_timeout :: "('c, int) act"
  dkg_channel_started_block :: "hexbytes \<Rightarrow> ('c, int) act"
  dkg_channel_started_time :: "hexbytes \<Rightarrow> ('c, int) act"
  dkg_alright_started_time :: "hexbytes \<Rightarrow> ('c, int) act"
  dkg_is_channel_opened :: "hexbytes \<Rightarrow> ('c, bool) act"
  dkg_last_successful :: "hexbytes \<Rightarrow> ('c, bool) act"
  dkg_time_of_last_successful :: "hexbytes \<Rightarrow> ('c, int) act"
  dkg_node_broadcasted :: "hexbytes \<Rightarrow> int \<Rightarrow> ('c, bool) act"
  dkg_broadcast_possible :: "hexbytes \<Rightarrow> int \<Rightarrow> ('c, bool) act"
  dkg_alright_possible :: "hexbytes \<Rightarrow> int \<Rightarrow> ('c, bool) act"
  dkg_complaint_possible :: "hexbytes \<Rightarrow> int \<Rightarrow> int \<Rightarrow> ('c, bool) act"
  dkg_pre_response_possible :: "hexbytes \<Rightarrow> int \<Rightarrow> ('c, bool) act"
  dkg_response_possible :: "hexbytes \<Rightarrow> int \<Rightarrow> ('c, bool) act"
  dkg_all_data_received :: "hexbytes \<Rightarrow> int \<Rightarrow> ('c, bool) act"
  dkg_everyone_broadcasted :: "hexbytes \<Rightarrow> ('c, bool) act"
  dkg_number_of_completed :: "hexbytes \<Rightarrow> ('c, int) act"
  dkg_complaint_data :: "hexbytes \<Rightarrow> ('c, int \<times> int) act"
  dkg_common_public_key :: "hexbytes \<Rightarrow> ('c, json list list) act"
  dkg_send_broadcast ::
    "hexbytes \<Rightarrow> int \<Rightarrow> g2_point list \<Rightarrow> key_share list \<Rightarrow> int \<Rightarrow> ('c, unit) act"
  dkg_send_alright :: "hexbytes \<Rightarrow> int \<Rightarrow> ('c, unit) act"
  dkg_send_complaint :: "hexbytes \<Rightarrow> int \<Rightarrow> int \<Rightarrow> ('c, dkg_receipt) act"
  dkg_send_complaint_bad_data :: "hexbytes \<Rightarrow> int \<Rightarrow> int \<Rightarrow> ('c, dkg_receipt) act"
  dkg_send_pre_response ::
    "hexbytes \<Rightarrow> int \<Rightarrow> g2_point list \<Rightarrow> g2_point list \<Rightarrow> key_share list \<Rightarrow> ('c, unit) act"
  dkg_send_response :: "hexbytes \<Rightarrow> int \<Rightarrow> int \<Rightarrow> g2_point \<Rightarrow> ('c, unit) act"
  sgx_generate_dkg_poly :: "string \<Rightarrow> ('c, bool) act"
  sgx_get_verification_vector :: "string \<Rightarrow> ('c, vv) act"
  sgx_get_secret_key_contribution_v2 :: "string \<Rightarrow> string list \<Rightarrow> ('c, string) act"
  sgx_verify_secret_share_v2 :: "vv \<Rightarrow> string \<Rightarrow> string \<Rightarrow> nat \<Rightarrow> ('c, bool) act"
  sgx_get_bls_public_key :: "string \<Rightarrow> ('c, string list) act"
  sgx_create_bls_private_key_v2 :: "string \<Rightarrow> string \<Rightarrow> string \<Rightarrow> string \<Rightarrow> ('c, unit) act"
  sgx_complaint_response :: "string \<Rightarrow> nat \<Rightarrow> ('c, complaint_response_data) act"
  sgx_calculate_all_bls_public_keys :: "vv list \<Rightarrow> ('c, string list) act"

section \<open>Exceptions of the key generation\<close>

text \<open>The class \<^verbatim>\<open>DkgError\<close> and its subclasses; \<^verbatim>\<open>ValueError\<close> and its subclass;
  \<^verbatim>\<open>Web3Exception\<close> and its subclass.\<close>

fun is_dkg_error :: "exn \<Rightarrow> bool" where
  "is_dkg_error (DkgError _) = True"
| "is_dkg_error (DkgVerificationError _) = True"
| "is_dkg_error (DkgTransactionError _) = True"
| "is_dkg_error (DkgFailedError _) = True"
| "is_dkg_error (SgxDkgPolynomGenerationError _) = True"
| "is_dkg_error (DKGKeyGenerationError _) = True"
| "is_dkg_error _ = False"

fun is_value_error :: "exn \<Rightarrow> bool" where
  "is_value_error (ValueError _) = True"
| "is_value_error (JSONDecodeError _) = True"
| "is_value_error _ = False"

fun is_web3_exception :: "exn \<Rightarrow> bool" where
  "is_web3_exception (Web3Exception _) = True"
| "is_web3_exception (TransactionNotFound _) = True"
| "is_web3_exception _ = False"

fun is_transaction_not_found :: "exn \<Rightarrow> bool" where
  "is_transaction_not_found (TransactionNotFound _) = True"
| "is_transaction_not_found _ = False"

text \<open>\<^verbatim>\<open>xs[i]\<close> on a list and \<^verbatim>\<open>d[k]\<close> on a dictionary.\<close>

definition list_item :: "'a list \<Rightarrow> nat \<Rightarrow> 'a res" where
  "list_item xs i = (if i < length xs then Inr (xs ! i) else Inl IndexError)"

definition dict_item :: "('k, 'v) table \<Rightarrow> 'k \<Rightarrow> 'v res" where
  "dict_item d k = (case tab_get d k of Some v \<Rightarrow> Inr v | None \<Rightarrow> Inl (KeyError ''key''))"

text \<open>\<^verbatim>\<open>try: m except E: h\<close> for the exceptions of a class.\<close>

definition act_except :: "('s, 'a) act \<Rightarrow> (exn \<Rightarrow> bool) \<Rightarrow> (exn \<Rightarrow> ('s, 'a) act) \<Rightarrow> ('s, 'a) act" where
  "act_except m cls h = act_try m (\<lambda>e. if cls e then h e else act_raise e)"

definition act_lift :: "'a res \<Rightarrow> ('s, 'a) act" where
  "act_lift r = (\<lambda>s. (r, s))"

section \<open>The broadcast filter\<close>

record dkg_event =
  nodeIndex :: int
  secretKeyContribution :: string
  verificationVector :: string

record dkg_filter =
  flt_group_index :: hexbytes
  flt_group_index_str :: string
  first_unseen_block :: int
  flt_n :: nat
  flt_t :: nat

definition event_hash :: string where
  "event_hash = ''0x47e57a213b52c1c14550e5456a6dcdbf44bb6e87c0832fdde78d996977e6904d''"

definition make_filter :: "'c dkg_api \<Rightarrow> string \<Rightarrow> nat \<Rightarrow> dkg_filter" where
  "make_filter a schain_name n =
     (let group_index = w3_keccak a schain_name
      in \<lparr>flt_group_index = group_index, flt_group_index_str = w3_to_hex a group_index,
          first_unseen_block = -1, flt_n = n, flt_t = (2 * n + 1) div 3\<rparr>)"

definition check_event :: "'c dkg_api \<Rightarrow> dkg_filter \<Rightarrow> dkg_receipt \<Rightarrow> bool" where
  "check_event a f receipt =
     (case rcp_logs receipt of
        None \<Rightarrow> False
      | Some [] \<Rightarrow> False
      | Some (lg # _) \<Rightarrow>
          (case lg_topics lg of
             None \<Rightarrow> False
           | Some [] \<Rightarrow> False
           | Some [_] \<Rightarrow> False
           | Some (t0 # t1 # _) \<Rightarrow>
               if hexbytes_hex a t0 \<noteq> event_hash then False
               else if hexbytes_hex a t1 \<noteq> flt_group_index_str f then False
               else (case lg_data lg of None \<Rightarrow> False | Some d \<Rightarrow> d \<noteq> [])))"

text \<open>The offsets of the event's data: three words of 64 digits, the verification vector of
  \<open>t\<close> points of 256 digits, one word, the contributions of \<open>n\<close> times 192 digits. Called on a
  receipt that \<open>check_event\<close> accepts, so the first log and its data are there; a third topic
  may be missing.\<close>

definition parse_event :: "'c dkg_api \<Rightarrow> dkg_filter \<Rightarrow> dkg_receipt \<Rightarrow> dkg_event res" where
  "parse_event a f receipt =
     (case rcp_logs receipt of
        Some (lg # _) \<Rightarrow>
          (case (lg_data lg, lg_topics lg) of
             (Some d, Some topics) \<Rightarrow>
               (let event_data = drop 2 (hexbytes_hex a d)
                in res_bind (list_item topics 2) (\<lambda>t2.
                   res_bind (parse_hex (drop 2 (hexbytes_hex a t2))) (\<lambda>node_index.
                     let vv = slice event_data 192 (192 + flt_t f * 256);
                         skc = slice event_data (192 + 64 + flt_t f * 256)
                                 (192 + 64 + flt_t f * 256 + 192 * flt_n f)
                     in Inr \<lparr>nodeIndex = node_index, secretKeyContribution = skc,
                             verificationVector = vv\<rparr>)))
           | _ \<Rightarrow> Inl (KeyError ''data''))
      | Some [] \<Rightarrow> Inl IndexError
      | None \<Rightarrow> Inl (KeyError ''logs''))"

text \<open>The state of \<^verbatim>\<open>get_events\<close>: the network, the list of events so far, the filter.\<close>

record 'c scan =
  sc_net :: 'c
  sc_events :: "dkg_event list"
  sc_filter :: dkg_filter

definition on_sc_net :: "('c, 'a) act \<Rightarrow> ('c scan, 'a) act" where
  "on_sc_net m = (\<lambda>s. case m (sc_net s) of (r, c') \<Rightarrow> (r, s\<lparr>sc_net := c'\<rparr>))"

definition scan_tx :: "'c dkg_api \<Rightarrow> dkg_filter \<Rightarrow> dkg_tx \<Rightarrow> ('c scan, unit) act" where
  "scan_tx a f tx =
     act_except
       (if tx_to tx \<noteq> Some (dkg_address a) then act_return ()
        else case tx_hash tx of
            None \<Rightarrow> act_return ()
          | Some h \<Rightarrow>
              if h = [] then act_return ()
              else act_bind (on_sc_net (w3_transaction_receipt a h)) (\<lambda>receipt.
                   if \<not> check_event a f receipt then act_return ()
                   else act_bind (act_lift (parse_event a f receipt)) (\<lambda>ev.
                        act_modify (\<lambda>s. s\<lparr>sc_events := sc_events s @ [ev]\<rparr>))))
       is_transaction_not_found (\<lambda>_. act_return ())"

definition scan_block :: "'c dkg_api \<Rightarrow> dkg_filter \<Rightarrow> int \<Rightarrow> ('c scan, unit) act" where
  "scan_block a f block_number =
     act_bind (on_sc_net (w3_block_transactions a block_number)) (\<lambda>txns.
     act_then (act_for txns (scan_tx a f))
       (act_modify (\<lambda>s. s\<lparr>sc_filter := (sc_filter s)\<lparr>first_unseen_block := block_number + 1\<rparr>\<rparr>)))"

definition scan_blocks :: "'c dkg_api \<Rightarrow> bool \<Rightarrow> dkg_filter \<Rightarrow> ('c scan, unit) act" where
  "scan_blocks a from_channel_started_block f =
     act_bind (if first_unseen_block f = -1 \<or> from_channel_started_block
               then on_sc_net (dkg_channel_started_block a (flt_group_index f))
               else act_return (first_unseen_block f)) (\<lambda>start_block.
     act_bind (on_sc_net (w3_latest_number a)) (\<lambda>current_block.
       act_for [start_block..current_block] (scan_block a f)))"

text \<open>The events found and the filter after it; an error of the connection ends the search
  with what it has found.\<close>

definition get_events ::
  "'c dkg_api \<Rightarrow> bool \<Rightarrow> dkg_filter \<Rightarrow> ('c, dkg_event list \<times> dkg_filter) act" where
  "get_events a from_channel_started_block f =
     (\<lambda>c. case act_except (scan_blocks a from_channel_started_block f)
                 (\<lambda>e. is_value_error e \<or> is_web3_exception e) (\<lambda>_. act_return ())
                 \<lparr>sc_net = c, sc_events = [], sc_filter = f\<rparr> of
        (Inl e, s) \<Rightarrow> (Inl e, sc_net s)
      | (Inr _, s) \<Rightarrow> (Inr (sc_events s, sc_filter s), sc_net s))"

lemma act_except_eval [act_simps]:
  "act_except m cls h s =
     (case m s of (Inl e, s') \<Rightarrow> if cls e then h e s' else (Inl e, s') | (Inr a, s') \<Rightarrow> (Inr a, s'))"
  by (simp add: act_except_def act_simps split: prod.split sum.split)

lemma act_lift_eval [act_simps]: "act_lift r s = (r, s)"
  by (simp add: act_lift_def)

lemma on_sc_net_eval [act_simps]:
  "on_sc_net m s = (case m (sc_net s) of (r, c') \<Rightarrow> (r, s\<lparr>sc_net := c'\<rparr>))"
  by (simp add: on_sc_net_def)

lemma keeps_except [keeps_intros]:
  "keeps P m \<Longrightarrow> (\<And>e. cls e \<Longrightarrow> keeps P (h e)) \<Longrightarrow> keeps P (act_except m cls h)"
  unfolding act_except_def by (intro keeps_intros) auto

lemma keeps_lift [keeps_intros]: "keeps P (act_lift r)"
  by (simp add: keeps_def act_simps)

lemma list_item_Inr: "list_item xs i = Inr x \<longleftrightarrow> i < length xs \<and> x = xs ! i"
  by (auto simp: list_item_def)

lemma dict_item_Inr: "dict_item d k = Inr v \<longleftrightarrow> tab_get d k = Some v"
  by (auto simp: dict_item_def split: option.split)

end
