(* ===== verification/Dkg_Client.thy ===== *)
theory Dkg_Client
  imports Dkg_Network
begin

text \<open>
  \<^verbatim>\<open>core/schains/dkg/client.py\<close>: the client of one node in the key generation of one chain.
  \<open>dkg_client\<close> holds its attributes; \<open>'c run\<close> is the network together with the client,
  which its methods change in place. \<open>sgx_unreachable_retry\<close> (\<^verbatim>\<open>tools/sgx_utils.py\<close>) runs a
  method again while the SGX server is unreachable. The metrics client and the logging are
  left out.
\<close>

section \<open>The client\<close>

record dkg_client =
  cl_schain_name :: string
  cl_group_index :: hexbytes
  cl_node_id_contract :: int
  cl_node_id_dkg :: nat
  cl_t :: nat
  cl_n :: nat
  cl_eth_key_name :: string
  cl_poly_name :: string
  cl_bls_name :: string
  cl_rotation_id :: int
  cl_incoming_verification_vector :: "vv list"
  cl_incoming_secret_key_contribution :: "string list"
  cl_sent_secret_key_contribution :: "string option"
  cl_public_keys :: "string list"
  cl_node_ids_dkg :: "(nat, int) table"
  cl_node_ids_contract :: "(int, nat) table"
  cl_dkg_timeout :: int
  cl_complaint_error_event_hash :: string
  cl_public_key :: "string list option"
  cl_last_completed_step :: DKGStep

record 'c run =
  run_net :: 'c
  run_client :: dkg_client

definition on_net :: "('c, 'a) act \<Rightarrow> ('c run, 'a) act" where
  "on_net m = (\<lambda>s. case m (run_net s) of (r, c') \<Rightarrow> (r, s\<lparr>run_net := c'\<rparr>))"

definition with_client :: "(dkg_client \<Rightarrow> ('c run, 'a) act) \<Rightarrow> ('c run, 'a) act" where
  "with_client f = (\<lambda>s. f (run_client s) s)"

definition set_client :: "(dkg_client \<Rightarrow> dkg_client) \<Rightarrow> ('c run, unit) act" where
  "set_client g = act_modify (\<lambda>s. s\<lparr>run_client := g (run_client s)\<rparr>)"

text \<open>The setter of the property \<^verbatim>\<open>last_completed_step\<close>.\<close>

definition set_last_completed_step :: "DKGStep \<Rightarrow> ('c run, unit) act" where
  "set_last_completed_step step = set_client (\<lambda>cl. cl\<lparr>cl_last_completed_step := step\<rparr>)"

text \<open>\<^verbatim>\<open>__init__\<close>. The two attributes that only later methods set are None.\<close>

definition make_dkg_client ::
  "'c dkg_api \<Rightarrow> nat \<Rightarrow> int \<Rightarrow> nat \<Rightarrow> nat \<Rightarrow> string \<Rightarrow> string list \<Rightarrow> (nat, int) table \<Rightarrow>
   (int, nat) table \<Rightarrow> string \<Rightarrow> int \<Rightarrow> ('c, dkg_client) act" where
  "make_dkg_client a node_id_dkg node_id_contract t n schain_name public_keys node_ids_dkg
     node_ids_contract eth_key_name rotation_id =
     (let group_index = name_to_group_id a schain_name
      in act_bind (act_lift (parse_hex (drop 2 (w3_to_hex a group_index)))) (\<lambda>g.
         let group_index_str = str_of_int g
         in act_bind (dkg_get_dkg_timeout a) (\<lambda>timeout.
            act_return
              \<lparr>cl_schain_name = schain_name, cl_group_index = group_index,
               cl_node_id_contract = node_id_contract, cl_node_id_dkg = node_id_dkg,
               cl_t = t, cl_n = n, cl_eth_key_name = eth_key_name,
               cl_poly_name = generate_poly_name group_index_str node_id_dkg rotation_id,
               cl_bls_name = generate_bls_key_name group_index_str node_id_dkg rotation_id,
               cl_rotation_id = rotation_id,
               cl_incoming_verification_vector = replicate n (VHex ''0''),
               cl_incoming_secret_key_contribution = replicate n ''0'',
               cl_sent_secret_key_contribution = None,
               cl_public_keys = public_keys,
               cl_node_ids_dkg = node_ids_dkg, cl_node_ids_contract = node_ids_contract,
               cl_dkg_timeout = timeout,
               cl_complaint_error_event_hash =
                 w3_to_hex a (w3_keccak a ''ComplaintError(string)''),
               cl_public_key = None, cl_last_completed_step = Step_NONE\<rparr>)))"

section \<open>Retries while the SGX server is unreachable\<close>

definition SGX_RETRY_ATTEMPTS :: nat where
  "SGX_RETRY_ATTEMPTS = 14"

definition SGX_TIMEOUTS :: "nat list" where
  "SGX_TIMEOUTS = map (\<lambda>p. 2 ^ p) [0..<SGX_RETRY_ATTEMPTS]"

fun is_sgx_unreachable :: "exn \<Rightarrow> bool" where
  "is_sgx_unreachable (SgxUnreachableError _) = True"
| "is_sgx_unreachable _ = False"

text \<open>The loop over the timeouts; \<open>err\<close> is the error of the last try (the list of timeouts
  is not empty, so the first value is never raised).\<close>

fun sgx_retry_loop ::
  "'c dkg_api \<Rightarrow> ('c run, 'a) act \<Rightarrow> exn \<Rightarrow> nat list \<Rightarrow> ('c run, 'a) act" where
  "sgx_retry_loop a f err [] = act_raise err"
| "sgx_retry_loop a f err (timeout # ts) =
     act_except f is_sgx_unreachable (\<lambda>e.
       act_then (on_net (api_sleep a timeout)) (sgx_retry_loop a f e ts))"

definition sgx_unreachable_retry :: "'c dkg_api \<Rightarrow> ('c run, 'a) act \<Rightarrow> ('c run, 'a) act" where
  "sgx_unreachable_retry a f = sgx_retry_loop a f (SgxUnreachableError []) SGX_TIMEOUTS"

section \<open>Broadcast data\<close>

definition is_channel_opened :: "'c dkg_api \<Rightarrow> ('c run, bool) act" where
  "is_channel_opened a = with_client (\<lambda>cl. on_net (dkg_is_channel_opened a (cl_group_index cl)))"

definition check_complaint_logs :: "'c dkg_api \<Rightarrow> dkg_client \<Rightarrow> dkg_log \<Rightarrow> bool res" where
  "check_complaint_logs a cl lg =
     (case lg_topics lg of
        None \<Rightarrow> Inl (KeyError ''topics'')
      | Some ts \<Rightarrow> res_bind (list_item ts 0) (\<lambda>t.
          Inr (hexbytes_hex a t \<noteq> cl_complaint_error_event_hash cl)))"

definition set_item :: "nat \<Rightarrow> 'a \<Rightarrow> 'a list \<Rightarrow> 'a list res" where
  "set_item i v xs = (if i < length xs then Inr (xs[i := v]) else Inl IndexError)"

definition set_incoming_skc :: "nat \<Rightarrow> string \<Rightarrow> ('c run, unit) act" where
  "set_incoming_skc i v =
     with_client (\<lambda>cl. act_bind (act_lift (set_item i v (cl_incoming_secret_key_contribution cl)))
       (\<lambda>xs. set_client (\<lambda>cl. cl\<lparr>cl_incoming_secret_key_contribution := xs\<rparr>)))"

definition set_incoming_vv :: "nat \<Rightarrow> vv \<Rightarrow> ('c run, unit) act" where
  "set_incoming_vv i v =
     with_client (\<lambda>cl. act_bind (act_lift (set_item i v (cl_incoming_verification_vector cl)))
       (\<lambda>xs. set_client (\<lambda>cl. cl\<lparr>cl_incoming_verification_vector := xs\<rparr>)))"

definition set_sent_skc :: "string \<Rightarrow> ('c run, unit) act" where
  "set_sent_skc v = set_client (\<lambda>cl. cl\<lparr>cl_sent_secret_key_contribution := Some v\<rparr>)"

text \<open>\<open>data\<close> is the pair of the verification vector and the contributions.\<close>

definition store_broadcasted_data :: "string \<times> string \<Rightarrow> nat \<Rightarrow> ('c run, unit) act" where
  "store_broadcasted_data data from_node =
     with_client (\<lambda>cl.
       act_then
         (set_incoming_skc from_node
            (slice (snd data) (192 * cl_node_id_dkg cl) (192 * (cl_node_id_dkg cl + 1))))
         (if from_node = cl_node_id_dkg cl
          then act_bind (act_lift (convert_hex_to_g2_array (fst data))) (\<lambda>g2.
               act_then (set_incoming_vv from_node (VPoints g2))
                 (set_sent_skc (convert_key_share_to_str (snd data) (cl_n cl))))
          else set_incoming_vv from_node (VHex (fst data))))"

definition generate_polynomial :: "'c dkg_api \<Rightarrow> string \<Rightarrow> ('c run, bool) act" where
  "generate_polynomial a poly_name =
     sgx_unreachable_retry a
       (act_then (set_client (\<lambda>cl. cl\<lparr>cl_poly_name := poly_name\<rparr>))
         (on_net (sgx_generate_dkg_poly a poly_name)))"

definition verification_vector :: "'c dkg_api \<Rightarrow> ('c run, g2_point list) act" where
  "verification_vector a =
     sgx_unreachable_retry a (with_client (\<lambda>cl.
       act_bind (on_net (sgx_get_verification_vector a (cl_poly_name cl))) (\<lambda>vv.
       act_then (set_incoming_vv (cl_node_id_dkg cl) vv)
         (act_lift (convert_g2_points_to_array vv)))))"

definition secret_key_contribution :: "'c dkg_api \<Rightarrow> ('c run, key_share list) act" where
  "secret_key_contribution a =
     sgx_unreachable_retry a (with_client (\<lambda>cl.
       act_bind (on_net (sgx_get_secret_key_contribution_v2 a (cl_poly_name cl) (cl_public_keys cl)))
         (\<lambda>skc.
       act_then (set_sent_skc skc)
         (act_then (set_incoming_skc (cl_node_id_dkg cl)
              (slice skc (cl_node_id_dkg cl * 192) ((cl_node_id_dkg cl + 1) * 192)))
           (act_lift (convert_str_to_key_share skc (cl_n cl)))))))"

definition is_node_broadcasted :: "'c dkg_api \<Rightarrow> ('c run, bool) act" where
  "is_node_broadcasted a =
     with_client (\<lambda>cl. on_net (dkg_node_broadcasted a (cl_group_index cl) (cl_node_id_contract cl)))"

definition broadcast :: "'c dkg_api \<Rightarrow> ('c run, unit) act" where
  "broadcast a =
     with_client (\<lambda>cl.
       act_bind (generate_polynomial a (cl_poly_name cl)) (\<lambda>poly_success.
       if \<not> poly_success
       then act_raise (SgxDkgPolynomGenerationError (cl_schain_name cl))
       else act_bind (on_net (dkg_broadcast_possible a (cl_group_index cl) (cl_node_id_contract cl)))
         (\<lambda>is_broadcast_possible.
       act_bind (is_channel_opened a) (\<lambda>channel_opened.
       if \<not> is_broadcast_possible \<or> \<not> channel_opened then act_return ()
       else act_bind (verification_vector a) (\<lambda>vv.
            act_bind (secret_key_contribution a) (\<lambda>skc.
            act_then (on_net (dkg_send_broadcast a (cl_group_index cl) (cl_node_id_contract cl)
                                vv skc (cl_rotation_id cl)))
              (set_last_completed_step BROADCAST)))))))"

definition verification :: "'c dkg_api \<Rightarrow> nat \<Rightarrow> ('c run, bool) act" where
  "verification a from_node =
     sgx_unreachable_retry a (with_client (\<lambda>cl.
       act_bind (act_lift (list_item (cl_incoming_verification_vector cl) from_node)) (\<lambda>vv.
       act_bind (act_lift (list_item (cl_incoming_secret_key_contribution cl) from_node)) (\<lambda>skc.
       on_net (sgx_verify_secret_share_v2 a vv (cl_eth_key_name cl) (to_verify skc)
                 (cl_node_id_dkg cl))))))"

definition receive_from_node :: "'c dkg_api \<Rightarrow> nat \<Rightarrow> string \<times> string \<Rightarrow> ('c run, unit) act" where
  "receive_from_node a from_node broadcasted_data =
     act_then (store_broadcasted_data broadcasted_data from_node)
       (with_client (\<lambda>cl.
          if from_node = cl_node_id_dkg cl then act_return ()
          else act_except
                 (act_bind (verification a from_node) (\<lambda>ok.
                    if \<not> ok then act_raise (DkgVerificationError (cl_schain_name cl))
                    else act_return ()))
                 is_sgx_unreachable
                 (\<lambda>_. act_raise (SgxUnreachableError (cl_schain_name cl)))))"

section \<open>Keys\<close>

fun no_such_data :: "exn \<Rightarrow> bool" where
  "no_such_data (SgxServerError msg) = str_contains msg ''Data with this name does not exist''"
| "no_such_data _ = False"

definition is_bls_key_generated :: "'c dkg_api \<Rightarrow> ('c run, bool) act" where
  "is_bls_key_generated a =
     sgx_unreachable_retry a (with_client (\<lambda>cl.
       act_except
         (act_then (on_net (sgx_get_bls_public_key a (cl_bls_name cl))) (act_return True))
         no_such_data (\<lambda>_. act_return False)))"

definition fetch_public_key :: "'c dkg_api \<Rightarrow> string \<Rightarrow> ('c run, unit) act" where
  "fetch_public_key a bls_name =
     act_bind (on_net (sgx_get_bls_public_key a bls_name)) (\<lambda>pk.
       set_client (\<lambda>cl. cl\<lparr>cl_public_key := Some pk\<rparr>))"

definition generate_bls_key :: "'c dkg_api \<Rightarrow> ('c run, unit) act" where
  "generate_bls_key a =
     sgx_unreachable_retry a (with_client (\<lambda>cl.
       act_bind (act_lift (res_map (\<lambda>j.
          res_bind (list_item (cl_incoming_secret_key_contribution cl) j) (\<lambda>c. Inr (to_verify c)))
            [0..<cl_n cl])) (\<lambda>cs.
       act_then (on_net (sgx_create_bls_private_key_v2 a (cl_poly_name cl) (cl_bls_name cl)
                           (cl_eth_key_name cl) (concat cs)))
         (fetch_public_key a (cl_bls_name cl)))))"

definition fetch_bls_public_key :: "'c dkg_api \<Rightarrow> ('c run, unit) act" where
  "fetch_bls_public_key a =
     sgx_unreachable_retry a (with_client (\<lambda>cl. fetch_public_key a (cl_bls_name cl)))"

text \<open>The body of \<^verbatim>\<open>get_bls_public_keys\<close>, which the retry runs again as a whole.\<close>

definition bls_public_keys_body :: "'c dkg_api \<Rightarrow> ('c run, string list) act" where
  "bls_public_keys_body a =
     with_client (\<lambda>cl.
       act_bind (act_lift (list_item (cl_incoming_verification_vector cl) (cl_node_id_dkg cl))) (\<lambda>v.
       act_bind (act_lift (convert_g2_array_to_hex v)) (\<lambda>h.
       act_then (set_incoming_vv (cl_node_id_dkg cl) (VHex h))
         (with_client (\<lambda>cl.
            on_net (sgx_calculate_all_bls_public_keys a (cl_incoming_verification_vector cl)))))))"

definition client_bls_public_keys :: "'c dkg_api \<Rightarrow> ('c run, string list) act" where
  "client_bls_public_keys a = sgx_unreachable_retry a (bls_public_keys_body a)"

section \<open>Alright, complaints and responses\<close>

definition alright :: "'c dkg_api \<Rightarrow> ('c run, unit) act" where
  "alright a =
     with_client (\<lambda>cl.
       act_bind (on_net (dkg_alright_possible a (cl_group_index cl) (cl_node_id_contract cl)))
         (\<lambda>is_alright_possible.
       if \<not> is_alright_possible then act_return ()
       else act_bind (is_channel_opened a) (\<lambda>opened.
         if \<not> opened then act_return ()
         else act_then (on_net (dkg_send_alright a (cl_group_index cl) (cl_node_id_contract cl)))
                (set_last_completed_step ALRIGHT))))"

fun reason_to_step :: "ComplaintReason \<Rightarrow> DKGStep" where
  "reason_to_step NO_BROADCAST = COMPLAINT_NO_BROADCAST"
| "reason_to_step BAD_DATA = COMPLAINT_BAD_DATA"
| "reason_to_step NO_ALRIGHT = COMPLAINT_NO_ALRIGHT"
| "reason_to_step NO_RESPONSE = COMPLAINT_NO_RESPONSE"

fun is_transaction_failed :: "exn \<Rightarrow> bool" where
  "is_transaction_failed (TransactionFailedError _) = True"
| "is_transaction_failed _ = False"

definition first_log :: "dkg_receipt \<Rightarrow> dkg_log res" where
  "first_log r = (case rcp_logs r of None \<Rightarrow> Inl (KeyError ''logs'') | Some ls \<Rightarrow> list_item ls 0)"

definition client_send_complaint ::
  "'c dkg_api \<Rightarrow> nat \<Rightarrow> ComplaintReason \<Rightarrow> ('c run, bool) act" where
  "client_send_complaint a to_node reason =
     with_client (\<lambda>cl.
       act_bind (act_lift (dict_item (cl_node_ids_dkg cl) to_node)) (\<lambda>to_id.
       act_bind (on_net (dkg_complaint_possible a (cl_group_index cl) (cl_node_id_contract cl) to_id))
         (\<lambda>is_complaint_possible.
       act_bind (is_channel_opened a) (\<lambda>opened.
       if \<not> is_complaint_possible \<or> \<not> opened then act_return False
       else act_except
         (act_bind (on_net (if reason = BAD_DATA
                            then dkg_send_complaint_bad_data a (cl_group_index cl)
                                   (cl_node_id_contract cl) to_id
                            else dkg_send_complaint a (cl_group_index cl)
                                   (cl_node_id_contract cl) to_id)) (\<lambda>receipt.
          act_bind (act_lift (res_bind (first_log receipt) (check_complaint_logs a cl))) (\<lambda>accepted.
          if accepted
          then act_then (set_last_completed_step (reason_to_step reason)) (act_return True)
          else act_return False)))
         is_transaction_failed
         (\<lambda>_. act_raise (DkgTransactionError (cl_schain_name cl)))))))"

text \<open>The share of a complaint's response: four decimal numbers separated by colons.\<close>

definition parse_share :: "string \<Rightarrow> g2_point res" where
  "parse_share s =
     (let parts = split_on CHR '':'' s
      in res_bind (res_map (\<lambda>i. res_bind (list_item parts i) int_of_str) [0..<4]) (\<lambda>xs.
         if length parts = 4 then make_g2_point xs else Inl (TypeError ''G2Point'')))"

definition get_complaint_response :: "'c dkg_api \<Rightarrow> int \<Rightarrow> ('c run, g2_point \<times> string \<times> vv) act" where
  "get_complaint_response a to_node_index =
     sgx_unreachable_retry a (with_client (\<lambda>cl.
       act_bind (act_lift (dict_item (cl_node_ids_contract cl) to_node_index)) (\<lambda>i.
       act_bind (on_net (sgx_complaint_response a (cl_poly_name cl) i)) (\<lambda>r.
       act_bind (act_lift (parse_share (cr_share r))) (\<lambda>share.
       act_return (share, cr_dh_key r, cr_verification_vector_mult r))))))"

text \<open>An attribute that \<^verbatim>\<open>__init__\<close> does not set.\<close>

definition sent_skc :: "dkg_client \<Rightarrow> string res" where
  "sent_skc cl =
     (case cl_sent_secret_key_contribution cl of
        None \<Rightarrow> Inl (AttributeError ''sent_secret_key_contribution'')
      | Some s \<Rightarrow> Inr s)"

definition client_response :: "'c dkg_api \<Rightarrow> int \<Rightarrow> ('c run, unit) act" where
  "client_response a to_node_index =
     with_client (\<lambda>cl.
       act_bind (on_net (dkg_pre_response_possible a (cl_group_index cl) (cl_node_id_contract cl)))
         (\<lambda>is_pre_response_possible.
       if \<not> is_pre_response_possible then act_return ()
       else act_bind (is_channel_opened a) (\<lambda>opened.
       if \<not> opened then act_return ()
       else act_bind (get_complaint_response a to_node_index) (\<lambda>(share, dh_key, vv_mult).
       act_except
         (act_bind (act_lift (res_bind
              (list_item (cl_incoming_verification_vector cl) (cl_node_id_dkg cl))
              convert_g2_points_to_array)) (\<lambda>vv.
          act_bind (act_lift (convert_g2_points_to_array vv_mult)) (\<lambda>vvm.
          act_bind (act_lift (res_bind (sent_skc cl) (\<lambda>s. convert_str_to_key_share s (cl_n cl))))
            (\<lambda>skc.
          act_then (on_net (dkg_send_pre_response a (cl_group_index cl) (cl_node_id_contract cl)
                              vv vvm skc))
          (act_then (set_last_completed_step PRE_RESPONSE)
          (act_bind (on_net (dkg_response_possible a (cl_group_index cl) (cl_node_id_contract cl)))
            (\<lambda>is_response_possible.
           if \<not> is_response_possible then act_return ()
           else act_bind (is_channel_opened a) (\<lambda>still_opened.
             if \<not> still_opened then act_return ()
             else act_bind (act_lift (parse_hex dh_key)) (\<lambda>dh.
               act_then (on_net (dkg_send_response a (cl_group_index cl) (cl_node_id_contract cl)
                                   dh share))
                 (set_last_completed_step RESPONSE))))))))))
         is_transaction_failed
         (\<lambda>_. act_raise (DkgTransactionError (cl_schain_name cl)))))))"

section \<open>What the contracts know\<close>

definition from_node_of :: "dkg_client \<Rightarrow> dkg_event \<Rightarrow> nat res" where
  "from_node_of cl ev = dict_item (cl_node_ids_contract cl) (nodeIndex ev)"

definition event_data :: "dkg_event \<Rightarrow> string \<times> string" where
  "event_data ev = (verificationVector ev, secretKeyContribution ev)"

definition fetch_all_broadcasted_data :: "'c dkg_api \<Rightarrow> ('c run, unit) act" where
  "fetch_all_broadcasted_data a =
     with_client (\<lambda>cl.
       act_bind (on_net (get_events a True (make_filter a (cl_schain_name cl) (cl_n cl))))
         (\<lambda>(events, _).
       act_for events (\<lambda>ev.
         act_bind (act_lift (from_node_of cl ev)) (store_broadcasted_data (event_data ev)))))"

definition is_all_data_received :: "'c dkg_api \<Rightarrow> nat \<Rightarrow> ('c run, bool) act" where
  "is_all_data_received a from_node =
     with_client (\<lambda>cl.
       act_bind (act_lift (dict_item (cl_node_ids_dkg cl) from_node)) (\<lambda>node_id.
       on_net (dkg_all_data_received a (cl_group_index cl) node_id)))"

definition is_everyone_broadcasted :: "'c dkg_api \<Rightarrow> ('c run, bool) act" where
  "is_everyone_broadcasted a =
     with_client (\<lambda>cl. on_net (dkg_everyone_broadcasted a (cl_group_index cl)))"

definition is_everyone_sent_algright :: "'c dkg_api \<Rightarrow> ('c run, bool) act" where
  "is_everyone_sent_algright a =
     with_client (\<lambda>cl.
       act_bind (on_net (dkg_number_of_completed a (cl_group_index cl))) (\<lambda>k.
       act_return (k = int (cl_n cl))))"

lemma on_net_eval [act_simps]:
  "on_net m s = (case m (run_net s) of (r, c') \<Rightarrow> (r, s\<lparr>run_net := c'\<rparr>))"
  by (simp add: on_net_def)

lemma with_client_eval [act_simps]: "with_client f s = f (run_client s) s"
  by (simp add: with_client_def)

lemma set_client_eval [act_simps]:
  "set_client g s = (Inr (), s\<lparr>run_client := g (run_client s)\<rparr>)"
  by (simp add: set_client_def act_simps)

lemma keeps_with_client [keeps_intros]: "(\<And>cl. keeps P (f cl)) \<Longrightarrow> keeps P (with_client f)"
  by (simp add: keeps_def act_simps)

end
