(* ===== verification/Dkg.thy ===== *)
theory Dkg
  imports Dkg_Client
begin

text \<open>
  \<^verbatim>\<open>core/schains/dkg/utils.py\<close> and \<^verbatim>\<open>main.py\<close>: the rounds of one node in a key generation.
  The loops that wait for the network (\<open>wait_loop\<close>, \<open>receive_loop\<close>, \<open>alright_loop\<close>) take
  a bound \<open>k\<close> of rounds; with it used up they end with \<open>Out_of_fuel\<close>. \<open>Dkg_Termination\<close>
  shows that a bound a little above the contracts' timeout is never used up.
\<close>

section \<open>utils.py\<close>

definition UINT_CONSTANT :: int where
  "UINT_CONSTANT = 2 ^ 256 - 1"

definition BROADCAST_DATA_SEARCH_SLEEP :: nat where
  "BROADCAST_DATA_SEARCH_SLEEP = 30"

record broadcast_result =
  received :: "bool list"
  correct :: "bool list"

text \<open>The loop of \<^verbatim>\<open>init_dkg_client\<close>: the position of the node with the own id (\<^verbatim>\<open>-1\<close> is
  None), the two dictionaries and the public keys. An empty node is None.\<close>

fun scan_nodes ::
  "int \<Rightarrow> nat \<Rightarrow> dkg_node option list \<Rightarrow> nat option \<times> (int, nat) table \<times> (nat, int) table \<times> string list \<Rightarrow>
   (nat option \<times> (int, nat) table \<times> (nat, int) table \<times> string list) res" where
  "scan_nodes node_id i [] acc = Inr acc"
| "scan_nodes node_id i (None # nodes) acc = Inl (DkgError ''node info is empty'')"
| "scan_nodes node_id i (Some node # nodes) (idx, ids_contract, ids_dkg, keys) =
     scan_nodes node_id (Suc i) nodes
       (if dn_id node = node_id then Some i else idx,
        tab_put (dn_id node) i ids_contract, tab_put i (dn_id node) ids_dkg,
        keys @ [dn_publicKey node])"

definition init_dkg_client ::
  "'c dkg_api \<Rightarrow> int \<Rightarrow> string \<Rightarrow> string \<Rightarrow> int \<Rightarrow> ('c, dkg_client) act" where
  "init_dkg_client a node_id schain_name sgx_eth_key_name rot =
     act_bind (dkg_nodes_for_schain a schain_name) (\<lambda>schain_nodes.
       let n = length schain_nodes;
           t = (2 * n + 1) div 3
       in act_bind (act_lift (scan_nodes node_id 0 schain_nodes (None, [], [], [])))
            (\<lambda>(node_id_dkg, ids_contract, ids_dkg, public_keys).
          case node_id_dkg of
            None \<Rightarrow> act_raise (DkgError ''nodeID not found for schain'')
          | Some i \<Rightarrow> make_dkg_client a i node_id t n schain_name public_keys ids_dkg
                        ids_contract sgx_eth_key_name rot))"

text \<open>One event of \<^verbatim>\<open>sync_broadcast_data\<close>. The lists are returned, with the positions of the
  nodes whose broadcast was accepted.\<close>

type_synonym sync_state = "bool list \<times> bool list \<times> int list"

definition sync_event :: "'c dkg_api \<Rightarrow> dkg_event \<Rightarrow> sync_state \<Rightarrow> ('c run, sync_state) act" where
  "sync_event a ev st =
     (case st of (is_received, is_correct, found) \<Rightarrow>
       with_client (\<lambda>cl.
         act_bind (act_lift (from_node_of cl ev)) (\<lambda>from_node.
         act_bind (act_lift (list_item is_received from_node)) (\<lambda>seen.
           if seen \<and> from_node \<noteq> cl_node_id_dkg cl then act_return st
           else let is_received' = is_received[from_node := True]
                in act_try
                     (act_then (receive_from_node a from_node (event_data ev))
                       (act_bind (act_lift (set_item from_node True is_correct)) (\<lambda>is_correct'.
                        act_return (is_received', is_correct', found @ [nodeIndex ev]))))
                     (\<lambda>e. case e of DkgVerificationError _ \<Rightarrow>
                              act_return (is_received', is_correct, found)
                           | _ \<Rightarrow> act_raise e)))))"

fun sync_events :: "'c dkg_api \<Rightarrow> dkg_event list \<Rightarrow> sync_state \<Rightarrow> ('c run, sync_state) act" where
  "sync_events a [] st = act_return st"
| "sync_events a (ev # evs) st = act_bind (sync_event a ev st) (sync_events a evs)"

definition sync_broadcast_data ::
  "'c dkg_api \<Rightarrow> dkg_filter \<Rightarrow> sync_state \<Rightarrow> ('c run, sync_state \<times> dkg_filter) act" where
  "sync_broadcast_data a f st =
     act_bind (is_everyone_broadcasted a) (\<lambda>all.
     act_bind (on_net (get_events a all f)) (\<lambda>(events, f').
     act_bind (sync_events a events st) (\<lambda>st'.
     act_return (st', f'))))"

definition get_latest_block_timestamp :: "'c dkg_api \<Rightarrow> ('c run, int) act" where
  "get_latest_block_timestamp a = on_net (w3_latest_timestamp a)"

definition channel_started_time :: "'c dkg_api \<Rightarrow> ('c run, int) act" where
  "channel_started_time a = with_client (\<lambda>cl. on_net (dkg_channel_started_time a (cl_group_index cl)))"

fun receive_loop ::
  "'c dkg_api \<Rightarrow> nat \<Rightarrow> int \<Rightarrow> dkg_filter \<Rightarrow> sync_state \<Rightarrow> ('c run, sync_state) act" where
  "receive_loop a 0 start_time f st = act_raise Out_of_fuel"
| "receive_loop a (Suc k) start_time f st =
     (if False \<notin> set (fst st) then act_return st
      else act_bind (get_latest_block_timestamp a) (\<lambda>ts.
           with_client (\<lambda>cl.
             let time_gone = ts - start_time
             in act_bind (sync_broadcast_data a f st) (\<lambda>(st', f').
                if time_gone > cl_dkg_timeout cl then act_return st'
                else act_then (on_net (api_sleep a BROADCAST_DATA_SEARCH_SLEEP))
                       (receive_loop a k start_time f' st')))))"

definition receive_broadcast_data :: "'c dkg_api \<Rightarrow> nat \<Rightarrow> ('c run, broadcast_result) act" where
  "receive_broadcast_data a k =
     with_client (\<lambda>cl.
       let own = (replicate (cl_n cl) False)[cl_node_id_dkg cl := True]
       in act_bind (on_net (dkg_channel_started_time a (cl_group_index cl))) (\<lambda>start_time.
          act_bind (receive_loop a k start_time (make_filter a (cl_schain_name cl) (cl_n cl))
                      (own, own, []))
            (\<lambda>(is_received, is_correct, _).
              act_return \<lparr>received = is_received, correct = is_correct\<rparr>)))"

text \<open>\<^verbatim>\<open>check_failed_dkg\<close> and \<^verbatim>\<open>wait_for_fail\<close> take the chain's name and are also called without
  a client, so they are statements over the network.\<close>

definition check_failed_dkg :: "'c dkg_api \<Rightarrow> string \<Rightarrow> ('c, bool) act" where
  "check_failed_dkg a schain_name =
     (let group_index = name_to_group_id a schain_name
      in act_bind (dkg_is_channel_opened a group_index) (\<lambda>opened.
         if opened then act_return True
         else act_bind (dkg_last_successful a group_index) (\<lambda>ok.
           if ok then act_return True
           else act_bind (dkg_time_of_last_successful a group_index) (\<lambda>t.
             if t \<noteq> 0 then act_raise (DkgFailedError schain_name) else act_return True))))"

fun wait_loop :: "'c dkg_api \<Rightarrow> nat \<Rightarrow> string \<Rightarrow> int \<Rightarrow> int \<Rightarrow> int \<Rightarrow> ('c, unit) act" where
  "wait_loop a 0 schain_name started start_time timeout = act_raise Out_of_fuel"
| "wait_loop a (Suc k) schain_name started start_time timeout =
     act_bind (w3_latest_timestamp a) (\<lambda>ts.
       if \<not> (ts - start_time < timeout) then act_return ()
       else act_then (check_failed_dkg a schain_name)
            (act_bind (dkg_channel_started_time a (name_to_group_id a schain_name)) (\<lambda>now_started.
             if started \<noteq> now_started then act_raise (DkgFailedError schain_name)
             else act_then (api_sleep a 30) (wait_loop a k schain_name started start_time timeout))))"

definition wait_for_fail :: "'c dkg_api \<Rightarrow> nat \<Rightarrow> string \<Rightarrow> int \<Rightarrow> ('c, unit) act" where
  "wait_for_fail a k schain_name started =
     act_bind (w3_latest_timestamp a) (\<lambda>start_time.
     act_bind (dkg_get_dkg_timeout a) (\<lambda>timeout.
       wait_loop a k schain_name started start_time timeout))"

text \<open>The same in a method of the client.\<close>

definition client_wait :: "'c dkg_api \<Rightarrow> nat \<Rightarrow> int \<Rightarrow> ('c run, unit) act" where
  "client_wait a k started =
     with_client (\<lambda>cl. on_net (wait_for_fail a k (cl_schain_name cl) started))"

fun is_dkg_transaction_error :: "exn \<Rightarrow> bool" where
  "is_dkg_transaction_error (DkgTransactionError _) = True"
| "is_dkg_transaction_error _ = False"

definition send_complaint ::
  "'c dkg_api \<Rightarrow> nat \<Rightarrow> nat \<Rightarrow> ComplaintReason \<Rightarrow> ('c run, unit) act" where
  "send_complaint a k index reason =
     act_bind (channel_started_time a) (\<lambda>started.
       act_except
         (act_bind (client_send_complaint a index reason) (\<lambda>sent.
            act_when sent (client_wait a k started)))
         is_dkg_transaction_error (\<lambda>_. act_return ()))"

definition report_bad_data :: "'c dkg_api \<Rightarrow> nat \<Rightarrow> nat \<Rightarrow> ('c run, unit) act" where
  "report_bad_data a k index =
     act_except
       (act_bind (channel_started_time a) (\<lambda>started.
        act_bind (client_send_complaint a index BAD_DATA) (\<lambda>sent.
          act_when sent (act_block
            [client_wait a k started,
             act_drop (client_send_complaint a index NO_RESPONSE),
             client_wait a k started]))))
       is_dkg_transaction_error (\<lambda>_. act_return ())"

definition utils_response :: "'c dkg_api \<Rightarrow> int \<Rightarrow> ('c run, unit) act" where
  "utils_response a to_node_index =
     act_except (client_response a to_node_index)
       (\<lambda>e. is_dkg_transaction_error e \<or> is_sgx_unreachable e) (\<lambda>_. act_return ())"

text \<open>The first position that is missing or wrong is reported, and only that one.\<close>

fun check_positions ::
  "'c dkg_api \<Rightarrow> nat \<Rightarrow> broadcast_result \<Rightarrow> nat list \<Rightarrow> ('c run, unit) act" where
  "check_positions a k res [] = act_return ()"
| "check_positions a k res (i # is) =
     act_bind (act_lift (list_item (received res) i)) (\<lambda>r.
       if \<not> r then send_complaint a k i NO_BROADCAST
       else act_bind (act_lift (list_item (correct res) i)) (\<lambda>c.
         if \<not> c then report_bad_data a k i
         else check_positions a k res is))"

definition check_broadcast_result ::
  "'c dkg_api \<Rightarrow> nat \<Rightarrow> broadcast_result \<Rightarrow> ('c run, unit) act" where
  "check_broadcast_result a k res =
     with_client (\<lambda>cl. check_positions a k res [0..<cl_n cl])"

definition broadcast_and_check_data :: "'c dkg_api \<Rightarrow> nat \<Rightarrow> ('c run, unit) act" where
  "broadcast_and_check_data a k =
     act_block
       [act_if (is_node_broadcasted a) (set_last_completed_step BROADCAST) (broadcast a),
        act_bind (receive_broadcast_data a k) (check_broadcast_result a k),
        set_last_completed_step BROADCAST_VERIFICATION]"

definition complaint_data :: "'c dkg_api \<Rightarrow> ('c run, int \<times> int) act" where
  "complaint_data a = with_client (\<lambda>cl. on_net (dkg_complaint_data a (cl_group_index cl)))"

definition check_response :: "'c dkg_api \<Rightarrow> nat \<Rightarrow> ('c run, unit) act" where
  "check_response a k =
     act_bind (complaint_data a) (\<lambda>(accuser, accused).
     with_client (\<lambda>cl.
       act_when (accuser \<noteq> accused \<and> accused = cl_node_id_contract cl)
         (act_bind (channel_started_time a) (\<lambda>started.
          act_then (utils_response a accuser) (client_wait a k started)))))"

definition check_no_complaints :: "'c dkg_api \<Rightarrow> ('c run, bool) act" where
  "check_no_complaints a =
     act_bind (complaint_data a) (\<lambda>(accuser, accused).
       act_return (accuser = UINT_CONSTANT \<and> accused = UINT_CONSTANT))"

record dkg_keys =
  common_public_key :: "json list"
  dk_public_key :: "string list option"
  bls_public_keys :: "string list"
  dk_t :: nat
  dk_n :: nat
  key_share_name :: string

definition get_common_bls_public_key :: "'c dkg_api \<Rightarrow> hexbytes \<Rightarrow> ('c, json list) act" where
  "get_common_bls_public_key a group_index =
     act_bind (dkg_common_public_key a group_index) (\<lambda>raw. act_return (concat raw))"

text \<open>\<^verbatim>\<open>except Exception as err: raise DKGKeyGenerationError(err)\<close>\<close>

definition generate_bls_keys :: "'c dkg_api \<Rightarrow> ('c run, dkg_keys) act" where
  "generate_bls_keys a =
     with_client (\<lambda>cl.
       act_bind
         (act_except
           (act_then
             (act_if (is_bls_key_generated a) (fetch_bls_public_key a) (generate_bls_key a))
             (act_bind (client_bls_public_keys a) (\<lambda>pks.
              act_bind (on_net (get_common_bls_public_key a (cl_group_index cl))) (\<lambda>common.
              act_return (pks, common)))))
           (\<lambda>e. e \<noteq> Out_of_fuel)
           (\<lambda>e. act_raise (DKGKeyGenerationError (cl_schain_name cl))))
         (\<lambda>(pks, common).
           act_then (set_last_completed_step KEY_GENERATION)
             (with_client (\<lambda>cl. act_return
                \<lparr>common_public_key = common, dk_public_key = cl_public_key cl,
                 bls_public_keys = pks, dk_t = cl_t cl, dk_n = cl_n cl,
                 key_share_name = cl_bls_name cl\<rparr>))))"

section \<open>main.py\<close>

definition get_dkg_client ::
  "'c dkg_api \<Rightarrow> nat \<Rightarrow> int \<Rightarrow> string \<Rightarrow> string \<Rightarrow> int \<Rightarrow> ('c, dkg_client) act" where
  "get_dkg_client a k node_id schain_name sgx_key_name rot =
     act_except (init_dkg_client a node_id schain_name sgx_key_name rot) is_dkg_error
       (\<lambda>e. act_bind (dkg_channel_started_time a (name_to_group_id a schain_name)) (\<lambda>started.
            act_then (wait_for_fail a k schain_name started) (act_raise e)))"

definition client_check_failed :: "'c dkg_api \<Rightarrow> ('c run, bool) act" where
  "client_check_failed a = with_client (\<lambda>cl. on_net (check_failed_dkg a (cl_schain_name cl)))"

text \<open>The inner loop over the nodes: the flags that are not set are read again.\<close>

fun poll_alright :: "'c dkg_api \<Rightarrow> nat list \<Rightarrow> bool list \<Rightarrow> ('c run, bool list) act" where
  "poll_alright a [] sent = act_return sent"
| "poll_alright a (i # is) sent =
     act_bind (act_lift (list_item sent i)) (\<lambda>s.
       if s then poll_alright a is sent
       else act_bind (is_all_data_received a i) (\<lambda>b. poll_alright a is (sent[i := b])))"

fun alright_loop :: "'c dkg_api \<Rightarrow> nat \<Rightarrow> int \<Rightarrow> bool list \<Rightarrow> ('c run, bool list) act" where
  "alright_loop a 0 start sent = act_raise Out_of_fuel"
| "alright_loop a (Suc k) start sent =
     (if False \<notin> set sent then act_return sent
      else act_then (client_check_failed a)
        (act_bind (check_no_complaints a) (\<lambda>clean.
         if \<not> clean then act_return sent
         else act_bind (get_latest_block_timestamp a) (\<lambda>ts.
           with_client (\<lambda>cl.
             if ts - start > cl_dkg_timeout cl then act_return sent
             else act_bind (poll_alright a [0..<cl_n cl] sent) (\<lambda>sent'.
                  act_then (on_net (api_sleep a 30)) (alright_loop a k start sent')))))))"

definition await_alrights :: "'c dkg_api \<Rightarrow> nat \<Rightarrow> bool list \<Rightarrow> ('c run, bool list) act" where
  "await_alrights a k sent =
     with_client (\<lambda>cl. act_bind (on_net (dkg_alright_started_time a (cl_group_index cl)))
       (\<lambda>start_time_alright. alright_loop a k start_time_alright sent))"

fun complain_no_alright :: "'c dkg_api \<Rightarrow> nat \<Rightarrow> bool list \<Rightarrow> nat list \<Rightarrow> ('c run, unit) act" where
  "complain_no_alright a k sent [] = act_return ()"
| "complain_no_alright a k sent (i # is) =
     with_client (\<lambda>cl. act_bind (act_lift (list_item sent i)) (\<lambda>s.
       act_then (act_when (\<not> s \<and> i \<noteq> cl_node_id_dkg cl) (send_complaint a k i NO_ALRIGHT))
         (complain_no_alright a k sent is)))"

text \<open>The alright of the own node, and the flags after it.\<close>

definition own_alright :: "'c dkg_api \<Rightarrow> ('c run, bool list) act" where
  "own_alright a =
     with_client (\<lambda>cl.
       act_bind (check_no_complaints a) (\<lambda>clean.
       if \<not> clean then act_return (replicate (cl_n cl) False)
       else act_bind (is_all_data_received a (cl_node_id_dkg cl)) (\<lambda>done.
            act_then (if done then set_last_completed_step ALRIGHT else alright a)
              (act_return ((replicate (cl_n cl) False)[cl_node_id_dkg cl := True])))))"

text \<open>The end of \<^verbatim>\<open>init_bls\<close> when there is a complaint.\<close>

definition settle_complaint :: "'c dkg_api \<Rightarrow> nat \<Rightarrow> int \<Rightarrow> ('c run, unit) act" where
  "settle_complaint a k started =
     act_then (check_response a k)
       (act_bind (complaint_data a) (\<lambda>(_, accused).
        with_client (\<lambda>cl.
        act_bind (act_lift (dict_item (cl_node_ids_contract cl) accused)) (\<lambda>complainted.
        act_then (client_wait a k started)
          (act_bind (client_check_failed a) (\<lambda>ok.
           act_when (ok \<and> complainted \<noteq> cl_node_id_dkg cl)
             (act_then (send_complaint a k complainted NO_RESPONSE)
               (client_wait a k started))))))))"

text \<open>From the end of the loop to the end of \<^verbatim>\<open>init_bls\<close>.\<close>

definition after_alrights :: "'c dkg_api \<Rightarrow> nat \<Rightarrow> int \<Rightarrow> bool list \<Rightarrow> ('c run, unit) act" where
  "after_alrights a k started sent =
     with_client (\<lambda>cl. act_block
       [act_if (check_no_complaints a) (complain_no_alright a k sent [0..<cl_n cl])
          (act_return ()),
        check_response a k,
        act_if (act_bind (is_everyone_sent_algright a) (\<lambda>all.
                  if all then act_return False else check_no_complaints a))
          (client_wait a k started) (act_return ()),
        act_unless (check_no_complaints a) (settle_complaint a k started),
        act_when (False \<in> set sent)
          (act_raise (DkgError ''Not everyone sent alright''))])"

definition init_bls :: "'c dkg_api \<Rightarrow> nat \<Rightarrow> int \<Rightarrow> ('c run, unit) act" where
  "init_bls a k rot =
     act_bind (channel_started_time a) (\<lambda>started.
     with_client (\<lambda>cl.
     act_bind (on_net (dkg_rotation_counter a (cl_schain_name cl))) (\<lambda>rotation_mainnet.
     if rot \<noteq> rotation_mainnet then act_raise (DkgError ''restarting DKG'')
     else act_then (act_block
            [broadcast_and_check_data a k,
             act_unless (is_everyone_broadcasted a) (client_wait a k started),
             act_drop (client_check_failed a)])
       (act_bind (own_alright a) (\<lambda>sent0.
        act_then (act_block [act_drop (client_check_failed a), check_response a k])
       (act_bind (await_alrights a k sent0) (after_alrights a k started)))))))"

definition is_last_dkg_finished :: "'c dkg_api \<Rightarrow> string \<Rightarrow> ('c, bool) act" where
  "is_last_dkg_finished a schain_name =
     act_bind (dkg_nodes_for_schain a schain_name) (\<lambda>nodes.
     act_bind (dkg_number_of_completed a (name_to_group_id a schain_name)) (\<lambda>k.
     act_return (k = int (length nodes))))"

record dkg_result =
  dr_status :: DKGStatus
  dr_step :: DKGStep
  dr_keys_data :: "dkg_keys option"

text \<open>The first \<^verbatim>\<open>try\<close> of \<^verbatim>\<open>run_dkg\<close>: its body, and the status after it (None at first).\<close>

definition dkg_attempt :: "'c dkg_api \<Rightarrow> nat \<Rightarrow> string \<Rightarrow> int \<Rightarrow> ('c run, DKGStatus option) act" where
  "dkg_attempt a k schain_name rot =
     act_bind (on_net (is_last_dkg_finished a schain_name)) (\<lambda>finished.
     if finished then act_then (fetch_all_broadcasted_data a) (act_return None)
     else act_bind (on_net (dkg_is_channel_opened a (name_to_group_id a schain_name))) (\<lambda>opened.
     if \<not> opened then act_return None
     else act_bind (on_net (dkg_is_channel_opened a (name_to_group_id a schain_name))) (\<lambda>opened.
     if opened then act_then (init_bls a k rot) (act_return (Some IN_PROGRESS))
     else act_return (Some FAILED))))"

definition dkg_procedure :: "'c dkg_api \<Rightarrow> nat \<Rightarrow> string \<Rightarrow> int \<Rightarrow> ('c run, DKGStatus option) act" where
  "dkg_procedure a k schain_name rot =
     act_except (dkg_attempt a k schain_name rot) is_dkg_error (\<lambda>_. act_return (Some FAILED))"

text \<open>The second \<^verbatim>\<open>try\<close>: the keys and the status. The client is an object, which Python
  counts as true.\<close>

definition dkg_key_generation ::
  "'c dkg_api \<Rightarrow> DKGStatus option \<Rightarrow> ('c run, dkg_keys option \<times> DKGStatus option) act" where
  "dkg_key_generation a status =
     (if status = Some FAILED then act_return (None, status)
      else act_try
        (act_bind (generate_bls_keys a) (\<lambda>keys. act_return (Some keys, status)))
        (\<lambda>e. case e of DKGKeyGenerationError _ \<Rightarrow> act_return (None, Some KEY_GENERATION_ERROR)
              | _ \<Rightarrow> act_raise e))"

definition run_dkg :: "'c dkg_api \<Rightarrow> nat \<Rightarrow> string \<Rightarrow> int \<Rightarrow> ('c run, dkg_result) act" where
  "run_dkg a k schain_name rot =
     act_bind (dkg_procedure a k schain_name rot) (\<lambda>status0.
     act_bind (dkg_key_generation a status0) (\<lambda>(keys_data, status1).
     with_client (\<lambda>cl. act_return
       \<lparr>dr_status =
          (if keys_data \<noteq> None then DONE
           else if status1 \<noteq> Some KEY_GENERATION_ERROR then FAILED
           else KEY_GENERATION_ERROR),
        dr_step = cl_last_completed_step cl, dr_keys_data = keys_data\<rparr>)))"

text \<open>What the action \<^verbatim>\<open>dkg\<close> runs (\<^verbatim>\<open>monitor/action.py\<close>): the client is made, then used.\<close>

definition dkg_session ::
  "'c dkg_api \<Rightarrow> nat \<Rightarrow> int \<Rightarrow> string \<Rightarrow> string \<Rightarrow> int \<Rightarrow> ('c, dkg_result) act" where
  "dkg_session a k node_id schain_name sgx_key_name rot =
     act_bind (get_dkg_client a k node_id schain_name sgx_key_name rot) (\<lambda>cl c.
       case run_dkg a k schain_name rot \<lparr>run_net = c, run_client = cl\<rparr> of
         (r, s) \<Rightarrow> (r, run_net s))"

end
