(* ===== verification/Dkg_Invariants.thy ===== *)
theory Dkg_Invariants
  imports Dkg
begin

text \<open>
  What every statement of the key generation keeps, whatever the network does.

  \<open>tame b I m\<close>: from a state with \<open>I\<close> the statement \<open>m\<close> ends in one with \<open>I\<close>, and it runs
  out of fuel only if \<open>b\<close>. With \<open>b\<close> it says that \<open>m\<close> keeps \<open>I\<close>; without, also that the bound
  of its loops is enough. The rules \<open>tame_intros\<close> compose it. The interface \<open>dkg_network\<close> asks
  for tame third-party calls and gives every operation that does not wait; \<open>dkg_rounds\<close> adds
  the three waiting loops and gives the whole procedure.
\<close>

section \<open>Tame statements\<close>

named_theorems tame_intros \<open>composition of tame statements\<close>
named_theorems nofuel_intros \<open>results that are no exhausted bound\<close>

definition tame :: "bool \<Rightarrow> ('s \<Rightarrow> bool) \<Rightarrow> ('s, 'a) act \<Rightarrow> bool" where
  "tame b I m \<longleftrightarrow> (\<forall>s. I s \<longrightarrow> I (snd (m s)) \<and> (fst (m s) = Inl Out_of_fuel \<longrightarrow> b))"

definition nofuel :: "'a res \<Rightarrow> bool" where
  "nofuel r \<longleftrightarrow> r \<noteq> Inl Out_of_fuel"

lemma tame_keeps: "tame b I m \<Longrightarrow> keeps I m"
  by (simp add: tame_def keeps_def)

lemma tame_True: "tame True I m \<longleftrightarrow> keeps I m"
  by (simp add: tame_def keeps_def)

lemma tameD: "tame b I m \<Longrightarrow> I s \<Longrightarrow> m s = (r, s') \<Longrightarrow> I s' \<and> (r = Inl Out_of_fuel \<longrightarrow> b)"
  by (metis tame_def fst_conv snd_conv)

lemma nofuel_basic [nofuel_intros, simp]: "nofuel (Inr a)" "e \<noteq> Out_of_fuel \<Longrightarrow> nofuel (Inl e)"
  by (simp_all add: nofuel_def)

lemma nofuel_bind [nofuel_intros]:
  "nofuel r \<Longrightarrow> (\<And>a. r = Inr a \<Longrightarrow> nofuel (f a)) \<Longrightarrow> nofuel (res_bind r f)"
  by (cases r) (auto simp: nofuel_def)

lemma nofuel_map [nofuel_intros]: "(\<And>x. nofuel (f x)) \<Longrightarrow> nofuel (res_map f xs)"
  by (induction xs) (auto intro!: nofuel_intros)

lemma nofuel_ite [nofuel_intros]:
  "(c \<Longrightarrow> nofuel x) \<Longrightarrow> (\<not> c \<Longrightarrow> nofuel y) \<Longrightarrow> nofuel (if c then x else y)"
  by simp

lemma nofuel_items [nofuel_intros]:
  "nofuel (list_item xs i)" "nofuel (dict_item d k)" "nofuel (set_item i v xs)"
  "nofuel (int_of_str s)" "nofuel (parse_hex s)"
  by (simp_all add: list_item_def dict_item_def set_item_def int_of_str_def parse_hex_def
      nofuel_def split: option.split list.split)

lemma nofuel_bytes [nofuel_intros]: "nofuel (bytes_fromhex s)"
  by (induction s rule: bytes_fromhex.induct)
    (auto intro!: nofuel_intros split: option.split)

lemma nofuel_point [nofuel_intros]: "nofuel (make_g2_point xs)"
  by (induction xs rule: make_g2_point.induct) simp_all

lemma nofuel_hex_to_g2 [nofuel_intros]: "nofuel (convert_hex_to_g2_array s)"
proof (induction s rule: convert_hex_to_g2_array.induct)
  case (1 s)
  then show ?case
    by (subst convert_hex_to_g2_array.simps)
      (auto simp: Let_def simp del: res_map.simps intro!: nofuel_intros)
qed

lemma nofuel_converts [nofuel_intros]:
  "nofuel (convert_g2_points_to_array v)" "nofuel (convert_g2_array_to_hex v)"
  "nofuel (convert_str_to_key_share s n)" "nofuel (parse_share s)"
  by (auto simp: convert_g2_points_to_array_def convert_g2_array_to_hex_def
      convert_g2_point_to_hex_def convert_str_to_key_share_def parse_share_def Let_def
      simp del: res_map.simps intro!: nofuel_intros)

lemma nofuel_logs [nofuel_intros]:
  "nofuel (first_log r)" "nofuel (check_complaint_logs a cl lg)" "nofuel (from_node_of cl ev)"
  "nofuel (sent_skc cl)"
  by (auto simp: first_log_def check_complaint_logs_def from_node_of_def sent_skc_def
      intro!: nofuel_intros split: option.split)

lemma nofuel_parse [nofuel_intros]: "nofuel (parse_event a f r)"
  by (auto simp: parse_event_def Let_def intro!: nofuel_intros split: option.split list.split)

lemma nofuel_scan_nodes [nofuel_intros]: "nofuel (scan_nodes node_id i nodes acc)"
  by (induction node_id i nodes acc rule: scan_nodes.induct) simp_all

lemma tame_basic [tame_intros]:
  "tame b I (act_return a)" "e \<noteq> Out_of_fuel \<or> b \<Longrightarrow> tame b I (act_raise e)"
  "nofuel r \<Longrightarrow> tame b I (act_lift r)"
  by (auto simp: tame_def act_simps nofuel_def)

lemma tame_modify [tame_intros]: "(\<And>s. I s \<Longrightarrow> I (g s)) \<Longrightarrow> tame b I (act_modify g)"
  by (simp add: tame_def act_simps)

lemma tame_bind [tame_intros]:
  assumes m: "tame b I m" and f: "\<And>a. tame b I (f a)"
  shows "tame b I (act_bind m f)"
  unfolding tame_def
proof (intro allI impI)
  fix s assume s: "I s"
  obtain r s' where ms: "m s = (r, s')" by fastforce
  with tameD [OF m s] have "I s'" "r = Inl Out_of_fuel \<longrightarrow> b" by simp_all
  with f ms show "I (snd (act_bind m f s)) \<and> (fst (act_bind m f s) = Inl Out_of_fuel \<longrightarrow> b)"
    by (cases r) (auto simp: act_simps tame_def)
qed

lemma tame_lift_bind [tame_intros]:
  "nofuel r \<Longrightarrow> (\<And>x. r = Inr x \<Longrightarrow> tame b I (f x)) \<Longrightarrow> tame b I (act_bind (act_lift r) f)"
  by (cases r) (auto simp: tame_def act_simps nofuel_def)

lemma tame_then [tame_intros]: "tame b I m \<Longrightarrow> tame b I n \<Longrightarrow> tame b I (act_then m n)"
  unfolding act_then_def by (rule tame_bind)

lemma tame_drop [tame_intros]: "tame b I m \<Longrightarrow> tame b I (act_drop m)"
  unfolding act_drop_def by (intro tame_intros)

lemma tame_ite [tame_intros]:
  "(c \<Longrightarrow> tame b I m) \<Longrightarrow> (\<not> c \<Longrightarrow> tame b I n) \<Longrightarrow> tame b I (if c then m else n)"
  by simp

lemma tame_if [tame_intros]:
  "tame b I c \<Longrightarrow> tame b I m \<Longrightarrow> tame b I n \<Longrightarrow> tame b I (act_if c m n)"
  unfolding act_if_def by (intro tame_bind tame_ite)

lemma tame_unless [tame_intros]: "tame b I c \<Longrightarrow> tame b I m \<Longrightarrow> tame b I (act_unless c m)"
  unfolding act_unless_def by (intro tame_if tame_basic)

lemma tame_when [tame_intros]: "(c \<Longrightarrow> tame b I m) \<Longrightarrow> tame b I (act_when c m)"
  by (auto simp: act_when_def intro: tame_basic)

lemma tame_block [tame_intros]: "list_all (tame b I) ms \<Longrightarrow> tame b I (act_block ms)"
  by (induction ms) (auto intro!: tame_intros)

lemma tame_for [tame_intros]: "(\<And>x. tame b I (f x)) \<Longrightarrow> tame b I (act_for xs f)"
  by (induction xs) (auto intro!: tame_intros)

lemma tame_try [tame_intros]:
  assumes m: "tame b I m" and h: "\<And>e. e = Out_of_fuel \<longrightarrow> b \<Longrightarrow> tame b I (h e)"
  shows "tame b I (act_try m h)"
  unfolding tame_def
proof (intro allI impI)
  fix s assume s: "I s"
  obtain r s' where ms: "m s = (r, s')" by fastforce
  with tameD [OF m s] have "I s'" "r = Inl Out_of_fuel \<longrightarrow> b" by simp_all
  with h ms show "I (snd (act_try m h s)) \<and> (fst (act_try m h s) = Inl Out_of_fuel \<longrightarrow> b)"
    by (cases r) (auto simp: act_simps tame_def)
qed

lemma tame_except [tame_intros]:
  "tame b I m \<Longrightarrow> (\<And>e. cls e \<Longrightarrow> e = Out_of_fuel \<longrightarrow> b \<Longrightarrow> tame b I (h e)) \<Longrightarrow>
   tame b I (act_except m cls h)"
  unfolding act_except_def by (intro tame_intros) auto

lemma tame_case_option [tame_intros]:
  "tame b I m \<Longrightarrow> (\<And>x. tame b I (f x)) \<Longrightarrow> tame b I (case v of None \<Rightarrow> m | Some x \<Rightarrow> f x)"
  by (cases v) simp_all

lemma tame_case_prod [tame_intros]:
  "(\<And>x y. tame b I (f x y)) \<Longrightarrow> tame b I (case p of (x, y) \<Rightarrow> f x y)"
  by (cases p) simp

lemma tame_Let [tame_intros]: "(\<And>x. tame b I (f x)) \<Longrightarrow> tame b I (let x = v in f x)"
  by simp

section \<open>A tame network\<close>

definition api_tame :: "bool \<Rightarrow> ('c \<Rightarrow> bool) \<Rightarrow> 'c dkg_api \<Rightarrow> bool" where
  "api_tame b I a \<longleftrightarrow>
     (\<forall>k. tame b I (api_sleep a k)) \<and>
     tame b I (w3_latest_timestamp a) \<and> tame b I (w3_latest_number a) \<and>
     (\<forall>i. tame b I (w3_block_transactions a i)) \<and>
     (\<forall>h. tame b I (w3_transaction_receipt a h)) \<and>
     (\<forall>n. tame b I (dkg_nodes_for_schain a n)) \<and>
     (\<forall>n. tame b I (dkg_rotation_counter a n)) \<and>
     tame b I (dkg_get_dkg_timeout a) \<and>
     (\<forall>g. tame b I (dkg_channel_started_block a g) \<and> tame b I (dkg_channel_started_time a g) \<and>
          tame b I (dkg_alright_started_time a g) \<and> tame b I (dkg_is_channel_opened a g) \<and>
          tame b I (dkg_last_successful a g) \<and> tame b I (dkg_time_of_last_successful a g) \<and>
          tame b I (dkg_everyone_broadcasted a g) \<and> tame b I (dkg_number_of_completed a g) \<and>
          tame b I (dkg_complaint_data a g) \<and> tame b I (dkg_common_public_key a g)) \<and>
     (\<forall>g i. tame b I (dkg_node_broadcasted a g i) \<and> tame b I (dkg_broadcast_possible a g i) \<and>
          tame b I (dkg_alright_possible a g i) \<and> tame b I (dkg_pre_response_possible a g i) \<and>
          tame b I (dkg_response_possible a g i) \<and> tame b I (dkg_all_data_received a g i) \<and>
          tame b I (dkg_send_alright a g i)) \<and>
     (\<forall>g i j. tame b I (dkg_complaint_possible a g i j) \<and> tame b I (dkg_send_complaint a g i j) \<and>
          tame b I (dkg_send_complaint_bad_data a g i j)) \<and>
     (\<forall>g i v k rot. tame b I (dkg_send_broadcast a g i v k rot)) \<and>
     (\<forall>g i v w k. tame b I (dkg_send_pre_response a g i v w k)) \<and>
     (\<forall>g i d p. tame b I (dkg_send_response a g i d p)) \<and>
     (\<forall>p. tame b I (sgx_generate_dkg_poly a p) \<and> tame b I (sgx_get_verification_vector a p) \<and>
          tame b I (sgx_get_bls_public_key a p)) \<and>
     (\<forall>p ks. tame b I (sgx_get_secret_key_contribution_v2 a p ks)) \<and>
     (\<forall>v e s i. tame b I (sgx_verify_secret_share_v2 a v e s i)) \<and>
     (\<forall>p q e s. tame b I (sgx_create_bls_private_key_v2 a p q e s)) \<and>
     (\<forall>p i. tame b I (sgx_complaint_response a p i)) \<and>
     (\<forall>vs. tame b I (sgx_calculate_all_bls_public_keys a vs))"

text \<open>What the methods never change: the identity of the client and the lengths of its
  lists.\<close>

definition client_ok :: "dkg_client \<Rightarrow> dkg_client \<Rightarrow> bool" where
  "client_ok cl0 cl \<longleftrightarrow>
     cl_schain_name cl = cl_schain_name cl0 \<and> cl_group_index cl = cl_group_index cl0 \<and>
     cl_node_id_contract cl = cl_node_id_contract cl0 \<and> cl_node_id_dkg cl = cl_node_id_dkg cl0 \<and>
     cl_t cl = cl_t cl0 \<and> cl_n cl = cl_n cl0 \<and> cl_eth_key_name cl = cl_eth_key_name cl0 \<and>
     cl_poly_name cl = cl_poly_name cl0 \<and> cl_bls_name cl = cl_bls_name cl0 \<and>
     cl_rotation_id cl = cl_rotation_id cl0 \<and> cl_public_keys cl = cl_public_keys cl0 \<and>
     cl_node_ids_dkg cl = cl_node_ids_dkg cl0 \<and>
     cl_node_ids_contract cl = cl_node_ids_contract cl0 \<and>
     cl_dkg_timeout cl = cl_dkg_timeout cl0 \<and>
     cl_complaint_error_event_hash cl = cl_complaint_error_event_hash cl0 \<and>
     length (cl_incoming_verification_vector cl) = length (cl_incoming_verification_vector cl0) \<and>
     length (cl_incoming_secret_key_contribution cl) =
       length (cl_incoming_secret_key_contribution cl0)"

definition run_inv :: "('c \<Rightarrow> bool) \<Rightarrow> dkg_client \<Rightarrow> 'c run \<Rightarrow> bool" where
  "run_inv I cl0 s \<longleftrightarrow> I (run_net s) \<and> client_ok cl0 (run_client s)"

lemma client_ok_refl [simp]: "client_ok cl cl"
  by (simp add: client_ok_def)

lemma client_ok_upd [simp]:
  "client_ok cl0 cl \<Longrightarrow> client_ok cl0 (cl\<lparr>cl_last_completed_step := st\<rparr>)"
  "client_ok cl0 cl \<Longrightarrow> client_ok cl0 (cl\<lparr>cl_public_key := pk\<rparr>)"
  "client_ok cl0 cl \<Longrightarrow> client_ok cl0 (cl\<lparr>cl_sent_secret_key_contribution := c\<rparr>)"
  "client_ok cl0 cl \<Longrightarrow> length vs = length (cl_incoming_verification_vector cl0) \<Longrightarrow>
   client_ok cl0 (cl\<lparr>cl_incoming_verification_vector := vs\<rparr>)"
  "client_ok cl0 cl \<Longrightarrow> length cs = length (cl_incoming_secret_key_contribution cl0) \<Longrightarrow>
   client_ok cl0 (cl\<lparr>cl_incoming_secret_key_contribution := cs\<rparr>)"
  "client_ok cl0 cl \<Longrightarrow> client_ok cl0 (cl\<lparr>cl_poly_name := cl_poly_name cl0\<rparr>)"
  by (simp_all add: client_ok_def)

lemma tame_on_net [tame_intros]: "tame b I m \<Longrightarrow> tame b (run_inv I cl0) (on_net m)"
  by (force simp: tame_def run_inv_def act_simps split: prod.split)

lemma tame_with_client [tame_intros]:
  "(\<And>cl. client_ok cl0 cl \<Longrightarrow> tame b (run_inv I cl0) (f cl)) \<Longrightarrow>
   tame b (run_inv I cl0) (with_client f)"
  by (auto simp: tame_def run_inv_def act_simps)

lemma tame_set_client [tame_intros]:
  "(\<And>cl. client_ok cl0 cl \<Longrightarrow> client_ok cl0 (g cl)) \<Longrightarrow> tame b (run_inv I cl0) (set_client g)"
  by (simp add: tame_def run_inv_def act_simps)

lemma set_item_length: "set_item i v xs = Inr ys \<Longrightarrow> length ys = length xs"
  by (auto simp: set_item_def split: if_splits)

lemma tame_setters [tame_intros]:
  "tame b (run_inv I cl0) (set_last_completed_step st)"
  "tame b (run_inv I cl0) (set_incoming_skc i c)"
  "tame b (run_inv I cl0) (set_incoming_vv i v)"
  "tame b (run_inv I cl0) (set_sent_skc c)"
  unfolding set_last_completed_step_def set_incoming_skc_def set_incoming_vv_def set_sent_skc_def
  by (intro tame_intros nofuel_intros; simp add: set_item_length client_ok_def)+

lemma tame_store [tame_intros]: "tame b (run_inv I cl0) (store_broadcasted_data d i)"
  unfolding store_broadcasted_data_def by (intro tame_intros nofuel_intros)

locale dkg_network =
  fixes a :: "'c dkg_api" and b :: bool and I :: "'c \<Rightarrow> bool"
  assumes api: "api_tame b I a"
begin

lemma tame_calls [tame_intros]:
  "tame b I (api_sleep a t)"
  "tame b I (w3_latest_timestamp a)" "tame b I (w3_latest_number a)"
  "tame b I (w3_block_transactions a x)" "tame b I (w3_transaction_receipt a h)"
  "tame b I (dkg_nodes_for_schain a n)" "tame b I (dkg_rotation_counter a n)"
  "tame b I (dkg_get_dkg_timeout a)" "tame b I (dkg_channel_started_block a g)"
  "tame b I (dkg_channel_started_time a g)" "tame b I (dkg_alright_started_time a g)"
  "tame b I (dkg_is_channel_opened a g)" "tame b I (dkg_last_successful a g)"
  "tame b I (dkg_time_of_last_successful a g)" "tame b I (dkg_everyone_broadcasted a g)"
  "tame b I (dkg_number_of_completed a g)" "tame b I (dkg_complaint_data a g)"
  "tame b I (dkg_common_public_key a g)" "tame b I (dkg_node_broadcasted a g i)"
  "tame b I (dkg_broadcast_possible a g i)" "tame b I (dkg_alright_possible a g i)"
  "tame b I (dkg_pre_response_possible a g i)" "tame b I (dkg_response_possible a g i)"
  "tame b I (dkg_all_data_received a g i)" "tame b I (dkg_send_alright a g i)"
  "tame b I (dkg_complaint_possible a g i j)" "tame b I (dkg_send_complaint a g i j)"
  "tame b I (dkg_send_complaint_bad_data a g i j)" "tame b I (dkg_send_broadcast a g i v ks rot)"
  "tame b I (dkg_send_pre_response a g i v w ks)" "tame b I (dkg_send_response a g i d p)"
  "tame b I (sgx_generate_dkg_poly a q)" "tame b I (sgx_get_verification_vector a q)"
  "tame b I (sgx_get_bls_public_key a q)" "tame b I (sgx_get_secret_key_contribution_v2 a q pks)"
  "tame b I (sgx_verify_secret_share_v2 a u e c m)"
  "tame b I (sgx_create_bls_private_key_v2 a q r e c)" "tame b I (sgx_complaint_response a q m)"
  "tame b I (sgx_calculate_all_bls_public_keys a us)"
  using api by (simp_all add: api_tame_def)

lemma tame_on_sc_net [tame_intros]: "tame b I m \<Longrightarrow> tame b (\<lambda>s. I (sc_net s)) (on_sc_net m)"
  by (force simp: tame_def act_simps split: prod.split)

lemma tame_scan: "tame b (\<lambda>s. I (sc_net s)) (scan_blocks a flag f)"
  unfolding scan_blocks_def scan_block_def scan_tx_def
  by (intro tame_intros nofuel_intros; simp)

lemma tame_get_events [tame_intros]: "tame b I (get_events a flag f)"
proof -
  have "tame b (\<lambda>s. I (sc_net s)) (act_except (scan_blocks a flag f)
      (\<lambda>e. is_value_error e \<or> is_web3_exception e) (\<lambda>_. act_return ()))"
    by (intro tame_intros tame_scan)
  from tameD [OF this, of "\<lparr>sc_net = c, sc_events = [], sc_filter = f\<rparr>" for c]
  show ?thesis by (auto simp: tame_def get_events_def split: prod.splits sum.splits)
qed

lemma tame_retry_loop:
  assumes "tame b (run_inv I cl0) m" and "err \<noteq> Out_of_fuel"
  shows "tame b (run_inv I cl0) (sgx_retry_loop a m err ts)"
  using assms(2)
proof (induction ts arbitrary: err)
  case (Cons t ts)
  have "e \<noteq> Out_of_fuel" if "is_sgx_unreachable e" for e using that by (cases e) simp_all
  with Cons.IH show ?case
    unfolding sgx_retry_loop.simps by (intro tame_intros assms(1)) simp_all
qed (simp add: tame_intros)

lemma tame_retry [tame_intros]:
  "tame b (run_inv I cl0) m \<Longrightarrow> tame b (run_inv I cl0) (sgx_unreachable_retry a m)"
  unfolding sgx_unreachable_retry_def by (intro tame_retry_loop) simp_all

lemma tame_client_ops [tame_intros]:
  "tame b (run_inv I cl0) (is_channel_opened a)"
  "tame b (run_inv I cl0) (verification_vector a)"
  "tame b (run_inv I cl0) (secret_key_contribution a)"
  "tame b (run_inv I cl0) (is_node_broadcasted a)"
  "tame b (run_inv I cl0) (verification a i)"
  "tame b (run_inv I cl0) (is_bls_key_generated a)"
  "tame b (run_inv I cl0) (fetch_public_key a q)"
  "tame b (run_inv I cl0) (get_complaint_response a m)"
  "tame b (run_inv I cl0) (is_all_data_received a i)"
  "tame b (run_inv I cl0) (is_everyone_broadcasted a)"
  "tame b (run_inv I cl0) (is_everyone_sent_algright a)"
  "tame b (run_inv I cl0) (complaint_data a)"
  "tame b (run_inv I cl0) (channel_started_time a)"
  "tame b (run_inv I cl0) (get_latest_block_timestamp a)"
  "tame b I (get_common_bls_public_key a g)"
  "tame b I (is_last_dkg_finished a n)"
  "tame b I (check_failed_dkg a n)"
  unfolding is_channel_opened_def verification_vector_def secret_key_contribution_def
    is_node_broadcasted_def verification_def is_bls_key_generated_def fetch_public_key_def
    get_complaint_response_def is_all_data_received_def is_everyone_broadcasted_def
    is_everyone_sent_algright_def complaint_data_def channel_started_time_def
    get_latest_block_timestamp_def get_common_bls_public_key_def is_last_dkg_finished_def
    check_failed_dkg_def
  by (intro tame_intros nofuel_intros; simp)+

lemma tame_polynomial [tame_intros]:
  "q = cl_poly_name cl0 \<Longrightarrow> tame b (run_inv I cl0) (generate_polynomial a q)"
  unfolding generate_polynomial_def by (intro tame_intros) simp_all

lemma tame_client_ops2 [tame_intros]:
  "tame b (run_inv I cl0) (broadcast a)"
  "tame b (run_inv I cl0) (receive_from_node a i d)"
  "tame b (run_inv I cl0) (generate_bls_key a)"
  "tame b (run_inv I cl0) (fetch_bls_public_key a)"
  "tame b (run_inv I cl0) (client_bls_public_keys a)"
  "tame b (run_inv I cl0) (alright a)"
  "tame b (run_inv I cl0) (client_send_complaint a i reason)"
  "tame b (run_inv I cl0) (client_response a m)"
  "tame b (run_inv I cl0) (fetch_all_broadcasted_data a)"
  "tame b (run_inv I cl0) (check_no_complaints a)"
  "tame b (run_inv I cl0) (client_check_failed a)"
  "tame b (run_inv I cl0) (utils_response a m)"
  unfolding broadcast_def receive_from_node_def generate_bls_key_def fetch_bls_public_key_def
    client_bls_public_keys_def bls_public_keys_body_def alright_def client_send_complaint_def
    client_response_def fetch_all_broadcasted_data_def check_no_complaints_def
    client_check_failed_def utils_response_def
  by (intro tame_intros nofuel_intros; simp add: client_ok_def)+

lemma tame_sync_event [tame_intros]: "tame b (run_inv I cl0) (sync_event a ev st)"
  unfolding sync_event_def
  by (intro tame_intros nofuel_intros) (auto split: exn.split intro!: tame_intros nofuel_intros)

lemma tame_sync [tame_intros]:
  "tame b (run_inv I cl0) (sync_events a evs st)"
  "tame b (run_inv I cl0) (sync_broadcast_data a f st)"
proof -
  show ev: "tame b (run_inv I cl0) (sync_events a evs st)" for evs st
    by (induction evs arbitrary: st) (auto intro!: tame_intros)
  show "tame b (run_inv I cl0) (sync_broadcast_data a f st)"
    unfolding sync_broadcast_data_def by (intro tame_intros ev)
qed

lemma tame_bls_keys [tame_intros]: "tame b (run_inv I cl0) (generate_bls_keys a)"
  unfolding generate_bls_keys_def by (intro tame_intros) simp_all

lemma tame_poll [tame_intros]: "tame b (run_inv I cl0) (poll_alright a is sent)"
  by (induction "is" arbitrary: sent) (auto intro!: tame_intros nofuel_intros)

lemma tame_own_alright [tame_intros]: "tame b (run_inv I cl0) (own_alright a)"
  unfolding own_alright_def by (intro tame_intros)

lemma tame_key_generation [tame_intros]: "tame b (run_inv I cl0) (dkg_key_generation a st)"
  unfolding dkg_key_generation_def
  by (intro tame_intros) (auto split: exn.split intro!: tame_intros)

end

text \<open>The procedure, once its waiting loops are tame.\<close>

locale dkg_rounds = dkg_network a b I for a :: "'c dkg_api" and b I +
  fixes k :: nat and cl0 :: dkg_client
  assumes wait [tame_intros]: "tame b I (wait_for_fail a k n started)"
    and receive [tame_intros]: "tame b (run_inv I cl0) (receive_broadcast_data a k)"
    and alrights [tame_intros]: "tame b (run_inv I cl0) (await_alrights a k sent)"
begin

lemma tame_waiting [tame_intros]:
  "tame b (run_inv I cl0) (client_wait a k started)"
  "tame b (run_inv I cl0) (send_complaint a k i reason)"
  "tame b (run_inv I cl0) (report_bad_data a k i)"
  "tame b (run_inv I cl0) (check_response a k)"
  unfolding send_complaint_def report_bad_data_def check_response_def client_wait_def
  by (intro tame_intros; auto intro!: tame_intros)+

lemma tame_check_positions: "tame b (run_inv I cl0) (check_positions a k res is)"
  by (induction "is") (auto intro!: tame_intros nofuel_intros)

lemma tame_complain_no_alright: "tame b (run_inv I cl0) (complain_no_alright a k sent is)"
  by (induction "is") (auto intro!: tame_intros nofuel_intros)

lemma tame_rounds [tame_intros]:
  "tame b (run_inv I cl0) (check_broadcast_result a k res)"
  "tame b (run_inv I cl0) (broadcast_and_check_data a k)"
  "tame b (run_inv I cl0) (settle_complaint a k started)"
  unfolding check_broadcast_result_def broadcast_and_check_data_def settle_complaint_def
  by (auto intro!: tame_intros nofuel_intros tame_check_positions)

lemma tame_after_alrights [tame_intros]:
  "tame b (run_inv I cl0) (after_alrights a k started sent)"
  unfolding after_alrights_def by (auto intro!: tame_intros tame_complain_no_alright)

lemma tame_init_bls [tame_intros]: "tame b (run_inv I cl0) (init_bls a k rot)"
  unfolding init_bls_def by (auto intro!: tame_intros)

lemma tame_procedure [tame_intros]: "tame b (run_inv I cl0) (dkg_procedure a k n rot)"
  unfolding dkg_procedure_def dkg_attempt_def by (intro tame_intros)

lemma tame_run_dkg: "tame b (run_inv I cl0) (run_dkg a k n rot)"
  unfolding run_dkg_def by (intro tame_intros)

end

section \<open>Predicates of the network that every call keeps\<close>

text \<open>The loops keep what the calls keep, whatever their bound.\<close>

context dkg_network
begin

lemma tame_out_of_fuel: "b \<Longrightarrow> tame b J (act_raise Out_of_fuel)"
  by (simp add: tame_def act_simps)

lemma wait_keeps:
  assumes b
  shows "tame b I (wait_for_fail a k n started)"
proof -
  have "tame b I (wait_loop a k n started start timeout)" for start timeout
  proof (induction k)
    case 0
    show ?case unfolding wait_loop.simps using assms by (rule tame_out_of_fuel)
  next
    case (Suc k)
    then show ?case unfolding wait_loop.simps by (intro tame_intros) simp_all
  qed
  then show ?thesis unfolding wait_for_fail_def by (intro tame_intros)
qed

lemma receive_loop_keeps:
  assumes b
  shows "tame b (run_inv I cl0) (receive_loop a k start f st)"
proof (induction k arbitrary: f st)
  case 0
  show ?case unfolding receive_loop.simps using assms by (rule tame_out_of_fuel)
next
  case (Suc k)
  then show ?case unfolding receive_loop.simps by (intro tame_intros)
qed

lemma receive_keeps: "b \<Longrightarrow> tame b (run_inv I cl0) (receive_broadcast_data a k)"
  unfolding receive_broadcast_data_def by (intro tame_intros receive_loop_keeps)

lemma alright_loop_keeps:
  assumes b
  shows "tame b (run_inv I cl0) (alright_loop a k start sent)"
proof (induction k arbitrary: sent)
  case 0
  show ?case unfolding alright_loop.simps using assms by (rule tame_out_of_fuel)
next
  case (Suc k)
  then show ?case unfolding alright_loop.simps by (intro tame_intros)
qed

lemma alrights_keeps: "b \<Longrightarrow> tame b (run_inv I cl0) (await_alrights a k sent)"
  unfolding await_alrights_def by (intro tame_intros alright_loop_keeps)

end

text \<open>A network whose calls keep a predicate: the whole procedure keeps it.\<close>

locale dkg_keeps =
  fixes a :: "'c dkg_api" and I :: "'c \<Rightarrow> bool"
  assumes keeps_api: "api_tame True I a"

sublocale dkg_keeps \<subseteq> net: dkg_network a True I
  by unfold_locales (rule keeps_api)

sublocale dkg_keeps \<subseteq> rounds: dkg_rounds a True I k cl0 for k cl0
  by unfold_locales (simp_all add: net.wait_keeps net.receive_keeps net.alrights_keeps)

context dkg_keeps
begin

lemmas run_keeps = rounds.tame_run_dkg

end

end
