(* ===== verification/Dkg_Termination.thy ===== *)
theory Dkg_Termination
  imports Dkg_Invariants
begin

text \<open>
  The client that a key generation starts with is well formed, and the generation ends: on a
  network whose clock advances (interface \<open>chain_clock\<close>), two rounds more than the contracts'
  timeout in seconds are never used up.
\<close>

section \<open>The client at the start\<close>

definition client_wf :: "dkg_client \<Rightarrow> bool" where
  "client_wf cl \<longleftrightarrow>
     cl_node_id_dkg cl < cl_n cl \<and> cl_t cl = (2 * cl_n cl + 1) div 3 \<and>
     length (cl_incoming_verification_vector cl) = cl_n cl \<and>
     length (cl_incoming_secret_key_contribution cl) = cl_n cl \<and>
     length (cl_public_keys cl) = cl_n cl \<and>
     (\<forall>i < cl_n cl. \<exists>d. tab_get (cl_node_ids_dkg cl) i = Some d) \<and>
     (\<forall>d j. tab_get (cl_node_ids_contract cl) d = Some j \<longrightarrow>
        j < cl_n cl \<and> tab_get (cl_node_ids_dkg cl) j = Some d) \<and>
     tab_get (cl_node_ids_dkg cl) (cl_node_id_dkg cl) = Some (cl_node_id_contract cl)"

text \<open>Every node of a position has a position under its id; the two tables are inverse to each
  other when no node is listed twice.\<close>

definition client_ids_ok :: "dkg_client \<Rightarrow> bool" where
  "client_ids_ok cl \<longleftrightarrow>
     (\<forall>i < cl_n cl. \<forall>d. tab_get (cl_node_ids_dkg cl) i = Some d \<longrightarrow>
        (\<exists>j. tab_get (cl_node_ids_contract cl) d = Some j))"

lemma client_ids_inverse:
  assumes "client_wf cl" and "client_ids_ok cl"
    and inj: "inj_on (tab_get (cl_node_ids_dkg cl)) {..<cl_n cl}" and i: "i < cl_n cl"
  shows "tab_get (cl_node_ids_dkg cl) i = Some d \<longleftrightarrow> tab_get (cl_node_ids_contract cl) d = Some i"
proof
  assume d: "tab_get (cl_node_ids_dkg cl) i = Some d"
  with assms(2) i obtain j where j: "tab_get (cl_node_ids_contract cl) d = Some j"
    by (auto simp: client_ids_ok_def)
  with assms(1) have "j < cl_n cl" "tab_get (cl_node_ids_dkg cl) j = Some d"
    by (auto simp: client_wf_def)
  with inj_onD [OF inj, of j i] i d have "j = i" by simp
  with j show "tab_get (cl_node_ids_contract cl) d = Some i" by simp
qed (use assms(1) in \<open>auto simp: client_wf_def\<close>)

lemma client_ids_same: "client_ids_ok cl0 \<Longrightarrow> client_ok cl0 cl \<Longrightarrow> client_ids_ok cl"
  by (simp add: client_ids_ok_def client_ok_def)

lemma client_wf_ok: "client_wf cl0 \<Longrightarrow> client_ok cl0 cl \<Longrightarrow> client_wf cl"
  by (simp add: client_wf_def client_ok_def)

fun scan_ok ::
  "int \<Rightarrow> nat \<Rightarrow> nat option \<times> (int, nat) table \<times> (nat, int) table \<times> string list \<Rightarrow> bool" where
  "scan_ok node_id i (idx, ids_contract, ids_dkg, keys) \<longleftrightarrow>
     length keys = i \<and> (\<forall>j < i. \<exists>d. tab_get ids_dkg j = Some d) \<and>
     (\<forall>d j. tab_get ids_contract d = Some j \<longrightarrow> j < i \<and> tab_get ids_dkg j = Some d) \<and>
     (\<forall>j < i. \<forall>d. tab_get ids_dkg j = Some d \<longrightarrow> (\<exists>k. tab_get ids_contract d = Some k)) \<and>
     (\<forall>j. idx = Some j \<longrightarrow> j < i \<and> tab_get ids_dkg j = Some node_id)"

lemma scan_nodes_ok:
  "scan_nodes node_id i nodes acc = Inr acc' \<Longrightarrow> scan_ok node_id i acc \<Longrightarrow>
   scan_ok node_id (i + length nodes) acc'"
proof (induction node_id i nodes acc rule: scan_nodes.induct)
  case (3 node_id i node nodes idx ids_contract ids_dkg keys)
  have "scan_ok node_id (Suc i)
      (if dn_id node = node_id then Some i else idx, tab_put (dn_id node) i ids_contract,
       tab_put i (dn_id node) ids_dkg, keys @ [dn_publicKey node])"
    using 3(3) by (auto simp: alist_simps less_Suc_eq)
  with 3 show ?case by simp
qed auto

lemma init_dkg_client_wf:
  assumes "init_dkg_client a node_id schain_name key rot c = (Inr cl, c')"
  shows "client_wf cl \<and> client_ids_ok cl \<and> cl_schain_name cl = schain_name \<and> cl_node_id_contract cl = node_id \<and>
    cl_group_index cl = name_to_group_id a schain_name \<and> cl_rotation_id cl = rot \<and>
    (\<exists>c1 c2. dkg_get_dkg_timeout a c1 = (Inr (cl_dkg_timeout cl), c2))"
proof -
  from assms obtain nodes c1 i ic idk keys where
    n: "dkg_nodes_for_schain a schain_name c = (Inr nodes, c1)"
    and s: "scan_nodes node_id 0 nodes (None, [], [], []) = Inr (Some i, ic, idk, keys)"
    and m: "make_dkg_client a i node_id ((2 * length nodes + 1) div 3) (length nodes) schain_name
      keys idk ic key rot c1 = (Inr cl, c')"
    by (auto simp: init_dkg_client_def act_simps Let_def
        split: prod.splits sum.splits option.splits)
  have "scan_ok node_id (length nodes) (Some i, ic, idk, keys)"
    using scan_nodes_ok [OF s] by (simp add: tab_get_eval)
  with m show ?thesis
    by (auto simp: make_dkg_client_def Let_def act_simps client_wf_def client_ids_ok_def
        split: prod.splits sum.splits) blast+
qed

lemma get_dkg_client_init:
  assumes "get_dkg_client a k node_id schain_name key rot c = (Inr cl, c')"
  shows "init_dkg_client a node_id schain_name key rot c = (Inr cl, c')"
  using assms by (auto simp: get_dkg_client_def act_simps split: prod.splits sum.splits if_splits)

section \<open>A clock that advances\<close>

text \<open>After a step, a stronger predicate may hold for what follows.\<close>

lemma tame_since:
  assumes m: "tame b I m"
    and f: "\<And>s x s'. I s \<Longrightarrow> I s' \<Longrightarrow> m s = (Inr x, s') \<Longrightarrow>
      \<exists>I'. I' s' \<and> (\<forall>u. I' u \<longrightarrow> I u) \<and> tame b I' (f x)"
  shows "tame b I (act_bind m f)"
  unfolding tame_def
proof (intro allI impI)
  fix s assume s: "I s"
  obtain r s' where ms: "m s = (r, s')" by fastforce
  with tameD [OF m s] have i: "I s'" "r = Inl Out_of_fuel \<longrightarrow> b" by simp_all
  show "I (snd (act_bind m f s)) \<and> (fst (act_bind m f s) = Inl Out_of_fuel \<longrightarrow> b)"
  proof (cases r)
    case (Inl e)
    with ms i show ?thesis by (simp add: act_simps)
  next
    case (Inr x)
    with f [OF s] ms i obtain I' where "I' s'" "\<forall>u. I' u \<longrightarrow> I u" "tame b I' (f x)" by auto
    with Inr ms show ?thesis by (auto simp: act_simps tame_def)
  qed
qed

lemma tame_bind_val:
  assumes "tame b I m" and "\<And>s x s'. I s \<Longrightarrow> m s = (Inr x, s') \<Longrightarrow> Q x"
    and "\<And>x. Q x \<Longrightarrow> tame b I (f x)"
  shows "tame b I (act_bind m f)"
  using assms by (blast intro: tame_since)

lemma tame_then_step:
  assumes "tame b I m" and "\<And>s. I s \<Longrightarrow> I' (snd (m s))" and "tame b I' n"
    and "\<And>s. I' s \<Longrightarrow> I s"
  shows "tame b I (act_then m n)"
  unfolding act_then_def using assms(1)
proof (rule tame_since)
  fix s x s' assume "I s" "m s = (Inr x, s')"
  with assms(2) have "I' s'" by force
  with assms(3,4) show "\<exists>I'. I' s' \<and> (\<forall>u. I' u \<longrightarrow> I u) \<and> tame b I' n" by blast
qed

locale chain_clock =
  fixes a :: "'c dkg_api" and time :: "'c \<Rightarrow> int" and T :: int
  assumes clock_api: "api_tame False (\<lambda>c. t \<le> time c) a"
    and latest: "w3_latest_timestamp a c = (Inr ts, c') \<Longrightarrow> ts = time c'"
    and sleeping: "time c < time (snd (api_sleep a 30 c))"
    and started: "dkg_channel_started_time a g c = (Inr ts, c') \<Longrightarrow> ts \<le> time c'"
    and alright_started: "dkg_alright_started_time a g c = (Inr ts, c') \<Longrightarrow> ts \<le> time c'"
    and timeout: "dkg_get_dkg_timeout a c = (Inr v, c') \<Longrightarrow> v \<le> T"

sublocale chain_clock \<subseteq> at: dkg_network a False "\<lambda>c. t \<le> time c" for t
  by unfold_locales (rule clock_api)

context chain_clock
begin

lemma clock_step: "t \<le> time c \<Longrightarrow> t + 1 \<le> time (snd (api_sleep a 30 c))"
  using sleeping [of c] by simp

lemma wait_loop_tame:
  "0 < k \<Longrightarrow> timeout' + start + 1 \<le> int k + t \<Longrightarrow>
   tame False (\<lambda>c. t \<le> time c) (wait_loop a k n st start timeout')"
proof (induction k arbitrary: t)
  case (Suc k)
  have rec: "tame False (\<lambda>c. t + 1 \<le> time c) (wait_loop a k n st start timeout')"
    if "t \<le> ts" "ts - start < timeout'" for ts
    using that Suc.prems by (intro Suc.IH) auto
  show ?case
    unfolding wait_loop.simps
  proof (rule tame_bind_val [where Q = "\<lambda>ts. t \<le> ts"])
    show "tame False (\<lambda>c. t \<le> time c) (w3_latest_timestamp a)" by (rule at.tame_calls)
    show "t \<le> ts" if "t \<le> time c" "w3_latest_timestamp a c = (Inr ts, c')" for c ts c'
      using latest [OF that(2)] tameD [OF at.tame_calls(2) that(1,2)] by simp
    fix ts assume "t \<le> ts"
    then show "tame False (\<lambda>c. t \<le> time c)
        (if \<not> (ts - start < timeout') then act_return ()
         else act_then (check_failed_dkg a n)
            (act_bind (dkg_channel_started_time a (name_to_group_id a n)) (\<lambda>now_started.
             if st \<noteq> now_started then act_raise (DkgFailedError n)
             else act_then (api_sleep a 30) (wait_loop a k n st start timeout'))))"
      by (intro tame_intros tame_then_step [where I' = "\<lambda>c. t + 1 \<le> time c"] rec)
        (auto intro: clock_step)
  qed
qed simp

lemma wait_for_fail_tame:
  assumes "T + 1 \<le> int k" "0 < k"
  shows "tame False (\<lambda>c. t \<le> time c) (wait_for_fail a k n st)"
  unfolding wait_for_fail_def
proof (rule tame_since)
  show "tame False (\<lambda>c. t \<le> time c) (w3_latest_timestamp a)" by (rule at.tame_calls)
  fix c start c'
  assume t: "t \<le> time c'" and "w3_latest_timestamp a c = (Inr start, c')"
  then have start: "start = time c'" by (intro latest)
  have "tame False (\<lambda>c. start \<le> time c)
      (act_bind (dkg_get_dkg_timeout a) (\<lambda>v. wait_loop a k n st start v))"
  proof (rule tame_bind_val [where Q = "\<lambda>v. v \<le> T"])
    show "tame False (\<lambda>c. start \<le> time c) (dkg_get_dkg_timeout a)" by (rule at.tame_calls)
    show "v \<le> T" if "dkg_get_dkg_timeout a u = (Inr v, u')" for u v u'
      using that by (rule timeout)
    show "tame False (\<lambda>c. start \<le> time c) (wait_loop a k n st start v)" if "v \<le> T" for v
      using that assms by (intro wait_loop_tame) auto
  qed
  with t start show "\<exists>I'. I' c' \<and> (\<forall>u. I' u \<longrightarrow> t \<le> time u) \<and> tame False I'
      (act_bind (dkg_get_dkg_timeout a) (\<lambda>v. wait_loop a k n st start v))"
    by (intro exI [of _ "\<lambda>c. start \<le> time c"]) auto
qed

lemma latest_run:
  assumes "run_inv (\<lambda>c. t \<le> time c) cl0 s" "get_latest_block_timestamp a s = (Inr ts, s')"
  shows "t \<le> ts"
proof -
  from assms(2) obtain c' where l: "w3_latest_timestamp a (run_net s) = (Inr ts, c')"
    by (auto simp: get_latest_block_timestamp_def act_simps split: prod.splits)
  have "t \<le> time (run_net s)" using assms(1) by (simp add: run_inv_def)
  from tameD [OF at.tame_calls(2) this l] latest [OF l] show ?thesis by simp
qed

lemma sleep_run:
  "run_inv (\<lambda>c. t \<le> time c) cl0 s \<Longrightarrow>
   run_inv (\<lambda>c. t + 1 \<le> time c) cl0 (snd (on_net (api_sleep a 30) s))"
  using clock_step [of t "run_net s"]
  by (auto simp: run_inv_def act_simps split: prod.split)

lemma run_inv_weaken: "run_inv (\<lambda>c. t + 1 \<le> time c) cl0 s \<Longrightarrow> run_inv (\<lambda>c. t \<le> time c) cl0 s"
  by (simp add: run_inv_def)

lemma receive_loop_tame:
  "0 < k \<Longrightarrow> cl_dkg_timeout cl0 + start + 2 \<le> int k + t \<Longrightarrow>
   tame False (run_inv (\<lambda>c. t \<le> time c) cl0) (receive_loop a k start f st)"
proof (induction k arbitrary: t f st)
  case (Suc k)
  have rec: "tame False (run_inv (\<lambda>c. t + 1 \<le> time c) cl0) (receive_loop a k start f' st')"
    if "t \<le> ts" "\<not> cl_dkg_timeout cl0 < ts - start" for ts f' st'
    using that Suc.prems by (intro Suc.IH) auto
  show ?case
    unfolding receive_loop.simps
  proof (intro tame_ite tame_basic tame_bind_val [where Q = "\<lambda>ts. t \<le> ts"])
    show "tame False (run_inv (\<lambda>c. t \<le> time c) cl0) (get_latest_block_timestamp a)"
      by (rule at.tame_client_ops)
    show "t \<le> ts" if "run_inv (\<lambda>c. t \<le> time c) cl0 s"
      "get_latest_block_timestamp a s = (Inr ts, s')" for s ts s'
      using that by (rule latest_run)
    fix ts assume ts: "t \<le> ts"
    have tail: "tame False (run_inv (\<lambda>c. t \<le> time c) cl0)
        (act_then (on_net (api_sleep a 30)) (receive_loop a k start f' st'))"
      if "\<not> cl_dkg_timeout cl0 < ts - start" for f' st'
      by (rule tame_then_step [where I' = "run_inv (\<lambda>c. t + 1 \<le> time c) cl0"])
        (auto intro: rec [OF ts that] sleep_run run_inv_weaken tame_intros)
    show "tame False (run_inv (\<lambda>c. t \<le> time c) cl0) (with_client (\<lambda>cl.
        let time_gone = ts - start
        in act_bind (sync_broadcast_data a f st) (\<lambda>(st', f').
           if time_gone > cl_dkg_timeout cl then act_return st'
           else act_then (on_net (api_sleep a BROADCAST_DATA_SEARCH_SLEEP))
                  (receive_loop a k start f' st'))))"
      unfolding BROADCAST_DATA_SEARCH_SLEEP_def Let_def
      by (intro tame_with_client tame_bind tame_case_prod tame_ite tame_basic at.tame_sync(2) tail)
        (simp add: client_ok_def)
  qed
qed simp

lemma alright_loop_tame:
  "0 < k \<Longrightarrow> cl_dkg_timeout cl0 + start + 2 \<le> int k + t \<Longrightarrow>
   tame False (run_inv (\<lambda>c. t \<le> time c) cl0) (alright_loop a k start sent)"
proof (induction k arbitrary: t sent)
  case (Suc k)
  have rec: "tame False (run_inv (\<lambda>c. t + 1 \<le> time c) cl0) (alright_loop a k start sent')"
    if "t \<le> ts" "\<not> cl_dkg_timeout cl0 < ts - start" for ts sent'
    using that Suc.prems by (intro Suc.IH) auto
  have body: "tame False (run_inv (\<lambda>c. t \<le> time c) cl0)
      (act_bind (get_latest_block_timestamp a) (\<lambda>ts.
         with_client (\<lambda>cl.
           if ts - start > cl_dkg_timeout cl then act_return sent
           else act_bind (poll_alright a [0..<cl_n cl] sent) (\<lambda>sent'.
                act_then (on_net (api_sleep a 30)) (alright_loop a k start sent')))))"
  proof (rule tame_bind_val [where Q = "\<lambda>ts. t \<le> ts"])
    show "tame False (run_inv (\<lambda>c. t \<le> time c) cl0) (get_latest_block_timestamp a)"
      by (rule at.tame_client_ops)
    show "t \<le> ts" if "run_inv (\<lambda>c. t \<le> time c) cl0 s"
      "get_latest_block_timestamp a s = (Inr ts, s')" for s ts s'
      using that by (rule latest_run)
    fix ts assume ts: "t \<le> ts"
    have tail: "tame False (run_inv (\<lambda>c. t \<le> time c) cl0)
        (act_then (on_net (api_sleep a 30)) (alright_loop a k start sent'))"
      if "\<not> cl_dkg_timeout cl0 < ts - start" for sent'
      by (rule tame_then_step [where I' = "run_inv (\<lambda>c. t + 1 \<le> time c) cl0"])
        (auto intro: rec [OF ts that] sleep_run run_inv_weaken tame_intros)
    show "tame False (run_inv (\<lambda>c. t \<le> time c) cl0) (with_client (\<lambda>cl.
           if ts - start > cl_dkg_timeout cl then act_return sent
           else act_bind (poll_alright a [0..<cl_n cl] sent) (\<lambda>sent'.
                act_then (on_net (api_sleep a 30)) (alright_loop a k start sent'))))"
      by (intro tame_with_client tame_bind tame_ite tame_basic at.tame_poll tail)
        (simp add: client_ok_def)
  qed
  show ?case
    unfolding alright_loop.simps by (intro tame_intros body)
qed simp

text \<open>A start time read from the contracts, then the loop.\<close>

lemma tame_started:
  assumes r: "tame False (run_inv (\<lambda>c. t \<le> time c) cl0) (on_net m)"
    and st: "\<And>c ts c'. m c = (Inr ts, c') \<Longrightarrow> ts \<le> time c'"
    and f: "\<And>ts u. t \<le> u \<Longrightarrow> ts \<le> u \<Longrightarrow> tame False (run_inv (\<lambda>c. u \<le> time c) cl0) (f ts)"
  shows "tame False (run_inv (\<lambda>c. t \<le> time c) cl0) (act_bind (on_net m) f)"
proof (rule tame_since [OF r])
  fix s ts s'
  assume i: "run_inv (\<lambda>c. t \<le> time c) cl0 s'" and "on_net m s = (Inr ts, s')"
  then have "ts \<le> time (run_net s')" by (auto simp: act_simps split: prod.splits dest: st)
  with i f [of "time (run_net s')" ts]
  show "\<exists>I'. I' s' \<and> (\<forall>u. I' u \<longrightarrow> run_inv (\<lambda>c. t \<le> time c) cl0 u) \<and> tame False I' (f ts)"
    by (intro exI [of _ "run_inv (\<lambda>c. time (run_net s') \<le> time c) cl0"])
      (auto simp: run_inv_def)
qed

lemma receive_tame:
  assumes "T + 2 \<le> int k" "0 < k" "cl_dkg_timeout cl0 \<le> T"
  shows "tame False (run_inv (\<lambda>c. t \<le> time c) cl0) (receive_broadcast_data a k)"
proof -
  have loop: "tame False (run_inv (\<lambda>c. u \<le> time c) cl0) (receive_loop a k ts f st)"
    if "ts \<le> u" for u ts f st
    using that assms by (intro receive_loop_tame) auto
  have "tame False (run_inv (\<lambda>c. t \<le> time c) cl0)
      (act_bind (on_net (dkg_channel_started_time a g)) (\<lambda>ts.
       act_bind (receive_loop a k ts f st) (\<lambda>(is_received, is_correct, _).
         act_return \<lparr>received = is_received, correct = is_correct\<rparr>)))" for g f st
    by (rule tame_started) (intro tame_intros | erule started | intro loop; assumption)+
  then show ?thesis
    unfolding receive_broadcast_data_def Let_def by (intro tame_with_client)
qed

lemma alrights_tame:
  assumes "T + 2 \<le> int k" "0 < k" "cl_dkg_timeout cl0 \<le> T"
  shows "tame False (run_inv (\<lambda>c. t \<le> time c) cl0) (await_alrights a k sent)"
  unfolding await_alrights_def
proof (rule tame_with_client, rule tame_started)
  fix cl ts u assume "t \<le> u" "ts \<le> u"
  with assms show "tame False (run_inv (\<lambda>c. u \<le> time c) cl0) (alright_loop a k ts sent)"
    by (intro alright_loop_tame) auto
qed (auto intro: tame_intros alright_started)

end

locale dkg_clock = chain_clock a time T for a :: "'c dkg_api" and time T +
  fixes k :: nat
  assumes enough: "T + 2 \<le> int k" "0 < k"
begin

lemma get_dkg_client_tame:
  "tame False (\<lambda>c. t \<le> time c) (get_dkg_client a k node_id n key rot)"
  unfolding get_dkg_client_def init_dkg_client_def make_dkg_client_def
  using enough
  by (intro tame_intros nofuel_intros wait_for_fail_tame) (auto intro!: tame_intros)

end

locale dkg_timed = dkg_clock + fixes cl0 :: dkg_client
  assumes client_timeout: "cl_dkg_timeout cl0 \<le> T"

sublocale dkg_timed \<subseteq> rounds: dkg_rounds a False "\<lambda>c. t \<le> time c" k cl0 for t
  using enough client_timeout
  by unfold_locales (auto intro: wait_for_fail_tame receive_tame alrights_tame)

context dkg_timed
begin

lemmas run_tame = rounds.tame_run_dkg

end

context dkg_clock
begin

lemma run_dkg_clock:
  assumes "cl_dkg_timeout (run_client s) \<le> T"
  shows "fst (run_dkg a k n rot s) \<noteq> Inl Out_of_fuel \<and>
    time (run_net s) \<le> time (run_net (snd (run_dkg a k n rot s)))"
proof -
  have "dkg_timed a time T k (run_client s)"
    using assms by unfold_locales
  then have "tame False (run_inv (\<lambda>c. time (run_net s) \<le> time c) (run_client s)) (run_dkg a k n rot)"
    by (rule dkg_timed.run_tame)
  from this [unfolded tame_def, rule_format, of s] show ?thesis by (simp add: run_inv_def)
qed

lemma dkg_session_clock:
  "fst (dkg_session a k node_id n key rot c) \<noteq> Inl Out_of_fuel \<and>
   time c \<le> time (snd (dkg_session a k node_id n key rot c))"
proof -
  obtain r c1 where g: "get_dkg_client a k node_id n key rot c = (r, c1)" by fastforce
  from tameD [OF get_dkg_client_tame order_refl this]
  have r: "time c \<le> time c1" "r \<noteq> Inl Out_of_fuel" by auto
  show ?thesis
  proof (cases r)
    case (Inl e)
    with g r show ?thesis by (simp add: dkg_session_def act_simps)
  next
    case (Inr cl)
    with g have "init_dkg_client a node_id n key rot c = (Inr cl, c1)"
      by (auto dest: get_dkg_client_init)
    from init_dkg_client_wf [OF this] timeout have "cl_dkg_timeout cl \<le> T" by blast
    with run_dkg_clock [of "\<lparr>run_net = c1, run_client = cl\<rparr>" n rot] g Inr r show ?thesis
      by (auto simp: dkg_session_def act_simps split: prod.split)
  qed
qed

end

end
