(* ===== verification/Dkg_Results.thy ===== *)
theory Dkg_Results
  imports Dkg_Termination
begin

text \<open>
  What a key generation means: the flags of received broadcasts, who is complained about, the
  status of a run, what an alright list of only true flags stands for (interface
  \<open>alright_log\<close>), and what a retry does to the public keys.
\<close>

section \<open>Every client keeps its identity\<close>

interpretation any_network: dkg_keeps a "\<lambda>_. True" for a
  by unfold_locales (simp add: api_tame_def tame_True keeps_def)

lemma run_client_ok:
  assumes "tame True (run_inv (\<lambda>_. True) (run_client s)) m" and "m s = (r, s')"
  shows "client_ok (run_client s) (run_client s')"
  using tameD [OF assms(1) _ assms(2)] by (simp add: run_inv_def)

section \<open>The flags of received broadcasts\<close>

text \<open>Flags of \<open>n\<close> nodes: the own ones are set, and only received broadcasts are correct.\<close>

definition flags_ok :: "dkg_client \<Rightarrow> bool list \<Rightarrow> bool list \<Rightarrow> bool" where
  "flags_ok cl is_received is_correct \<longleftrightarrow>
     length is_received = cl_n cl \<and> length is_correct = cl_n cl \<and>
     is_received ! cl_node_id_dkg cl \<and> is_correct ! cl_node_id_dkg cl \<and>
     (\<forall>i < cl_n cl. is_correct ! i \<longrightarrow> is_received ! i)"

fun sync_ok :: "dkg_client \<Rightarrow> sync_state \<Rightarrow> bool" where
  "sync_ok cl (is_received, is_correct, found) = flags_ok cl is_received is_correct"

lemma act_bind_InrE:
  assumes "act_bind m f s = (Inr x, s')"
  obtains y s1 where "m s = (Inr y, s1)" "f y s1 = (Inr x, s')"
  using assms by (auto simp: act_simps split: prod.splits sum.splits)

lemma act_lift_InrD: "act_lift r s = (Inr x, s') \<Longrightarrow> r = Inr x \<and> s' = s"
  by (simp add: act_simps)

lemma sync_event_ok:
  assumes run: "sync_event a ev st s = (Inr st', s')" and ok: "sync_ok cl0 st"
    and cl: "client_ok cl0 (run_client s)"
  shows "sync_ok cl0 st' \<and> (\<forall>i < cl_n cl0. fst st ! i \<longrightarrow> fst st' ! i)"
proof -
  obtain rcv cor found where st: "st = (rcv, cor, found)" by (cases st)
  have own: "cl_node_id_dkg (run_client s) = cl_node_id_dkg cl0" using cl by (simp add: client_ok_def)
  from run obtain j where j: "from_node_of (run_client s) ev = Inr j" "j < length rcv"
    by (auto simp: sync_event_def st act_simps list_item_def split: sum.splits if_splits)
  from ok st have l: "length rcv = cl_n cl0" "length cor = cl_n cl0"
    and o: "rcv ! cl_node_id_dkg cl0" "cor ! cl_node_id_dkg cl0"
    and c: "\<forall>i < cl_n cl0. cor ! i \<longrightarrow> rcv ! i"
    by (simp_all add: flags_ok_def)
  have "st' = st \<or> (\<exists>found'. st' = (rcv[j := True], cor[j := True], found')) \<or>
      st' = (rcv[j := True], cor, found)"
    using run j
    by (auto simp: sync_event_def st act_simps list_item_def set_item_def Let_def
        split: sum.splits if_splits prod.splits exn.splits)
  then show ?thesis
    using l o c j(2) by (auto simp: st flags_ok_def nth_list_update)
qed

lemma sync_events_ok:
  "sync_events a evs st s = (Inr st', s') \<Longrightarrow> sync_ok cl0 st \<Longrightarrow> client_ok cl0 (run_client s) \<Longrightarrow>
   sync_ok cl0 st' \<and> (\<forall>i < cl_n cl0. fst st ! i \<longrightarrow> fst st' ! i)"
proof (induction evs arbitrary: st s)
  case Nil
  then show ?case by (simp add: act_simps)
next
  case (Cons ev evs)
  then obtain st1 s1 where e: "sync_event a ev st s = (Inr st1, s1)"
    and r: "sync_events a evs st1 s1 = (Inr st', s')"
    by (auto elim!: act_bind_InrE)
  have "tame True (run_inv (\<lambda>_. True) (run_client s)) (sync_event a ev st)"
    by (rule any_network.net.tame_sync_event)
  from run_client_ok [OF this e] Cons.prems(3) have "client_ok cl0 (run_client s1)"
    by (simp add: client_ok_def)
  with Cons.IH [OF r] sync_event_ok [OF e Cons.prems(2,3)] show ?case by simp
qed

lemma receive_loop_ok:
  "receive_loop a k start f st s = (Inr st', s') \<Longrightarrow> sync_ok cl0 st \<Longrightarrow>
   client_ok cl0 (run_client s) \<Longrightarrow> sync_ok cl0 st'"
proof (induction k arbitrary: f st s s')
  case 0
  then show ?case by (simp add: act_simps)
next
  case (Suc k)
  show ?case
  proof (cases "False \<in> set (fst st)")
    case False
    with Suc.prems show ?thesis by (simp add: act_simps)
  next
    case True
    with Suc.prems(1) obtain ts s1 st1 f1 s2 where
      l: "get_latest_block_timestamp a s = (Inr ts, s1)"
      and sy: "sync_broadcast_data a f st s1 = (Inr (st1, f1), s2)"
      and rest: "st' = st1 \<or> (\<exists>s3. act_then (on_net (api_sleep a BROADCAST_DATA_SEARCH_SLEEP))
          (receive_loop a k start f1 st1) s2 = (Inr st', s3))"
      by (auto simp: with_client_eval Let_def act_return_def elim!: act_bind_InrE
          split: if_splits)
    from run_client_ok [OF any_network.net.tame_client_ops(14) l] Suc.prems(3)
    have c1: "client_ok cl0 (run_client s1)" by (simp add: client_ok_def)
    from sy obtain evs s1' s1'' where ev: "sync_events a evs st s1'' = (Inr st1, s2)"
      and q: "run_client s1'' = run_client s1"
      by (auto simp: sync_broadcast_data_def is_everyone_broadcasted_def act_simps
          split: prod.splits sum.splits)
    from sync_events_ok [OF ev Suc.prems(2)] c1 q have ok: "sync_ok cl0 st1" by simp
    from run_client_ok [OF any_network.net.tame_sync(2) sy] c1
    have c2: "client_ok cl0 (run_client s2)" by (simp add: client_ok_def)
    from rest show ?thesis
    proof
      assume "st' = st1"
      with ok show ?thesis by simp
    next
      assume "\<exists>s3. act_then (on_net (api_sleep a BROADCAST_DATA_SEARCH_SLEEP))
          (receive_loop a k start f1 st1) s2 = (Inr st', s3)"
      then obtain s3 s4 where "receive_loop a k start f1 st1 s3 = (Inr st', s4)"
        and "run_client s3 = run_client s2"
        by (auto simp: act_simps split: prod.splits sum.splits)
      with Suc.IH ok c2 show ?thesis by metis
    qed
  qed
qed

lemma receive_broadcast_flags:
  assumes "receive_broadcast_data a k s = (Inr res, s')" and "client_wf (run_client s)"
  shows "flags_ok (run_client s) (received res) (correct res)"
proof -
  let ?cl = "run_client s"
  let ?own = "(replicate (cl_n ?cl) False)[cl_node_id_dkg ?cl := True]"
  from assms(1) obtain start c1 f found s2 where
    l: "receive_loop a k start f (?own, ?own, []) (s\<lparr>run_net := c1\<rparr>) =
      (Inr (received res, correct res, found), s2)"
    by (auto simp: receive_broadcast_data_def Let_def act_simps split: prod.splits sum.splits)
  have "sync_ok ?cl (?own, ?own, [])"
    using assms(2) by (auto simp: flags_ok_def client_wf_def nth_list_update)
  from receive_loop_ok [OF l this] show ?thesis by simp
qed

section \<open>Who is complained about\<close>

definition bad_position :: "broadcast_result \<Rightarrow> nat \<Rightarrow> bool" where
  "bad_position res i \<longleftrightarrow> \<not> received res ! i \<or> \<not> correct res ! i"

lemma check_positions_good:
  "\<forall>i \<in> set is. i < length (received res) \<and> i < length (correct res) \<and> \<not> bad_position res i \<Longrightarrow>
   check_positions a k res (is @ js) = check_positions a k res js"
proof (induction "is")
  case (Cons i "is")
  then show ?case
    by (intro ext) (simp add: act_simps list_item_def bad_position_def)
qed simp

lemma check_positions_bad:
  assumes "bad_position res i" "i < length (received res)" "i < length (correct res)"
  shows "check_positions a k res (i # js) =
    (if \<not> received res ! i then send_complaint a k i NO_BROADCAST else report_bad_data a k i)"
  using assms by (intro ext) (simp add: act_simps list_item_def bad_position_def)

lemma check_broadcast_result_cases:
  assumes f: "flags_ok (run_client s) (received res) (correct res)"
  shows "((\<forall>i < cl_n (run_client s). received res ! i \<and> correct res ! i) \<and>
       check_broadcast_result a k res s = (Inr (), s)) \<or>
     (\<exists>i < cl_n (run_client s). i \<noteq> cl_node_id_dkg (run_client s) \<and> bad_position res i \<and>
        (\<forall>j < i. \<not> bad_position res j) \<and>
        check_broadcast_result a k res s =
          (if \<not> received res ! i then send_complaint a k i NO_BROADCAST s
           else report_bad_data a k i s))"
proof (cases "\<exists>i < cl_n (run_client s). bad_position res i")
  case False
  have "check_positions a k res ([0..<cl_n (run_client s)] @ []) = check_positions a k res []"
    using False f by (intro check_positions_good) (auto simp: flags_ok_def)
  with False show ?thesis
    by (auto simp: bad_position_def check_broadcast_result_def act_simps)
next
  case True
  define i where "i = (LEAST i. i < cl_n (run_client s) \<and> bad_position res i)"
  from True have i: "i < cl_n (run_client s)" "bad_position res i"
    unfolding i_def by (metis (mono_tags, lifting) LeastI)+
  have least: "\<not> bad_position res j" if "j < i" for j
    using not_less_Least [of j "\<lambda>i. i < cl_n (run_client s) \<and> bad_position res i"] that i(1)
    by (auto simp: i_def [symmetric])
  have "check_positions a k res [0..<cl_n (run_client s)] =
      check_positions a k res ([0..<i] @ i # [Suc i..<cl_n (run_client s)])"
    using i(1) upt_add_eq_append [of 0 i "cl_n (run_client s) - i"] by (simp add: upt_conv_Cons)
  also have "\<dots> = check_positions a k res (i # [Suc i..<cl_n (run_client s)])"
    using least f i(1) by (intro check_positions_good) (auto simp: flags_ok_def)
  also have "\<dots> = (if \<not> received res ! i then send_complaint a k i NO_BROADCAST
      else report_bad_data a k i)"
    using i f by (intro check_positions_bad) (simp_all add: flags_ok_def)
  finally have "check_broadcast_result a k res s =
      (if \<not> received res ! i then send_complaint a k i NO_BROADCAST s
       else report_bad_data a k i s)"
    by (simp add: check_broadcast_result_def act_simps)
  moreover have "i \<noteq> cl_node_id_dkg (run_client s)"
    using i(2) f by (auto simp: bad_position_def flags_ok_def)
  ultimately show ?thesis using i least by blast
qed

section \<open>The status of a run\<close>

lemma generate_bls_keys_result:
  assumes "generate_bls_keys a s = (Inr keys, s')"
  shows "cl_last_completed_step (run_client s') = KEY_GENERATION \<and>
    dk_n keys = cl_n (run_client s) \<and> dk_t keys = cl_t (run_client s) \<and>
    key_share_name keys = cl_bls_name (run_client s)"
proof -
  from run_client_ok [OF any_network.net.tame_bls_keys assms]
  have ok: "client_ok (run_client s) (run_client s')" .
  from assms have "cl_last_completed_step (run_client s') = KEY_GENERATION \<and>
      dk_n keys = cl_n (run_client s') \<and> dk_t keys = cl_t (run_client s') \<and>
      key_share_name keys = cl_bls_name (run_client s')"
    unfolding generate_bls_keys_def with_client_eval
    by (elim act_bind_InrE)
      (auto simp: set_last_completed_step_def act_then_def with_client_eval set_client_eval
        act_return_def act_bind_def split: prod.splits)
  with ok show ?thesis by (simp add: client_ok_def)
qed

lemma generate_bls_keys_raises:
  "generate_bls_keys a s = (Inl e, s') \<Longrightarrow> e = Out_of_fuel \<or> (\<exists>m. e = DKGKeyGenerationError m)"
  unfolding generate_bls_keys_def with_client_eval
  by (auto simp: act_bind_def act_except_eval set_last_completed_step_def act_then_def
      with_client_eval set_client_eval act_return_def act_raise_def
      split: prod.splits sum.splits if_splits)

lemma key_generation_cases:
  assumes "dkg_key_generation a st s = (Inr (keys, st'), s')"
  shows "(keys \<noteq> None \<and> st' = st \<and> st \<noteq> Some FAILED \<and>
           generate_bls_keys a s = (Inr (the keys), s')) \<or>
         (keys = None \<and> st' = Some FAILED \<and> st = Some FAILED \<and> s' = s) \<or>
         (keys = None \<and> st' = Some KEY_GENERATION_ERROR \<and> st \<noteq> Some FAILED)"
  using assms
  by (auto simp: dkg_key_generation_def act_simps split: if_splits prod.splits sum.splits exn.splits)

lemma run_dkg_result:
  assumes "run_dkg a k n rot s = (Inr r, s')"
  shows "dr_step r = cl_last_completed_step (run_client s') \<and>
    (case dr_keys_data r of
       Some keys \<Rightarrow> dr_status r = DONE \<and> dr_step r = KEY_GENERATION \<and>
         dk_n keys = cl_n (run_client s) \<and> dk_t keys = cl_t (run_client s) \<and>
         key_share_name keys = cl_bls_name (run_client s)
     | None \<Rightarrow> dr_status r = FAILED \<or> dr_status r = KEY_GENERATION_ERROR)"
proof -
  from assms obtain st s1 keys st' where
    p: "dkg_procedure a k n rot s = (Inr st, s1)"
    and g: "dkg_key_generation a st s1 = (Inr (keys, st'), s')"
    and r: "r = \<lparr>dr_status = (if keys \<noteq> None then DONE
        else if st' \<noteq> Some KEY_GENERATION_ERROR then FAILED else KEY_GENERATION_ERROR),
      dr_step = cl_last_completed_step (run_client s'), dr_keys_data = keys\<rparr>"
    unfolding run_dkg_def by (auto simp: with_client_eval act_return_def elim!: act_bind_InrE)
  have "tame True (run_inv (\<lambda>_. True) (run_client s)) (dkg_procedure a k n rot)"
    by (rule any_network.rounds.tame_procedure)
  from run_client_ok [OF this p] have "client_ok (run_client s) (run_client s1)" .
  with key_generation_cases [OF g] generate_bls_keys_result [of a s1 "the keys" s'] show ?thesis
    by (auto simp: r client_ok_def split: option.split)
qed

lemma run_dkg_failed:
  assumes "dkg_procedure a k n rot s = (Inr (Some FAILED), s1)"
  shows "run_dkg a k n rot s = (Inr \<lparr>dr_status = FAILED,
    dr_step = cl_last_completed_step (run_client s1), dr_keys_data = None\<rparr>, s1)"
  using assms by (simp add: run_dkg_def dkg_key_generation_def act_simps)

text \<open>An error of the rounds: a DkgError is the result FAILED, anything else ends the run.\<close>

lemma run_dkg_rounds_error:
  assumes "dkg_attempt a k n rot s = (Inl x, s1)"
  shows "run_dkg a k n rot s =
    (if is_dkg_error x
     then (Inr \<lparr>dr_status = FAILED, dr_step = cl_last_completed_step (run_client s1), dr_keys_data = None\<rparr>, s1)
     else (Inl x, s1))"
proof (cases "is_dkg_error x")
  case True
  then have "dkg_procedure a k n rot s = (Inr (Some FAILED), s1)"
    using assms by (simp add: dkg_procedure_def act_simps)
  with True show ?thesis by (simp add: run_dkg_failed)
next
  case False
  then show ?thesis
    using assms by (simp add: run_dkg_def dkg_procedure_def act_simps)
qed

section \<open>The keys after a retry\<close>

lemma hex_string_reconverted:
  assumes "c \<in> set h" "\<not> is_digit c"
  shows "\<exists>m. convert_g2_array_to_hex (VHex h) = Inl (ValueError m)"
proof -
  have one: "convert_g2_point_to_hex [[d]] =
      (if is_digit d then Inr (pad_zeros (drop 2 (py_hex (int (nat_of_digits [d])))))
       else Inl (ValueError [d]))" for d
    by (simp add: convert_g2_point_to_hex_def int_of_str_def)
  have "\<exists>m. res_map convert_g2_point_to_hex (map (\<lambda>c. [[c]]) h) = Inl (ValueError m)"
    using assms by (induction h) (auto simp: one)
  then show ?thesis by (auto simp: convert_g2_array_to_hex_def)
qed

lemma bls_public_keys_second_try:
  assumes v: "cl_incoming_verification_vector (run_client s) ! cl_node_id_dkg (run_client s) = VPoints ps"
    and wf: "client_wf (run_client s)"
    and h: "convert_g2_array_to_hex (VPoints ps) = Inr h" "c \<in> set h" "\<not> is_digit c"
    and sgx: "sgx_calculate_all_bls_public_keys a
      ((cl_incoming_verification_vector (run_client s))[cl_node_id_dkg (run_client s) := VHex h])
      (run_net s) = (Inl (SgxUnreachableError e), c1)"
    and pause: "api_sleep a 1 c1 = (Inr (), c2)"
  shows "\<exists>m s'. client_bls_public_keys a s = (Inl (ValueError m), s')"
proof -
  let ?cl = "run_client s"
  let ?vs = "(cl_incoming_verification_vector ?cl)[cl_node_id_dkg ?cl := VHex h]"
  let ?s = "s\<lparr>run_client := ?cl\<lparr>cl_incoming_verification_vector := ?vs\<rparr>\<rparr>"
  have own: "cl_node_id_dkg ?cl < length (cl_incoming_verification_vector ?cl)"
    using wf by (simp add: client_wf_def)
  have first: "bls_public_keys_body a s = (Inl (SgxUnreachableError e), ?s\<lparr>run_net := c1\<rparr>)"
    using own v h(1) sgx
    by (simp add: bls_public_keys_body_def act_simps list_item_def set_incoming_vv_def set_item_def)
  from hex_string_reconverted [OF h(2,3)] obtain m where
    m: "convert_g2_array_to_hex (VHex h) = Inl (ValueError m)" by blast
  have second: "bls_public_keys_body a (?s\<lparr>run_net := c2\<rparr>) = (Inl (ValueError m), ?s\<lparr>run_net := c2\<rparr>)"
    using own m by (simp add: bls_public_keys_body_def act_simps list_item_def)
  obtain t ts where ts: "SGX_TIMEOUTS = 1 # t # ts"
    by (auto simp: SGX_TIMEOUTS_def SGX_RETRY_ATTEMPTS_def upt_rec)
  show ?thesis
    unfolding client_bls_public_keys_def sgx_unreachable_retry_def ts
    using first pause second by (simp add: act_simps)
qed

section \<open>A list of true alright flags\<close>

text \<open>\<open>seen d\<close>: the contracts have the data of node \<open>d\<close>. Once seen it stays, and a positive
  answer is true.\<close>

locale alright_log =
  fixes a :: "'c dkg_api" and seen :: "int \<Rightarrow> 'c \<Rightarrow> bool"
  assumes seen_stays: "api_tame True (seen d) a"
    and seen_answer: "dkg_all_data_received a g d c = (Inr True, c') \<Longrightarrow> seen d c'"

lemma tame_Ball:
  "(\<And>d. d \<in> D \<Longrightarrow> tame True (I d) m) \<Longrightarrow> tame True (\<lambda>c. \<forall>d \<in> D. I d c) m"
  by (auto simp: tame_def)

lemma api_tame_Ball:
  assumes "\<And>d. api_tame True (I d) a"
  shows "api_tame True (\<lambda>c. \<forall>d \<in> D. I d c) a"
  unfolding api_tame_def
  by (intro conjI allI tame_Ball; use assms in \<open>simp add: api_tame_def\<close>)

sublocale alright_log \<subseteq> log: dkg_keeps a "\<lambda>c. \<forall>d \<in> D. seen d c" for D
  by unfold_locales (intro api_tame_Ball seen_stays)

definition flags_seen :: "(int \<Rightarrow> 'c \<Rightarrow> bool) \<Rightarrow> 'c run \<Rightarrow> bool list \<Rightarrow> bool" where
  "flags_seen seen s sent \<longleftrightarrow>
     length sent = cl_n (run_client s) \<and>
     (\<forall>i < cl_n (run_client s). sent ! i \<longrightarrow> i \<noteq> cl_node_id_dkg (run_client s) \<longrightarrow>
        (\<exists>d. tab_get (cl_node_ids_dkg (run_client s)) i = Some d \<and> seen d (run_net s)))"

context alright_log
begin

lemma flags_stay:
  assumes m: "\<And>D. tame True (run_inv (\<lambda>c. \<forall>d \<in> D. seen d c) (run_client s)) m"
    and run: "m s = (r, s')" and f: "flags_seen seen s sent"
  shows "flags_seen seen s' sent"
proof -
  from tameD [OF m [of "{d. seen d (run_net s)}"] _ run]
  have "\<forall>d. seen d (run_net s) \<longrightarrow> seen d (run_net s')" "client_ok (run_client s) (run_client s')"
    by (simp_all add: run_inv_def)
  with f show ?thesis by (fastforce simp: flags_seen_def client_ok_def)
qed

lemma poll_seen:
  "poll_alright a is sent s = (Inr sent', s') \<Longrightarrow> flags_seen seen s sent \<Longrightarrow>
   flags_seen seen s' sent'"
proof (induction "is" arbitrary: sent s)
  case Nil
  then show ?case by (simp add: act_simps)
next
  case (Cons i "is")
  show ?case
  proof (cases "i < length sent \<and> \<not> sent ! i")
    case False
    with Cons show ?thesis by (auto simp: act_simps list_item_def split: if_splits)
  next
    case True
    with Cons.prems(1) obtain v s1 where
      r: "is_all_data_received a i s = (Inr v, s1)"
      and rest: "poll_alright a is (sent[i := v]) s1 = (Inr sent', s')"
      by (auto simp: act_lift_eval list_item_def act_bind_eval split: prod.splits sum.splits)
    from r obtain d where d: "tab_get (cl_node_ids_dkg (run_client s)) i = Some d"
      "dkg_all_data_received a (cl_group_index (run_client s)) d (run_net s) = (Inr v, run_net s1)"
      "run_client s1 = run_client s"
      by (auto simp: is_all_data_received_def act_simps dict_item_def split: prod.splits option.splits)
    from flags_stay [OF log.net.tame_client_ops(9) r Cons.prems(2)]
    have "flags_seen seen s1 sent" .
    with d seen_answer [of "cl_group_index (run_client s)" d "run_net s" "run_net s1"] True
    have "flags_seen seen s1 (sent[i := v])"
      by (auto simp: flags_seen_def nth_list_update)
    from Cons.IH [OF rest this] show ?thesis .
  qed
qed

lemma alright_loop_seen:
  "alright_loop a k start sent s = (Inr sent', s') \<Longrightarrow> flags_seen seen s sent \<Longrightarrow>
   flags_seen seen s' sent'"
proof (induction k arbitrary: sent s)
  case 0
  then show ?case by (simp add: act_simps)
next
  case (Suc k)
  show ?case
  proof (cases "False \<in> set sent")
    case False
    with Suc.prems show ?thesis by (simp add: act_simps)
  next
    case True
    with Suc.prems(1) obtain v s1 clean s2 where
      1: "client_check_failed a s = (Inr v, s1)" and 2: "check_no_complaints a s1 = (Inr clean, s2)"
      and r2: "\<not> clean \<longrightarrow> sent' = sent \<and> s' = s2"
      and r: "clean \<longrightarrow> (\<exists>ts s3. get_latest_block_timestamp a s2 = (Inr ts, s3) \<and>
        ((sent' = sent \<and> s' = s3) \<or>
         (\<exists>sent1 s4 s5. poll_alright a [0..<cl_n (run_client s3)] sent s3 = (Inr sent1, s4) \<and>
            on_net (api_sleep a 30) s4 = (Inr (), s5) \<and>
            alright_loop a k start sent1 s5 = (Inr sent', s'))))"
      by (auto simp: act_then_eval act_bind_eval with_client_eval act_return_def
          split: if_splits prod.splits sum.splits)
    from flags_stay [OF log.net.tame_client_ops2(11) 1 Suc.prems(2)]
    have "flags_seen seen s1 sent" .
    from flags_stay [OF log.net.tame_client_ops2(10) 2 this]
    have f2: "flags_seen seen s2 sent" .
    show ?thesis
    proof (cases clean)
      case False
      with r2 f2 show ?thesis by simp
    next
      case True
      with r obtain ts s3 where 3: "get_latest_block_timestamp a s2 = (Inr ts, s3)"
        and c: "(sent' = sent \<and> s' = s3) \<or>
         (\<exists>sent1 s4 s5. poll_alright a [0..<cl_n (run_client s3)] sent s3 = (Inr sent1, s4) \<and>
            on_net (api_sleep a 30) s4 = (Inr (), s5) \<and>
            alright_loop a k start sent1 s5 = (Inr sent', s'))" by blast
      from flags_stay [OF log.net.tame_client_ops(14) 3 f2] have f3: "flags_seen seen s3 sent" .
      from c show ?thesis
      proof (elim disjE exE conjE)
        assume "sent' = sent" "s' = s3"
        with f3 show ?thesis by simp
      next
        fix sent1 s4 s5
        assume p: "poll_alright a [0..<cl_n (run_client s3)] sent s3 = (Inr sent1, s4)"
          and z: "on_net (api_sleep a 30) s4 = (Inr (), s5)"
          and rest: "alright_loop a k start sent1 s5 = (Inr sent', s')"
        from poll_seen [OF p f3] have "flags_seen seen s4 sent1" .
        from flags_stay [OF tame_on_net [OF log.net.tame_calls(1)] z this]
        have "flags_seen seen s5 sent1" .
        from Suc.IH [OF rest this] show ?thesis .
      qed
    qed
  qed
qed

lemma own_alright_seen:
  assumes "own_alright a s = (Inr sent, s')"
  shows "flags_seen seen s' sent"
proof -
  from run_client_ok [OF any_network.net.tame_own_alright assms]
  have ok: "client_ok (run_client s) (run_client s')" .
  from assms have "sent = replicate (cl_n (run_client s)) False \<or>
      sent = (replicate (cl_n (run_client s)) False)[cl_node_id_dkg (run_client s) := True]"
    by (auto simp: own_alright_def with_client_eval act_bind_eval act_then_eval act_return_def
        split: prod.splits sum.splits if_splits)
  with ok show ?thesis
    by (auto simp: flags_seen_def client_ok_def nth_list_update)
qed

lemma after_alrights_all:
  assumes "after_alrights a k started sent s = (Inr u, s')"
  shows "False \<notin> set sent"
proof -
  have "\<exists>ms. act_block (ms @ [act_when (False \<in> set sent)
      (act_raise (DkgError ''Not everyone sent alright''))]) s = (Inr u, s')"
    using assms unfolding after_alrights_def with_client_eval by (metis append.left_neutral append_Cons)
  then show ?thesis
    by (auto dest!: act_block_snoc simp: act_when_eval act_eval split: if_splits)
qed

lemma init_bls_seen:
  assumes "init_bls a k rot s = (Inr u, s')"
    and "i < cl_n (run_client s)" and "i \<noteq> cl_node_id_dkg (run_client s)"
  shows "\<exists>d. tab_get (cl_node_ids_dkg (run_client s)) i = Some d \<and> seen d (run_net s')"
proof -
  from assms(1) obtain started s1 sent0 s2 s3 sent s4 where
    o: "own_alright a s1 = (Inr sent0, s2)"
    and m: "act_block [act_drop (client_check_failed a), check_response a k] s2 = (Inr (), s3)"
    and l: "await_alrights a k sent0 s3 = (Inr sent, s4)"
    and t: "after_alrights a k started sent s4 = (Inr u, s')"
    unfolding init_bls_def
    by (auto simp: act_bind_eval act_then_eval with_client_eval act_raise_def
        simp del: act_block.simps split: prod.splits sum.splits if_splits)
  have mid: "tame True (run_inv (\<lambda>c. \<forall>d \<in> D. seen d c) (run_client s2))
      (act_block [act_drop (client_check_failed a), check_response a k])" for D
    by (auto intro!: tame_intros)
  from flags_stay [OF mid m own_alright_seen [OF o]] have f3: "flags_seen seen s3 sent0" .
  from l obtain start s3' where
    r: "on_net (dkg_alright_started_time a (cl_group_index (run_client s3))) s3 = (Inr start, s3')"
    and l': "alright_loop a k start sent0 s3' = (Inr sent, s4)"
    by (auto simp: await_alrights_def with_client_eval act_bind_eval split: prod.splits sum.splits)
  from flags_stay [OF tame_on_net [OF log.net.tame_calls(11)] r f3]
  have "flags_seen seen s3' sent0" .
  from alright_loop_seen [OF l' this] have f4: "flags_seen seen s4 sent" .
  from flags_stay [OF log.rounds.tame_after_alrights t f4] have f: "flags_seen seen s' sent" .
  have ok: "client_ok (run_client s) (run_client s')"
    by (rule run_client_ok [OF any_network.rounds.tame_init_bls assms(1)])
  from f have len: "length sent = cl_n (run_client s')" by (simp add: flags_seen_def)
  moreover have "cl_n (run_client s') = cl_n (run_client s)" using ok by (simp add: client_ok_def)
  ultimately have "sent ! i \<in> set sent" using assms(2) by simp
  with after_alrights_all [OF t] have "sent ! i" by (cases "sent ! i") simp_all
  with f ok assms show ?thesis by (auto simp: flags_seen_def client_ok_def)
qed

end

end
