(* ===== verification/Dkg_Action.thy ===== *)
theory Dkg_Action
  imports Dkg_Results Monitor_Invariants
begin

text \<open>
  The key generation as the configuration monitor's action \<^verbatim>\<open>dkg\<close> runs it: the network's calls
  work on the node's own state (\<open>'c\<close> is \<open>world\<close>), the result is saved as JSON.
\<close>

definition dkg_keys_json :: "dkg_keys option \<Rightarrow> json" where
  "dkg_keys_json keys =
     (case keys of
        None \<Rightarrow> JNull
      | Some d \<Rightarrow> JObj
          [(''common_public_key'', JList (common_public_key d)),
           (''public_key'', case dk_public_key d of None \<Rightarrow> JNull | Some pk \<Rightarrow> JList (map JStr pk)),
           (''bls_public_keys'', JList (map JStr (bls_public_keys d))),
           (''t'', JInt (int (dk_t d))), (''n'', JInt (int (dk_n d))),
           (''key_share_name'', JStr (key_share_name d))])"

definition dkg_on_world ::
  "('d, 'f) world dkg_api \<Rightarrow> nat \<Rightarrow> int \<Rightarrow> string \<Rightarrow> string \<Rightarrow> int \<Rightarrow>
   ('d, 'f, DKGStatus \<times> json) wact" where
  "dkg_on_world a k node_id n key rot =
     act_bind (dkg_session a k node_id n key rot) (\<lambda>r.
       act_return (dr_status r, dkg_keys_json (dr_keys_data r)))"

lemma dkg_session_result:
  assumes "dkg_session a k node_id n key rot c = (Inr r, c')"
  shows "case dr_keys_data r of
      Some keys \<Rightarrow> dr_status r = DONE \<and> dr_step r = KEY_GENERATION
    | None \<Rightarrow> dr_status r = FAILED \<or> dr_status r = KEY_GENERATION_ERROR"
proof -
  from assms obtain cl c1 s' where "run_dkg a k n rot \<lparr>run_net = c1, run_client = cl\<rparr> = (Inr r, s')"
    by (auto simp: dkg_session_def act_simps split: prod.splits sum.splits)
  from run_dkg_result [OF this] show ?thesis by (auto split: option.splits)
qed

lemma dkg_session_keeps:
  assumes I: "api_tame True I a" and c: "I c"
    and run: "dkg_session a k node_id n key rot c = (r, c')"
  shows "I c'"
proof -
  have net: "dkg_keeps a I" by unfold_locales (rule I)
  then have netw: "dkg_network a True I" by unfold_locales (rule I)
  have g: "tame True I (get_dkg_client a k node_id n key rot)"
    unfolding get_dkg_client_def init_dkg_client_def make_dkg_client_def
    by (intro tame_intros nofuel_intros dkg_network.wait_keeps [OF netw]
        dkg_network.tame_calls [OF netw]; simp)
  obtain q c1 where q: "get_dkg_client a k node_id n key rot c = (q, c1)" by fastforce
  from tameD [OF g c q] have c1: "I c1" by simp
  show ?thesis
  proof (cases q)
    case (Inl e)
    with q run c1 show ?thesis by (simp add: dkg_session_def act_simps)
  next
    case (Inr cl)
    with q run obtain s' where s': "run_dkg a k n rot \<lparr>run_net = c1, run_client = cl\<rparr> = (r, s')"
      "c' = run_net s'"
      by (auto simp: dkg_session_def act_simps split: prod.splits)
    have "tame True (run_inv I cl) (run_dkg a k n rot)"
      by (rule dkg_keeps.run_keeps [OF net])
    from tameD [OF this _ s'(1)] c1 s'(2) show ?thesis by (simp add: run_inv_def)
  qed
qed

lemma dkg_action_cases:
  assumes wok: "api_tame True wok a" "wok (wld ms)"
    and new: "\<not> isfile (files (wld ms)) (get_secret_key_share_filepath e (cc_name (ca_checks am))
      (cc_rotation_id (ca_checks am)))"
    and run: "dkg_session a k node_id n key rot (wld ms) = (Inr r, w1)"
    and action: "dkg_action e am (dkg_on_world a k node_id n key rot) ms = (v, ms')"
  shows "(\<exists>rec. tab_get (db (wld ms')) (ca_name am) = Some rec \<and>
      dkg_status rec = DKGStatus_value (dr_status r)) \<and>
    (case dr_keys_data r of
       Some keys \<Rightarrow> v = Inr (Some False) \<and>
         read_json (files (wld ms')) (get_secret_key_share_filepath e (ca_name am) (ca_rotation_id am)) =
           Inr (dkg_keys_json (Some keys))
     | None \<Rightarrow> v = Inl (DkgError ''DKG failed'') \<and> files (wld ms') = files w1)"
proof -
  have "wok w1" by (rule dkg_session_keeps [OF wok run])
  let ?p = "get_secret_key_share_filepath e (ca_name am) (ca_rotation_id am)"
  have w: "wok (w1\<lparr>files := fs\<rparr>)" for fs using \<open>wok w1\<close> by (simp add: wok_def)
  show ?thesis
  proof (cases "dr_keys_data r")
    case None
    with dkg_session_result [OF run] have st: "\<not> is_done (dr_status r)" by (auto simp: is_done_def)
    from am_record_eval [OF \<open>wok w1\<close>, of e "ca_name am"] obtain rec d' where
      a: "am_record e (ca_name am) w1 = (Inr rec, w1\<lparr>db := d'\<rparr>)"
        "tab_get d' (ca_name am) = Some rec" "rec_name rec = ca_name am" by blast
    from action new st None show ?thesis
      by (auto simp: dkg_action_def monitor_block_def act_simps check_dkg_def dkg_on_world_def run
          am_set_def a set_dkg_status_def save_with_def save_get added_def)
  next
    case (Some keys)
    with dkg_session_result [OF run] have st: "dr_status r = DONE" by simp
    let ?w = "w1\<lparr>files := write_json ?p (dkg_keys_json (Some keys)) (files w1)\<rparr>"
    from am_record_eval [OF w [of "write_json ?p (dkg_keys_json (Some keys)) (files w1)"],
        of e "ca_name am"] obtain rec d' where
      a: "am_record e (ca_name am) ?w = (Inr rec, ?w\<lparr>db := d'\<rparr>)"
        "tab_get d' (ca_name am) = Some rec" "rec_name rec = ca_name am" by blast
    from action new st Some show ?thesis
      by (auto simp: dkg_action_def monitor_block_def act_simps check_dkg_def dkg_on_world_def run
          am_set_def a set_dkg_status_def save_with_def save_get added_def is_done_def
          save_dkg_results_def)
  qed
qed

end
