(* ===== verification/Reference_Dkg.thy ===== *)
theory Reference_Dkg
  imports Dkg_Action
begin

text \<open>
  Small concrete networks for the witnesses of the key generation: two nodes with the ids 10
  and 20 and an SGX server that accepts everything. On \<open>quiet_dkg\<close> the generation is over and
  no call changes anything. On \<open>ref_dkg\<close> it is going on: sleeping moves the clock, node 20 has
  broadcast its data (shortened) and sends its alright while the others sleep.
\<close>

record ref_net =
  rn_time :: int
  rn_alrights :: "int list"

definition ref_bytes_hex :: "hexbytes \<Rightarrow> string" where
  "ref_bytes_hex bs =
     (if bs = [1] then event_hash
      else ''0x'' @ concat (map (\<lambda>b. [hex_digit (unat b div 16), hex_digit (unat b mod 16)]) bs))"

definition ref_receipt :: dkg_receipt where
  "ref_receipt =
     \<lparr>rcp_logs = Some [\<lparr>lg_topics = Some [[1], [2], [20]], lg_data = Some ([0])\<rparr>]\<rparr>"

definition quiet_dkg :: "'c dkg_api" where
  "quiet_dkg =
     \<lparr>api_sleep = (\<lambda>_. act_return ()),
      name_to_group_id = (\<lambda>_. [2]), w3_to_hex = ref_bytes_hex, w3_keccak = (\<lambda>_. [2]),
      hexbytes_hex = ref_bytes_hex, w3_latest_timestamp = act_return 100,
      w3_latest_number = act_return 5,
      w3_block_transactions = (\<lambda>_. act_return [\<lparr>tx_to = Some ''dkg'', tx_hash = Some ''h''\<rparr>]),
      w3_transaction_receipt = (\<lambda>_. act_return ref_receipt), dkg_address = ''dkg'',
      dkg_nodes_for_schain = (\<lambda>_. act_return
        [Some \<lparr>dn_id = 10, dn_publicKey = ''p10''\<rparr>, Some \<lparr>dn_id = 20, dn_publicKey = ''p20''\<rparr>]),
      dkg_rotation_counter = (\<lambda>_. act_return 0), dkg_get_dkg_timeout = act_return 60,
      dkg_channel_started_block = (\<lambda>_. act_return 5),
      dkg_channel_started_time = (\<lambda>_. act_return 100),
      dkg_alright_started_time = (\<lambda>_. act_return 100),
      dkg_is_channel_opened = (\<lambda>_. act_return True), dkg_last_successful = (\<lambda>_. act_return True),
      dkg_time_of_last_successful = (\<lambda>_. act_return 0),
      dkg_node_broadcasted = (\<lambda>_ _. act_return False),
      dkg_broadcast_possible = (\<lambda>_ _. act_return True),
      dkg_alright_possible = (\<lambda>_ _. act_return True),
      dkg_complaint_possible = (\<lambda>_ _ _. act_return False),
      dkg_pre_response_possible = (\<lambda>_ _. act_return False),
      dkg_response_possible = (\<lambda>_ _. act_return False),
      dkg_all_data_received = (\<lambda>_ _. act_return True),
      dkg_everyone_broadcasted = (\<lambda>_. act_return True),
      dkg_number_of_completed = (\<lambda>_. act_return 2),
      dkg_complaint_data = (\<lambda>_. act_return (UINT_CONSTANT, UINT_CONSTANT)),
      dkg_common_public_key = (\<lambda>_. act_return [[JInt 1, JInt 2], [JInt 3, JInt 4]]),
      dkg_send_broadcast = (\<lambda>_ _ _ _ _. act_return ()),
      dkg_send_alright = (\<lambda>_ _. act_return ()),
      dkg_send_complaint = (\<lambda>_ _ _. act_return ref_receipt),
      dkg_send_complaint_bad_data = (\<lambda>_ _ _. act_return ref_receipt),
      dkg_send_pre_response = (\<lambda>_ _ _ _ _. act_return ()),
      dkg_send_response = (\<lambda>_ _ _ _. act_return ()),
      sgx_generate_dkg_poly = (\<lambda>_. act_return True),
      sgx_get_verification_vector = (\<lambda>_. act_return (VPoints [[''1'', ''2'', ''3'', ''4'']])),
      sgx_get_secret_key_contribution_v2 = (\<lambda>_ _. act_return []),
      sgx_verify_secret_share_v2 = (\<lambda>_ _ _ _. act_return True),
      sgx_get_bls_public_key = (\<lambda>_. act_return [''5'', ''6'', ''7'', ''8'']),
      sgx_create_bls_private_key_v2 = (\<lambda>_ _ _ _. act_return ()),
      sgx_complaint_response = (\<lambda>_ _. act_raise (SgxServerError ''no complaint'')),
      sgx_calculate_all_bls_public_keys = (\<lambda>_. act_return [''pk'', ''pk2''])\<rparr>"

definition ref_dkg :: "ref_net dkg_api" where
  "ref_dkg = quiet_dkg
     \<lparr>api_sleep := (\<lambda>n c. (Inr (), c\<lparr>rn_time := rn_time c + int n,
        rn_alrights := List.insert 20 (rn_alrights c)\<rparr>)),
      w3_latest_timestamp := act_gets rn_time,
      dkg_channel_started_time := (\<lambda>_. act_gets (\<lambda>c. min 100 (rn_time c))),
      dkg_alright_started_time := (\<lambda>_. act_gets (\<lambda>c. min 100 (rn_time c))),
      dkg_all_data_received := (\<lambda>_ i. act_gets (\<lambda>c. i \<in> set (rn_alrights c))),
      dkg_number_of_completed := (\<lambda>_. act_gets (\<lambda>c. int (length (rn_alrights c)))),
      dkg_send_alright :=
        (\<lambda>_ i. act_modify (\<lambda>c. c\<lparr>rn_alrights := List.insert i (rn_alrights c)\<rparr>))\<rparr>"

definition ref_net0 :: ref_net where
  "ref_net0 = \<lparr>rn_time = 100, rn_alrights = []\<rparr>"

definition ref_client :: dkg_client where
  "ref_client =
     \<lparr>cl_schain_name = ''alpha'', cl_group_index = [2], cl_node_id_contract = 10,
      cl_node_id_dkg = 0, cl_t = 1, cl_n = 2, cl_eth_key_name = ''key'',
      cl_poly_name = ''POLY:SCHAIN_ID:2:NODE_ID:0:DKG_ID:0'',
      cl_bls_name = ''BLS_KEY:SCHAIN_ID:2:NODE_ID:0:DKG_ID:0'', cl_rotation_id = 0,
      cl_incoming_verification_vector = [VHex ''0'', VHex ''0''],
      cl_incoming_secret_key_contribution = [''0'', ''0''],
      cl_sent_secret_key_contribution = None, cl_public_keys = [''p10'', ''p20''],
      cl_node_ids_dkg = [(0, 10), (1, 20)], cl_node_ids_contract = [(10, 0), (20, 1)],
      cl_dkg_timeout = 60, cl_complaint_error_event_hash = ''0x02'', cl_public_key = None,
      cl_last_completed_step = Step_NONE\<rparr>"

lemma ref_client_init:
  "init_dkg_client ref_dkg 10 ''alpha'' ''key'' 0 ref_net0 = (Inr ref_client, ref_net0)"
  by code_simp

definition ref_dkg_run :: "ref_net run" where
  "ref_dkg_run = \<lparr>run_net = ref_net0, run_client = ref_client\<rparr>"

interpretation ref_chain: chain_clock ref_dkg rn_time 60
  by unfold_locales
    (auto simp: api_tame_def tame_def ref_dkg_def quiet_dkg_def act_simps)

interpretation ref_log: alright_log ref_dkg "\<lambda>d c. d \<in> set (rn_alrights c)"
  by unfold_locales
    (auto simp: api_tame_def tame_def ref_dkg_def quiet_dkg_def act_simps)

interpretation ref_clock: dkg_clock ref_dkg rn_time 60 62
  by unfold_locales simp_all


lemma ref_client_wf: "client_wf ref_client"
  using init_dkg_client_wf [OF ref_client_init] by simp

interpretation ref_timed: dkg_timed ref_dkg rn_time 60 62 ref_client
  by unfold_locales (simp add: ref_client_def)

lemma quiet_tame: "api_tame True I quiet_dkg"
  by (simp add: api_tame_def tame_def quiet_dkg_def act_simps)

definition quiet_keys :: dkg_keys where
  "quiet_keys =
     \<lparr>common_public_key = [JInt 1, JInt 2, JInt 3, JInt 4], dk_public_key = Some [''5'', ''6'', ''7'', ''8''],
      bls_public_keys = [''pk'', ''pk2''], dk_t = 1, dk_n = 2,
      key_share_name = ''BLS_KEY:SCHAIN_ID:2:NODE_ID:0:DKG_ID:0''\<rparr>"

lemma quiet_session_result:
  "fst (dkg_session quiet_dkg 1 10 ''alpha'' ''key'' 0 c) =
   Inr \<lparr>dr_status = DONE, dr_step = KEY_GENERATION, dr_keys_data = Some quiet_keys\<rparr>"
  by code_simp

lemma quiet_session:
  "dkg_session quiet_dkg 1 10 ''alpha'' ''key'' 0 c =
   (Inr \<lparr>dr_status = DONE, dr_step = KEY_GENERATION, dr_keys_data = Some quiet_keys\<rparr>, c)"
  using quiet_session_result [of c]
    dkg_session_keeps [OF quiet_tame, of "\<lambda>x. x = c" c 1 10 "''alpha''" "''key''" 0]
  by (cases "dkg_session quiet_dkg 1 10 ''alpha'' ''key'' 0 c") auto

definition ref_alright_client :: dkg_client where
  "ref_alright_client = ref_client
     \<lparr>cl_incoming_verification_vector := [VPoints [[''1'', ''2'', ''3'', ''4'']], VHex []],
      cl_incoming_secret_key_contribution := [[], []],
      cl_sent_secret_key_contribution := Some [], cl_last_completed_step := ALRIGHT\<rparr>"

lemma ref_init_bls:
  "init_bls ref_dkg 62 0 ref_dkg_run =
   (Inr (), \<lparr>run_net = \<lparr>rn_time = 160, rn_alrights = [10, 20]\<rparr>, run_client = ref_alright_client\<rparr>)"
  by code_simp

end
