(* ===== verification/Node_Config.thy ===== *)
theory Node_Config
  imports Config_Reader
begin

text \<open>
  A JSON file read and written field by field (\<^verbatim>\<open>tools/json_object.py\<close>), the node's
  configuration (\<^verbatim>\<open>core/node_config.py\<close>) and options (\<^verbatim>\<open>tools/node_options.py\<close>). The
  lock file around a write serialises writers; a write is one step here.
\<close>

text \<open>\<^verbatim>\<open>str(v)\<close> of a string or a number.\<close>

fun py_str :: "json \<Rightarrow> string res" where
  "py_str (JStr s) = Inr s"
| "py_str (JInt i) = Inr (str_of_int i)"
| "py_str (JBool b) = Inr (if b then ''True'' else ''False'')"
| "py_str JNull = Inr ''None''"
| "py_str _ = Inl (TypeError ''str'')"

definition init_file :: "path \<Rightarrow> json \<Rightarrow> ('d, 'f, unit) wact" where
  "init_file p content =
     act_if (act_gets (\<lambda>w. isfile (files w) p)) (act_return ()) (modify_files (write_json p content))"

definition JsonObject :: "path \<Rightarrow> ('d, 'f, unit) wact" where
  "JsonObject p = init_file p (JObj [])"

definition object_get :: "path \<Rightarrow> string \<Rightarrow> ('d, 'f) world \<Rightarrow> json res" where
  "object_get p field_name w =
     res_bind (read_json (files w) p) (\<lambda>config. json_get config field_name JNull)"

definition object_set :: "path \<Rightarrow> string \<Rightarrow> json \<Rightarrow> ('d, 'f, unit) wact" where
  "object_set p field_name field_value =
     act_bind (act_res (\<lambda>w. read_json (files w) p)) (\<lambda>config.
     act_bind (act_res (\<lambda>_. json_set config field_name field_value)) (\<lambda>config'.
     modify_files (write_json p config')))"

definition object_all :: "path \<Rightarrow> ('d, 'f) world \<Rightarrow> json res" where
  "object_all p w = read_json (files w) p"

definition NODE_CONFIG_FILEPATH :: "('d, 'f) env \<Rightarrow> path" where
  "NODE_CONFIG_FILEPATH e = (NODE_DATA_PATH e, ''node_config.json'')"

definition NodeConfig :: "('d, 'f) env \<Rightarrow> ('d, 'f, unit) wact" where
  "NodeConfig e = JsonObject (NODE_CONFIG_FILEPATH e)"

definition NodeConfig_id :: "('d, 'f) env \<Rightarrow> ('d, 'f) world \<Rightarrow> json res" where
  "NodeConfig_id e = object_get (NODE_CONFIG_FILEPATH e) ''node_id''"

definition set_NodeConfig_id :: "('d, 'f) env \<Rightarrow> int \<Rightarrow> ('d, 'f, unit) wact" where
  "set_NodeConfig_id e node_id = object_set (NODE_CONFIG_FILEPATH e) ''node_id'' (JInt node_id)"

definition NodeConfig_ip :: "('d, 'f) env \<Rightarrow> ('d, 'f) world \<Rightarrow> json res" where
  "NodeConfig_ip e = object_get (NODE_CONFIG_FILEPATH e) ''node_ip''"

definition set_NodeConfig_ip :: "('d, 'f) env \<Rightarrow> string \<Rightarrow> ('d, 'f, unit) wact" where
  "set_NodeConfig_ip e ip = object_set (NODE_CONFIG_FILEPATH e) ''node_ip'' (JStr ip)"

definition NodeConfig_name :: "('d, 'f) env \<Rightarrow> ('d, 'f) world \<Rightarrow> json res" where
  "NodeConfig_name e = object_get (NODE_CONFIG_FILEPATH e) ''name''"

definition set_NodeConfig_name :: "('d, 'f) env \<Rightarrow> string \<Rightarrow> ('d, 'f, unit) wact" where
  "set_NodeConfig_name e node_name = object_set (NODE_CONFIG_FILEPATH e) ''name'' (JStr node_name)"

definition NodeConfig_sgx_key_name :: "('d, 'f) env \<Rightarrow> ('d, 'f) world \<Rightarrow> json res" where
  "NodeConfig_sgx_key_name e = object_get (NODE_CONFIG_FILEPATH e) ''sgx_key_name''"

definition set_NodeConfig_sgx_key_name :: "('d, 'f) env \<Rightarrow> string \<Rightarrow> ('d, 'f, unit) wact" where
  "set_NodeConfig_sgx_key_name e key = object_set (NODE_CONFIG_FILEPATH e) ''sgx_key_name'' (JStr key)"

text \<open>Minus one without a port (or with port 0).\<close>

definition NodeConfig_schain_base_port :: "('d, 'f) env \<Rightarrow> ('d, 'f) world \<Rightarrow> json res" where
  "NodeConfig_schain_base_port e w =
     res_bind (object_get (NODE_CONFIG_FILEPATH e) ''schain_base_port'' w) (\<lambda>p.
       Inr (if truthy p then p else JInt (- 1)))"

definition set_NodeConfig_schain_base_port :: "('d, 'f) env \<Rightarrow> int \<Rightarrow> ('d, 'f, unit) wact" where
  "set_NodeConfig_schain_base_port e schain_port =
     object_set (NODE_CONFIG_FILEPATH e) ''schain_base_port'' (JInt schain_port)"

definition NODE_OPTIONS_FILEPATH :: "('d, 'f) env \<Rightarrow> path" where
  "NODE_OPTIONS_FILEPATH e = (NODE_DATA_PATH e, ''node_options.json'')"

definition NodeOptions :: "('d, 'f) env \<Rightarrow> ('d, 'f, unit) wact" where
  "NodeOptions e = JsonObject (NODE_OPTIONS_FILEPATH e)"

definition NodeOptions_archive :: "('d, 'f) env \<Rightarrow> ('d, 'f) world \<Rightarrow> json res" where
  "NodeOptions_archive e = object_get (NODE_OPTIONS_FILEPATH e) ''archive''"

definition NodeOptions_catchup :: "('d, 'f) env \<Rightarrow> ('d, 'f) world \<Rightarrow> json res" where
  "NodeOptions_catchup e = object_get (NODE_OPTIONS_FILEPATH e) ''catchup''"

definition NodeOptions_historic_state :: "('d, 'f) env \<Rightarrow> ('d, 'f) world \<Rightarrow> json res" where
  "NodeOptions_historic_state e = object_get (NODE_OPTIONS_FILEPATH e) ''historic_state''"

text \<open>What is set is read back, and nothing else changes.\<close>

lemma object_set_get:
  assumes "object_set p f v w = (Inr (), w')"
  shows "object_get p f w' = Inr v"
    and "h \<noteq> f \<Longrightarrow> object_get p h w' = object_get p h w"
    and "q \<noteq> p \<Longrightarrow> object_get q h w' = object_get q h w"
proof -
  from assms obtain c c' where c: "read_json (files w) p = Inr c" "json_set c f v = Inr c'"
    and w': "w' = w\<lparr>files := write_json p c' (files w)\<rparr>"
    by (auto simp: object_set_def modify_files_def act_simps split: sum.splits)
  from c(2) obtain kvs where j: "c = JObj kvs" "c' = JObj (AList.update f v kvs)" by (cases c) auto
  show "object_get p f w' = Inr v"
    by (simp add: object_get_def w' j update_conv')
  show "h \<noteq> f \<Longrightarrow> object_get p h w' = object_get p h w"
    using c j by (simp add: object_get_def w' update_conv')
  show "q \<noteq> p \<Longrightarrow> object_get q h w' = object_get q h w"
    by (simp add: object_get_def w')
qed

lemma object_set_succeeds:
  assumes "read_json (files w) p = Inr (JObj kvs)"
  shows "object_set p f v w = (Inr (), w\<lparr>files := write_json p (JObj (AList.update f v kvs)) (files w)\<rparr>)"
  using assms by (simp add: object_set_def modify_files_def act_simps)

end
