(* ===== verification/Py_Dict.thy ===== *)
theory Py_Dict
  imports Json "HOL-Library.AList"
begin

text \<open>
  Dictionaries as the program makes them, before they are written to a file: their keys are
  strings or numbers (\<open>pyval\<close>). \<open>py_dump\<close> is the document \<^verbatim>\<open>json.dump\<close> writes, where a number
  as a key becomes its decimal notation; \<open>py_eq_json\<close> is \<^verbatim>\<open>d == j\<close> with a document loaded from a
  file, whose keys are strings: a number is equal to no string.
\<close>

datatype pykey = PInt int | PStr string

datatype pyval =
    Plain json
  | PyDict "(pykey \<times> pyval) list"

fun key_text :: "pykey \<Rightarrow> string" where
  "key_text (PInt i) = str_of_int i"
| "key_text (PStr s) = s"

fun same_key :: "pykey \<Rightarrow> string \<Rightarrow> bool" where
  "same_key (PStr s) t = (s = t)"
| "same_key (PInt i) t = False"

fun py_dump :: "pyval \<Rightarrow> json" where
  "py_dump (Plain j) = j"
| "py_dump (PyDict kvs) = JObj (map (\<lambda>p. (key_text (fst p), py_dump (snd p))) kvs)"

fun py_eq_json :: "pyval \<Rightarrow> json \<Rightarrow> bool" where
  "py_eq_json (Plain j) l = json_eq j l"
| "py_eq_json (PyDict kvs) (JObj lvs) =
     (list_all (\<lambda>l. list_ex (\<lambda>p. same_key (fst p) (fst l)) kvs) lvs \<and>
      list_all (\<lambda>p. case find (\<lambda>l. same_key (fst p) (fst l)) lvs of
                      None \<Rightarrow> False
                    | Some l \<Rightarrow> py_eq_json (snd p) (snd l)) kvs)"
| "py_eq_json (PyDict kvs) _ = False"

text \<open>The entries of a dictionary that has strings as keys and plain values.\<close>

definition py_plain :: "(string \<times> json) list \<Rightarrow> (pykey \<times> pyval) list" where
  "py_plain = map (\<lambda>(k, j). (PStr k, Plain j))"

lemma py_plain_simps [simp]:
  "py_plain [] = []" "py_plain ((k, j) # kvs) = (PStr k, Plain j) # py_plain kvs"
  "py_plain (a @ b) = py_plain a @ py_plain b"
  by (simp_all add: py_plain_def)

section \<open>What a document has of a dictionary\<close>

definition string_keys :: "(pykey \<times> 'v) list \<Rightarrow> bool" where
  "string_keys kvs \<longleftrightarrow> (\<forall>k \<in> fst ` set kvs. \<exists>s. k = PStr s)"

lemma string_keys_simps [simp]:
  "string_keys []" "string_keys ((k, v) # kvs) \<longleftrightarrow> (\<exists>s. k = PStr s) \<and> string_keys kvs"
  "string_keys (a @ b) \<longleftrightarrow> string_keys a \<and> string_keys b" "string_keys (py_plain c)"
  by (auto simp: string_keys_def py_plain_def)

lemma dump_get:
  "string_keys kvs \<Longrightarrow> map_of (map (\<lambda>p. (key_text (fst p), py_dump (snd p))) kvs) s =
     map_option py_dump (map_of kvs (PStr s))"
  by (induction kvs) (auto simp: string_keys_def)

lemma py_item:
  "string_keys kvs \<Longrightarrow> json_item (py_dump (PyDict kvs)) s =
     (case map_of kvs (PStr s) of None \<Rightarrow> Inl (KeyError s) | Some v \<Rightarrow> Inr (py_dump v))"
  by (simp add: dump_get split: option.split)

lemma map_of_py_plain: "map_of (py_plain kvs) (PStr s) = map_option Plain (map_of kvs s)"
  by (induction kvs) (auto simp: py_plain_def)

lemma map_of_rev_py_plain: "map_of (rev (py_plain kvs)) (PStr s) = map_option Plain (map_of (rev kvs) s)"
  by (induction kvs rule: rev_induct) (auto simp: py_plain_def)

text \<open>Equal dictionaries have equal entries; so one with a number as a key, at any depth, is equal
  to no loaded document.\<close>

lemma py_eq_entry:
  assumes "py_eq_json (PyDict kvs) l" and "(k, v) \<in> set kvs"
  shows "\<exists>s w. k = PStr s \<and> json_item l s = Inr w \<and> py_eq_json v w"
proof -
  from assms(1) obtain lvs where l: "l = JObj lvs" by (cases l) auto
  from assms obtain x where x: "find (\<lambda>l. same_key k (fst l)) lvs = Some x" "py_eq_json v (snd x)"
    by (fastforce simp: l list_all_iff split: option.splits)
  then obtain s where k: "k = PStr s" by (cases k) (auto simp: find_Some_iff)
  have "map_of ys s = map_option snd (find (\<lambda>l. s = fst l) ys)" for ys :: "(string \<times> json) list"
    by (induction ys) auto
  with x show ?thesis by (simp add: k l)
qed

lemma number_key_differs:
  "(PInt i, v) \<in> set kvs \<Longrightarrow> \<not> py_eq_json (PyDict kvs) l"
  using py_eq_entry by blast

end
