(* ===== verification/Config_Generator.thy ===== *)
theory Config_Generator
  imports Node_Config Contracts Actions Dkg_Encoding Py_Dict
begin

text \<open>
  The generation of a chain's configuration: \<^verbatim>\<open>core/schains/config/generator.py\<close> and the
  sections it puts together (\<^verbatim>\<open>skale_section.py\<close>, \<^verbatim>\<open>node_info.py\<close>, \<^verbatim>\<open>schain_info.py\<close>,
  \<^verbatim>\<open>schain_node.py\<close>, \<^verbatim>\<open>contract_settings.py\<close>, \<^verbatim>\<open>static_params.py\<close>, \<^verbatim>\<open>predeployed.py\<close>,
  \<^verbatim>\<open>precompiled.py\<close>, \<^verbatim>\<open>accounts.py\<close>, \<^verbatim>\<open>legacy_data.py\<close>, \<^verbatim>\<open>skale_manager_opts.py\<close>).

  \<open>gen_api\<close> is the record of what the code takes from third-party packages (answers of the
  contracts, the class \<^verbatim>\<open>NodeInfo\<close>, port allocation, addresses, the generators of predeployed
  contracts) and from files outside the node's data directory (None is a missing file).
  Dictionaries are association lists; \<open>merge\<close> is \<^verbatim>\<open>{**a, **b}\<close>.
\<close>

type_synonym dict = "(string \<times> json) list"

definition merge :: "('k \<times> 'v) list \<Rightarrow> ('k \<times> 'v) list \<Rightarrow> ('k \<times> 'v) list" where
  "merge a b = foldl (\<lambda>d (k, v). AList.update k v d) a b"

fun json_dict :: "json \<Rightarrow> dict res" where
  "json_dict (JObj kvs) = Inr kvs"
| "json_dict _ = Inl (TypeError ''mapping'')"

record gen_node =
  gn_id :: int
  gn_name :: string
  gn_ip :: "nat list"
  gn_publicIP :: "nat list"
  gn_publicKey :: string
  gn_port :: int
  gn_schains :: "schain_structure list"

record gen_api =
  node_info_to_dict :: "int \<Rightarrow> string \<Rightarrow> int \<Rightarrow> dict"
  IMA_MONITORING :: int
  ip_from_bytes :: "nat list \<Rightarrow> string"
  public_key_to_address :: "string \<Rightarrow> string"
  to_checksum_address :: "string \<Rightarrow> string"
  get_schain_base_port_on_node :: "schain_structure list \<Rightarrow> string \<Rightarrow> int \<Rightarrow> int"
  get_code :: "string \<Rightarrow> nat list res"
  nodes_with_schains :: "string \<Rightarrow> gen_node list res"
  get_node :: "int \<Rightarrow> gen_node res"
  previous_schain_groups :: "string \<Rightarrow> (int \<times> json) list res"
  raw_common_public_key :: "string \<Rightarrow> json list list res"
  schains_internal_address :: string
  nodes_address :: string
  base_config_file :: "json option"
  mainnet_ima_abi_file :: "json option"
  schain_ima_abi_file :: "json option"
  precompiled_file :: "json option"
  static_accounts_file :: "string \<Rightarrow> json option"
  static_groups_file :: "string \<Rightarrow> json option"
  rotation_node_data :: "json \<Rightarrow> json res"
  SGX_SSL_CERT_FILEPATH :: json
  SGX_SSL_KEY_FILEPATH :: json
  ETHERBASE_ADDRESS :: string
  MARIONETTE_ADDRESS :: string
  FILESTORAGE_ADDRESS :: string
  MULTISIGWALLET_ADDRESS :: string
  MESSAGE_PROXY_FOR_SCHAIN_ADDRESS :: string
  proxy_admin_allocation :: "string \<Rightarrow> json \<Rightarrow> dict"
  etherbase_allocation :: "json \<Rightarrow> string list \<Rightarrow> string \<Rightarrow> int \<Rightarrow> dict"
  marionette_allocation :: "string \<Rightarrow> string \<Rightarrow> json \<Rightarrow> string \<Rightarrow> string \<Rightarrow> dict"
  filestorage_allocation :: "json \<Rightarrow> string \<Rightarrow> json \<Rightarrow> dict"
  config_controller_allocation :: "json \<Rightarrow> string \<Rightarrow> dict"
  multisigwallet_allocation :: "string list \<Rightarrow> dict"
  context_allocation :: "json \<Rightarrow> string \<Rightarrow> dict"
  ima_contracts :: "json \<Rightarrow> string \<Rightarrow> json \<Rightarrow> dict"

definition read_file :: "json option \<Rightarrow> json res" where
  "read_file f = (case f of None \<Rightarrow> Inl (FileNotFoundError ''read_json'') | Some j \<Rightarrow> Inr j)"

section \<open>Addresses and accounts\<close>

definition fix_address :: "gen_api \<Rightarrow> string \<Rightarrow> string" where
  "fix_address g = to_checksum_address g"

definition generate_account :: "int \<Rightarrow> json" where
  "generate_account balance = JObj [(''balance'', JStr (str_of_int balance))]"

definition add_to_accounts :: "gen_api \<Rightarrow> dict \<Rightarrow> string \<Rightarrow> json \<Rightarrow> dict" where
  "add_to_accounts g accounts address account = AList.update (fix_address g address) account accounts"

definition SCHAIN_OWNER_ALLOC :: int where "SCHAIN_OWNER_ALLOC = 1000000000000000000000000000000"
definition NODE_OWNER_ALLOC :: int where "NODE_OWNER_ALLOC = 1000000000000000000000000000000"
definition ETHERBASE_ALLOC :: int where
  "ETHERBASE_ALLOC =
     57896044618658097711785492504343953926634992332820282019728792003956564819967"

definition PROXY_ADMIN_PREDEPLOYED_ADDRESS :: string where
  "PROXY_ADMIN_PREDEPLOYED_ADDRESS = ''0xD1000000000000000000000000000000000000D1''"

definition generate_owner_accounts ::
  "gen_api \<Rightarrow> json \<Rightarrow> string \<Rightarrow> gen_node list \<Rightarrow> int \<Rightarrow> dict res" where
  "generate_owner_accounts g on_chain_owner originator_address nodes gen =
     (let a0 = [];
          a1 = (if gen \<ge> 1
                then add_to_accounts g a0 originator_address (generate_account SCHAIN_OWNER_ALLOC)
                else a0)
      in res_bind (if gen = 0
             then res_bind (json_str on_chain_owner) (\<lambda>owner.
                  Inr (add_to_accounts g a1 owner (generate_account SCHAIN_OWNER_ALLOC)))
             else Inr a1) (\<lambda>a2.
         Inr (foldl (\<lambda>a node. add_to_accounts g a (public_key_to_address g (gn_publicKey node))
                            (generate_account NODE_OWNER_ALLOC)) a2 nodes)))"

definition generate_ima_accounts :: "gen_api \<Rightarrow> json \<Rightarrow> string \<Rightarrow> dict res" where
  "generate_ima_accounts g on_chain_owner schain_name =
     res_bind (read_file (mainnet_ima_abi_file g)) (\<lambda>mainnet_ima_abi.
       Inr (ima_contracts g on_chain_owner schain_name mainnet_ima_abi))"

definition generate_v1_predeployed_contracts ::
  "('d, 'f) env \<Rightarrow> gen_api \<Rightarrow> schain_type \<Rightarrow> string \<Rightarrow> json \<Rightarrow> string \<Rightarrow> string \<Rightarrow> string \<Rightarrow> string \<Rightarrow>
   dict res" where
  "generate_v1_predeployed_contracts e g schain_type alloc_type on_chain_owner mn_owner
     originator_address message_proxy_for_schain_address schain_name =
     res_bind (get_fs_allocated_storage e schain_type alloc_type) (\<lambda>allocated_storage.
       Inr (foldl merge []
         [proxy_admin_allocation g PROXY_ADMIN_PREDEPLOYED_ADDRESS on_chain_owner,
          etherbase_allocation g on_chain_owner [message_proxy_for_schain_address]
            PROXY_ADMIN_PREDEPLOYED_ADDRESS ETHERBASE_ALLOC,
          marionette_allocation g PROXY_ADMIN_PREDEPLOYED_ADDRESS mn_owner on_chain_owner
            (MULTISIGWALLET_ADDRESS g) message_proxy_for_schain_address,
          filestorage_allocation g on_chain_owner PROXY_ADMIN_PREDEPLOYED_ADDRESS
            allocated_storage,
          config_controller_allocation g on_chain_owner PROXY_ADMIN_PREDEPLOYED_ADDRESS,
          multisigwallet_allocation g [originator_address],
          context_allocation g on_chain_owner schain_name]))"

definition generate_predeployed_accounts ::
  "('d, 'f) env \<Rightarrow> gen_api \<Rightarrow> string \<Rightarrow> schain_type \<Rightarrow> string \<Rightarrow> gen_node list \<Rightarrow> json \<Rightarrow> string \<Rightarrow>
   string \<Rightarrow> int \<Rightarrow> dict res" where
  "generate_predeployed_accounts e g schain_name schain_type alloc_type nodes
     on_chain_owner mn_owner originator_address gen =
     res_bind (generate_owner_accounts g on_chain_owner originator_address nodes gen) (\<lambda>owners.
     res_bind (generate_ima_accounts g on_chain_owner schain_name) (\<lambda>ima.
       let section0 = merge owners ima
       in if gen \<ge> 1
          then res_bind (generate_v1_predeployed_contracts e g schain_type alloc_type
                 on_chain_owner mn_owner originator_address
                 (MESSAGE_PROXY_FOR_SCHAIN_ADDRESS g) schain_name) (\<lambda>v1.
               Inr (merge section0 v1))
          else Inr section0))"

text \<open>The precompiled contracts: \<^verbatim>\<open>fs\<close> and \<^verbatim>\<open>schainOwner\<close> stand for addresses. Elements of
  \<^verbatim>\<open>restrictAccess\<close> that are no strings equal neither.\<close>

definition handle_precompiled_permission :: "gen_api \<Rightarrow> json \<Rightarrow> json \<Rightarrow> json" where
  "handle_precompiled_permission g on_chain_owner permission =
     (if permission = JStr ''fs'' then JStr (FILESTORAGE_ADDRESS g)
      else if permission = JStr ''schainOwner'' then on_chain_owner
      else permission)"

definition handle_precompiled_permissions :: "gen_api \<Rightarrow> json \<Rightarrow> json \<Rightarrow> json res" where
  "handle_precompiled_permissions g on_chain_owner precompiled =
     res_bind (json_item precompiled ''precompiled'') (\<lambda>p.
     res_bind (json_get p ''restrictAccess'' JNull) (\<lambda>acc.
       if \<not> truthy acc then Inr precompiled
       else res_bind (json_elems acc) (\<lambda>permissions.
            res_bind (json_set p ''restrictAccess''
              (JList (map (handle_precompiled_permission g on_chain_owner) permissions))) (\<lambda>p'.
            json_set precompiled ''precompiled'' p'))))"

fun precompiled_accounts :: "gen_api \<Rightarrow> json \<Rightarrow> dict \<Rightarrow> dict \<Rightarrow> dict res" where
  "precompiled_accounts g on_chain_owner [] accounts = Inr accounts"
| "precompiled_accounts g on_chain_owner ((address, precompiled) # rest) accounts =
     res_bind (handle_precompiled_permissions g on_chain_owner precompiled) (\<lambda>p.
       precompiled_accounts g on_chain_owner rest (add_to_accounts g accounts address p))"

definition generate_precompiled_accounts :: "gen_api \<Rightarrow> json \<Rightarrow> dict res" where
  "generate_precompiled_accounts g on_chain_owner =
     res_bind (read_file (precompiled_file g)) (\<lambda>j.
     res_bind (json_dict j) (\<lambda>precompileds. precompiled_accounts g on_chain_owner precompileds []))"

section \<open>Static parameters and groups\<close>

definition get_schain_static_param :: "json \<Rightarrow> string \<Rightarrow> json res" where
  "get_schain_static_param p schain_name =
     (case p of
        JInt i \<Rightarrow> Inr (JInt i)
      | JBool b \<Rightarrow> Inr (JBool b)
      | _ \<Rightarrow> if json_has p schain_name then json_item p schain_name
             else json_get p ''default'' JNull)"

definition get_static_schain_info :: "('d, 'f) env \<Rightarrow> string \<Rightarrow> dict res" where
  "get_static_schain_info e schain_name =
     res_bind (json_item (static_params e) ''schain'') (\<lambda>j.
     res_bind (json_dict j) (\<lambda>ps.
     res_map (\<lambda>(param_name, param).
       res_bind (get_schain_static_param param schain_name) (\<lambda>v. Inr (param_name, v))) ps))"

definition get_static_node_info :: "('d, 'f) env \<Rightarrow> schain_type \<Rightarrow> dict res" where
  "get_static_node_info e schain_type =
     res_bind (json_path (static_params e) [''node'', ''common'']) (\<lambda>c.
     res_bind (json_path (static_params e) [''node'', schain_type_name schain_type]) (\<lambda>t.
     res_bind (json_dict c) (\<lambda>cd. res_bind (json_dict t) (\<lambda>td. Inr (merge cd td)))))"

text \<open>\<^verbatim>\<open>static_groups\<close>: the ids become numbers; a node's list becomes \<^verbatim>\<open>RotationNodeData\<close>
  (\<open>rotation_node_data\<close>: the value as it is written to a file). The ids of the nodes are
  kept in decimal notation.\<close>

definition prepare_group_nodes :: "gen_api \<Rightarrow> json \<Rightarrow> json res" where
  "prepare_group_nodes g nodes =
     res_bind (json_dict nodes) (\<lambda>kvs.
     res_bind (res_map (\<lambda>(k, v). res_bind (rotation_node_data g v) (\<lambda>d.
        res_bind (int_of_str k) (\<lambda>i. Inr (str_of_int i, d)))) kvs) (\<lambda>kvs'.
     Inr (JObj (merge [] kvs'))))"

definition static_groups :: "gen_api \<Rightarrow> string \<Rightarrow> (int \<times> json) list res" where
  "static_groups g schain_name =
     (case static_groups_file g schain_name of
        None \<Rightarrow> Inr []
      | Some groups \<Rightarrow>
          res_bind (json_dict groups) (\<lambda>kvs.
          res_bind (res_map (\<lambda>(plain_rotation_id, data).
            res_bind (int_of_str plain_rotation_id) (\<lambda>rot.
            res_bind (json_item data ''nodes'') (\<lambda>nodes.
            res_bind (prepare_group_nodes g nodes) (\<lambda>nodes'.
            res_bind (json_set data ''nodes'' nodes') (\<lambda>data'. Inr (rot, data')))))) kvs) (\<lambda>gs.
          Inr (merge [] gs))))"

text \<open>Node groups by rotation number; the data of a group is given as the document it is written as.\<close>

definition groups_dict :: "(int \<times> json) list \<Rightarrow> pyval" where
  "groups_dict gs = PyDict (map (\<lambda>(rot, data). (PInt rot, Plain data)) gs)"

section \<open>The sections\<close>

definition skale_manager_opts :: "gen_api \<Rightarrow> json" where
  "skale_manager_opts g =
     JObj [(''SchainsInternal'', JStr (schains_internal_address g)), (''Nodes'', JStr (nodes_address g))]"

definition numbered :: "string \<Rightarrow> json list \<Rightarrow> dict res" where
  "numbered pre values =
     res_map (\<lambda>(i, v). res_bind (py_str v) (\<lambda>s. Inr (pre @ str_of_nat i, JStr s)))
       (enumerate 0 values)"

definition key_share_wallet :: "gen_api \<Rightarrow> json \<Rightarrow> dict res" where
  "key_share_wallet g config =
     res_bind (json_item config ''key_share_name'') (\<lambda>key_name.
     res_bind (json_item config ''t'') (\<lambda>t.
     res_bind (json_item config ''public_key'') (\<lambda>public_keys.
     res_bind (json_elems public_keys) (\<lambda>keys.
     res_bind (numbered ''BLSPublicKey'' keys) (\<lambda>named.
     Inr (merge [(''keyShareName'', key_name), (''t'', t),
                 (''certFile'', SGX_SSL_CERT_FILEPATH g),
                 (''keyFile'', SGX_SSL_KEY_FILEPATH g)] named))))))"

definition generate_wallets_config ::
  "('d, 'f) env \<Rightarrow> gen_api \<Rightarrow> string \<Rightarrow> int \<Rightarrow> bool \<Rightarrow> nat \<Rightarrow> json list \<Rightarrow> ('d, 'f) world \<Rightarrow> json res" where
  "generate_wallets_config e g schain_name rot sync_node nodes_in_schain common_bls_public_keys w =
     res_bind (numbered ''commonBLSPublicKey'' common_bls_public_keys) (\<lambda>common.
       let ima = merge [(''n'', JInt (int nodes_in_schain))] common
       in if sync_node then Inr (JObj [(''ima'', JObj ima)])
          else res_bind (read_json (files w) (get_secret_key_share_filepath e schain_name rot)) (\<lambda>config.
               res_bind (key_share_wallet g config) (\<lambda>share.
               Inr (JObj [(''ima'', JObj (merge ima share))]))))"

definition get_address_from_abi_data :: "json \<Rightarrow> string \<Rightarrow> json res" where
  "get_address_from_abi_data abi_data contract = json_item abi_data (contract @ ''_address'')"

definition SCHAIN_IMA_CONTRACTS :: "(string \<times> string) list" where
  "SCHAIN_IMA_CONTRACTS =
     [(''token_manager_eth'', ''TokenManagerEth''),
      (''token_manager_erc20'', ''TokenManagerERC20''),
      (''token_manager_erc721'', ''TokenManagerERC721''),
      (''token_manager_erc1155'', ''TokenManagerERC1155''),
      (''token_manager_erc721_with_metadata'', ''TokenManagerERC721WithMetadata''),
      (''message_proxy_chain'', ''MessageProxyForSchain''),
      (''token_manager_linker'', ''TokenManagerLinker''),
      (''community_locker'', ''CommunityLocker''),
      (''eth_erc20'', ''EthERC20'')]"

definition MAINNET_IMA_CONTRACTS :: "(string \<times> string) list" where
  "MAINNET_IMA_CONTRACTS =
     [(''message_proxy_mainnet'', ''MessageProxyForMainnet''),
      (''linker'', ''Linker''),
      (''deposit_box_eth'', ''DepositBoxEth''),
      (''deposit_box_erc20'', ''DepositBoxERC20''),
      (''deposit_box_erc721'', ''DepositBoxERC721''),
      (''deposit_box_erc1155'', ''DepositBoxERC1155'')]"

definition ima_addresses :: "json \<Rightarrow> (string \<times> string) list \<Rightarrow> dict res" where
  "ima_addresses abi cs =
     res_map (\<lambda>(contract, filename).
       res_bind (get_address_from_abi_data abi contract) (\<lambda>v. Inr (filename, v))) cs"

definition generate_ima_contracts_addresses :: "json \<Rightarrow> json \<Rightarrow> dict res" where
  "generate_ima_contracts_addresses schain_ima_abi mainnet_ima_abi =
     res_bind (ima_addresses schain_ima_abi SCHAIN_IMA_CONTRACTS) (\<lambda>s.
     res_bind (ima_addresses mainnet_ima_abi MAINNET_IMA_CONTRACTS) (\<lambda>m. Inr (merge (merge [] s) m)))"

record contract_settings =
  cs_common :: dict
  cs_ima :: dict

definition ContractSettings_to_dict :: "contract_settings \<Rightarrow> json" where
  "ContractSettings_to_dict c =
     JObj [(''common'', JObj (cs_common c)), (''IMA'', JObj (cs_ima c))]"

definition generate_contract_settings :: "gen_api \<Rightarrow> json \<Rightarrow> json res" where
  "generate_contract_settings g on_chain_owner =
     res_bind (read_file (schain_ima_abi_file g)) (\<lambda>s.
     res_bind (read_file (mainnet_ima_abi_file g)) (\<lambda>m.
     res_bind (generate_ima_contracts_addresses s m) (\<lambda>addresses.
     Inr (ContractSettings_to_dict
       \<lparr>cs_common = [(''enableContractLogMessages'', JBool True)],
        cs_ima = merge [(''ownerAddress'', on_chain_owner)] addresses\<rparr>))))"

definition get_message_proxy_addresses :: "gen_api \<Rightarrow> (json \<times> json) res" where
  "get_message_proxy_addresses g =
     res_bind (read_file (mainnet_ima_abi_file g)) (\<lambda>m.
     res_bind (read_file (schain_ima_abi_file g)) (\<lambda>s.
     res_bind (json_item s ''message_proxy_chain_address'') (\<lambda>mp_schain.
     res_bind (json_item m ''message_proxy_mainnet_address'') (\<lambda>mp_mainnet.
     Inr (mp_schain, mp_mainnet)))))"

record current_node_info =
  ni_node_id :: int
  ni_name :: string
  ni_base_port :: int
  ima_message_proxy_schain :: json
  ima_message_proxy_mainnet :: json
  ni_ecdsa_key_name :: string
  ni_wallets :: json
  ni_static_node_info :: dict
  ni_sync_node :: bool
  ni_archive :: json
  ni_catchup :: json

definition CurrentNodeInfo_to_dict :: "gen_api \<Rightarrow> current_node_info \<Rightarrow> json" where
  "CurrentNodeInfo_to_dict g i =
     (let node_info = merge (node_info_to_dict g (ni_node_id i) (ni_name i) (ni_base_port i))
           (merge
             [(''imaMessageProxySChain'', ima_message_proxy_schain i),
              (''imaMessageProxyMainNet'', ima_message_proxy_mainnet i),
              (''ecdsaKeyName'', JStr (ni_ecdsa_key_name i)),
              (''wallets'', ni_wallets i),
              (''imaMonitoringPort'', JInt (ni_base_port i + IMA_MONITORING g)),
              (''skale-manager'', skale_manager_opts g),
              (''syncNode'', JBool (ni_sync_node i)),
              (''info-acceptors'', JInt 1)] (ni_static_node_info i))
      in JObj (if ni_sync_node i
               then merge node_info [(''archiveMode'', ni_archive i), (''syncFromCatchup'', ni_catchup i)]
               else node_info))"

text \<open>\<^verbatim>\<open>CurrentNodeInfo\<close>: made and turned into a dictionary.\<close>

definition generate_current_node_info ::
  "('d, 'f) env \<Rightarrow> gen_api \<Rightarrow> gen_node \<Rightarrow> int \<Rightarrow> string option \<Rightarrow> dict \<Rightarrow> string \<Rightarrow> int \<Rightarrow> nat \<Rightarrow> int \<Rightarrow>
   json list \<Rightarrow> bool \<Rightarrow> json \<Rightarrow> json \<Rightarrow> ('d, 'f) world \<Rightarrow> json res" where
  "generate_current_node_info e g node node_id ecdsa_key_name static_node_info schain_name rot
     nodes_in_schain schain_base_port common_bls_public_keys sync_node archive catchup w =
     res_bind (generate_wallets_config e g schain_name rot sync_node nodes_in_schain
                 common_bls_public_keys w) (\<lambda>wallets.
     res_bind (get_message_proxy_addresses g) (\<lambda>(mp_schain, mp_mainnet).
       Inr (CurrentNodeInfo_to_dict g
         \<lparr>ni_node_id = node_id, ni_name = gn_name node, ni_base_port = schain_base_port,
          ima_message_proxy_schain = mp_schain, ima_message_proxy_mainnet = mp_mainnet,
          ni_ecdsa_key_name = (case ecdsa_key_name of None \<Rightarrow> [] | Some k \<Rightarrow> k),
          ni_wallets = wallets, ni_static_node_info = static_node_info,
          ni_sync_node = sync_node, ni_archive = archive, ni_catchup = catchup\<rparr>)))"

text \<open>\<^verbatim>\<open>SChainNodeInfo.to_dict\<close>\<close>

definition schain_node_info ::
  "gen_api \<Rightarrow> gen_node \<Rightarrow> int \<Rightarrow> string \<Rightarrow> nat \<Rightarrow> json res" where
  "schain_node_info g node b_port bls_public_key schain_index =
     res_bind (parse_public_key_info bls_public_key) (\<lambda>pk.
     res_bind (json_dict pk) (\<lambda>pkd.
       let node_info = AList.delete ''infoHttpRpcPort''
             (node_info_to_dict g (gn_id node) (gn_name node) b_port)
       in Inr (JObj (merge (merge node_info pkd)
            [(''publicKey'', JStr (gn_publicKey node)),
             (''owner'', JStr (public_key_to_address g (gn_publicKey node))),
             (''schainIndex'', JInt (int schain_index)),
             (''ip'', JStr (ip_from_bytes g (gn_ip node))),
             (''publicIP'', JStr (ip_from_bytes g (gn_publicIP node)))]))))"

definition get_bls_public_keys ::
  "('d, 'f) env \<Rightarrow> string \<Rightarrow> int \<Rightarrow> ('d, 'f) world \<Rightarrow> string list res" where
  "get_bls_public_keys e schain_name rot w =
     res_bind (read_json (files w) (get_secret_key_share_filepath e schain_name rot)) (\<lambda>data.
     res_bind (json_item data ''bls_public_keys'') (\<lambda>j.
     res_bind (json_elems j) (res_map json_str)))"

text \<open>The keys are indexed by the position of the node.\<close>

fun gen_schain_nodes ::
  "gen_api \<Rightarrow> string \<Rightarrow> string list \<Rightarrow> nat \<Rightarrow> gen_node list \<Rightarrow> json list res" where
  "gen_schain_nodes g schain_name keys i [] = Inr []"
| "gen_schain_nodes g schain_name keys i (node # nodes) =
     res_bind (if i - 1 < length keys then Inr (keys ! (i - 1)) else Inl IndexError) (\<lambda>key.
     res_bind (schain_node_info g node
                 (get_schain_base_port_on_node g (gn_schains node) schain_name (gn_port node))
                 key i) (\<lambda>info.
     res_bind (gen_schain_nodes g schain_name keys (Suc i) nodes) (\<lambda>infos. Inr (info # infos))))"

definition generate_schain_nodes ::
  "('d, 'f) env \<Rightarrow> gen_api \<Rightarrow> gen_node list \<Rightarrow> string \<Rightarrow> int \<Rightarrow> bool \<Rightarrow> ('d, 'f) world \<Rightarrow> json list res" where
  "generate_schain_nodes e g nodes schain_name rot sync_node w =
     res_bind (if sync_node then Inr (replicate (length nodes) ''0:0:1:0'')
               else get_bls_public_keys e schain_name rot w) (\<lambda>keys.
     gen_schain_nodes g schain_name keys 1 nodes)"

definition MAX_CONSENSUS_STORAGE_INF_VALUE :: int where
  "MAX_CONSENSUS_STORAGE_INF_VALUE = 1000000000000000000"

definition volume_limit_names :: "string list" where
  "volume_limit_names =
     [''max_consensus_storage_bytes'', ''max_skaled_leveldb_storage_bytes'',
      ''max_file_storage_bytes'', ''max_reserved_storage_bytes'']"

record schain_info =
  si_schain_id :: "int option"
  si_name :: string
  si_block_author :: json
  si_contract_storage_limit :: json
  si_db_storage_limit :: json
  si_volume_limits :: "json list"
  si_node_groups :: pyval
  si_nodes :: "json list"
  si_static_schain_info :: dict
  si_multitransaction_mode :: bool

definition SChainInfo_to_dict :: "schain_info \<Rightarrow> pyval" where
  "SChainInfo_to_dict i =
     PyDict (merge
       (py_plain
         ([(''schainID'', case si_schain_id i of None \<Rightarrow> JNull | Some n \<Rightarrow> JInt n),
           (''schainName'', JStr (si_name i)),
           (''blockAuthor'', si_block_author i),
           (''contractStorageLimit'', si_contract_storage_limit i),
           (''dbStorageLimit'', si_db_storage_limit i)] @
          zip [''maxConsensusStorageBytes'', ''maxSkaledLeveldbStorageBytes'',
               ''maxFileStorageBytes'', ''maxReservedStorageBytes''] (si_volume_limits i)) @
        [(PStr ''nodeGroups'', si_node_groups i)] @
        py_plain
         [(''multiTransactionMode'', JBool (si_multitransaction_mode i)),
          (''nodes'', JList (si_nodes i))]) (py_plain (si_static_schain_info i)))"

text \<open>\<^verbatim>\<open>SChainInfo(\<dots>, **volume_limits)\<close> and its dictionary: the limits must have exactly the
  four names of the class.\<close>

definition generate_schain_info ::
  "('d, 'f) env \<Rightarrow> int option \<Rightarrow> schain_structure \<Rightarrow> json \<Rightarrow> dict \<Rightarrow> pyval \<Rightarrow> json list \<Rightarrow> bool \<Rightarrow> json \<Rightarrow>
   pyval res" where
  "generate_schain_info e schain_id sch on_chain_etherbase static_info groups nodes
     sync_node archive =
     res_bind (get_schain_type (part_of_node sch)) (\<lambda>t.
     res_bind (get_schain_limit e t volume_limits) (\<lambda>vl.
     res_bind (json_item vl (allocation_type sch)) (\<lambda>limits0.
     res_bind (if sync_node \<and> truthy archive
               then json_set limits0 ''max_consensus_storage_bytes'' (JInt MAX_CONSENSUS_STORAGE_INF_VALUE)
               else Inr limits0) (\<lambda>limits.
     res_bind (get_schain_limit e t leveldb_limits) (\<lambda>ll.
     res_bind (json_item ll (allocation_type sch)) (\<lambda>leveldb.
     res_bind (json_item leveldb ''contract_storage'') (\<lambda>contract_storage_limit.
     res_bind (json_item leveldb ''db_storage'') (\<lambda>db_storage_limit.
     res_bind (json_dict limits) (\<lambda>ld.
       if set (map fst ld) \<noteq> set volume_limit_names then Inl (TypeError ''SChainInfo'')
       else res_bind (res_map (json_item limits) volume_limit_names) (\<lambda>vs.
         Inr (SChainInfo_to_dict
           \<lparr>si_schain_id = schain_id, si_name = sch_name sch, si_block_author = on_chain_etherbase,
            si_contract_storage_limit = contract_storage_limit, si_db_storage_limit = db_storage_limit,
            si_volume_limits = vs, si_node_groups = groups, si_nodes = nodes,
            si_static_schain_info = static_info,
            si_multitransaction_mode = multitransaction_mode sch\<rparr>)))))))))))"

definition SkaleConfig_to_dict :: "json \<Rightarrow> json \<Rightarrow> pyval \<Rightarrow> pyval" where
  "SkaleConfig_to_dict settings node_info chain_info =
     PyDict [(PStr ''contractSettings'', Plain settings), (PStr ''nodeInfo'', Plain node_info),
             (PStr ''sChain'', chain_info)]"

definition generate_skale_section ::
  "('d, 'f) env \<Rightarrow> gen_api \<Rightarrow> schain_structure \<Rightarrow> json \<Rightarrow> json \<Rightarrow> int option \<Rightarrow> int \<Rightarrow> gen_node \<Rightarrow>
   string option \<Rightarrow> gen_node list \<Rightarrow> int \<Rightarrow> (int \<times> json) list \<Rightarrow> int \<Rightarrow> json list \<Rightarrow> bool \<Rightarrow> json \<Rightarrow> json \<Rightarrow>
   ('d, 'f) world \<Rightarrow> pyval res" where
  "generate_skale_section e g sch on_chain_etherbase on_chain_owner schain_id node_id node
     ecdsa_key_name nodes rot groups schain_base_port common_bls_public_keys sync_node
     archive catchup w =
     res_bind (generate_contract_settings g on_chain_owner) (\<lambda>settings.
     res_bind (get_schain_type (part_of_node sch)) (\<lambda>t.
     res_bind (get_static_node_info e t) (\<lambda>static_node_info.
     res_bind (get_static_schain_info e (sch_name sch)) (\<lambda>static_info.
     res_bind (generate_current_node_info e g node node_id ecdsa_key_name static_node_info
                 (sch_name sch) rot (length nodes) schain_base_port common_bls_public_keys
                 sync_node archive catchup w) (\<lambda>node_info.
     res_bind (generate_schain_nodes e g nodes (sch_name sch) rot sync_node w) (\<lambda>infos.
     res_bind (generate_schain_info e schain_id sch on_chain_etherbase static_info
                 (groups_dict groups) infos sync_node archive) (\<lambda>chain_info.
     Inr (SkaleConfig_to_dict settings node_info chain_info))))))))"

section \<open>core/schains/config/generator.py\<close>

definition get_on_chain_owner :: "gen_api \<Rightarrow> schain_structure \<Rightarrow> int \<Rightarrow> bool \<Rightarrow> json" where
  "get_on_chain_owner g sch gen is_owner_contract =
     (if \<not> is_owner_contract then JStr (mainnet_owner sch)
      else if gen \<ge> 1 then JStr (MARIONETTE_ADDRESS g)
      else if gen = 0 then JStr (mainnet_owner sch) else JNull)"

definition get_on_chain_etherbase :: "gen_api \<Rightarrow> schain_structure \<Rightarrow> int \<Rightarrow> json" where
  "get_on_chain_etherbase g sch gen =
     (if gen \<ge> 1 then JStr (ETHERBASE_ADDRESS g)
      else if gen = 0 then JStr (mainnet_owner sch) else JNull)"

text \<open>\<^verbatim>\<open>int(get_chain_id(name), 16)\<close>: the digits after \<^verbatim>\<open>0x\<close>.\<close>

definition get_schain_id :: "('d, 'f) env \<Rightarrow> string \<Rightarrow> int res" where
  "get_schain_id e n =
     parse_hex (drop 2 (get_chain_id e n))"

definition get_schain_id_for_chain :: "('d, 'f) env \<Rightarrow> string \<Rightarrow> int \<Rightarrow> int option res" where
  "get_schain_id_for_chain e n gen =
     (if gen \<ge> 2 then res_bind (get_schain_id e n) (\<lambda>i. Inr (Some i))
      else if gen \<ge> 0 then Inr (Some 1) else Inr None)"

definition ZERO_ADDRESS :: string where
  "ZERO_ADDRESS = ''0x0000000000000000000000000000000000000000''"

definition is_zero_address :: "string \<Rightarrow> bool" where
  "is_zero_address address = (address = ZERO_ADDRESS)"

definition get_schain_originator :: "schain_structure \<Rightarrow> string" where
  "get_schain_originator sch =
     (if is_zero_address (originator sch) then mainnet_owner sch else originator sch)"

definition is_address_contract :: "gen_api \<Rightarrow> string \<Rightarrow> bool res" where
  "is_address_contract g address = res_bind (get_code g address) (\<lambda>code. Inr (code \<noteq> []))"

text \<open>Whatever fails while the static part is read becomes \<^verbatim>\<open>NoBaseConfigError\<close>.\<close>

definition SChainBaseConfig :: "gen_api \<Rightarrow> json res" where
  "SChainBaseConfig g =
     (case base_config_file g of None \<Rightarrow> Inl NoBaseConfigError | Some j \<Rightarrow> Inr j)"

definition is_static_accounts :: "gen_api \<Rightarrow> string \<Rightarrow> bool" where
  "is_static_accounts g n = (static_accounts_file g n \<noteq> None)"

definition static_accounts :: "gen_api \<Rightarrow> string \<Rightarrow> json res" where
  "static_accounts g n = read_file (static_accounts_file g n)"

definition generate_accounts ::
  "('d, 'f) env \<Rightarrow> gen_api \<Rightarrow> json \<Rightarrow> schain_structure \<Rightarrow> schain_type \<Rightarrow> gen_node list \<Rightarrow> json \<Rightarrow> int \<Rightarrow>
   json res" where
  "generate_accounts e g base_config sch t nodes on_chain_owner gen =
     (if is_static_accounts g (sch_name sch)
      then res_bind (static_accounts g (sch_name sch)) (\<lambda>j. json_item j ''accounts'')
      else res_bind (generate_predeployed_accounts e g (sch_name sch) t (allocation_type sch) nodes
                       on_chain_owner (mainnet_owner sch) (get_schain_originator sch) gen) (\<lambda>predeployed.
           res_bind (generate_precompiled_accounts g on_chain_owner) (\<lambda>precompiled.
           res_bind (json_item base_config ''accounts'') (\<lambda>b. res_bind (json_dict b) (\<lambda>base.
           Inr (JObj (merge (merge base predeployed) precompiled)))))))"

record schain_config_d =
  sc_seal_engine :: json
  sc_params :: dict
  sc_unddos :: json
  sc_genesis :: json
  sc_accounts :: json
  sc_skale_config :: pyval

definition SChainConfig_to_dict :: "schain_config_d \<Rightarrow> pyval" where
  "SChainConfig_to_dict c =
     PyDict [(PStr ''sealEngine'', Plain (sc_seal_engine c)), (PStr ''params'', Plain (JObj (sc_params c))),
             (PStr ''unddos'', Plain (sc_unddos c)), (PStr ''genesis'', Plain (sc_genesis c)),
             (PStr ''accounts'', Plain (sc_accounts c)), (PStr ''skaleConfig'', sc_skale_config c)]"

definition generate_schain_config ::
  "('d, 'f) env \<Rightarrow> gen_api \<Rightarrow> schain_structure \<Rightarrow> int \<Rightarrow> gen_node \<Rightarrow> string option \<Rightarrow> int \<Rightarrow>
   gen_node list \<Rightarrow> (int \<times> json) list \<Rightarrow> int \<Rightarrow> bool \<Rightarrow> int \<Rightarrow> json list \<Rightarrow> bool \<Rightarrow> json \<Rightarrow> json \<Rightarrow>
   ('d, 'f) world \<Rightarrow> pyval res" where
  "generate_schain_config e g sch node_id node ecdsa_key_name rot nodes prev_groups gen
     is_owner_contract schain_base_port common_bls_public_keys sync_node archive catchup w =
     (let on_chain_etherbase = get_on_chain_etherbase g sch gen;
          on_chain_owner = get_on_chain_owner g sch gen is_owner_contract
      in res_bind (get_schain_type (part_of_node sch)) (\<lambda>t.
         res_bind (get_schain_id_for_chain e (sch_name sch) gen) (\<lambda>schain_id.
         res_bind (SChainBaseConfig g) (\<lambda>base_config.
         res_bind (static_groups g (sch_name sch)) (\<lambda>legacy_groups.
           let groups = merge prev_groups legacy_groups
           in res_bind (generate_skale_section e g sch on_chain_etherbase on_chain_owner schain_id
                 node_id node ecdsa_key_name nodes rot groups schain_base_port
                 common_bls_public_keys sync_node archive catchup w) (\<lambda>skale_config.
              res_bind (generate_accounts e g base_config sch t nodes on_chain_owner gen) (\<lambda>accounts.
              res_bind (json_item base_config ''sealEngine'') (\<lambda>seal_engine.
              res_bind (json_item base_config ''params'') (\<lambda>pj. res_bind (json_dict pj) (\<lambda>params.
              res_bind (json_item base_config ''unddos'') (\<lambda>unddos.
              res_bind (json_item base_config ''genesis'') (\<lambda>genesis.
              Inr (SChainConfig_to_dict
                \<lparr>sc_seal_engine = seal_engine,
                 sc_params = merge params [(''chainID'', JStr (get_chain_id e (sch_name sch)))],
                 sc_unddos = unddos, sc_genesis = genesis, sc_accounts = accounts,
                 sc_skale_config = skale_config\<rparr>)))))))))))))"

text \<open>The answers of the contracts, then the configuration.\<close>

definition generate_schain_config_with_skale ::
  "('d, 'f) env \<Rightarrow> gen_api \<Rightarrow> contracts \<Rightarrow> string \<Rightarrow> int \<Rightarrow> int \<Rightarrow> string option \<Rightarrow> bool \<Rightarrow>
   ('d, 'f) world \<Rightarrow> pyval res" where
  "generate_schain_config_with_skale e g k n gen rot ecdsa_key_name sync_node w =
     res_bind (nodes_with_schains g n) (\<lambda>nodes.
     res_bind (NodeConfig_id e w) (\<lambda>idj. res_bind (json_num idj) (\<lambda>node_id.
     res_bind (get_schains_for_node k node_id) (\<lambda>schains_on_node.
     res_bind (get_schain_by_name k n) (\<lambda>sch.
     res_bind (get_node g node_id) (\<lambda>node.
     res_bind (previous_schain_groups g n) (\<lambda>prev_groups.
     res_bind (is_address_contract g (mainnet_owner sch)) (\<lambda>is_owner_contract.
     res_bind (raw_common_public_key g n) (\<lambda>raw.
     res_bind (if sync_node then res_bind (NodeConfig_schain_base_port e w) json_num
               else Inr (get_schain_base_port_on_node g schains_on_node (sch_name sch) (gn_port node)))
       (\<lambda>schain_base_port.
     res_bind (NodeOptions_archive e w) (\<lambda>archive.
     res_bind (NodeOptions_catchup e w) (\<lambda>catchup.
       generate_schain_config e g sch node_id node ecdsa_key_name rot nodes prev_groups gen
         is_owner_contract schain_base_port (concat raw) sync_node archive catchup w))))))))))))"

text \<open>\<^verbatim>\<open>create_new_upstream_config\<close>: the dictionary, as the caller compares it with a loaded
  document and as it writes it to a file.\<close>

definition create_new_upstream_config ::
  "('d, 'f) env \<Rightarrow> gen_api \<Rightarrow> contracts \<Rightarrow> string \<Rightarrow> int \<Rightarrow> int \<Rightarrow> string option \<Rightarrow> bool \<Rightarrow>
   ('d, 'f, generated_config) wact" where
  "create_new_upstream_config e g k n gen rot ecdsa_key_name sync_node =
     act_bind (act_res (generate_schain_config_with_skale e g k n gen rot ecdsa_key_name sync_node))
       (\<lambda>config. act_return \<lparr>gc_json = py_dump config, gc_equals = py_eq_json config\<rparr>)"

end
