(* ===== verification/Config_Generated.thy ===== *)
theory Config_Generated
  imports Config_Generator Dkg_Action
begin

text \<open>
  What a generated configuration holds: the facts about \<open>merge\<close>, the sections of
  \<open>generate_schain_config\<close>'s result and the values the readers of \<open>Config_Reader\<close> find there.
\<close>

section \<open>Dictionaries\<close>

lemma map_of_merge: "map_of (merge a b) = map_of a ++ map_of (rev b)"
  unfolding merge_def
proof (induction b arbitrary: a)
  case Nil
  then show ?case by simp
next
  case (Cons kv b)
  obtain k v where "kv = (k, v)" by fastforce
  then show ?case by (simp add: Cons.IH update_conv' map_add_def fun_eq_iff split: option.split)
qed

lemma keys_merge: "set (map fst (merge a b)) = set (map fst a) \<union> set (map fst b)"
  using arg_cong [OF map_of_merge [of a b], of dom] by (simp add: dom_map_of_conv_image_fst Un_commute)

lemma distinct_merge: "distinct (map fst a) \<Longrightarrow> distinct (map fst (merge a b))"
  unfolding merge_def
  by (induction b arbitrary: a) (auto simp: distinct_update)

lemma map_of_rev_merge: "distinct (map fst a) \<Longrightarrow> map_of (rev (merge a b)) = map_of a ++ map_of (rev b)"
  by (subst map_of_merge [symmetric], subst map_of_inject_set)
    (simp_all add: distinct_merge rev_map [symmetric])

lemma map_of_rev_none: "k \<notin> set (map fst b) \<Longrightarrow> map_of (rev b) k = None"
  by (auto simp: map_of_eq_None_iff)

lemma string_keys_merge [simp]: "string_keys (merge a b) \<longleftrightarrow> string_keys a \<and> string_keys b"
  unfolding string_keys_def image_set keys_merge by auto

lemmas merge_simps = map_of_merge map_of_rev_merge map_add_def map_of_rev_none

section \<open>The sections\<close>

lemma current_node_info_field:
  assumes gen: "generate_current_node_info e g node node_id key static schain_name rot num port pks
      sync_node archive catchup w = Inr j"
    and k: "k \<notin> set (map fst static)"
      "k \<notin> {''imaMessageProxySChain'', ''imaMessageProxyMainNet'', ''ecdsaKeyName'', ''wallets'',
        ''imaMonitoringPort'', ''skale-manager'', ''syncNode'', ''info-acceptors'', ''archiveMode'',
        ''syncFromCatchup''}"
  shows "json_item j k = json_item (JObj (node_info_to_dict g node_id (gn_name node) port)) k"
proof -
  from gen obtain i where j: "j = CurrentNodeInfo_to_dict g i"
    and i: "ni_node_id i = node_id" "ni_name i = gn_name node" "ni_base_port i = port"
      "ni_static_node_info i = static"
    by (fastforce simp: generate_current_node_info_def res_bind_Inr_iff)
  show ?thesis
    using k by (cases "ni_sync_node i") (simp_all add: j i CurrentNodeInfo_to_dict_def Let_def merge_simps)
qed

lemma map_of_zip_none: "k \<notin> set ks \<Longrightarrow> map_of (zip ks vs) k = None"
  by (auto simp: map_of_eq_None_iff dest: set_zip_leftD)

lemma schain_info_field:
  assumes gen: "generate_schain_info e schain_id sch eb static groups nodes sync_node archive = Inr j"
    and k: "k \<notin> set (map fst static)"
  shows "k = ''nodeGroups'' \<Longrightarrow> json_item (py_dump j) k = Inr (py_dump groups)"
    and "k = ''nodeGroups'' \<Longrightarrow> \<exists>kvs. j = PyDict kvs \<and> (PStr k, groups) \<in> set kvs"
    and "k = ''nodes'' \<Longrightarrow> json_item (py_dump j) k = Inr (JList nodes)"
    and "k = ''schainName'' \<Longrightarrow> json_item (py_dump j) k = Inr (JStr (sch_name sch))"
    and "k = ''schainID'' \<Longrightarrow> json_item (py_dump j) k = Inr (case schain_id of None \<Rightarrow> JNull | Some i \<Rightarrow> JInt i)"
proof -
  from gen obtain i where j: "j = SChainInfo_to_dict i"
    and i: "si_schain_id i = schain_id" "si_name i = sch_name sch" "si_node_groups i = groups"
      "si_nodes i = nodes" "si_static_schain_info i = static"
    by (fastforce simp: generate_schain_info_def res_bind_Inr_iff split: if_splits)
  note simps [simp] = j SChainInfo_to_dict_def i dump_get merge_simps map_of_py_plain
    map_of_rev_py_plain map_of_zip_none
  show "k = ''nodeGroups'' \<Longrightarrow> json_item (py_dump j) k = Inr (py_dump groups)"
    "k = ''nodes'' \<Longrightarrow> json_item (py_dump j) k = Inr (JList nodes)"
    "k = ''schainName'' \<Longrightarrow> json_item (py_dump j) k = Inr (JStr (sch_name sch))"
    "k = ''schainID'' \<Longrightarrow> json_item (py_dump j) k = Inr (case schain_id of None \<Rightarrow> JNull | Some i \<Rightarrow> JInt i)"
    using k by simp_all
  show "\<exists>kvs. j = PyDict kvs \<and> (PStr k, groups) \<in> set kvs" if "k = ''nodeGroups''"
    using k that
    by (simp, intro map_of_SomeD) simp
qed

lemma schain_node_info_fields:
  assumes gen: "schain_node_info g node port key i = Inr j"
  shows "json_item j ''ip'' = Inr (JStr (ip_from_bytes g (gn_ip node)))"
    and "json_item j ''schainIndex'' = Inr (JInt (int i))"
    and "json_item j ''nodeID'' =
      json_item (JObj (node_info_to_dict g (gn_id node) (gn_name node) port)) ''nodeID''"
proof -
  from gen obtain pk pkd where pk: "parse_public_key_info key = Inr pk" "json_dict pk = Inr pkd"
    and j: "j = JObj (merge (merge (AList.delete ''infoHttpRpcPort''
             (node_info_to_dict g (gn_id node) (gn_name node) port)) pkd)
            [(''publicKey'', JStr (gn_publicKey node)),
             (''owner'', JStr (public_key_to_address g (gn_publicKey node))),
             (''schainIndex'', JInt (int i)),
             (''ip'', JStr (ip_from_bytes g (gn_ip node))),
             (''publicIP'', JStr (ip_from_bytes g (gn_publicIP node)))])"
    by (auto simp: schain_node_info_def res_bind_Inr_iff Let_def)
  have pkd: "map_of (rev pkd) ''nodeID'' = None"
    using pk by (auto simp: parse_public_key_info_def split: list.splits)
  show "json_item j ''ip'' = Inr (JStr (ip_from_bytes g (gn_ip node)))"
    "json_item j ''schainIndex'' = Inr (JInt (int i))"
    "json_item j ''nodeID'' =
      json_item (JObj (node_info_to_dict g (gn_id node) (gn_name node) port)) ''nodeID''"
    by (simp_all add: j merge_simps pkd delete_conv')
qed

lemma gen_schain_nodes_infos:
  "gen_schain_nodes g n keys i nodes = Inr infos \<Longrightarrow>
   list_all2 (\<lambda>node info. \<exists>port key idx. schain_node_info g node port key idx = Inr info) nodes infos"
proof (induction nodes arbitrary: i infos)
  case Nil
  then show ?case by simp
next
  case (Cons node nodes)
  then show ?case by (fastforce simp: res_bind_Inr_iff)
qed

text \<open>What the library class \<^verbatim>\<open>NodeInfo\<close> promises: its dictionary has the id and the base port.\<close>

definition node_info_law :: "gen_api \<Rightarrow> bool" where
  "node_info_law g \<longleftrightarrow> (\<forall>i nm p. map_of (node_info_to_dict g i nm p) ''nodeID'' = Some (JInt i) \<and>
     map_of (node_info_to_dict g i nm p) ''basePort'' = Some (JInt p))"

section \<open>The whole configuration\<close>

lemma generate_schain_config_sections:
  assumes gen: "generate_schain_config e g sch node_id node key rot nodes node_groups gn owner port pks
      sync_node archive catchup w = Inr config"
    and t: "get_schain_type (part_of_node sch) = Inr t"
    and sn: "get_static_node_info e t = Inr static_node"
    and ss: "get_static_schain_info e (sch_name sch) = Inr static_schain"
    and legacy: "static_groups g (sch_name sch) = Inr legacy"
  obtains info sch_id infos chain top mid where
    "generate_current_node_info e g node node_id key static_node (sch_name sch) rot (length nodes)
       port pks sync_node archive catchup w = Inr info"
    "generate_schain_nodes e g nodes (sch_name sch) rot sync_node w = Inr infos"
    "generate_schain_info e sch_id sch (get_on_chain_etherbase g sch gn) static_schain
       (groups_dict (merge node_groups legacy)) infos sync_node archive = Inr chain"
    "json_path (py_dump config) [''skaleConfig'', ''nodeInfo''] = Inr info"
    "json_path (py_dump config) [''skaleConfig'', ''sChain''] = Inr (py_dump chain)"
    "config = PyDict top" "(PStr ''skaleConfig'', PyDict mid) \<in> set top"
    "(PStr ''sChain'', chain) \<in> set mid"
proof -
  from gen t legacy obtain sch_id skale_config c where
    skale: "generate_skale_section e g sch (get_on_chain_etherbase g sch gn)
        (get_on_chain_owner g sch gn owner) sch_id node_id node key nodes rot (merge node_groups legacy) port
        pks sync_node archive catchup w = Inr skale_config"
    and config: "config = SChainConfig_to_dict c" "sc_skale_config c = skale_config"
    unfolding generate_schain_config_def Let_def
    by (clarsimp simp: res_bind_Inr_iff)
  from skale t sn ss obtain info infos settings chain where
    parts: "generate_current_node_info e g node node_id key static_node (sch_name sch) rot (length nodes)
       port pks sync_node archive catchup w = Inr info"
    "generate_schain_nodes e g nodes (sch_name sch) rot sync_node w = Inr infos"
    "generate_schain_info e sch_id sch (get_on_chain_etherbase g sch gn) static_schain
       (groups_dict (merge node_groups legacy)) infos sync_node archive = Inr chain"
    and mid: "skale_config = SkaleConfig_to_dict settings info chain"
    unfolding generate_skale_section_def by (clarsimp simp: res_bind_Inr_iff)
  have top: "\<exists>top. config = PyDict top \<and> (PStr ''skaleConfig'', skale_config) \<in> set top"
    by (simp add: config SChainConfig_to_dict_def)
  then obtain top where "config = PyDict top" "(PStr ''skaleConfig'', skale_config) \<in> set top" by blast
  moreover have "json_path (py_dump config) [''skaleConfig'', ''nodeInfo''] = Inr info"
    "json_path (py_dump config) [''skaleConfig'', ''sChain''] = Inr (py_dump chain)"
    by (simp_all add: config mid SChainConfig_to_dict_def SkaleConfig_to_dict_def)
  ultimately show thesis
    using that [OF parts] by (simp add: mid SkaleConfig_to_dict_def)
qed

text \<open>What the readers find in a generated configuration.\<close>

lemma generated_ips:
  assumes "list_all2 (\<lambda>node info. \<exists>port key idx. schain_node_info g node port key idx = Inr info) nodes infos"
  shows "res_map (\<lambda>node. res_bind (json_item node ''ip'') json_str) infos =
    Inr (map (\<lambda>nd. ip_from_bytes g (gn_ip nd)) nodes)"
  using assms by (induction rule: list_all2_induct) (auto simp: schain_node_info_fields(1))

lemma generated_own_ip:
  assumes "list_all2 (\<lambda>node info. \<exists>port key idx. schain_node_info g node port key idx = Inr info) nodes infos"
    and law: "node_info_law g"
  shows "find_own_ip (JInt i) infos =
    Inr (map_option (\<lambda>nd. ip_from_bytes g (gn_ip nd)) (find (\<lambda>nd. gn_id nd = i) nodes))"
  using assms(1)
proof (induction rule: list_all2_induct)
  case Nil
  then show ?case by simp
next
  case (Cons node nodes info infos)
  then obtain port key idx where info: "schain_node_info g node port key idx = Inr info" by auto
  then have "json_item info ''nodeID'' = Inr (JInt (gn_id node))"
    using law by (simp add: schain_node_info_fields(3) node_info_law_def)
  with Cons.IH info show ?case by (simp add: schain_node_info_fields(1))
qed

lemma generated_group_ids: "node_group_ids (py_dump (groups_dict groups)) = Inr (map fst groups)"
proof -
  have "res_map int_of_str (map (str_of_int \<circ> fst) groups) = Inr (map fst groups)"
    by (induction groups) simp_all
  then show ?thesis
    by (simp add: node_group_ids_def groups_dict_def case_prod_unfold comp_def)
qed

lemma generated_readers:
  assumes gen: "generate_schain_config e g sch node_id node key rot nodes node_groups gn owner port pks
      sync_node archive catchup w = Inr config"
    and t: "get_schain_type (part_of_node sch) = Inr t"
    and sn: "get_static_node_info e t = Inr static_node"
    and ss: "get_static_schain_info e (sch_name sch) = Inr static_schain"
    and law: "node_info_law g"
    and own: "''basePort'' \<notin> set (map fst static_node)" "''nodeID'' \<notin> set (map fst static_node)"
      "''nodes'' \<notin> set (map fst static_schain)" "''nodeGroups'' \<notin> set (map fst static_schain)"
    and legacy: "static_groups g (sch_name sch) = Inr legacy"
  shows "get_base_port_from_config (Some (py_dump config)) = Inr port"
    and "get_node_ips_from_config (Some (py_dump config)) = Inr (map (\<lambda>nd. ip_from_bytes g (gn_ip nd)) nodes)"
    and "get_own_ip_from_config (Some (py_dump config)) =
      Inr (map_option (\<lambda>nd. ip_from_bytes g (gn_ip nd)) (find (\<lambda>nd. gn_id nd = node_id) nodes))"
    and "get_rotation_ids_from_config (Some (py_dump config)) = Inr (sort (map fst (merge node_groups legacy)))"
proof -
  from generate_schain_config_sections [OF gen t sn ss legacy] obtain info sch_id infos chain where
    info: "generate_current_node_info e g node node_id key static_node (sch_name sch) rot (length nodes)
       port pks sync_node archive catchup w = Inr info"
    and infos: "generate_schain_nodes e g nodes (sch_name sch) rot sync_node w = Inr infos"
    and chain: "generate_schain_info e sch_id sch (get_on_chain_etherbase g sch gn) static_schain
       (groups_dict (merge node_groups legacy)) infos sync_node archive = Inr chain"
    and paths: "json_path (py_dump config) [''skaleConfig'', ''nodeInfo''] = Inr info"
      "json_path (py_dump config) [''skaleConfig'', ''sChain''] = Inr (py_dump chain)"
    by metis
  have fields: "json_item info ''basePort'' = Inr (JInt port)" "json_item info ''nodeID'' = Inr (JInt node_id)"
    using law by (simp_all add: current_node_info_field [OF info own(1)]
        current_node_info_field [OF info own(2)] node_info_law_def)
  have chain_fields: "json_item (py_dump chain) ''nodes'' = Inr (JList infos)"
    "json_item (py_dump chain) ''nodeGroups'' = Inr (py_dump (groups_dict (merge node_groups legacy)))"
    using schain_info_field(3) [OF chain own(3)] schain_info_field(1) [OF chain own(4)] by auto
  from infos have all: "list_all2 (\<lambda>node info. \<exists>port key idx. schain_node_info g node port key idx = Inr info)
      nodes infos"
    by (auto simp: generate_schain_nodes_def res_bind_Inr_iff dest: gen_schain_nodes_infos)
  have three: "config_path (Some (py_dump config)) [a, b, c] = res_bind (json_path (py_dump config) [a, b]) (\<lambda>j. json_item j c)"
    for a b c using json_path_append [of "py_dump config" "[a, b]" "[c]"]
    by (simp add: config_path_def res_bind_def split: sum.splits)
  have nodes: "schain_nodes (Some (py_dump config)) = Inr infos"
    by (simp add: schain_nodes_def three paths chain_fields del: json_path.simps)
  show "get_base_port_from_config (Some (py_dump config)) = Inr port"
    by (simp add: get_base_port_from_config_def three paths fields del: json_path.simps)
  show "get_node_ips_from_config (Some (py_dump config)) = Inr (map (\<lambda>nd. ip_from_bytes g (gn_ip nd)) nodes)"
    by (simp add: get_node_ips_from_config_def nodes generated_ips [OF all])
  show "get_own_ip_from_config (Some (py_dump config)) =
      Inr (map_option (\<lambda>nd. ip_from_bytes g (gn_ip nd)) (find (\<lambda>nd. gn_id nd = node_id) nodes))"
    by (simp add: get_own_ip_from_config_def nodes three paths fields generated_own_ip [OF all law]
        del: json_path.simps)
  have "truthy (py_dump config)"
    using paths(1) by (cases "py_dump config") auto
  then show "get_rotation_ids_from_config (Some (py_dump config)) = Inr (sort (map fst (merge node_groups legacy)))"
    by (simp add: get_rotation_ids_from_config_def get_node_groups_from_config_def three paths
        chain_fields generated_group_ids del: json_path.simps)
qed

lemma generated_readers_with_skale:
  assumes gen: "generate_schain_config_with_skale e g k n gn rot key sync w = Inr config"
    and api: "nodes_with_schains g n = Inr nodes" "NodeConfig_id e w = Inr (JInt node_id)"
      "get_schains_for_node k node_id = Inr scs" "get_schain_by_name k n = Inr sch"
      "get_node g node_id = Inr node" "previous_schain_groups g n = Inr prev"
      "static_groups g (sch_name sch) = Inr legacy"
    and t: "get_schain_type (part_of_node sch) = Inr t"
    and sn: "get_static_node_info e t = Inr static_node"
    and ss: "get_static_schain_info e (sch_name sch) = Inr static_schain"
    and law: "node_info_law g"
    and own: "''basePort'' \<notin> set (map fst static_node)" "''nodeID'' \<notin> set (map fst static_node)"
      "''nodes'' \<notin> set (map fst static_schain)" "''nodeGroups'' \<notin> set (map fst static_schain)"
  shows "get_node_ips_from_config (Some (py_dump config)) = Inr (map (\<lambda>nd. ip_from_bytes g (gn_ip nd)) nodes)"
    and "get_own_ip_from_config (Some (py_dump config)) =
      Inr (map_option (\<lambda>nd. ip_from_bytes g (gn_ip nd)) (find (\<lambda>nd. gn_id nd = node_id) nodes))"
    and "get_base_port_from_config (Some (py_dump config)) =
      (if sync then res_bind (NodeConfig_schain_base_port e w) json_num
       else Inr (get_schain_base_port_on_node g scs (sch_name sch) (gn_port node)))"
    and "get_rotation_ids_from_config (Some (py_dump config)) = Inr (sort (map fst (merge prev legacy)))"
proof -
  from gen api obtain port pks owner archive catchup where
    port: "(if sync then res_bind (NodeConfig_schain_base_port e w) json_num
       else Inr (get_schain_base_port_on_node g scs (sch_name sch) (gn_port node))) = Inr port"
    and gen': "generate_schain_config e g sch node_id node key rot nodes prev gn owner port pks
      sync archive catchup w = Inr config"
    by (auto simp: generate_schain_config_with_skale_def res_bind_Inr_iff)
  note r = generated_readers [OF gen' t sn ss law own api(7)]
  show "get_node_ips_from_config (Some (py_dump config)) = Inr (map (\<lambda>nd. ip_from_bytes g (gn_ip nd)) nodes)"
    by (rule r(2))
  show "get_own_ip_from_config (Some (py_dump config)) =
      Inr (map_option (\<lambda>nd. ip_from_bytes g (gn_ip nd)) (find (\<lambda>nd. gn_id nd = node_id) nodes))"
    by (rule r(3))
  show "get_base_port_from_config (Some (py_dump config)) =
      (if sync then res_bind (NodeConfig_schain_base_port e w) json_num
       else Inr (get_schain_base_port_on_node g scs (sch_name sch) (gn_port node)))"
    using r(1) port by simp
  show "get_rotation_ids_from_config (Some (py_dump config)) = Inr (sort (map fst (merge prev legacy)))"
    by (rule r(4))
qed

section \<open>Numbered keys and the wallet of a key share\<close>

definition numbered_dict :: "string \<Rightarrow> string list \<Rightarrow> dict" where
  "numbered_dict pre vs = map (\<lambda>(i, v). (pre @ str_of_nat i, JStr v)) (enumerate 0 vs)"

lemma numbered_strings: "numbered pre (map JStr vs) = Inr (numbered_dict pre vs)"
proof -
  have "res_map (\<lambda>(i, v). res_bind (py_str v) (\<lambda>s. Inr (pre @ str_of_nat i, JStr s)))
      (enumerate k (map JStr vs)) = Inr (map (\<lambda>(i, v). (pre @ str_of_nat i, JStr v)) (enumerate k vs))" for k
    by (induction vs arbitrary: k) simp_all
  then show ?thesis by (simp add: numbered_def numbered_dict_def)
qed

lemma numbered_numbers:
  "numbered pre (map JInt is) = Inr (numbered_dict pre (map str_of_int is))"
proof -
  have "res_map (\<lambda>(i, v). res_bind (py_str v) (\<lambda>s. Inr (pre @ str_of_nat i, JStr s)))
      (enumerate k (map JInt is)) =
    Inr (map (\<lambda>(i, v). (pre @ str_of_nat i, JStr v)) (enumerate k (map str_of_int is)))" for k
    by (induction "is" arbitrary: k) simp_all
  then show ?thesis by (simp add: numbered_def numbered_dict_def)
qed

lemma numbered_dict_keys: "map fst (numbered_dict pre vs) = map (\<lambda>i. pre @ str_of_nat i) [0..<length vs]"
  by (rule nth_equalityI) (simp_all add: numbered_dict_def nth_enumerate_eq)

lemma numbered_dict_distinct: "distinct (map fst (numbered_dict pre vs))"
  by (simp add: numbered_dict_keys distinct_map inj_on_def)

lemma numbered_dict_get:
  assumes "i < length vs"
  shows "map_of (numbered_dict pre vs) (pre @ str_of_nat i) = Some (JStr (vs ! i))"
proof (rule map_of_is_SomeI [OF numbered_dict_distinct])
  have "numbered_dict pre vs ! i = (pre @ str_of_nat i, JStr (vs ! i))"
    using assms by (simp add: numbered_dict_def nth_enumerate_eq)
  moreover have "i < length (numbered_dict pre vs)" using assms by (simp add: numbered_dict_def)
  ultimately show "(pre @ str_of_nat i, JStr (vs ! i)) \<in> set (numbered_dict pre vs)"
    by (metis nth_mem)
qed

lemma numbered_dict_other:
  assumes "\<And>i. k \<noteq> pre @ str_of_nat i"
  shows "map_of (numbered_dict pre vs) k = None"
proof -
  have "k \<notin> set (map fst (numbered_dict pre vs))"
    using assms unfolding numbered_dict_keys by auto
  then show ?thesis by (simp add: map_of_eq_None_iff)
qed

lemma map_of_rev_distinct: "distinct (map fst b) \<Longrightarrow> map_of (rev b) = map_of b"
  by (subst map_of_inject_set) (simp_all add: rev_map [symmetric])

text \<open>The file that the key generation saved is what the wallets and the nodes' keys are made
  from.\<close>

lemma wallets_of_keys:
  assumes f: "read_json (files w) (get_secret_key_share_filepath e n rot) = Inr (dkg_keys_json (Some keys))"
    and pk: "dk_public_key keys = Some pk"
  shows "\<exists>ima. generate_wallets_config e g n rot False num (map JInt common) w = Inr (JObj [(''ima'', JObj ima)]) \<and>
      map_of ima ''n'' = Some (JInt (int num)) \<and>
      map_of ima ''t'' = Some (JInt (int (dk_t keys))) \<and>
      map_of ima ''keyShareName'' = Some (JStr (key_share_name keys)) \<and>
      (\<forall>i < length pk. map_of ima (''BLSPublicKey'' @ str_of_nat i) = Some (JStr (pk ! i))) \<and>
      (\<forall>i < length common. map_of ima (''commonBLSPublicKey'' @ str_of_nat i) =
         Some (JStr (str_of_int (common ! i))))"
proof -
  let ?ima = "merge (merge [(''n'', JInt (int num))] (numbered_dict ''commonBLSPublicKey'' (map str_of_int common)))
      (merge [(''keyShareName'', JStr (key_share_name keys)), (''t'', JInt (int (dk_t keys))),
              (''certFile'', SGX_SSL_CERT_FILEPATH g), (''keyFile'', SGX_SSL_KEY_FILEPATH g)]
         (numbered_dict ''BLSPublicKey'' pk))"
  have eq: "generate_wallets_config e g n rot False num (map JInt common) w = Inr (JObj [(''ima'', JObj ?ima)])"
    by (simp add: generate_wallets_config_def numbered_numbers f key_share_wallet_def dkg_keys_json_def pk
        numbered_strings Let_def)
  note simps = merge_simps map_of_rev_distinct numbered_dict_distinct numbered_dict_other
    numbered_dict_get [where pre = "''BLSPublicKey''", simplified]
    numbered_dict_get [where pre = "''commonBLSPublicKey''", simplified]
  show ?thesis
    by (rule exI [of _ ?ima]) (simp add: eq simps)
qed

lemma bls_keys_of_file:
  assumes "read_json (files w) (get_secret_key_share_filepath e n rot) = Inr (dkg_keys_json (Some keys))"
  shows "get_bls_public_keys e n rot w = Inr (bls_public_keys keys)"
proof -
  have "res_map json_str (map JStr xs) = Inr xs" for xs by (induction xs) simp_all
  then show ?thesis by (simp add: get_bls_public_keys_def assms dkg_keys_json_def)
qed

section \<open>The upstream action with the real generator\<close>

lemma record_keeps_files:
  "am_record e n w = (r, w') \<Longrightarrow> files w' = files w"
  "update_schain_config_version e rec w = (q, w') \<Longrightarrow> files w' = files w"
  by (auto simp: am_record_def update_schain_config_version_def on_record_def Let_def
      split: prod.splits option.splits)

text \<open>A generated configuration with any node group is equal to no loaded document: it has a number
  as a key.\<close>

lemma generated_never_loaded:
  assumes gen: "generate_schain_config_with_skale e g k n gn rot key sync w = Inr config"
    and api: "get_schain_by_name k n = Inr sch" "previous_schain_groups g n = Inr prev"
      "static_groups g (sch_name sch) = Inr legacy" "prev \<noteq> [] \<or> legacy \<noteq> []"
    and ss: "get_static_schain_info e (sch_name sch) = Inr static_schain"
    and own: "''nodeGroups'' \<notin> set (map fst static_schain)"
  shows "\<not> py_eq_json config j"
proof
  assume eq: "py_eq_json config j"
  from gen api obtain nodes node_id node owner port pks archive catchup where
    gen': "generate_schain_config e g sch node_id node key rot nodes prev gn owner port pks
      sync archive catchup w = Inr config"
    by (auto simp: generate_schain_config_with_skale_def res_bind_Inr_iff)
  then obtain t static_node where t: "get_schain_type (part_of_node sch) = Inr t"
    "get_static_node_info e t = Inr static_node"
    by (auto simp: generate_schain_config_def generate_skale_section_def Let_def res_bind_Inr_iff)
  from generate_schain_config_sections [OF gen' t ss api(3)] obtain sch_id infos chain top mid where
    chain: "generate_schain_info e sch_id sch (get_on_chain_etherbase g sch gn) static_schain
       (groups_dict (merge prev legacy)) infos sync archive = Inr chain"
    and c: "config = PyDict top" "(PStr ''skaleConfig'', PyDict mid) \<in> set top"
      "(PStr ''sChain'', chain) \<in> set mid"
    by metis
  from schain_info_field(2) [OF chain own] obtain kvs where
    kvs: "chain = PyDict kvs" "(PStr ''nodeGroups'', groups_dict (merge prev legacy)) \<in> set kvs" by auto
  from py_eq_entry [OF eq [unfolded c(1)] c(2)] obtain j1 where "py_eq_json (PyDict mid) j1" by blast
  from py_eq_entry [OF this c(3)] obtain j2 where "py_eq_json (PyDict kvs) j2" by (auto simp: kvs(1))
  from py_eq_entry [OF this kvs(2)] obtain j3 where j3: "py_eq_json (groups_dict (merge prev legacy)) j3"
    by blast
  have "set (map fst (merge prev legacy)) \<noteq> {}"
    using api(4) by (auto simp only: keys_merge set_empty map_is_Nil_conv Un_empty)
  then obtain i v where "(i, v) \<in> set (merge prev legacy)" by (cases "merge prev legacy") auto
  then have "(PInt i, Plain v) \<in> set (map (\<lambda>(rot, data). (PInt rot, Plain data)) (merge prev legacy))"
    by force
  from number_key_differs [OF this] j3 show False by (simp add: groups_dict_def)
qed

text \<open>The upstream action writes what it is given unless the newest file is equal to it.\<close>

lemma upstream_saved:
  assumes gen: "generate_schain_config_with_skale e g k n gn rot key sync (wld ms) = Inr config"
    and differs: "\<And>j. \<not> py_eq_json config j"
    and run: "upstream_config_action e am (create_new_upstream_config e g k n gn rot key sync) ms = (Inr v, ms')"
  shows "v = Some True"
    and "read_json (files (wld ms')) (get_new_upstream_filepath e (ca_name am) (ca_rotation_id am) (wld ms)) =
      Inr (py_dump config)"
  using run differs
  by (auto dest!: record_keeps_files simp: upstream_config_action_def monitor_block_def act_simps create_new_upstream_config_def gen
      save_new_upstream_def split: prod.splits sum.splits option.splits if_splits)

end
