(* ===== verification/Reference_Generator.thy ===== *)
theory Reference_Generator
  imports Config_Generated Reference_Dkg Reference_Node
begin

text \<open>
  A small concrete network for the witnesses of the configuration generator: the chain
  \<^verbatim>\<open>alpha\<close> on the nodes 10 and 20, shortened settings, and a node directory with its
  configuration, its options and the key share of rotation 0.
\<close>

definition ref_limits :: json where
  "ref_limits = JObj [(''medium'', JObj [(''default'', JObj
     [(''max_consensus_storage_bytes'', JInt 4), (''max_skaled_leveldb_storage_bytes'', JInt 3),
      (''max_file_storage_bytes'', JInt 2), (''max_reserved_storage_bytes'', JInt 1)])])]"

definition ref_gen_env :: "(ref_daemon, rule_d list) env" where
  "ref_gen_env = ref_env
     \<lparr>resource_allocation := JObj [(''schain'', JObj
        [(''volume_limits'', ref_limits),
         (''leveldb_limits'', JObj [(''medium'', JObj [(''default'', JObj
            [(''contract_storage'', JInt 6), (''db_storage'', JInt 7)])])])])],
      static_params := JObj
        [(''schain'', JObj [(''revertableFSPatchTimestamp'', JObj [(''default'', JInt 0)])]),
         (''node'', JObj [(''common'', JObj [(''minCacheSize'', JInt 8)]), (''medium'', JObj [])])]\<rparr>"

definition ref_gen_nodes :: "gen_node list" where
  "ref_gen_nodes =
     [\<lparr>gn_id = 10, gn_name = ''n10'', gn_ip = [10, 0, 0, 1], gn_publicIP = [1, 1, 1, 1],
       gn_publicKey = ''p10'', gn_port = 10000, gn_schains = [ref_schain]\<rparr>,
      \<lparr>gn_id = 20, gn_name = ''n20'', gn_ip = [10, 0, 0, 2], gn_publicIP = [1, 1, 1, 2],
       gn_publicKey = ''p20'', gn_port = 10000, gn_schains = [ref_schain]\<rparr>]"

definition ref_ip :: "nat list \<Rightarrow> string" where
  "ref_ip bs = join ''.'' (map str_of_nat bs)"

definition ref_mainnet_abi :: json where
  "ref_mainnet_abi = JObj (map (\<lambda>(c, _). (c @ ''_address'', JStr c)) MAINNET_IMA_CONTRACTS)"

definition ref_schain_abi :: json where
  "ref_schain_abi = JObj (map (\<lambda>(c, _). (c @ ''_address'', JStr c)) SCHAIN_IMA_CONTRACTS)"

definition ref_gen :: gen_api where
  "ref_gen =
     \<lparr>node_info_to_dict = (\<lambda>i n p. [(''nodeID'', JInt i), (''nodeName'', JStr n), (''basePort'', JInt p),
        (''infoHttpRpcPort'', JInt (p + 9))]),
      IMA_MONITORING = 11, ip_from_bytes = ref_ip, public_key_to_address = (\<lambda>k. ''0x'' @ k),
      to_checksum_address = (\<lambda>a. a), get_schain_base_port_on_node = (\<lambda>_ _ p. p),
      get_code = (\<lambda>_. Inr []), nodes_with_schains = (\<lambda>_. Inr ref_gen_nodes),
      get_node = (\<lambda>_. Inr (hd ref_gen_nodes)),
      previous_schain_groups = (\<lambda>_. Inr [(0, JObj [(''finish_ts'', JNull)])]),
      raw_common_public_key = (\<lambda>_. Inr [[JInt 1, JInt 2], [JInt 3, JInt 4]]),
      schains_internal_address = ''si'', nodes_address = ''no'',
      base_config_file = Some (JObj [(''sealEngine'', JStr ''Ethash''), (''params'', JObj []),
        (''unddos'', JObj []), (''genesis'', JObj []), (''accounts'', JObj [])]),
      mainnet_ima_abi_file = Some ref_mainnet_abi, schain_ima_abi_file = Some ref_schain_abi,
      precompiled_file = Some (JObj [(''0x1'', JObj [(''precompiled'',
        JObj [(''restrictAccess'', JList [JStr ''fs'', JStr ''schainOwner''])])])]),
      static_accounts_file = (\<lambda>_. Some (JObj [(''accounts'', JObj [])])), static_groups_file = (\<lambda>_. None),
      rotation_node_data = Inr, SGX_SSL_CERT_FILEPATH = JStr ''crt'',
      SGX_SSL_KEY_FILEPATH = JStr ''key'', ETHERBASE_ADDRESS = ''eb'', MARIONETTE_ADDRESS = ''ma'',
      FILESTORAGE_ADDRESS = ''fs'', MULTISIGWALLET_ADDRESS = ''mw'',
      MESSAGE_PROXY_FOR_SCHAIN_ADDRESS = ''mp'',
      proxy_admin_allocation = (\<lambda>_ _. []), etherbase_allocation = (\<lambda>_ _ _ _. []),
      marionette_allocation = (\<lambda>_ _ _ _ _. []), filestorage_allocation = (\<lambda>_ _ _. []),
      config_controller_allocation = (\<lambda>_ _. []), multisigwallet_allocation = (\<lambda>_. []),
      context_allocation = (\<lambda>_ _. []), ima_contracts = (\<lambda>_ _ _. [])\<rparr>"

definition ref_share_keys :: dkg_keys where
  "ref_share_keys = quiet_keys\<lparr>bls_public_keys := [''1:2:3:4'', ''5:6:7:8'']\<rparr>"

definition ref_gen_world :: "(ref_daemon, rule_d list) world" where
  "ref_gen_world = ref_world
     \<lparr>files := [((''/d'', ''node_config.json''), JsonFile (JObj [(''node_id'', JInt 10)])),
        ((''/d'', ''node_options.json''), JsonFile (JObj [])),
        (get_secret_key_share_filepath ref_env ''alpha'' 0, JsonFile (dkg_keys_json (Some ref_share_keys)))]\<rparr>"

lemma ref_node_info_law: "node_info_law ref_gen"
  by (simp add: node_info_law_def ref_gen_def)

lemma ref_static:
  "get_static_node_info ref_gen_env medium_type = Inr [(''minCacheSize'', JInt 8)]"
  "get_static_schain_info ref_gen_env ''alpha'' = Inr [(''revertableFSPatchTimestamp'', JInt 0)]"
  by code_simp+

lemma ref_node_id: "NodeConfig_id ref_gen_env ref_gen_world = Inr (JInt 10)"
  by code_simp

definition ref_generated :: "pyval res" where
  "ref_generated = generate_schain_config_with_skale ref_gen_env ref_gen ref_contracts ''alpha'' 1 0
     (Some ''key'') False ref_gen_world"

lemma ref_generated_ok: "\<exists>config. ref_generated = Inr config"
proof -
  have "case ref_generated of Inl _ \<Rightarrow> False | Inr _ \<Rightarrow> True"
    by code_simp
  then show ?thesis by (auto split: sum.splits)
qed

lemma ref_upstream_ok:
  "\<exists>v. fst (upstream_config_action ref_gen_env ref_config_am (create_new_upstream_config ref_gen_env ref_gen
     ref_contracts ''alpha'' 1 0 (Some ''key'') False) (ref_mstate ref_gen_world)) = Inr v"
proof -
  have "case fst (upstream_config_action ref_gen_env ref_config_am (create_new_upstream_config ref_gen_env ref_gen
     ref_contracts ''alpha'' 1 0 (Some ''key'') False) (ref_mstate ref_gen_world)) of Inl _ \<Rightarrow> False | Inr _ \<Rightarrow> True"
    by code_simp
  then show ?thesis by (auto split: sum.splits)
qed

end
