(* ===== verification/Node_Operations.thy ===== *)
theory Node_Operations
  imports Node_Config Contracts Cleaner Dkg_Network
begin

text \<open>
  The operations of the node itself (\<^verbatim>\<open>core/node.py\<close>): registration, exit, maintenance, domain
  name, the answers about its state; what an administrator's restart updates
  (\<^verbatim>\<open>core/updates.py\<close>), the monitoring containers (\<^verbatim>\<open>core/monitoring.py\<close>), nginx
  (\<^verbatim>\<open>core/nginx.py\<close>) and the balance check of \<^verbatim>\<open>tools/wallet_utils.py\<close>.

  \<open>node_api\<close> is what the code calls of the contracts, the wallet, sockets and the template
  engine: calls over the node's state (\<open>wact\<close>), since time passes and anything may raise.
  A rendered template is text, no JSON. A dictionary answered to the
  caller is a JSON object.
\<close>

section \<open>Statuses\<close>

datatype NodeStatus =
  NS_ACTIVE | NS_LEAVING | NS_FROZEN | NS_IN_MAINTENANCE | NS_LEFT | NS_NOT_CREATED

fun NodeStatus_value :: "NodeStatus \<Rightarrow> int" where
  "NodeStatus_value NS_ACTIVE = 0"
| "NodeStatus_value NS_LEAVING = 1"
| "NodeStatus_value NS_FROZEN = 2"
| "NodeStatus_value NS_IN_MAINTENANCE = 3"
| "NodeStatus_value NS_LEFT = 4"
| "NodeStatus_value NS_NOT_CREATED = 5"

definition to_NodeStatus :: "int \<Rightarrow> NodeStatus res" where
  "to_NodeStatus v =
     (if v = 0 then Inr NS_ACTIVE else if v = 1 then Inr NS_LEAVING
      else if v = 2 then Inr NS_FROZEN else if v = 3 then Inr NS_IN_MAINTENANCE
      else if v = 4 then Inr NS_LEFT else if v = 5 then Inr NS_NOT_CREATED
      else Inl (ValueError ''NodeStatus''))"

datatype NodeExitStatus =
  NE_ACTIVE | NE_IN_PROGRESS | NE_WAIT_FOR_ROTATIONS | NE_IN_MAINTENANCE | NE_COMPLETED

fun NodeExitStatus_name :: "NodeExitStatus \<Rightarrow> string" where
  "NodeExitStatus_name NE_ACTIVE = ''ACTIVE''"
| "NodeExitStatus_name NE_IN_PROGRESS = ''IN_PROGRESS''"
| "NodeExitStatus_name NE_WAIT_FOR_ROTATIONS = ''WAIT_FOR_ROTATIONS''"
| "NodeExitStatus_name NE_IN_MAINTENANCE = ''IN_MAINTENANCE''"
| "NodeExitStatus_name NE_COMPLETED = ''COMPLETED''"

definition to_NodeExitStatus :: "int \<Rightarrow> NodeExitStatus res" where
  "to_NodeExitStatus v =
     (if v = 0 then Inr NE_ACTIVE else if v = 1 then Inr NE_IN_PROGRESS
      else if v = 2 then Inr NE_WAIT_FOR_ROTATIONS else if v = 3 then Inr NE_IN_MAINTENANCE
      else if v = 4 then Inr NE_COMPLETED else Inl (ValueError ''NodeExitStatus''))"

datatype SchainExitStatus = SE_ACTIVE | SE_LEAVING | SE_LEFT

fun SchainExitStatus_name :: "SchainExitStatus \<Rightarrow> string" where
  "SchainExitStatus_name SE_ACTIVE = ''ACTIVE''"
| "SchainExitStatus_name SE_LEAVING = ''LEAVING''"
| "SchainExitStatus_name SE_LEFT = ''LEFT''"

lemma to_NodeStatus_value: "to_NodeStatus (NodeStatus_value s) = Inr s"
  by (cases s) (simp_all add: to_NodeStatus_def)

lemma to_NodeStatus_Inr: "to_NodeStatus v = Inr s \<longleftrightarrow> v = NodeStatus_value s"
  by (cases s) (auto simp: to_NodeStatus_def split: if_splits)

section \<open>The contracts, the wallet and the surroundings\<close>

record manager_node =
  mn_name :: string
  mn_ip :: "nat list"
  mn_publicIP :: "nat list"
  mn_port :: int
  mn_start_block :: int
  mn_last_reward_date :: int
  mn_finish_time :: int
  mn_status :: int
  mn_validator_id :: int
  mn_publicKey :: string
  mn_domain_name :: string

record new_node =
  nn_ip :: string
  nn_port :: int
  nn_name :: string
  nn_public_ip :: string
  nn_domain_name :: string

record ('d, 'f) node_api =
  nodes_name_to_index :: "string \<Rightarrow> ('d, 'f, int) wact"
  nodes_get :: "int \<Rightarrow> ('d, 'f, manager_node) wact"
  nodes_is_name_available :: "string \<Rightarrow> ('d, 'f, bool) wact"
  nodes_is_ip_available :: "string \<Rightarrow> ('d, 'f, bool) wact"
  nodes_get_status :: "int \<Rightarrow> ('d, 'f, int) wact"
  nodes_get_finish_time :: "int \<Rightarrow> ('d, 'f, int) wact"
  nodes_validator_indices :: "int \<Rightarrow> ('d, 'f, int list) wact"
  nodes_contract_ip :: "int \<Rightarrow> ('d, 'f, nat list) wact"
  nodes_set_in_maintenance :: "int \<Rightarrow> ('d, 'f, unit) wact"
  nodes_remove_from_maintenance :: "int \<Rightarrow> ('d, 'f, unit) wact"
  nodes_set_domain_name :: "int \<Rightarrow> string \<Rightarrow> ('d, 'f, unit) wact"
  manager_create_node :: "new_node \<Rightarrow> ('d, 'f, unit) wact"
  manager_node_exit :: "int \<Rightarrow> ('d, 'f, unit) wact"
  manager_address :: string
  wallet_address :: string
  wallet_balance :: "('d, 'f, int) wact"
  na_ip_from_bytes :: "nat list \<Rightarrow> string"
  na_public_key_to_address :: "string \<Rightarrow> string"
  na_to_checksum_address :: "string \<Rightarrow> string"
  socket_connect :: "string \<Rightarrow> int \<Rightarrow> ('d, 'f, unit) wact"
  render_template :: "string \<Rightarrow> (string \<times> json) list \<Rightarrow> string res"
  generate_ima_abi :: json
  INFLUX_URL :: string
  TELEGRAF :: bool
  TELEGRAF_MEM_LIMIT :: string

fun is_transaction_logic_error :: "exn \<Rightarrow> bool" where
  "is_transaction_logic_error (TransactionLogicError _) = True"
| "is_transaction_logic_error _ = False"

fun is_invalid_node_id :: "exn \<Rightarrow> bool" where
  "is_invalid_node_id InvalidNodeIdError = True"
| "is_invalid_node_id _ = False"

section \<open>Monitoring and nginx\<close>

definition process_template ::
  "('d, 'f) node_api \<Rightarrow> string \<Rightarrow> path \<Rightarrow> (string \<times> json) list \<Rightarrow> ('d, 'f, unit) wact" where
  "process_template a source destination template_data =
     act_bind (act_res (\<lambda>_. render_template a source template_data)) (\<lambda>processed.
     modify_files (tab_put destination (Text processed)))"

definition CONFIG_FOLDER :: "('d, 'f) env \<Rightarrow> string" where
  "CONFIG_FOLDER e = path_join (SKALE_VOLUME_PATH e) ''config''"

text \<open>\<^verbatim>\<open>client.containers.get(name).restart()\<close> with the client's own timeout.\<close>

definition get_and_restart :: "('d, 'f) env \<Rightarrow> string \<Rightarrow> ('d, 'f, unit) wact" where
  "get_and_restart e n =
     on_daemon (act_bind (act_res (containers_get (docker e) n)) (\<lambda>_.
       container_restart (docker e) n 10))"

definition FILEBEAT_CONFIG_PATH :: "('d, 'f) env \<Rightarrow> path" where
  "FILEBEAT_CONFIG_PATH e = (NODE_DATA_PATH e, ''filebeat.yml'')"

definition TELEGRAF_CONFIG_PATH :: "('d, 'f) env \<Rightarrow> path" where
  "TELEGRAF_CONFIG_PATH e = (CONFIG_FOLDER e, ''telegraf.conf'')"

definition update_filebeat_service ::
  "('d, 'f) env \<Rightarrow> ('d, 'f) node_api \<Rightarrow> string \<Rightarrow> json \<Rightarrow> ('d, 'f, unit) wact" where
  "update_filebeat_service e a node_ip node_id =
     act_then
       (process_template a (path_join (CONFIG_FOLDER e) ''filebeat.yml.j2'') (FILEBEAT_CONFIG_PATH e)
         [(''ip'', JStr node_ip), (''id'', node_id), (''contract_address'', JStr (manager_address a))])
       (get_and_restart e ''skale_filebeat'')"

definition get_docker_group_id :: "('d, 'f) env \<Rightarrow> ('d, 'f) world \<Rightarrow> json res" where
  "get_docker_group_id e w =
     res_bind (read_json (files w) (NODE_DATA_PATH e, ''docker.json'')) (\<lambda>j.
       json_item j ''docker_group_id'')"

definition ensure_telegraf_running ::
  "('d, 'f) env \<Rightarrow> ('d, 'f) node_api \<Rightarrow> ('d, 'f, unit) wact" where
  "ensure_telegraf_running e a =
     act_bind (act_res (\<lambda>w. docker_is_container_exists (docker e) ''skale_telegraf'' (daemon w))) (\<lambda>ex.
       if ex
       then on_daemon (docker_restart (docker e) ''skale_telegraf'' DOCKER_DEFAULT_STOP_TIMEOUT)
       else act_bind (act_res (get_docker_group_id e)) (\<lambda>gid.
            act_bind (act_res (\<lambda>_. py_str gid)) (\<lambda>group_id.
            act_drop (on_daemon (docker_run_container (docker e) ''telegraf:1.27.4'' ''skale_telegraf''
              \<lparr>ra_volumes =
                 [(''/proc'', ''/host/proc'', ''ro''),
                  (SKALE_DIR_HOST e @ ''/config/telegraf.conf'', ''/etc/telegraf/telegraf.conf'', ''ro''),
                  (SKALE_DIR_HOST e @ ''/node_data/telegraf'', ''/var/lib/telegraf'', ''rw''),
                  (''/var/run/skale/'', ''/var/run/skale'', ''rw'')],
               ra_environment = [(''HOST_PROC'', JStr ''/host/proc'')], ra_cpu_shares = None,
               ra_mem_limit = None, ra_command = None,
               ra_extra =
                 [(''network_mode'', JStr ''host''), (''user'', JStr (''telegraf:'' @ group_id)),
                  (''restart_policy'', JObj [(''name'', JStr ''on-failure'')]),
                  (''mem_limit'', JStr (TELEGRAF_MEM_LIMIT a))]\<rparr>)))))"

definition update_telegraf_service ::
  "('d, 'f) env \<Rightarrow> ('d, 'f) node_api \<Rightarrow> string \<Rightarrow> json \<Rightarrow> ('d, 'f, unit) wact" where
  "update_telegraf_service e a node_ip node_id =
     act_bind (act_res (\<lambda>_. py_str node_id)) (\<lambda>id_str.
     let template_data = [(''ip'', node_ip), (''node_id'', id_str), (''url'', INFLUX_URL a)]
     in if filter (\<lambda>(k, v). v = []) template_data \<noteq> []
        then act_raise (OtherError ''TelegrafNotConfiguredError'')
        else act_then
          (process_template a (path_join (CONFIG_FOLDER e) ''telegraf.conf.j2'') (TELEGRAF_CONFIG_PATH e)
            (map (\<lambda>(k, v). (k, JStr v)) template_data))
          (ensure_telegraf_running e a))"

definition update_monitoring_services ::
  "('d, 'f) env \<Rightarrow> ('d, 'f) node_api \<Rightarrow> string \<Rightarrow> json \<Rightarrow> ('d, 'f, unit) wact" where
  "update_monitoring_services e a node_ip node_id =
     act_then (update_filebeat_service e a node_ip node_id)
       (act_when (TELEGRAF a) (update_telegraf_service e a node_ip node_id))"

definition NGINX_CONFIG_FILEPATH :: "('d, 'f) env \<Rightarrow> path" where
  "NGINX_CONFIG_FILEPATH e = (NODE_DATA_PATH e, ''nginx.conf'')"

definition generate_nginx_config :: "('d, 'f) env \<Rightarrow> ('d, 'f) node_api \<Rightarrow> ('d, 'f, unit) wact" where
  "generate_nginx_config e a =
     process_template a (path_join (CONFIG_FOLDER e) ''nginx.conf.j2'') (NGINX_CONFIG_FILEPATH e)
       [(''ssl'', JBool (\<not> is_ssl_folder_empty e))]"

definition restart_nginx_container :: "('d, 'f) env \<Rightarrow> ('d, 'f, unit) wact" where
  "restart_nginx_container e = get_and_restart e ''skale_nginx''"

definition reload_nginx :: "('d, 'f) env \<Rightarrow> ('d, 'f) node_api \<Rightarrow> ('d, 'f, unit) wact" where
  "reload_nginx e a = act_then (generate_nginx_config e a) (restart_nginx_container e)"

section \<open>Registration\<close>

definition node_ok :: "json \<Rightarrow> json" where
  "node_ok reply = JObj [(''status'', JStr ''ok''), (''data'', reply)]"

definition node_error :: "string \<Rightarrow> json" where
  "node_error err_msg = JObj [(''status'', JStr ''error''), (''errors'', JList [JStr err_msg])]"

definition is_ok :: "json \<Rightarrow> bool" where
  "is_ok j = (json_item j ''status'' = Inr (JStr ''ok''))"

definition DEPOSIT_AMOUNT_ETH_WEI :: int where
  "DEPOSIT_AMOUNT_ETH_WEI = 200000000000000000"

definition check_required_balance :: "('d, 'f) node_api \<Rightarrow> ('d, 'f, bool) wact" where
  "check_required_balance a =
     act_bind (wallet_balance a) (\<lambda>eth_balance_wei.
       act_return (eth_balance_wei \<ge> DEPOSIT_AMOUNT_ETH_WEI))"

definition get_node_id_from_contracts ::
  "('d, 'f) node_api \<Rightarrow> string \<Rightarrow> string \<Rightarrow> ('d, 'f, int) wact" where
  "get_node_id_from_contracts a n ip =
     act_bind (nodes_name_to_index a n) (\<lambda>node_id.
     act_bind
       (act_except (act_bind (nodes_get a node_id) (\<lambda>d. act_return (Some d))) is_invalid_node_id
         (\<lambda>_. act_return None)) (\<lambda>node_data.
     act_return (case node_data of
         None \<Rightarrow> -1
       | Some d \<Rightarrow>
           (let data_address = na_to_checksum_address a (na_public_key_to_address a (mn_publicKey d))
            in if data_address \<noteq> wallet_address a \<or> n \<noteq> mn_name d \<or> ip \<noteq> na_ip_from_bytes a (mn_ip d)
               then -1 else node_id))))"

text \<open>The gas options keep their defaults: no caller passes them.\<close>

definition create_node_on_contracts ::
  "('d, 'f) node_api \<Rightarrow> string \<Rightarrow> string \<Rightarrow> json \<Rightarrow> string \<Rightarrow> string \<Rightarrow> ('d, 'f, int) wact" where
  "create_node_on_contracts a ip public_ip port n domain_name =
     act_bind
       (act_except
         (act_bind (act_res (\<lambda>_. json_int port)) (\<lambda>p.
          act_then (manager_create_node a
            \<lparr>nn_ip = ip, nn_port = p, nn_name = n, nn_public_ip = public_ip,
             nn_domain_name = domain_name\<rparr>)
            (act_return True)))
         is_transaction_logic_error (\<lambda>_. act_return False)) (\<lambda>created.
     if created then nodes_name_to_index a n else act_return (-1))"

text \<open>The part of \<^verbatim>\<open>register\<close> for a node the contracts do not have: None when it is there
  afterwards, else the error answered.\<close>

definition register_on_contracts ::
  "('d, 'f) node_api \<Rightarrow> string \<Rightarrow> string \<Rightarrow> json \<Rightarrow> string \<Rightarrow> string \<Rightarrow> ('d, 'f, json option) wact" where
  "register_on_contracts a ip public_ip port n domain_name =
     act_bind (check_required_balance a) (\<lambda>enough.
     if \<not> enough then act_return (Some (node_error ''Insufficient funds, re-check your wallet''))
     else act_bind (nodes_is_name_available a n) (\<lambda>name_free.
     if \<not> name_free then act_return (Some (node_error (''Node name is already taken: '' @ n)))
     else act_bind (nodes_is_ip_available a ip) (\<lambda>ip_free.
     if \<not> ip_free then act_return (Some (node_error (''Node IP is already taken: '' @ ip)))
     else act_bind (create_node_on_contracts a ip public_ip port n domain_name) (\<lambda>node_id.
     if node_id < 0
     then act_bind (act_res (\<lambda>_. py_str port)) (\<lambda>p. act_return (Some (node_error
            (''Node registration failed: '' @ ip @ '':'' @ p @ '', name: '' @ n))))
     else act_return None))))"

definition register_in_config ::
  "('d, 'f) env \<Rightarrow> ('d, 'f) node_api \<Rightarrow> string \<Rightarrow> string \<Rightarrow> string \<Rightarrow> ('d, 'f, json) wact" where
  "register_in_config e a ip public_ip n =
     act_bind (nodes_name_to_index a n) (\<lambda>i.
     act_then (set_NodeConfig_id e i)
     (act_then (set_NodeConfig_name e n)
     (act_then (set_NodeConfig_ip e ip)
     (act_bind (act_res (NodeConfig_id e)) (\<lambda>cid.
     act_then (update_monitoring_services e a public_ip cid)
     (act_bind (act_res (object_all (NODE_CONFIG_FILEPATH e))) (\<lambda>config.
      act_return (node_ok config))))))))"

definition node_register ::
  "('d, 'f) env \<Rightarrow> ('d, 'f) node_api \<Rightarrow> string \<Rightarrow> string \<Rightarrow> json \<Rightarrow> string \<Rightarrow> string \<Rightarrow> ('d, 'f, json) wact" where
  "node_register e a ip public_ip port n domain_name =
     act_bind (act_res (NodeConfig_id e)) (\<lambda>cid.
     if cid \<noteq> JNull
     then act_bind (act_res (\<lambda>_. py_str cid)) (\<lambda>s. act_return (node_error
            (''Node is already installed on this machine. Node ID: '' @ s)))
     else act_bind (get_node_id_from_contracts a n ip) (\<lambda>node_id.
     act_bind (if node_id < 0 then register_on_contracts a ip public_ip port n domain_name
               else act_return None) (\<lambda>failed.
     case failed of
       Some err \<Rightarrow> act_return err
     | None \<Rightarrow> register_in_config e a ip public_ip n)))"

section \<open>Exit and maintenance\<close>

text \<open>The id as the contracts are called with it; they raise without one.\<close>

definition config_node_id :: "('d, 'f) env \<Rightarrow> ('d, 'f, int) wact" where
  "config_node_id e = act_bind (act_res (NodeConfig_id e)) (\<lambda>j. act_res (\<lambda>_. json_num j))"

definition node_exit ::
  "('d, 'f) env \<Rightarrow> ('d, 'f) node_api \<Rightarrow> contracts \<Rightarrow> ('d, 'f, unit) wact" where
  "node_exit e a k =
     act_bind (config_node_id e) (\<lambda>i.
     act_bind (act_res (\<lambda>_. get_active_schains_for_node k i)) (\<lambda>schains_list.
     let exit_count = (if schains_list = [] then 1 else length schains_list)
     in act_for [0..<exit_count] (\<lambda>_.
          act_except (act_bind (config_node_id e) (manager_node_exit a)) is_transaction_logic_error
            (\<lambda>_. act_return ()))))"

definition schain_exit_status :: "int \<Rightarrow> leaving_record \<Rightarrow> SchainExitStatus" where
  "schain_exit_status now l = (if now > finished_rotation l then SE_LEFT else SE_LEAVING)"

definition exit_entry :: "string \<Rightarrow> SchainExitStatus \<Rightarrow> json" where
  "exit_entry n status =
     JObj [(''name'', JStr n), (''status'', JStr (SchainExitStatus_name status))]"

definition rotated_entry :: "contracts \<Rightarrow> int \<Rightarrow> leaving_record \<Rightarrow> json res" where
  "rotated_entry k now l =
     res_bind (get_schain k (lv_schain_id l)) (\<lambda>sch.
       Inr (exit_entry (if sch_name sch = [] then ''[REMOVED]'' else sch_name sch)
              (schain_exit_status now l)))"

definition get_exit_status ::
  "('d, 'f) env \<Rightarrow> ('d, 'f) node_api \<Rightarrow> contracts \<Rightarrow> ('d, 'f, json) wact" where
  "get_exit_status e a k =
     act_bind (config_node_id e) (\<lambda>i.
     act_bind (act_res (\<lambda>_. get_active_schains_for_node k i)) (\<lambda>active_schains.
     act_bind (act_res (\<lambda>_. get_leaving_history k i)) (\<lambda>rotated_schains.
     act_bind (act_gets clock) (\<lambda>current_time.
     act_bind (act_res (\<lambda>_. res_map (rotated_entry k current_time) rotated_schains)) (\<lambda>rotated.
     act_bind (nodes_get_status a i) (\<lambda>status_value.
     act_bind (act_res (\<lambda>_. to_NodeExitStatus status_value)) (\<lambda>status0.
     act_bind (nodes_get_finish_time a i) (\<lambda>exit_time.
     let status = (if status0 = NE_WAIT_FOR_ROTATIONS \<and> current_time \<ge> exit_time
                   then NE_COMPLETED else status0)
     in act_return (JObj
          [(''status'', JStr (NodeExitStatus_name status)),
           (''data'', JList (map (\<lambda>sch. exit_entry (sch_name sch) SE_ACTIVE) active_schains @ rotated)),
           (''exit_time'', JInt exit_time)])))))))))"

definition get_node_status :: "int \<Rightarrow> manager_node \<Rightarrow> int res" where
  "get_node_status now d =
     res_bind (to_NodeStatus (mn_status d)) (\<lambda>status.
       Inr (if status = NS_FROZEN \<and> mn_finish_time d < now then NodeStatus_value NS_LEFT
            else NodeStatus_value status))"

definition transform_node_info :: "('d, 'f) node_api \<Rightarrow> manager_node \<Rightarrow> int \<Rightarrow> int \<Rightarrow> json res" where
  "transform_node_info a d node_id now =
     res_bind (get_node_status now d) (\<lambda>status.
       Inr (JObj
         [(''name'', JStr (mn_name d)), (''ip'', JStr (na_ip_from_bytes a (mn_ip d))),
          (''publicIP'', JStr (na_ip_from_bytes a (mn_publicIP d))), (''port'', JInt (mn_port d)),
          (''start_block'', JInt (mn_start_block d)),
          (''last_reward_date'', JInt (mn_last_reward_date d)),
          (''finish_time'', JInt (mn_finish_time d)), (''status'', JInt status),
          (''validator_id'', JInt (mn_validator_id d)), (''publicKey'', JStr (mn_publicKey d)),
          (''domain_name'', JStr (mn_domain_name d)), (''id'', JInt node_id),
          (''owner'', JStr (na_public_key_to_address a (mn_publicKey d)))]))"

definition node_info_property :: "('d, 'f) env \<Rightarrow> ('d, 'f) node_api \<Rightarrow> ('d, 'f, json) wact" where
  "node_info_property e a =
     act_bind (act_res (NodeConfig_id e)) (\<lambda>cid.
     if cid \<noteq> JNull
     then act_bind (act_res (\<lambda>_. json_num cid)) (\<lambda>i.
          act_bind (nodes_get a i) (\<lambda>d. act_res (\<lambda>w. transform_node_info a d i (clock w))))
     else act_return (JObj [(''status'', JInt (NodeStatus_value NS_NOT_CREATED))]))"

text \<open>\<^verbatim>\<open>NodeStatus(self.info['status'])\<close>\<close>

definition node_info_status :: "('d, 'f) env \<Rightarrow> ('d, 'f) node_api \<Rightarrow> ('d, 'f, NodeStatus) wact" where
  "node_info_status e a =
     act_bind (node_info_property e a) (\<lambda>info.
     act_res (\<lambda>_. res_bind (json_item info ''status'') (\<lambda>j. res_bind (json_num j) to_NodeStatus)))"

definition set_maintenance_on :: "('d, 'f) env \<Rightarrow> ('d, 'f) node_api \<Rightarrow> ('d, 'f, json) wact" where
  "set_maintenance_on e a =
     act_bind (node_info_status e a) (\<lambda>status.
     if status \<noteq> NS_ACTIVE then act_return (node_error ''Node should be active'')
     else act_except
       (act_then (act_bind (config_node_id e) (nodes_set_in_maintenance a)) (act_return (node_ok JNull)))
       is_transaction_logic_error
       (\<lambda>_. act_return (node_error ''Moving node to maintenance mode failed'')))"

text \<open>The status is asked twice.\<close>

definition set_maintenance_off :: "('d, 'f) env \<Rightarrow> ('d, 'f) node_api \<Rightarrow> ('d, 'f, json) wact" where
  "set_maintenance_off e a =
     act_bind (node_info_status e a) (\<lambda>status.
     if status \<noteq> NS_IN_MAINTENANCE then act_return (node_error ''Node is not in maintenance mode'')
     else act_bind (node_info_status e a) (\<lambda>status'.
     if status' \<noteq> NS_IN_MAINTENANCE
     then act_return (JObj [(''status'', JInt 1),
            (''errors'', JList [JStr ''Node is not in maintenance mode''])])
     else act_except
       (act_then (act_bind (config_node_id e) (nodes_remove_from_maintenance a)) (act_return (node_ok JNull)))
       is_transaction_logic_error
       (\<lambda>_. act_return (node_error ''Removing node from maintenance mode failed''))))"

fun exn_message :: "exn \<Rightarrow> string" where
  "exn_message (TransactionLogicError m) = m"
| "exn_message _ = []"

definition set_domain_name ::
  "('d, 'f) env \<Rightarrow> ('d, 'f) node_api \<Rightarrow> string \<Rightarrow> ('d, 'f, json) wact" where
  "set_domain_name e a domain_name =
     act_except
       (act_then (act_bind (config_node_id e) (\<lambda>i. nodes_set_domain_name a i domain_name))
         (act_return (node_ok JNull)))
       is_transaction_logic_error (\<lambda>err. act_return (node_error (exn_message err)))"

section \<open>Other answers about the node\<close>

text \<open>\<^verbatim>\<open>get_block_device_size\<close> on the parsed answer of the volume driver.\<close>

definition get_block_device_size :: "json res \<Rightarrow> json res" where
  "get_block_device_size answer =
     res_bind answer (\<lambda>reply. res_bind (json_item reply ''Err'') (\<lambda>err.
       if err \<noteq> JStr [] then Inr (JInt (- 1)) else json_item reply ''Size''))"

definition is_btrfs_loaded :: "string \<Rightarrow> bool" where
  "is_btrfs_loaded lsmod = (filter (\<lambda>l. startswith l ''btrfs'') (split_on CHR 0x0A lsmod) \<noteq> [])"

definition get_btrfs_info :: "string \<Rightarrow> json" where
  "get_btrfs_info lsmod = JObj [(''kernel_module'', JBool (is_btrfs_loaded lsmod))]"

definition CHECK_REPORT_PATH :: "('d, 'f) env \<Rightarrow> path" where
  "CHECK_REPORT_PATH e = (path_join (SKALE_VOLUME_PATH e) ''reports'', ''checks.json'')"

definition get_check_report :: "('d, 'f) env \<Rightarrow> ('d, 'f) world \<Rightarrow> json res" where
  "get_check_report e w =
     (if \<not> isfile (files w) (CHECK_REPORT_PATH e) then Inr (JObj [])
      else read_json (files w) (CHECK_REPORT_PATH e))"

definition META_FILEPATH :: "('d, 'f) env \<Rightarrow> path" where
  "META_FILEPATH e = (NODE_DATA_PATH e, ''meta.json'')"

definition get_meta_info :: "('d, 'f) env \<Rightarrow> ('d, 'f) world \<Rightarrow> json res" where
  "get_meta_info e w = read_json (files w) (META_FILEPATH e)"

definition get_skale_node_version :: "('d, 'f) env \<Rightarrow> ('d, 'f) world \<Rightarrow> json res" where
  "get_skale_node_version e w = res_bind (get_meta_info e w) (\<lambda>j. json_item j ''config_stream'')"

definition is_port_open :: "('d, 'f) node_api \<Rightarrow> string \<Rightarrow> int \<Rightarrow> ('d, 'f, bool) wact" where
  "is_port_open a ip port =
     act_try (act_then (socket_connect a ip port) (act_return True)) (\<lambda>_. act_return False)"

definition WATCHDOG_PORT :: int where "WATCHDOG_PORT = 3009"

text \<open>\<^verbatim>\<open>list.remove\<close> that logs instead of raising; the loop over the validator's other nodes.\<close>

fun validator_nodes_loop ::
  "('d, 'f) node_api \<Rightarrow> int list \<Rightarrow> (int \<times> string \<times> bool) list \<Rightarrow>
   ('d, 'f, (int \<times> string \<times> bool) list) wact" where
  "validator_nodes_loop a [] found = act_return found"
| "validator_nodes_loop a (i # is) found =
     act_bind (nodes_get_status a i) (\<lambda>status.
     if status = NodeStatus_value NS_ACTIVE
     then act_bind (nodes_contract_ip a i) (\<lambda>ip_bytes.
          let ip = na_ip_from_bytes a ip_bytes
          in act_bind (is_port_open a ip WATCHDOG_PORT) (\<lambda>op.
             validator_nodes_loop a is (found @ [(i, ip, op)])))
     else validator_nodes_loop a is found)"

text \<open>An exception is put into the answer (\<open>Inl\<close>), status 1.\<close>

definition check_validator_nodes ::
  "('d, 'f) node_api \<Rightarrow> int \<Rightarrow> ('d, 'f, exn + (int \<times> string \<times> bool) list) wact" where
  "check_validator_nodes a node_id =
     act_try
       (act_bind (nodes_get a node_id) (\<lambda>node.
        act_bind (nodes_validator_indices a (mn_validator_id node)) (\<lambda>node_ids.
        act_bind (validator_nodes_loop a (remove1 node_id node_ids) []) (\<lambda>found.
        act_return (Inr found)))))
       (\<lambda>err. act_return (Inl err))"

section \<open>Updates at a restart\<close>

definition update_node_config_file ::
  "('d, 'f) env \<Rightarrow> ('d, 'f) node_api \<Rightarrow> ('d, 'f, unit) wact" where
  "update_node_config_file e a =
     act_bind (act_res (NodeConfig_id e)) (\<lambda>cid.
     act_when (cid \<noteq> JNull)
       (act_bind (config_node_id e) (\<lambda>i.
        act_bind (nodes_get a i) (\<lambda>d.
        let ip = na_ip_from_bytes a (mn_ip d)
        in act_then
            (act_bind (act_res (NodeConfig_ip e)) (\<lambda>old.
              act_when (old \<noteq> JStr ip) (set_NodeConfig_ip e ip)))
            (act_bind (act_res (NodeConfig_name e)) (\<lambda>old.
              act_when (old \<noteq> JStr (mn_name d)) (set_NodeConfig_name e (mn_name d))))))))"

definition update_predeployed_ima ::
  "('d, 'f) env \<Rightarrow> ('d, 'f) node_api \<Rightarrow> ('d, 'f, unit) wact" where
  "update_predeployed_ima e a =
     modify_files (write_json (SCHAIN_IMA_ABI_FILEPATH e) (generate_ima_abi a))"

definition soft_updates :: "('d, 'f) env \<Rightarrow> ('d, 'f) node_api \<Rightarrow> ('d, 'f, unit) wact" where
  "soft_updates e a = act_then (update_node_config_file e a) (update_predeployed_ima e a)"

definition unsafe_for_update ::
  "('d, 'f) env \<Rightarrow> contracts \<Rightarrow> ('d, 'f) world \<Rightarrow> string \<Rightarrow> bool res" where
  "unsafe_for_update e k w n =
     res_bind (is_rotation_active k n) (\<lambda>rotating.
       if rotating then Inr True
       else if \<not> skaled_config_exists e n w then Inr False
       else res_bind (skaled_config_synced_with_upstream e n w) (\<lambda>synced. Inr (\<not> synced)))"

definition update_unsafe_for_schains ::
  "('d, 'f) env \<Rightarrow> contracts \<Rightarrow> ('d, 'f) world \<Rightarrow> string list res" where
  "update_unsafe_for_schains e k w =
     res_bind (res_map (\<lambda>n. res_bind (unsafe_for_update e k w n) (\<lambda>b. Inr (n, b)))
                 (get_schains_on_node e w)) (\<lambda>ns.
       Inr (map fst (filter snd ns)))"

section \<open>Registration and the node's configuration\<close>

text \<open>The calls leave the files of the node alone (they are requests to the contracts, the
  wallet and sockets).\<close>

definition calls_keep :: "(('d, 'f) world \<Rightarrow> bool) \<Rightarrow> ('d, 'f) node_api \<Rightarrow> bool" where
  "calls_keep P a \<longleftrightarrow>
     (\<forall>n. keeps P (nodes_name_to_index a n)) \<and> (\<forall>i. keeps P (nodes_get a i)) \<and>
     (\<forall>n. keeps P (nodes_is_name_available a n)) \<and> (\<forall>n. keeps P (nodes_is_ip_available a n)) \<and>
     (\<forall>i. keeps P (nodes_set_in_maintenance a i)) \<and>
     (\<forall>i. keeps P (nodes_remove_from_maintenance a i)) \<and>
     (\<forall>n. keeps P (manager_create_node a n)) \<and> keeps P (wallet_balance a)"

definition keep_files :: "('d, 'f) node_api \<Rightarrow> bool" where
  "keep_files a \<longleftrightarrow> (\<forall>fs. calls_keep (\<lambda>w. files w = fs) a)"

lemma keeps_calls:
  assumes "calls_keep P a"
  shows "keeps P (get_node_id_from_contracts a n ip)"
    and "keeps P (register_on_contracts a ip public_ip port n domain_name)"
  using assms
  by (auto simp: calls_keep_def get_node_id_from_contracts_def register_on_contracts_def
      create_node_on_contracts_def check_required_balance_def Let_def
      intro!: keeps_intros split: option.split)

lemma register_on_contracts_error:
  assumes "register_on_contracts a ip public_ip port n domain_name w = (Inr (Some j), w')"
  shows "\<not> is_ok j"
  using assms
  by (auto simp: register_on_contracts_def act_simps is_ok_def node_error_def
      split: prod.splits sum.splits if_splits)

lemma process_template_other:
  "p \<noteq> q \<Longrightarrow> keeps (\<lambda>w. P (read_json (files w) p)) (process_template a source q d)"
  by (simp add: process_template_def keeps_def act_simps read_json_def alist_simps split: sum.split)

lemma keeps_on_daemon_files: "keeps (\<lambda>w. P (files w)) (on_daemon m)"
  by (auto simp: keeps_def act_simps split: prod.split)

lemma monitoring_keeps_config:
  "keeps (\<lambda>w. P (read_json (files w) (NODE_CONFIG_FILEPATH e))) (update_monitoring_services e a ip cid)"
  unfolding update_monitoring_services_def update_filebeat_service_def update_telegraf_service_def
    ensure_telegraf_running_def get_and_restart_def Let_def
  by (intro keeps_intros process_template_other keeps_on_daemon_files keeps_pure)
    (simp_all add: NODE_CONFIG_FILEPATH_def FILEBEAT_CONFIG_PATH_def TELEGRAF_CONFIG_PATH_def)

lemma register_in_config_ok:
  assumes calls: "keep_files a" and run: "register_in_config e a ip public_ip n w = (Inr j, w')"
  shows "is_ok j"
    and "\<exists>v v' i. nodes_name_to_index a n v = (Inr i, v') \<and> NodeConfig_id e w' = Inr (JInt i)"
    and "NodeConfig_name e w' = Inr (JStr n)" and "NodeConfig_ip e w' = Inr (JStr ip)"
    and "json_item j ''data'' = object_all (NODE_CONFIG_FILEPATH e) w'"
proof -
  let ?p = "NODE_CONFIG_FILEPATH e"
  from run obtain i w1 w2 w3 w4 cid config where
    i: "nodes_name_to_index a n w = (Inr i, w1)" and w2: "object_set ?p ''node_id'' (JInt i) w1 = (Inr (), w2)"
    and w3: "object_set ?p ''name'' (JStr n) w2 = (Inr (), w3)"
    and w4: "object_set ?p ''node_ip'' (JStr ip) w3 = (Inr (), w4)"
    and m: "update_monitoring_services e a public_ip cid w4 = (Inr (), w')"
    and config: "object_all ?p w' = Inr config" and j: "j = node_ok config"
    by (auto simp: register_in_config_def act_simps set_NodeConfig_id_def set_NodeConfig_name_def
        set_NodeConfig_ip_def split: prod.splits sum.splits)
  have same: "read_json (files w') ?p = read_json (files w4) ?p"
    using keepsD_eq [OF monitoring_keeps_config [where P = "\<lambda>c. c = read_json (files w4) ?p"] _ m] by simp
  have get: "object_get ?p f w' = object_get ?p f w4" for f
    by (simp add: object_get_def same)
  note s = object_set_get
  show "is_ok j" by (simp add: j is_ok_def node_ok_def)
  have "NodeConfig_id e w' = Inr (JInt i)"
    using s(1) [OF w2] by (simp add: NodeConfig_id_def get s(2) [OF w3] s(2) [OF w4])
  with i show "\<exists>v v' i. nodes_name_to_index a n v = (Inr i, v') \<and> NodeConfig_id e w' = Inr (JInt i)"
    by blast
  show "NodeConfig_name e w' = Inr (JStr n)"
    using s(1) [OF w3] by (simp add: NodeConfig_name_def get s(2) [OF w4])
  show "NodeConfig_ip e w' = Inr (JStr ip)"
    using s(1) [OF w4] by (simp add: NodeConfig_ip_def get)
  show "json_item j ''data'' = object_all ?p w'" by (simp add: j node_ok_def config)
qed

lemma node_register_cases:
  assumes calls: "keep_files a"
    and run: "node_register e a ip public_ip port n domain_name w = (r, w')"
  shows "NodeConfig_id e w \<noteq> Inr JNull \<Longrightarrow> w' = w"
    and "r = Inr j \<Longrightarrow> \<not> is_ok j \<Longrightarrow> files w' = files w"
    and "r = Inr j \<Longrightarrow> is_ok j \<Longrightarrow> \<exists>w1. register_in_config e a ip public_ip n w1 = (Inr j, w') \<and> files w1 = files w"
    and "r = Inr j \<Longrightarrow> is_ok j \<Longrightarrow> NodeConfig_id e w = Inr JNull"
proof -
  have k: "keeps (\<lambda>v. files v = files w) (get_node_id_from_contracts a n ip)"
    "keeps (\<lambda>v. files v = files w) (register_on_contracts a ip public_ip port n domain_name)"
    using calls unfolding keep_files_def by (blast intro: keeps_calls)+
  have installed: "NodeConfig_id e w \<noteq> Inr JNull \<Longrightarrow> w' = w \<and> (r = Inr j \<longrightarrow> \<not> is_ok j)" for j
    using run by (auto simp: node_register_def act_simps is_ok_def node_error_def split: sum.splits if_splits)
  then show "NodeConfig_id e w \<noteq> Inr JNull \<Longrightarrow> w' = w" by blast
  show "r = Inr j \<Longrightarrow> is_ok j \<Longrightarrow> NodeConfig_id e w = Inr JNull" using installed by blast
  show "files w' = files w" if r: "r = Inr j" and j: "\<not> is_ok j"
  proof (cases "NodeConfig_id e w = Inr JNull")
    case True
    then obtain q w1 where q: "get_node_id_from_contracts a n ip w = (Inr q, w1)"
      using run r by (auto simp: node_register_def act_simps split: prod.splits sum.splits)
    have f1: "files w1 = files w" using keepsD_eq [OF k(1) _ q] by simp
    obtain u w2 where u: "(if q < 0 then register_on_contracts a ip public_ip port n domain_name
        else act_return None) w1 = (Inr u, w2)"
      using run r True q by (auto simp: node_register_def act_simps split: prod.splits sum.splits)
    have f2: "files w2 = files w"
      using keepsD_eq [OF keeps_ite [OF k(2) keeps_pure(1)] f1 u] .
    show ?thesis
      using run r True q u f2 register_in_config_ok(1) [OF calls] j
      by (auto simp: node_register_def act_simps split: option.splits)
  next
    case False
    then show ?thesis using installed by simp
  qed
  show "\<exists>w1. register_in_config e a ip public_ip n w1 = (Inr j, w') \<and> files w1 = files w"
    if r: "r = Inr j" and j: "is_ok j"
  proof -
    have True: "NodeConfig_id e w = Inr JNull" using installed r j by blast
    then obtain q w1 where q: "get_node_id_from_contracts a n ip w = (Inr q, w1)"
      using run r by (auto simp: node_register_def act_simps split: prod.splits sum.splits)
    have f1: "files w1 = files w" using keepsD_eq [OF k(1) _ q] by simp
    obtain u w2 where u: "(if q < 0 then register_on_contracts a ip public_ip port n domain_name
        else act_return None) w1 = (Inr u, w2)"
      using run r True q by (auto simp: node_register_def act_simps split: prod.splits sum.splits)
    have f2: "files w2 = files w"
      using keepsD_eq [OF keeps_ite [OF k(2) keeps_pure(1)] f1 u] .
    show ?thesis
      using run r True q u f2 j register_on_contracts_error [of a ip public_ip port n domain_name w1 _ w2]
      by (auto simp: node_register_def act_simps split: option.splits if_splits)
  qed
qed

end
