(* ===== verification/Notifications.thy ===== *)
theory Notifications
  imports Checks Node_Config Dkg_Network
begin

text \<open>
  Messages to the operator (\<^verbatim>\<open>tools/notifications/messages.py\<close>,
  \<^verbatim>\<open>core/schains/notifications.py\<close>). Redis and the task queue are third-party: \<open>note_api\<close>
  has the calls the code makes, over a state \<open>'r\<close> of theirs; any of them may raise. Strings
  outside ASCII are written as their UTF-8 bytes. The locale \<open>note_store\<close> has the laws of a
  key-value store whose keys may have a time to live, and of a queue that keeps what it is given;
  time passes between reports (\<open>wait\<close>), a call takes none.
\<close>

section \<open>Messages\<close>

definition RED_LIGHT :: string where "RED_LIGHT = [CHR 0xE2, CHR 0x9D, CHR 0x8C]"
definition GREEN_LIGHT :: string where "GREEN_LIGHT = [CHR 0xE2, CHR 0x9C, CHR 0x85]"
definition EXCLAMATION_MARK :: string where "EXCLAMATION_MARK = [CHR 0xE2, CHR 0x9D, CHR 0x97]"
definition SUCCESS_MAX_ATTEMPS :: int where "SUCCESS_MAX_ATTEMPS = 1"
definition FAILED_MAX_ATTEMPS :: int where "FAILED_MAX_ATTEMPS = 1"

definition new_line :: string where "new_line = [CHR 0x0A]"

record 'r note_api =
  TG_API_KEY :: string
  TG_CHAT_ID :: string
  CHECKS_STATE_EXPIRATION :: int
  redis_get :: "string \<Rightarrow> ('r, string option) act"
  redis_set :: "string \<Rightarrow> string \<Rightarrow> int option \<Rightarrow> ('r, unit) act"
  redis_keys :: "string \<Rightarrow> ('r, string list) act"
  redis_delete :: "string list \<Rightarrow> ('r, unit) act"
  telegram_delay :: "string \<Rightarrow> string \<Rightarrow> string \<Rightarrow> ('r, unit) act"
  note_time :: "('r, int) act"
  note_ctime :: "int \<Rightarrow> string"
  from_wei :: "int \<Rightarrow> string"

definition tg_notifications_enabled :: "'r note_api \<Rightarrow> bool" where
  "tg_notifications_enabled a = (TG_API_KEY a \<noteq> [] \<and> TG_CHAT_ID a \<noteq> [])"

text \<open>The decorator: nothing without the two settings; whatever is raised is logged. The
  result of the decorated functions is not used.\<close>

definition notifications_enabled :: "'r note_api \<Rightarrow> ('r, unit) act \<Rightarrow> ('r, unit) act" where
  "notifications_enabled a func =
     (if tg_notifications_enabled a then act_try func (\<lambda>_. act_return ()) else act_return ())"

definition cleanup_notification_state :: "'r note_api \<Rightarrow> ('r, unit) act" where
  "cleanup_notification_state a =
     notifications_enabled a
       (act_bind (redis_keys a ''messages.*'') (\<lambda>ks. act_when (ks \<noteq> []) (redis_delete a ks)))"

definition send_message :: "'r note_api \<Rightarrow> string list \<Rightarrow> ('r, unit) act" where
  "send_message a message =
     act_bind (note_time a) (\<lambda>now.
     let plain_message = join new_line
           (message @ [new_line @ ''Timestamp: '' @ str_of_int now, ''Datetime: '' @ note_ctime a now])
     in telegram_delay a (TG_API_KEY a) (TG_CHAT_ID a) plain_message)"

text \<open>\<open>node\<close> is the pair of the node's id and address as they are printed.\<close>

type_synonym node_label = "string \<times> string"

definition is_checks_passed :: "check_status \<Rightarrow> bool" where
  "is_checks_passed checks = list_all snd checks"

definition compose_checks_message :: "string \<Rightarrow> node_label \<Rightarrow> check_status \<Rightarrow> string list" where
  "compose_checks_message n node checks =
     [''Node ID: '' @ fst node @ '', IP: '' @ snd node, ''sChain name: '' @ n] @
     (if is_checks_passed checks then [new_line @ GREEN_LIGHT @ '' All checks passed'']
      else (new_line @ EXCLAMATION_MARK @ '' Some checks failed'' @ new_line) #
           map (\<lambda>c. RED_LIGHT @ '' '' @ fst c) (filter (\<lambda>c. \<not> snd c) checks))"

text \<open>\<^verbatim>\<open>str(sorted(checks.items()))\<close>; the names of checks have no quotes.\<close>

definition item_repr :: "string \<times> bool \<Rightarrow> string" where
  "item_repr c = ''('' @ [CHR 0x27] @ fst c @ [CHR 0x27] @ '', '' @ (if snd c then ''True'' else ''False'') @ '')''"

definition get_state_from_checks :: "check_status \<Rightarrow> string" where
  "get_state_from_checks checks = ''['' @ join '', '' (map item_repr (sort_key fst checks)) @ '']''"

definition redis_int :: "string option \<Rightarrow> int \<Rightarrow> int res" where
  "redis_int v d = (case v of None \<Rightarrow> Inr d | Some s \<Rightarrow> if s = [] then Inr d else int_of_str s)"

definition checks_count_key :: "string \<Rightarrow> string" where
  "checks_count_key n = ''messages.checks.'' @ n @ ''.count''"

definition checks_state_key :: "string \<Rightarrow> string" where
  "checks_state_key n = ''messages.checks.'' @ n @ ''.state''"

text \<open>\<^verbatim>\<open>saved_state != state or (success and cnt < \<dots> or not success and cnt < \<dots>)\<close>\<close>

definition due :: "bool \<Rightarrow> bool \<Rightarrow> int \<Rightarrow> bool" where
  "due changed success cnt =
     (changed \<or> success \<and> cnt < SUCCESS_MAX_ATTEMPS \<or> \<not> success \<and> cnt < FAILED_MAX_ATTEMPS)"

definition notify_checks :: "'r note_api \<Rightarrow> string \<Rightarrow> node_label \<Rightarrow> check_status \<Rightarrow> ('r, unit) act" where
  "notify_checks a n node checks =
     notifications_enabled a
       (act_bind (redis_get a (checks_state_key n)) (\<lambda>saved_bytes.
        let saved_state = (case saved_bytes of None \<Rightarrow> [] | Some s \<Rightarrow> s)
        in act_bind
            (if saved_state \<noteq> []
             then act_bind (redis_get a (checks_count_key n)) (\<lambda>c. act_lift (redis_int c 0))
             else act_return 0) (\<lambda>cnt.
           let state = get_state_from_checks checks;
               success = is_checks_passed checks
           in act_then
               (act_when (due (saved_state \<noteq> state) success cnt)
                 (send_message a (compose_checks_message n node checks)))
               (if saved_state \<noteq> state
                then act_then
                  (redis_set a (checks_state_key n) state
                    (if success then None else Some (CHECKS_STATE_EXPIRATION a)))
                  (redis_set a (checks_count_key n) ''1'' None)
                else redis_set a (checks_count_key n) (str_of_int (cnt + 1)) None))))"

definition compose_balance_message :: "'r note_api \<Rightarrow> node_label \<Rightarrow> int \<Rightarrow> int \<Rightarrow> string list" where
  "compose_balance_message a node balance required_balance =
     [if balance < required_balance
      then EXCLAMATION_MARK @ '' Balance on node is too low '' @ new_line
      else GREEN_LIGHT @ '' Node id: has enough balance '' @ new_line,
      ''Node ID: '' @ fst node @ '', IP: '' @ snd node,
      ''Balance: '' @ from_wei a balance @ '' ETH'',
      ''Required: '' @ from_wei a required_balance @ '' ETH'']"

text \<open>Balances in wei; the code compares and prints them in ether.\<close>

definition notify_balance :: "'r note_api \<Rightarrow> node_label \<Rightarrow> int \<Rightarrow> int \<Rightarrow> ('r, unit) act" where
  "notify_balance a node balance required_balance =
     notifications_enabled a
       (act_bind (redis_get a ''messages.balance.count'') (\<lambda>c.
        act_bind (act_lift (redis_int c 0)) (\<lambda>cnt.
        act_bind (redis_get a ''messages.balance.state'') (\<lambda>s.
        act_bind (act_lift (redis_int s (- 1))) (\<lambda>saved_state.
        let state = (if balance > required_balance then 1 else 0);
            success = (balance > required_balance)
        in act_then
            (act_when (due (saved_state \<noteq> state) success cnt)
              (send_message a (compose_balance_message a node balance required_balance)))
            (act_then
              (redis_set a ''messages.balance.count''
                (str_of_int (if saved_state \<noteq> state then 1 else cnt + 1)) None)
              (redis_set a ''messages.balance.state'' (str_of_int state) None)))))))"

definition compose_repair_mode_notification :: "node_label \<Rightarrow> string \<Rightarrow> string list" where
  "compose_repair_mode_notification node n =
     [EXCLAMATION_MARK @ '' Repair mode for '' @ n @ '' enabled '' @ new_line,
      ''Node ID: '' @ fst node, ''Node IP: '' @ snd node, ''SChain: '' @ n]"

definition notify_repair_mode :: "'r note_api \<Rightarrow> node_label \<Rightarrow> string \<Rightarrow> ('r, unit) act" where
  "notify_repair_mode a node n =
     notifications_enabled a (send_message a (compose_repair_mode_notification node n))"

definition REQUIRED_BALANCE_WEI :: int where "REQUIRED_BALANCE_WEI = 10 ^ 17"

definition notify_if_not_enough_balance ::
  "'r note_api \<Rightarrow> ('r, int) act \<Rightarrow> node_label \<Rightarrow> ('r, unit) act" where
  "notify_if_not_enough_balance a get_balance node =
     act_bind get_balance (\<lambda>eth_balance_wei. notify_balance a node eth_balance_wei REQUIRED_BALANCE_WEI)"

section \<open>What reaches the operator\<close>

text \<open>Reports of a chain's checks, one after the other, each after a pause.\<close>

fun report_all ::
  "'r note_api \<Rightarrow> (int \<Rightarrow> 'r \<Rightarrow> 'r) \<Rightarrow> string \<Rightarrow> node_label \<Rightarrow> (int \<times> check_status) list \<Rightarrow> 'r \<Rightarrow> 'r" where
  "report_all a wait n node [] r = r"
| "report_all a wait n node ((pause, checks) # cs) r =
     report_all a wait n node cs (snd (notify_checks a n node checks (wait pause r)))"

text \<open>The messages that are due for them, from the report that was told last and the time since: one
  for the first, one for each that differs from the one told last, and one for a failed state
  each time it is still reported \<open>ex\<close> seconds or more after it was told.\<close>

fun messages_due :: "int \<Rightarrow> (check_status \<times> int) option \<Rightarrow> (int \<times> check_status) list \<Rightarrow> nat" where
  "messages_due ex told [] = 0"
| "messages_due ex None ((pause, checks) # cs) = Suc (messages_due ex (Some (checks, 0)) cs)"
| "messages_due ex (Some (prev, since)) ((pause, checks) # cs) =
     (if get_state_from_checks checks = get_state_from_checks prev \<and>
         (is_checks_passed prev \<or> since + pause < ex)
      then messages_due ex (Some (prev, since + pause)) cs
      else Suc (messages_due ex (Some (checks, 0)) cs))"

text \<open>The value of a key and the seconds it has left, None for a key that does not expire; after a
  while.\<close>

type_synonym note_entry = "(string \<times> int option) option"

definition entry_after :: "int \<Rightarrow> note_entry \<Rightarrow> note_entry" where
  "entry_after s x =
     (case x of Some (v, Some ttl) \<Rightarrow> if s < ttl then Some (v, Some (ttl - s)) else None | _ \<Rightarrow> x)"

lemma entry_after_simps [simp]:
  "entry_after s None = None" "entry_after s (Some (v, None)) = Some (v, None)"
  "entry_after s (Some (v, Some t)) = (if s < t then Some (v, Some (t - s)) else None)"
  by (simp_all add: entry_after_def)

text \<open>The laws of the store: reading does not change it, a key that is set reads back until its
  time is over, without a time for good, and other keys stay; a message given to the queue is
  appended to the ones given before.\<close>

locale note_store =
  fixes a :: "'r note_api" and entry :: "'r \<Rightarrow> string \<Rightarrow> note_entry"
    and wait :: "int \<Rightarrow> 'r \<Rightarrow> 'r" and sent :: "'r \<Rightarrow> string list"
  assumes get: "redis_get a k r = (Inr (map_option fst (entry r k)), r)"
    and set_key: "(\<And>s. ex = Some s \<Longrightarrow> 0 < s) \<Longrightarrow>
      \<exists>r'. redis_set a k v ex r = (Inr (), r') \<and> entry r' = (entry r)(k \<mapsto> (v, ex)) \<and> sent r' = sent r"
    and delay: "\<exists>r'. telegram_delay a key chat m r = (Inr (), r') \<and> entry r' = entry r \<and>
      sent r' = sent r @ [m]"
    and note_now: "\<exists>t. note_time a r = (Inr t, r)"
    and wait_entry: "0 \<le> s \<Longrightarrow> entry (wait s r) k = entry_after s (entry r k)"
    and wait_sent: "sent (wait s r) = sent r"
begin

lemma report_all_disabled:
  assumes "\<not> tg_notifications_enabled a"
  shows "sent (report_all a wait n node cs r) = sent r"
proof (induction cs arbitrary: r)
  case (Cons c cs)
  then show ?case
    using assms by (cases c) (simp add: notify_checks_def notifications_enabled_def act_simps wait_sent)
qed simp

lemma send_spec:
  "\<exists>r' m. send_message a ms r = (Inr (), r') \<and> entry r' = entry r \<and> sent r' = sent r @ [m]"
proof -
  obtain t where "note_time a r = (Inr t, r)" using note_now by blast
  moreover obtain r' where "telegram_delay a (TG_API_KEY a) (TG_CHAT_ID a) (join new_line
      (ms @ [new_line @ ''Timestamp: '' @ str_of_int t, ''Datetime: '' @ note_ctime a t])) r = (Inr (), r')"
    "entry r' = entry r" "sent r' = sent r @ [join new_line
      (ms @ [new_line @ ''Timestamp: '' @ str_of_int t, ''Datetime: '' @ note_ctime a t])]"
    using delay by blast
  ultimately show ?thesis by (auto simp: send_message_def act_simps Let_def)
qed

text \<open>A count that was saved is at least one, and does not expire.\<close>

definition count_ok :: "'r \<Rightarrow> string \<Rightarrow> bool" where
  "count_ok r n \<longleftrightarrow> (entry r (checks_state_key n) = None \<or>
     (\<exists>c \<ge> 1. entry r (checks_count_key n) = Some (str_of_int c, None)))"

lemma keys_apart: "checks_state_key n \<noteq> checks_count_key n"
  by (simp add: checks_state_key_def checks_count_key_def)

lemma state_not_empty: "get_state_from_checks checks \<noteq> []"
  by (simp add: get_state_from_checks_def)

lemma str_of_int_Nil: "str_of_int c \<noteq> []"
  by (simp add: str_of_int_def)

lemma count_ok_wait: "0 \<le> s \<Longrightarrow> count_ok r n \<Longrightarrow> count_ok (wait s r) n"
  by (auto simp: count_ok_def wait_entry)

text \<open>One report: the state is saved, and a message sent, unless it is the live one.\<close>

definition state_ttl :: "check_status \<Rightarrow> int option" where
  "state_ttl checks = (if is_checks_passed checks then None else Some (CHECKS_STATE_EXPIRATION a))"

lemma notify_checks_spec:
  assumes on: "tg_notifications_enabled a" and ok: "count_ok r n" and pos: "0 < CHECKS_STATE_EXPIRATION a"
  defines "before \<equiv> entry r (checks_state_key n)"
  shows "\<exists>r'. notify_checks a n node checks r = (Inr (), r') \<and> count_ok r' n \<and>
    (if map_option fst before = Some (get_state_from_checks checks)
     then sent r' = sent r \<and> entry r' (checks_state_key n) = before
     else (\<exists>m. sent r' = sent r @ [m]) \<and>
       entry r' (checks_state_key n) = Some (get_state_from_checks checks, state_ttl checks))"
proof -
  let ?sk = "checks_state_key n" and ?ck = "checks_count_key n" and ?st = "get_state_from_checks checks"
  let ?saved = "case map_option fst before of None \<Rightarrow> [] | Some s \<Rightarrow> s"
  let ?read = "if ?saved \<noteq> [] then act_bind (redis_get a ?ck) (\<lambda>c. act_lift (redis_int c 0)) else act_return 0"
  have "\<exists>c. ?read r = (Inr c, r) \<and> (?saved \<noteq> [] \<longrightarrow> c \<ge> 1)"
    using ok by (auto simp: before_def count_ok_def act_simps get act_lift_def redis_int_def str_of_int_Nil
        str_of_int_Nil [symmetric] split: option.splits)
  then obtain c where c: "?read r = (Inr c, r)" "?saved \<noteq> [] \<Longrightarrow> c \<ge> 1" by blast
  show ?thesis
  proof (cases "?saved = ?st")
    case True
    then have same: "map_option fst before = Some ?st"
      using state_not_empty [of checks] by (cases before) simp_all
    obtain r' where r': "redis_set a ?ck (str_of_int (c + 1)) None r = (Inr (), r')"
      "entry r' = (entry r)(?ck \<mapsto> (str_of_int (c + 1), None))" "sent r' = sent r"
      using set_key [of None] by blast
    have "c \<ge> 1" using c(2) True state_not_empty by simp
    then have not_due: "\<not> due False b c" for b
      by (simp add: due_def SUCCESS_MAX_ATTEMPS_def FAILED_MAX_ATTEMPS_def)
    have "notify_checks a n node checks r = (Inr (), r')"
      using on True c(1) r'(1) not_due
      by (simp add: notify_checks_def notifications_enabled_def act_simps get Let_def before_def)
    moreover have "count_ok r' n"
      using \<open>c \<ge> 1\<close> by (auto simp: count_ok_def r'(2) intro!: exI [of _ "c + 1"])
    ultimately show ?thesis using same keys_apart by (simp add: r'(2,3) before_def)
  next
    case False
    obtain r1 m where r1: "send_message a (compose_checks_message n node checks) r = (Inr (), r1)"
      "entry r1 = entry r" "sent r1 = sent r @ [m]" using send_spec by blast
    have "\<And>s. state_ttl checks = Some s \<Longrightarrow> 0 < s" using pos by (simp add: state_ttl_def split: if_splits)
    from set_key [OF this] obtain r2 where r2: "redis_set a ?sk ?st (state_ttl checks) r1 = (Inr (), r2)"
      "entry r2 = (entry r1)(?sk \<mapsto> (?st, state_ttl checks))" "sent r2 = sent r1" by blast
    obtain r3 where r3: "redis_set a ?ck ''1'' None r2 = (Inr (), r3)"
      "entry r3 = (entry r2)(?ck \<mapsto> (''1'', None))" "sent r3 = sent r2" using set_key [of None] by blast
    have "notify_checks a n node checks r = (Inr (), r3)"
      using on False c(1) r1(1) r2(1) r3(1)
      by (simp add: notify_checks_def notifications_enabled_def act_simps get Let_def due_def
          before_def state_ttl_def)
    moreover have "str_of_int 1 = ''1''" by code_simp
    then have "count_ok r3 n" by (auto simp: count_ok_def r3(2) intro!: exI [of _ 1])
    moreover have "map_option fst before \<noteq> Some ?st" using False by auto
    ultimately show ?thesis using keys_apart by (simp add: r1 r2 r3)
  qed
qed

text \<open>What the store has of the report that was told last.\<close>

definition told_ok :: "'r \<Rightarrow> string \<Rightarrow> (check_status \<times> int) option \<Rightarrow> bool" where
  "told_ok r n told \<longleftrightarrow> entry r (checks_state_key n) =
     (case told of
        None \<Rightarrow> None
      | Some (prev, since) \<Rightarrow>
          entry_after since (Some (get_state_from_checks prev, state_ttl prev)))"

lemma report_all_sent:
  assumes on: "tg_notifications_enabled a" and pos: "0 < CHECKS_STATE_EXPIRATION a"
    and ok: "count_ok r n" "told_ok r n told" and pauses: "list_all (\<lambda>c. 0 \<le> fst c) cs"
    and since: "\<And>prev since. told = Some (prev, since) \<Longrightarrow> 0 \<le> since"
  shows "length (sent (report_all a wait n node cs r)) =
    length (sent r) + messages_due (CHECKS_STATE_EXPIRATION a) told cs"
  using ok pauses since
proof (induction cs arbitrary: r told)
  case (Cons c cs)
  obtain pause checks where c: "c = (pause, checks)" by fastforce
  let ?E = "CHECKS_STATE_EXPIRATION a" and ?st = "get_state_from_checks checks"
  let ?r = "wait pause r"
  have pause: "0 \<le> pause" using Cons.prems(3) by (simp add: c)
  have ok': "count_ok ?r n" using count_ok_wait [OF pause Cons.prems(1)] .
  from notify_checks_spec [OF on ok' pos, of node checks] obtain r' where
    r': "notify_checks a n node checks ?r = (Inr (), r')" "count_ok r' n"
    and s: "if map_option fst (entry ?r (checks_state_key n)) = Some ?st
      then sent r' = sent ?r \<and> entry r' (checks_state_key n) = entry ?r (checks_state_key n)
      else (\<exists>m. sent r' = sent ?r @ [m]) \<and> entry r' (checks_state_key n) = Some (?st, state_ttl checks)"
    by blast
  have fresh: "told_ok r' n (Some (checks, 0))" if "entry r' (checks_state_key n) = Some (?st, state_ttl checks)"
    using that pos by (auto simp: told_ok_def state_ttl_def)
  note IH = Cons.IH [OF r'(2)]
  show ?case
  proof (cases told)
    case None
    then have "entry ?r (checks_state_key n) = None"
      using Cons.prems(2) by (simp add: told_ok_def wait_entry pause)
    with s IH [OF fresh] Cons.prems(3) None show ?thesis
      by (auto simp: c r'(1) wait_sent)
  next
    case (Some x)
    then obtain prev since where told: "told = Some (prev, since)" by (cases x) simp
    have "0 \<le> since" using Cons.prems(4) told by simp
    have e: "entry ?r (checks_state_key n) =
        entry_after (since + pause) (Some (get_state_from_checks prev, state_ttl prev))"
      using Cons.prems(2) pause \<open>0 \<le> since\<close>
      by (auto simp: told_ok_def told wait_entry state_ttl_def)
    show ?thesis
    proof (cases "?st = get_state_from_checks prev \<and> (is_checks_passed prev \<or> since + pause < ?E)")
      case True
      then have "map_option fst (entry ?r (checks_state_key n)) = Some ?st"
        by (auto simp: e state_ttl_def)
      with s have same: "sent r' = sent ?r" "told_ok r' n (Some (prev, since + pause))"
        by (simp_all add: told_ok_def e)
      from IH [OF same(2)] Cons.prems(3) True \<open>0 \<le> since\<close> pause show ?thesis
        by (simp add: c told r'(1) same(1) wait_sent)
    next
      case False
      then have "map_option fst (entry ?r (checks_state_key n)) \<noteq> Some ?st"
        by (auto simp: e state_ttl_def)
      with s IH [OF fresh] Cons.prems(3) False show ?thesis
        by (auto simp: c told r'(1) wait_sent)
    qed
  qed
qed simp

end

section \<open>A store\<close>

text \<open>The reference store for the interpretation: a table of values with the seconds they have left,
  and the list of messages.\<close>

record ref_store =
  rs_table :: "(string, string \<times> int option) table"
  rs_sent :: "string list"

definition ref_notes :: "ref_store note_api" where
  "ref_notes =
     \<lparr>TG_API_KEY = ''k'', TG_CHAT_ID = ''c'', CHECKS_STATE_EXPIRATION = 86400,
      redis_get = (\<lambda>k. act_gets (\<lambda>r. map_option fst (tab_get (rs_table r) k))),
      redis_set = (\<lambda>k v ex. act_modify (\<lambda>r. r\<lparr>rs_table := tab_put k (v, ex) (rs_table r)\<rparr>)),
      redis_keys = (\<lambda>_. act_gets (\<lambda>r. map fst (rs_table r))),
      redis_delete = (\<lambda>ks. act_modify (\<lambda>r. r\<lparr>rs_table := filter (\<lambda>e. fst e \<notin> set ks) (rs_table r)\<rparr>)),
      telegram_delay = (\<lambda>_ _ m. act_modify (\<lambda>r. r\<lparr>rs_sent := rs_sent r @ [m]\<rparr>)),
      note_time = act_return 1594903080, note_ctime = (\<lambda>_. ''Thu Jul 16 12:38:00 2020''),
      from_wei = str_of_int\<rparr>"

definition ref_wait :: "int \<Rightarrow> ref_store \<Rightarrow> ref_store" where
  "ref_wait s r = r\<lparr>rs_table := foldr (\<lambda>(k, x) t.
     case entry_after s (Some x) of None \<Rightarrow> tab_del k t | Some y \<Rightarrow> tab_put k y t) (rs_table r) []\<rparr>"

lemma ref_wait_sent: "rs_sent (ref_wait s r) = rs_sent r"
  by (simp add: ref_wait_def)

lemma ref_wait_get: "tab_get (rs_table (ref_wait s r)) k = entry_after s (tab_get (rs_table r) k)"
proof -
  have "tab_get (foldr (\<lambda>(k, x) t. case entry_after s (Some x) of None \<Rightarrow> tab_del k t | Some y \<Rightarrow> tab_put k y t) xs []) k =
      entry_after s (tab_get xs k)" for xs
    by (induction xs) (auto simp: tab_get_def [of "[]"] tab_eval alist_simps split: option.split)
  then show ?thesis by (simp add: ref_wait_def)
qed

interpretation ref_note_store: note_store ref_notes "\<lambda>r. tab_get (rs_table r)" ref_wait rs_sent
  by unfold_locales
    (auto simp: ref_notes_def act_simps act_modify_def alist_simps fun_eq_iff ref_wait_get ref_wait_sent)

lemma ref_notes_enabled: "tg_notifications_enabled ref_notes"
  by (simp add: ref_notes_def tg_notifications_enabled_def)

end
