(* ===== verification/Docker_Logs.thy ===== *)
theory Docker_Logs
  imports Cleaner
begin

text \<open>
  Saved logs of removed containers: names in the folder tell the container and the number of
  the log apart, and the number a new log gets has not been used, since it counts at least the
  logs saved under the container's name before. The folder is written by \<^verbatim>\<open>safe_rm\<close> only.
\<close>

lemma log_file_name_inject:
  "log_file_name n i = log_file_name m k \<longleftrightarrow> n = m \<and> i = k"
proof
  assume "log_file_name n i = log_file_name m k"
  then have eq: "rev (str_of_nat i) @ CHR ''-'' # rev n = rev (str_of_nat k) @ CHR ''-'' # rev m"
    by (simp add: log_file_name_def) (metis append.assoc append_Cons append_Nil rev.simps(2) rev_append rev_rev_ident)
  have "CHR ''-'' \<notin> set (rev (str_of_nat j))" for j
    using str_of_nat_no_char [of "CHR ''-''" j] by (simp add: is_digit_def)
  with eq show "n = m \<and> i = k"
    by (auto simp: append_eq_append_conv2 append_eq_Cons_conv Cons_eq_append_conv)
      (metis in_set_conv_decomp set_rev)+
qed simp

definition logs_ok :: "(string, string) table \<Rightarrow> bool" where
  "logs_ok logs \<longleftrightarrow> (\<forall>n i. tab_get logs (log_file_name n i) \<noteq> None \<longrightarrow> i < logs_index n logs)"

lemma logs_ok_empty: "logs_ok []"
  by (simp add: logs_ok_def tab_get_def)

lemma logs_fresh:
  assumes "logs_ok logs"
  shows "tab_get logs (get_logs_backup_filepath n logs) = None"
  using assms unfolding logs_ok_def get_logs_backup_filepath_def by (metis nat_less_le)

lemma tab_put_fresh: "tab_get t k = None \<Longrightarrow> tab_put k v t = t @ [(k, v)]"
  by (induction t) (auto simp: tab_eval split: if_splits)

lemma logs_index_put:
  assumes "tab_get logs f = None"
  shows "logs_index n (tab_put f c logs) = logs_index n logs + (if startswith f (n @ ''-'') then 1 else 0)"
  by (simp add: tab_put_fresh [OF assms] logs_index_def)

lemma logs_ok_put:
  assumes "logs_ok logs"
  shows "logs_ok (tab_put (get_logs_backup_filepath n logs) c logs)"
  unfolding logs_ok_def
proof (intro allI impI)
  fix m i
  let ?f = "get_logs_backup_filepath n logs"
  note put = logs_index_put [OF logs_fresh [OF assms]]
  assume "tab_get (tab_put ?f c logs) (log_file_name m i) \<noteq> None"
  then consider "log_file_name m i = ?f" | "tab_get logs (log_file_name m i) \<noteq> None"
    by (auto simp: alist_simps split: if_splits)
  then show "i < logs_index m (tab_put ?f c logs)"
  proof cases
    case 1
    then have "m = n" and "i = logs_index n logs"
      by (auto simp: get_logs_backup_filepath_def log_file_name_inject)
    then show ?thesis
      by (simp add: put) (simp add: get_logs_backup_filepath_def log_file_name_def startswith_def prefix_def)
  next
    case 2
    then have "i < logs_index m logs" using assms by (auto simp: logs_ok_def)
    then show ?thesis by (simp add: put)
  qed
qed

text \<open>Whatever fails in a removal, every log saved before is kept; a removal that ends without an
  error has saved one more for a container that was found.\<close>

lemma safe_rm_logs:
  assumes ok: "logs_ok (removed_logs w)" and run: "safe_rm api n t w = (r, w')"
  shows "logs_ok (removed_logs w')"
    and "tab_get (removed_logs w) f = Some c \<Longrightarrow> tab_get (removed_logs w') f = Some c"
    and "r = Inr () \<Longrightarrow> length (removed_logs w') =
      length (removed_logs w) + (if isl (containers_get api n (daemon w)) then 0 else 1)"
    and "r = Inr () \<Longrightarrow> \<not> isl (containers_get api n (daemon w)) \<Longrightarrow>
      \<exists>content. removed_logs w' = removed_logs w @ [(log_file_name n (logs_index n (removed_logs w)), content)]"
proof -
  let ?f = "get_logs_backup_filepath n (removed_logs w)"
  from run consider "removed_logs w' = removed_logs w" "r = Inr () \<longrightarrow> isl (containers_get api n (daemon w))"
    | content where "removed_logs w' = tab_put ?f content (removed_logs w)"
      "\<not> isl (containers_get api n (daemon w))"
    by (cases rule: safe_rm_cases) (auto split: if_splits)
  note cases = this
  from cases show "logs_ok (removed_logs w')"
    by cases (simp_all add: ok logs_ok_put)
  from cases show "tab_get (removed_logs w') f = Some c" if "tab_get (removed_logs w) f = Some c"
    using that logs_fresh [OF ok, of n] by cases (auto simp: alist_simps)
  from cases show "length (removed_logs w') =
      length (removed_logs w) + (if isl (containers_get api n (daemon w)) then 0 else 1)" if "r = Inr ()"
    using that by cases (simp_all add: tab_put_fresh [OF logs_fresh [OF ok]])
  from cases show "\<exists>content. removed_logs w' =
      removed_logs w @ [(log_file_name n (logs_index n (removed_logs w)), content)]"
    if "r = Inr ()" "\<not> isl (containers_get api n (daemon w))"
    using that by cases (auto simp: tab_put_fresh [OF logs_fresh [OF ok]], simp add: get_logs_backup_filepath_def)
qed

end
