(* ===== verification/Web_Helper.thy ===== *)
theory Web_Helper
  imports Node_Operations Notifications Docker_Logs
begin

text \<open>
  What the web API's routes are made of: answers (\<^verbatim>\<open>web/helper.py\<close>), the request, the calls of
  third-party code (\<open>web_api\<close>), the health of the IMA agents (\<^verbatim>\<open>core/schains/ima.py\<close>), the
  printed form of containers (\<^verbatim>\<open>tools/docker_utils.py\<close>) and of a chain
  (\<^verbatim>\<open>core/schains/info.py\<close>).

  \<open>Answer\<close> is a JSON response of the program, \<open>Aborted\<close> a page of Flask's own for a status.
\<close>

section \<open>Answers\<close>

datatype answer = Answer (answer_status: int) (answer_body: json) | Aborted int

definition HTTP_OK :: int where "HTTP_OK = 200"
definition BAD_REQUEST :: int where "BAD_REQUEST = 400"
definition INTERNAL_SERVER_ERROR :: int where "INTERNAL_SERVER_ERROR = 500"

definition construct_response :: "int \<Rightarrow> json \<Rightarrow> answer" where
  "construct_response status data = Answer status data"

definition construct_ok_response :: "json option \<Rightarrow> answer" where
  "construct_ok_response data =
     construct_response HTTP_OK
       (JObj [(''status'', JStr ''ok''),
              (''payload'', case data of None \<Rightarrow> JObj [] | Some j \<Rightarrow> j)])"

definition construct_err_response :: "json option \<Rightarrow> int \<Rightarrow> answer" where
  "construct_err_response msg status_code =
     construct_response status_code
       (JObj [(''status'', JStr ''error''),
              (''payload'', case msg of None \<Rightarrow> JObj [] | Some j \<Rightarrow> j)])"

definition construct_key_error_response :: "string list \<Rightarrow> answer" where
  "construct_key_error_response absent_keys =
     construct_err_response (Some (JStr (''Required arguments: '' @ join '', '' absent_keys))) BAD_REQUEST"

definition API_VERSION_PREFIX :: string where
  "API_VERSION_PREFIX = path_join ''/api'' ''v1''"

definition get_api_url :: "string \<Rightarrow> string \<Rightarrow> string" where
  "get_api_url blueprint_name method_name =
     path_join (path_join API_VERSION_PREFIX blueprint_name) method_name"

abbreviation ok_answer :: "json \<Rightarrow> answer" where "ok_answer data \<equiv> construct_ok_response (Some data)"
abbreviation bad_answer :: "string \<Rightarrow> answer" where
  "bad_answer msg \<equiv> construct_err_response (Some (JStr msg)) BAD_REQUEST"

section \<open>Requests and third-party calls\<close>

text \<open>A request's query, its JSON body, the JSON field of its form, its uploaded files.\<close>

record request =
  rq_args :: "(string \<times> string) list"
  rq_json :: json
  rq_form :: json
  rq_files :: "(string \<times> string) list"

record hardware =
  cpu_total_cores :: json
  cpu_physical_cores :: json
  memory_total :: json
  swap_total :: json
  memory_used :: json
  memory_available :: json
  system_release :: string
  uname_version :: string

text \<open>The web3 client of the Ethereum endpoint. \<open>fine_time\<close> is \<^verbatim>\<open>time.time()\<close> in nanoseconds;
  \<open>hundredths\<close> writes a number of hundredths as a decimal number.\<close>

record ('d, 'f) web3_calls =
  init_web3 :: "('d, 'f, unit) wact"
  gas_price :: "('d, 'f, int) wact"
  block_number :: "('d, 'f, int) wact"
  client_version :: "('d, 'f, string) wact"
  eth_syncing :: "('d, 'f, json) wact"
  fine_time :: "('d, 'f, int) wact"
  hundredths :: "int \<Rightarrow> json"

text \<open>\<open>schain_dict_get\<close> is \<^verbatim>\<open>s.get(k)\<close> on a chain of the contracts, \<open>schain_json\<close> its JSON.\<close>

record ('d, 'f) web_api =
  node_calls :: "('d, 'f) node_api"
  answers :: contracts
  telegram :: "('d, 'f) world note_api"
  init_skale :: "('d, 'f, unit) wact"
  link_node_signature :: "int \<Rightarrow> ('d, 'f, string) wact"
  schain_name_to_id :: "string \<Rightarrow> string"
  ipify :: "('d, 'f, json) wact"
  sgx_client :: "bool \<Rightarrow> ('d, 'f, unit) wact"
  sgx_server_status :: "bool \<Rightarrow> ('d, 'f, int) wact"
  sgx_server_version :: "bool \<Rightarrow> ('d, 'f, string) wact"
  ws_request :: "string \<Rightarrow> string \<Rightarrow> ('d, 'f, json option) wact"
  exn_repr :: "exn \<Rightarrow> string"
  container_attrs :: "container \<Rightarrow> json"
  hardware_info :: hardware
  block_device_answer :: "json res"
  lsmod :: string
  sha256 :: "file_content \<Rightarrow> string"
  parse_cert :: "file_content option \<Rightarrow> (string \<times> string) res"
  send_eth_call :: "string \<Rightarrow> json \<Rightarrow> ('d, 'f, unit) wact"
  internal_error_text :: string
  web3 :: "('d, 'f) web3_calls"
  schain_dict_get :: "schain_structure \<Rightarrow> string \<Rightarrow> json res"
  schain_json :: "schain_structure \<Rightarrow> json res"
  ports_allocation :: skaled_ports
  ports_of_schain :: int
  ABI_FILEPATH :: path
  MAINNET_IMA_ABI_FILEPATH :: path

text \<open>The decorator \<^verbatim>\<open>g_skale\<close>: the wallet is made from the node's key name, then the client.\<close>

definition g_skale :: "('d, 'f) env \<Rightarrow> ('d, 'f) web_api \<Rightarrow> ('d, 'f, 'a) wact \<Rightarrow> ('d, 'f, 'a) wact" where
  "g_skale e a func =
     act_then (act_drop (act_res (NodeConfig_sgx_key_name e))) (act_then (init_skale a) func)"

definition g_web3 :: "('d, 'f) web_api \<Rightarrow> ('d, 'f, 'a) wact \<Rightarrow> ('d, 'f, 'a) wact" where
  "g_web3 a func = act_then (init_web3 (web3 a)) func"

section \<open>The speed of the endpoint\<close>

text \<open>\<^verbatim>\<open>round\<close> to the nearest integer, ties to the even one, of the exact quotient.\<close>

definition round_div :: "int \<Rightarrow> int \<Rightarrow> int" where
  "round_div x y =
     (let q = x div y; r = x mod y in if 2 * r < y \<or> (2 * r = y \<and> even q) then q else q + 1)"

text \<open>The times of the calls that answered with a price.\<close>

fun call_scores :: "('d, 'f) web3_calls \<Rightarrow> nat \<Rightarrow> ('d, 'f, int list) wact" where
  "call_scores c 0 = act_return []"
| "call_scores c (Suc k) =
     act_bind (fine_time c) (\<lambda>start.
     act_bind (gas_price c) (\<lambda>result.
     act_bind (if result \<noteq> 0 then act_bind (fine_time c) (\<lambda>now. act_return [now - start])
               else act_return []) (\<lambda>score.
     act_bind (call_scores c k) (\<lambda>scores. act_return (score @ scores)))))"

text \<open>The mean of the scores in hundredths of a second, None without a score.\<close>

definition call_avg_speed :: "int list \<Rightarrow> int option" where
  "call_avg_speed scores =
     (if scores = [] then None
      else Some (round_div (sum_list scores) (int (length scores) * 10 ^ 7)))"

definition get_endpoint_call_speed :: "('d, 'f) web3_calls \<Rightarrow> ('d, 'f, int option) wact" where
  "get_endpoint_call_speed c =
     act_bind (call_scores c 10) (\<lambda>scores. act_return (call_avg_speed scores))"

lemma round_div_near:
  assumes "0 < y"
  shows "\<bar>2 * (y * round_div x y - x)\<bar> \<le> y"
proof -
  define q r where "q = x div y" and "r = x mod y"
  have x: "x = y * q + r" by (simp add: q_def r_def)
  have "0 \<le> r" "r < y" using assms by (simp_all add: r_def)
  moreover have "round_div x y \<in> {q, q + 1}" "round_div x y = q \<Longrightarrow> 2 * r \<le> y"
    "round_div x y = q + 1 \<Longrightarrow> y \<le> 2 * r"
    by (auto simp: round_div_def Let_def q_def r_def split: if_splits)
  ultimately show ?thesis by (auto simp: x algebra_simps)
qed

section \<open>Containers in print\<close>

definition format_container :: "json \<Rightarrow> json res" where
  "format_container attrs =
     res_bind (json_path attrs [''Config'', ''Image'']) (\<lambda>img.
     res_bind (res_bind (json_item attrs ''Name'') json_str) (\<lambda>nm.
     res_bind (json_item attrs ''State'') (\<lambda>state.
     res_bind (json_path attrs [''HostConfig'', ''CpuShares'']) (\<lambda>cpu.
     res_bind (json_path attrs [''HostConfig'', ''Memory'']) (\<lambda>memory.
     res_bind (json_path attrs [''HostConfig'', ''MemorySwap'']) (\<lambda>swap.
     res_bind (json_path attrs [''HostConfig'', ''MemorySwappiness'']) (\<lambda>swappiness.
     Inr (JObj [(''image'', img), (''name'', JStr (filter (\<lambda>c. c \<noteq> CHR ''/'') nm)),
                (''state'', state), (''cpu_shares'', cpu), (''mem_limit'', memory),
                (''swap_limit'', swap), (''swappiness'', swappiness)]))))))))"

definition format_containers :: "('d, 'f) web_api \<Rightarrow> container list \<Rightarrow> json list res" where
  "format_containers a containers = res_map (\<lambda>c. format_container (container_attrs a c)) containers"

section \<open>Health of the IMA agents\<close>

definition get_ima_container_statuses ::
  "('d, 'f) env \<Rightarrow> ('d, 'f) web_api \<Rightarrow> ('d, 'f) world \<Rightarrow> (json \<times> json) list res" where
  "get_ima_container_statuses e a w =
     res_bind (format_containers a (get_all_ima_containers (docker e) True (daemon w)))
       (res_map (\<lambda>c. res_bind (json_item c ''name'') (\<lambda>nm.
                     res_bind (json_path c [''state'', ''Status'']) (\<lambda>st. Inr (nm, st)))))"

definition get_ima_monitoring_port ::
  "('d, 'f) env \<Rightarrow> string \<Rightarrow> ('d, 'f) world \<Rightarrow> int option res" where
  "get_ima_monitoring_port e n w =
     res_bind (skaled_config e n w) (\<lambda>conf.
       case conf of
         None \<Rightarrow> Inr None
       | Some j \<Rightarrow>
           if truthy j
           then res_bind (json_path j [''skaleConfig'', ''nodeInfo'', ''imaMonitoringPort''])
                  (\<lambda>p. res_bind (json_int p) (\<lambda>i. Inr (Some i)))
           else Inr None)"

definition request_ima_healthcheck ::
  "('d, 'f) web_api \<Rightarrow> string \<Rightarrow> ('d, 'f, (json \<times> json) option) wact" where
  "request_ima_healthcheck a endpoint =
     act_bind (ws_request a endpoint
       (''{ '' @ [CHR 0x22] @ ''id'' @ [CHR 0x22] @ '': 1, '' @ [CHR 0x22] @ ''method'' @ [CHR 0x22] @
        '': '' @ [CHR 0x22] @ ''get_last_transfer_errors'' @ [CHR 0x22] @ ''}''))
       (\<lambda>answer. case answer of
          None \<Rightarrow> act_return None
        | Some data_json \<Rightarrow>
            act_res (\<lambda>_. res_bind (json_item data_json ''last_transfer_errors'') (\<lambda>errors.
              res_bind (json_item data_json ''last_error_categories'') (\<lambda>categories.
              Inr (Some (errors, categories))))))"

fun is_key_error :: "exn \<Rightarrow> bool" where
  "is_key_error (KeyError _) = True"
| "is_key_error _ = False"

definition ima_entry :: "string \<Rightarrow> string option \<Rightarrow> json \<Rightarrow> json \<Rightarrow> json" where
  "ima_entry n error_text errors categories =
     JObj [(n, JObj
       [(''error'', case error_text of None \<Rightarrow> JNull | Some s \<Rightarrow> JStr s),
        (''last_ima_errors'', errors), (''error_categories'', categories)])]"

text \<open>One chain of the loop: None where it continues without an entry. Only a KeyError is
  caught around the port, anything around the request.\<close>

definition ima_log_check ::
  "('d, 'f) env \<Rightarrow> ('d, 'f) web_api \<Rightarrow> (json \<times> json) list \<Rightarrow> string \<Rightarrow> ('d, 'f, json option) wact" where
  "ima_log_check e a ima_containers n =
     (let failed = (\<lambda>t. act_return (Some (ima_entry n (Some t) (JList []) (JList []))))
      in case find (\<lambda>c. fst c = JStr (''skale_ima_'' @ n)) ima_containers of
           None \<Rightarrow> act_return None
         | Some cont_data \<Rightarrow>
             if snd cont_data \<noteq> JStr ''running'' then failed ''IMA docker container is not running''
             else act_bind
               (act_except (act_bind (act_res (get_ima_monitoring_port e n)) (\<lambda>p. act_return (Inr p)))
                 is_key_error (\<lambda>err. act_return (Inl err)))
               (\<lambda>ima_port. case ima_port of
                  Inl err \<Rightarrow> failed (exn_repr a err)
                | Inr None \<Rightarrow> act_return None
                | Inr (Some p) \<Rightarrow> act_bind
                    (act_try (act_bind (request_ima_healthcheck a (''ws://localhost:'' @ str_of_int p))
                        (\<lambda>h. act_return (Inr h)))
                      (\<lambda>err. act_return (Inl err)))
                    (\<lambda>healthcheck. case healthcheck of
                       Inl err \<Rightarrow> failed (exn_repr a err)
                     | Inr None \<Rightarrow> failed ''Request failed''
                     | Inr (Some (errors, categories)) \<Rightarrow>
                         act_return (Some (ima_entry n None errors categories)))))"

fun act_map :: "('a \<Rightarrow> ('s, 'b) act) \<Rightarrow> 'a list \<Rightarrow> ('s, 'b list) act" where
  "act_map f [] = act_return []"
| "act_map f (x # xs) = act_bind (f x) (\<lambda>y. act_bind (act_map f xs) (\<lambda>ys. act_return (y # ys)))"

definition get_ima_log_checks :: "('d, 'f) env \<Rightarrow> ('d, 'f) web_api \<Rightarrow> ('d, 'f, json) wact" where
  "get_ima_log_checks e a =
     act_bind (act_res (get_ima_container_statuses e a)) (\<lambda>ima_containers.
     act_bind (act_gets (\<lambda>w. listdir_all w (SCHAINS_DIR_PATH e))) (\<lambda>ns.
     act_bind (act_map (ima_log_check e a ima_containers) ns) (\<lambda>found.
     act_return (JList (List.map_filter id found)))))"

section \<open>A chain in print\<close>

record schain_data =
  sd_name :: string
  sd_schain_id :: string
  sd_mainnet_owner :: string
  sd_part_of_node :: int
  sd_dkg_status :: int
  sd_is_deleted :: bool
  sd_first_run :: bool
  sd_repair_mode :: bool

definition SchainData_to_dict :: "schain_data \<Rightarrow> json" where
  "SchainData_to_dict s =
     JObj [(''name'', JStr (sd_name s)), (''id'', JStr (sd_schain_id s)),
           (''mainnet_owner'', JStr (sd_mainnet_owner s)),
           (''part_of_node'', JInt (sd_part_of_node s)), (''dkg_status'', JInt (sd_dkg_status s)),
           (''is_deleted'', JBool (sd_is_deleted s)), (''first_run'', JBool (sd_first_run s)),
           (''repair_mode'', JBool (sd_repair_mode s))]"

definition get_schain_info_by_name ::
  "('d, 'f) web_api \<Rightarrow> string \<Rightarrow> ('d, 'f) world \<Rightarrow> schain_data option res" where
  "get_schain_info_by_name a n w =
     (let sid = schain_name_to_id a n
      in res_bind (get_schain (answers a) sid) (\<lambda>contracts_info.
         if added (db w) n
         then res_bind (get_by_name (db w) n) (\<lambda>rec.
           Inr (Some \<lparr>sd_name = n, sd_schain_id = sid, sd_mainnet_owner = mainnet_owner contracts_info,
             sd_part_of_node = part_of_node contracts_info, sd_dkg_status = dkg_status rec,
             sd_is_deleted = is_deleted rec, sd_first_run = first_run rec,
             sd_repair_mode = repair_mode rec\<rparr>))
         else Inr None))"

definition get_skaled_version :: "('d, 'f) env \<Rightarrow> json res" where
  "get_skaled_version e = json_path (containers_info e) [''schain'', ''version'']"

definition get_ima_version_after_migration :: "('d, 'f) env \<Rightarrow> json res" where
  "get_ima_version_after_migration e =
     res_bind (json_item (containers_info e) ''ima'') (\<lambda>ima.
     res_bind (json_get ima ''new_version'' JNull) (\<lambda>v.
       if truthy v then Inr v else json_item ima ''version''))"

end
