(* ===== verification/Web_Routes.thy ===== *)
theory Web_Routes
  imports Web_Helper
begin

text \<open>
  The routes of the web API (\<^verbatim>\<open>web/routes\<close>) and how a request reaches one (\<^verbatim>\<open>app.py\<close>). A route
  is a statement over the node that takes the request and gives an answer or raises; a request
  never raises: what a route raises becomes an answer with status 500. A field of a body that is
  used as a string raises a TypeError when it is another value. The thread that \<^verbatim>\<open>exit/start\<close>
  starts is run to its end here; what it raises is logged.
\<close>

type_synonym ('d, 'f) route = "request \<Rightarrow> ('d, 'f, answer) wact"

definition rq_arg :: "request \<Rightarrow> string \<Rightarrow> string option" where
  "rq_arg rq k = map_of (rq_args rq) k"

definition body_get :: "request \<Rightarrow> string \<Rightarrow> ('d, 'f, json) wact" where
  "body_get rq k = act_res (\<lambda>_. json_get (rq_json rq) k JNull)"

definition as_str :: "json \<Rightarrow> ('d, 'f, string) wact" where
  "as_str j = act_res (\<lambda>_. json_str j)"

section \<open>node\<close>

definition node_info_route :: "('d, 'f) env \<Rightarrow> ('d, 'f) web_api \<Rightarrow> ('d, 'f) route" where
  "node_info_route e a rq =
     g_skale e a (act_bind (node_info_property e (node_calls a)) (\<lambda>info.
       act_return (ok_answer (JObj [(''node_info'', info)]))))"

definition register_route :: "('d, 'f) env \<Rightarrow> ('d, 'f) web_api \<Rightarrow> ('d, 'f) route" where
  "register_route e a rq =
     g_skale e a
       (if \<not> truthy (rq_json rq) then act_return (Aborted 400)
        else act_bind (body_get rq ''ip'') (\<lambda>ip.
        act_bind (body_get rq ''public_ip'') (\<lambda>pip.
        act_bind (body_get rq ''port'') (\<lambda>port.
        act_bind (body_get rq ''name'') (\<lambda>nm.
        act_bind (body_get rq ''domain_name'') (\<lambda>domain.
        let pip' = (if \<not> truthy pip then ip else pip)
        in act_bind (as_str ip) (\<lambda>ip_s. act_bind (as_str pip') (\<lambda>pip_s.
           act_bind (as_str nm) (\<lambda>nm_s. act_bind (as_str domain) (\<lambda>domain_s.
           act_bind (node_register e (node_calls a) ip_s pip_s port nm_s domain_s) (\<lambda>res.
           if \<not> is_ok res
           then act_bind (act_res (\<lambda>_. json_item res ''errors'')) (\<lambda>errors.
                act_return (construct_err_response (Some errors) INTERNAL_SERVER_ERROR))
           else act_bind (act_res (\<lambda>_. json_item res ''data'')) (\<lambda>data.
                act_return (ok_answer (JObj [(''node_data'', data)]))))))))))))))"

definition signature_route :: "('d, 'f) env \<Rightarrow> ('d, 'f) web_api \<Rightarrow> ('d, 'f) route" where
  "signature_route e a rq =
     g_skale e a
       (act_bind (act_res (\<lambda>_. case rq_arg rq ''validator_id'' of
            None \<Rightarrow> Inl (TypeError ''int'') | Some s \<Rightarrow> int_of_str s)) (\<lambda>validator_id.
        act_bind (link_node_signature a validator_id) (\<lambda>signature.
        act_return (ok_answer (JObj [(''signature'', JStr signature)])))))"

text \<open>The answer to an operation of the node: its errors, or an empty payload.\<close>

definition node_result :: "json \<Rightarrow> ('d, 'f, answer) wact" where
  "node_result res =
     (if \<not> is_ok res
      then act_bind (act_res (\<lambda>_. json_item res ''errors'')) (\<lambda>errors.
           act_return (construct_err_response (Some errors) BAD_REQUEST))
      else act_return (construct_ok_response None))"

definition set_node_maintenance_on_route :: "('d, 'f) env \<Rightarrow> ('d, 'f) web_api \<Rightarrow> ('d, 'f) route" where
  "set_node_maintenance_on_route e a rq =
     g_skale e a (act_bind (set_maintenance_on e (node_calls a)) node_result)"

definition set_node_maintenance_off_route :: "('d, 'f) env \<Rightarrow> ('d, 'f) web_api \<Rightarrow> ('d, 'f) route" where
  "set_node_maintenance_off_route e a rq =
     g_skale e a (act_bind (set_maintenance_off e (node_calls a)) node_result)"

definition set_domain_name_route :: "('d, 'f) env \<Rightarrow> ('d, 'f) web_api \<Rightarrow> ('d, 'f) route" where
  "set_domain_name_route e a rq =
     g_skale e a
       (act_bind (act_res (\<lambda>_. json_item (rq_json rq) ''domain_name'')) (\<lambda>domain.
        act_bind (as_str domain) (\<lambda>domain_s.
        act_bind (set_domain_name e (node_calls a) domain_s) node_result)))"

text \<open>The error answer built after a failure is dropped: the route reports success.\<close>

definition send_tg_notification_route :: "('d, 'f) web_api \<Rightarrow> ('d, 'f) route" where
  "send_tg_notification_route a rq =
     act_bind (body_get rq ''message'') (\<lambda>message.
     if \<not> truthy message then act_return (bad_answer ''Message is empty'')
     else if \<not> tg_notifications_enabled (telegram a)
     then act_return (bad_answer ''TG_API_KEY or TG_CHAT_ID not found'')
     else act_then
       (act_try
         (act_bind (act_res (\<lambda>_. case message of
              JList xs \<Rightarrow> res_map json_str xs | _ \<Rightarrow> Inl (AttributeError ''extend'')))
           (send_message (telegram a)))
         (\<lambda>_. act_return ()))
       (act_return (ok_answer (JStr ''Message was sent successfully''))))"

definition exit_start_route :: "('d, 'f) env \<Rightarrow> ('d, 'f) web_api \<Rightarrow> ('d, 'f) route" where
  "exit_start_route e a rq =
     g_skale e a
       (act_bind (config_node_id e) (\<lambda>i.
        act_bind (nodes_get_status (node_calls a) i) (\<lambda>status.
        if status = NodeStatus_value NS_IN_MAINTENANCE then act_return (bad_answer ''Node is in maintenance'')
        else act_then (act_try (node_exit e (node_calls a) (answers a)) (\<lambda>_. act_return ()))
               (act_return (construct_ok_response None)))))"

definition exit_status_route :: "('d, 'f) env \<Rightarrow> ('d, 'f) web_api \<Rightarrow> ('d, 'f) route" where
  "exit_status_route e a rq =
     g_skale e a (act_bind (get_exit_status e (node_calls a) (answers a)) (\<lambda>exit_status_data.
       act_return (ok_answer exit_status_data)))"

definition get_node_hardware_info :: "('d, 'f) web_api \<Rightarrow> json res" where
  "get_node_hardware_info a =
     (let h = hardware_info a
      in res_bind (get_block_device_size (block_device_answer a)) (\<lambda>attached_storage_size.
         Inr (JObj
           [(''cpu_total_cores'', cpu_total_cores h), (''cpu_physical_cores'', cpu_physical_cores h),
            (''memory'', memory_total h), (''swap'', swap_total h), (''mem_used'', memory_used h),
            (''mem_available'', memory_available h), (''system_release'', JStr (system_release h)),
            (''uname_version'', JStr (uname_version h)),
            (''attached_storage_size'', attached_storage_size)])))"

definition hardware_route :: "('d, 'f) web_api \<Rightarrow> ('d, 'f) route" where
  "hardware_route a rq =
     act_bind (act_res (\<lambda>_. get_node_hardware_info a)) (\<lambda>info. act_return (ok_answer info))"

definition meta_info_route :: "('d, 'f) env \<Rightarrow> ('d, 'f) route" where
  "meta_info_route e rq =
     act_bind (act_res (get_meta_info e)) (\<lambda>version_data. act_return (ok_answer version_data))"

definition btrfs_info_route :: "('d, 'f) web_api \<Rightarrow> ('d, 'f) route" where
  "btrfs_info_route a rq = act_return (ok_answer (get_btrfs_info (lsmod a)))"

definition GET_IP_ATTEMPTS :: nat where "GET_IP_ATTEMPTS = 5"

fun public_ip_loop :: "('d, 'f) web_api \<Rightarrow> nat \<Rightarrow> ('d, 'f, answer) wact" where
  "public_ip_loop a 0 = act_return (bad_answer ''Public ip request failed'')"
| "public_ip_loop a (Suc k) =
     act_try
       (act_bind (ipify a) (\<lambda>response.
        act_bind (act_res (\<lambda>_. json_item response ''ip'')) (\<lambda>ip.
        act_return (ok_answer (JObj [(''public_ip'', ip)])))))
       (\<lambda>_. act_then (time_sleep 1) (public_ip_loop a k))"

definition public_ip_route :: "('d, 'f) web_api \<Rightarrow> ('d, 'f) route" where
  "public_ip_route a rq = public_ip_loop a GET_IP_ATTEMPTS"

text \<open>An exception object among the errors cannot be written as JSON.\<close>

definition validator_nodes_route :: "('d, 'f) env \<Rightarrow> ('d, 'f) web_api \<Rightarrow> ('d, 'f) route" where
  "validator_nodes_route e a rq =
     g_skale e a
       (act_bind (act_res (NodeConfig_id e)) (\<lambda>cid.
        if cid = JNull then act_return (ok_answer (JList []))
        else act_bind (config_node_id e) (\<lambda>i.
             act_bind (check_validator_nodes (node_calls a) i) (\<lambda>res. case res of
               Inl err \<Rightarrow> act_raise (TypeError ''not JSON serializable'')
             | Inr data \<Rightarrow> act_return (ok_answer (JList
                 (map (\<lambda>(i, ip, op). JList [JInt i, JStr ip, JBool op]) data)))))))"

definition get_abi_hash :: "('d, 'f) web_api \<Rightarrow> path \<Rightarrow> ('d, 'f) world \<Rightarrow> json res" where
  "get_abi_hash a p w =
     (case tab_get (files w) p of
        None \<Rightarrow> Inl (FileNotFoundError (snd p))
      | Some content \<Rightarrow> Inr (JStr (sha256 a content)))"

definition sm_abi_route :: "('d, 'f) web_api \<Rightarrow> ('d, 'f) route" where
  "sm_abi_route a rq = act_bind (act_res (get_abi_hash a (ABI_FILEPATH a))) (\<lambda>h. act_return (ok_answer h))"

definition ima_abi_route :: "('d, 'f) web_api \<Rightarrow> ('d, 'f) route" where
  "ima_abi_route a rq =
     act_bind (act_res (get_abi_hash a (MAINNET_IMA_ABI_FILEPATH a))) (\<lambda>h. act_return (ok_answer h))"

definition update_safe_route :: "('d, 'f) env \<Rightarrow> ('d, 'f) web_api \<Rightarrow> ('d, 'f) route" where
  "update_safe_route e a rq =
     g_skale e a
       (act_bind (act_res (\<lambda>w. update_unsafe_for_schains e (answers a) w)) (\<lambda>unsafe_chains.
        act_return (ok_answer (JObj
          [(''update_safe'', JBool (unsafe_chains = [])),
           (''unsafe_chains'', JList (map JStr unsafe_chains))]))))"

definition UNTRUSTED_PROVIDERS :: "string list" where
  "UNTRUSTED_PROVIDERS = [''infura.io'', ''gateway.pokt.network'']"

definition trusted_endpoint :: "('d, 'f) env \<Rightarrow> bool" where
  "trusted_endpoint e = (\<not> list_ex (\<lambda>untrusted. str_contains (ENDPOINT e) untrusted) UNTRUSTED_PROVIDERS)"

text \<open>The client's version and whether it syncs are asked for in tries of their own.\<close>

definition endpoint_info_route :: "('d, 'f) env \<Rightarrow> ('d, 'f) web_api \<Rightarrow> ('d, 'f) route" where
  "endpoint_info_route e a rq =
     g_web3 a
       (act_bind (get_endpoint_call_speed (web3 a)) (\<lambda>call_speed.
        act_bind (block_number (web3 a)) (\<lambda>block.
        act_bind (act_try (client_version (web3 a)) (\<lambda>_. act_return ''unknown'')) (\<lambda>eth_client_version.
        act_bind
          (act_try
            (act_bind (eth_syncing (web3 a)) (\<lambda>syncing.
             act_return (if syncing \<noteq> JBool False then JBool True else syncing)))
            (\<lambda>_. act_return JNull)) (\<lambda>syncing.
        let geth_client = str_contains eth_client_version ''Geth''
        in act_return (ok_answer (JObj
             [(''block_number'', JInt block),
              (''trusted'', JBool (trusted_endpoint e \<and> geth_client)),
              (''client'', JStr eth_client_version),
              (''call_speed'', case call_speed of None \<Rightarrow> JNull | Some s \<Rightarrow> hundredths (web3 a) s),
              (''syncing'', syncing)])))))))"

section \<open>health\<close>

definition containers_route :: "('d, 'f) env \<Rightarrow> ('d, 'f) web_api \<Rightarrow> ('d, 'f) route" where
  "containers_route e a rq =
     (let all = (rq_arg rq ''all'' = Some ''True'');
          name_filter = (case rq_arg rq ''name_filter'' of None \<Rightarrow> [] | Some s \<Rightarrow> s)
      in act_bind (act_res (\<lambda>w. format_containers a
             (get_containers_info (docker e) all name_filter (daemon w)))) (\<lambda>containers_list.
         act_return (ok_answer (JList containers_list))))"

definition no_node :: answer where
  "no_node = bad_answer ''No node installed''"

definition health_state :: "contracts \<Rightarrow> external_state" where
  "health_state k =
     \<lparr>es_chain_id = JInt (mainnet_chain_id k), es_ranges = [], es_ima_linked = JBool True,
      es_reload_ts = JNull\<rparr>"

definition schain_health ::
  "('d, 'f) env \<Rightarrow> ('d, 'f) web_api \<Rightarrow> ip_range list \<Rightarrow> string \<Rightarrow> string list \<Rightarrow> string \<Rightarrow>
   ('d, 'f, json option) wact" where
  "schain_health e a ranges stream_version needed n =
     act_bind (act_res (\<lambda>_. get_rotation (answers a) n)) (\<lambda>rotation.
     act_bind (act_gets (\<lambda>w. added (db w) n)) (\<lambda>known.
     if \<not> known then act_return None
     else act_bind (act_res (\<lambda>_. contract_current_nodes (answers a) n)) (\<lambda>current_nodes.
     act_bind (act_res (\<lambda>w. get_by_name (db w) n)) (\<lambda>rec.
     let rc = get_default_rule_controller (ports_allocation a) (ports_of_schain a) n None None []
                (Some ranges);
         checks = SChainChecks n rec stream_version current_nodes True (rotation_id rotation) False
     in act_bind (with_mstate rc (health_state (answers a))
          (schain_checks_get_all e (fst checks) (snd checks) False needed))
          (\<lambda>st. act_return (Some (JObj
             [(''name'', JStr n), (''healthchecks'', JObj (map (\<lambda>(k, b). (k, JBool b)) st))])))))))"

definition schains_checks_route :: "('d, 'f) env \<Rightarrow> ('d, 'f) web_api \<Rightarrow> ('d, 'f) route" where
  "schains_checks_route e a rq =
     g_skale e a
       (let needed = (case rq_arg rq ''checks_filter'' of
             None \<Rightarrow> [] | Some s \<Rightarrow> if s = [] then [] else split_on CHR '','' s)
        in act_bind (act_res (NodeConfig_id e)) (\<lambda>cid.
        if cid = JNull then act_return no_node
        else act_bind (config_node_id e) (\<lambda>node_id.
        act_bind (act_res (\<lambda>_. get_schains_for_node (answers a) node_id)) (\<lambda>schains.
        act_bind (act_res (get_skale_node_version e)) (\<lambda>version.
        act_bind (as_str version) (\<lambda>stream_version.
        let ns = filter (\<lambda>n. n \<noteq> []) (map sch_name schains)
        in act_bind (act_map (schain_health e a (contract_sync_agent_ranges (answers a))
               stream_version needed) ns) (\<lambda>found.
           act_return (ok_answer (JList (List.map_filter id found))))))))))"

definition ima_log_checks_route :: "('d, 'f) env \<Rightarrow> ('d, 'f) web_api \<Rightarrow> ('d, 'f) route" where
  "ima_log_checks_route e a rq =
     act_bind (act_res (NodeConfig_id e)) (\<lambda>cid.
     if cid = JNull then act_return no_node
     else act_bind (get_ima_log_checks e a) (\<lambda>checks. act_return (ok_answer checks)))"

text \<open>The server's status and version over ZMQ, then over HTTPS; a failing call leaves what was
  found before it.\<close>

definition sgx_zmq_probe :: "('d, 'f) web_api \<Rightarrow> ('d, 'f, bool \<times> string option) wact" where
  "sgx_zmq_probe a =
     act_try
       (act_bind (sgx_server_status a True) (\<lambda>st.
        act_try (act_bind (sgx_server_version a True) (\<lambda>v. act_return (st = 0, Some v)))
          (\<lambda>_. act_return (st = 0, None))))
       (\<lambda>_. act_return (False, None))"

definition sgx_https_probe ::
  "('d, 'f) web_api \<Rightarrow> string option \<Rightarrow> ('d, 'f, bool \<times> string option) wact" where
  "sgx_https_probe a version =
     act_try
       (act_bind (sgx_server_status a False) (\<lambda>st.
        if version \<noteq> None then act_return (st = 0, version)
        else act_try (act_bind (sgx_server_version a False) (\<lambda>v. act_return (st = 0, Some v)))
          (\<lambda>_. act_return (st = 0, None))))
       (\<lambda>_. act_return (False, version))"

definition sgx_info_route :: "('d, 'f) env \<Rightarrow> ('d, 'f) web_api \<Rightarrow> ('d, 'f) route" where
  "sgx_info_route e a rq =
     act_then (sgx_client a True)
     (act_bind (sgx_zmq_probe a) (\<lambda>(status_zmq, zmq_version).
      act_then (sgx_client a False)
     (act_bind (sgx_https_probe a zmq_version) (\<lambda>(status_https, version).
      act_bind (act_res (NodeConfig_sgx_key_name e)) (\<lambda>key_name.
      act_return (ok_answer (JObj
        [(''status_zmq'', JBool status_zmq), (''status_https'', JBool status_https),
         (''sgx_server_url'', JStr (SGX_SERVER_URL e)), (''sgx_keyname'', key_name),
         (''sgx_wallet_version'', case version of None \<Rightarrow> JNull | Some v \<Rightarrow> JStr v)])))))))"

definition check_report_route :: "('d, 'f) env \<Rightarrow> ('d, 'f) route" where
  "check_report_route e rq =
     act_bind (act_res (get_check_report e)) (\<lambda>report. act_return (ok_answer report))"

section \<open>schains\<close>

definition schain_statuses_route :: "('d, 'f) env \<Rightarrow> ('d, 'f) route" where
  "schain_statuses_route e rq =
     act_bind (act_res (NodeConfig_id e)) (\<lambda>cid.
     if cid = JNull then act_return no_node
     else act_bind (act_gets (get_schains_on_node e)) (\<lambda>schains_on_node.
     act_bind (act_res (\<lambda>w. res_map (\<lambda>n.
         res_bind (status_all (init_skaled_status e n) w) (\<lambda>st. Inr (n, st))) schains_on_node))
       (\<lambda>statuses. act_return (ok_answer (JObj statuses)))))"

definition schain_config_route :: "('d, 'f) env \<Rightarrow> ('d, 'f) route" where
  "schain_config_route e rq =
     (let n = (case rq_arg rq ''schain_name'' of None \<Rightarrow> [] | Some s \<Rightarrow> s)
      in if n = [] then act_return (construct_key_error_response [''schain_name''])
         else act_bind (act_res (skaled_config e n)) (\<lambda>config. case config of
           None \<Rightarrow> act_return (bad_answer (''sChain config not found: '' @ n))
         | Some j \<Rightarrow> act_bind (act_res (\<lambda>_. json_item j ''skaleConfig'')) (\<lambda>skale_config.
             act_return (ok_answer skale_config))))"

definition dkg_statuses_route :: "('d, 'f) env \<Rightarrow> ('d, 'f) route" where
  "dkg_statuses_route e rq =
     act_bind (act_res (\<lambda>w. get_schains_statuses (tz_offset e) (rq_arg rq ''all'' = Some ''True'') (db w)))
       (\<lambda>statuses. act_return (ok_answer (JList statuses)))"

definition rule_asdict :: "schain_rule \<Rightarrow> json" where
  "rule_asdict r =
     (let opt = (\<lambda>ip. case ip of None \<Rightarrow> JNull | Some s \<Rightarrow> JStr s)
      in JObj [(''port'', JInt (r_port r)), (''first_ip'', opt (r_first_ip r)),
               (''last_ip'', opt (r_last_ip r))])"

text \<open>The test for the configuration names the method without calling it, so that it never
  refuses. The name missing in the request is \<^verbatim>\<open>None\<close>.\<close>

definition firewall_rules_route :: "('d, 'f) env \<Rightarrow> ('d, 'f) web_api \<Rightarrow> ('d, 'f) route" where
  "firewall_rules_route e a rq =
     g_skale e a
       (act_bind (act_res (\<lambda>_. case rq_arg rq ''schain_name'' of
            None \<Rightarrow> Inl (TypeError ''NoneType'') | Some n \<Rightarrow> Inr n)) (\<lambda>n.
        act_bind (act_res (skaled_config e n)) (\<lambda>conf.
        act_bind (act_res (\<lambda>_. get_base_port_from_config conf)) (\<lambda>bp.
        act_bind (act_res (\<lambda>_. get_node_ips_from_config conf)) (\<lambda>ips.
        act_bind (act_res (\<lambda>_. get_own_ip_from_config conf)) (\<lambda>own.
        let rc = get_default_rule_controller (ports_allocation a) (ports_of_schain a) n
                   (Some bp) own ips (Some (contract_sync_agent_ranges (answers a)))
        in act_bind (act_res (\<lambda>w. actual_rules (IptablesController (iptc e)) rc (netfilter w)))
             (\<lambda>(rules, _). act_return (ok_answer (JObj
                [(''endpoints'', JList (map rule_asdict rules))])))))))))"

definition get_schain_route :: "('d, 'f) env \<Rightarrow> ('d, 'f) web_api \<Rightarrow> ('d, 'f) route" where
  "get_schain_route e a rq =
     g_skale e a
       (act_bind (act_res (\<lambda>_. case rq_arg rq ''schain_name'' of
            None \<Rightarrow> Inl (TypeError ''NoneType'') | Some n \<Rightarrow> Inr n)) (\<lambda>n.
        act_bind (act_res (get_schain_info_by_name a n)) (\<lambda>info. case info of
          None \<Rightarrow> act_return (bad_answer (''No schain with name '' @ n))
        | Some s \<Rightarrow> act_return (ok_answer (SchainData_to_dict s)))))"

definition schain_containers_versions_route :: "('d, 'f) env \<Rightarrow> ('d, 'f) route" where
  "schain_containers_versions_route e rq =
     act_bind (act_res (\<lambda>_. get_skaled_version e)) (\<lambda>skaled_version.
     act_bind (act_res (\<lambda>_. get_ima_version_after_migration e)) (\<lambda>ima_version.
     act_return (ok_answer (JObj [(''skaled_version'', skaled_version), (''ima_version'', ima_version)]))))"

text \<open>The chains are asked for their names as if they were dictionaries.\<close>

definition schains_list_route :: "('d, 'f) env \<Rightarrow> ('d, 'f) web_api \<Rightarrow> ('d, 'f) route" where
  "schains_list_route e a rq =
     g_skale e a
       (act_bind (act_res (NodeConfig_id e)) (\<lambda>cid.
        if cid = JNull then act_return no_node
        else act_bind (config_node_id e) (\<lambda>node_id.
        act_bind (act_res (\<lambda>_. get_schains_for_node (answers a) node_id)) (\<lambda>schains.
        act_bind (act_res (\<lambda>_. res_map (\<lambda>s. res_bind (schain_dict_get a s ''name'')
            (\<lambda>j. Inr (s, truthy j))) schains)) (\<lambda>named.
        act_bind (act_res (\<lambda>_. res_map (schain_json a) (map fst (filter snd named)))) (\<lambda>schains_list.
        act_return (ok_answer (JList schains_list))))))))"

section \<open>wallet\<close>

definition wallet_with_balance :: "('d, 'f) web_api \<Rightarrow> ('d, 'f, json) wact" where
  "wallet_with_balance a =
     act_bind (wallet_balance (node_calls a)) (\<lambda>eth_balance_wei.
     act_return (JObj
       [(''address'', JStr (na_to_checksum_address (node_calls a) (wallet_address (node_calls a)))),
        (''eth_balance_wei'', JInt eth_balance_wei), (''skale_balance_wei'', JInt 0),
        (''eth_balance'', JStr (from_wei (telegram a) eth_balance_wei)),
        (''skale_balance'', JStr ''0'')]))"

definition wallet_info_route :: "('d, 'f) env \<Rightarrow> ('d, 'f) web_api \<Rightarrow> ('d, 'f) route" where
  "wallet_info_route e a rq =
     g_skale e a (act_bind (wallet_with_balance a) (\<lambda>res. act_return (ok_answer res)))"

definition send_eth_route :: "('d, 'f) env \<Rightarrow> ('d, 'f) web_api \<Rightarrow> ('d, 'f) route" where
  "send_eth_route e a rq =
     g_skale e a
       (act_bind (body_get rq ''address'') (\<lambda>raw_address.
        act_bind (body_get rq ''amount'') (\<lambda>eth_amount.
        if \<not> truthy raw_address then act_return (bad_answer ''Address is empty'')
        else if \<not> truthy eth_amount then act_return (bad_answer ''Amount is empty'')
        else act_try
          (act_bind (as_str raw_address) (\<lambda>raw.
           act_then (send_eth_call a (na_to_checksum_address (node_calls a) raw) eth_amount)
             (act_return (construct_ok_response None))))
          (\<lambda>_. act_return (bad_answer ''Funds sending failed'')))))"

section \<open>ssl\<close>

definition SSL_KEY_NAME :: string where "SSL_KEY_NAME = ''ssl_key''"
definition SSL_CRT_NAME :: string where "SSL_CRT_NAME = ''ssl_cert''"

definition CERTS_UPLOADED_ERR_MSG :: string where
  "CERTS_UPLOADED_ERR_MSG = ''SSL Certificates are already uploaded''"

definition NO_REQUIRED_FILES_ERR_MSG :: string where
  "NO_REQUIRED_FILES_ERR_MSG = ''No required files added''"

definition CERTS_HAS_INVALID_FORMAT :: string where
  "CERTS_HAS_INVALID_FORMAT = ''Certificates have invalid format''"

definition cert_path :: "('d, 'f) env \<Rightarrow> path" where
  "cert_path e = (SSL_CERTIFICATES_FILEPATH e, SSL_CRT_NAME)"

definition key_path :: "('d, 'f) env \<Rightarrow> path" where
  "key_path e = (SSL_CERTIFICATES_FILEPATH e, SSL_KEY_NAME)"

definition cert_from_file :: "path \<Rightarrow> ('d, 'f) world \<Rightarrow> file_content option" where
  "cert_from_file cert_filepath w = tab_get (files w) cert_filepath"

definition save_cert_key_pair :: "('d, 'f) env \<Rightarrow> string \<Rightarrow> string \<Rightarrow> ('d, 'f, unit) wact" where
  "save_cert_key_pair e cert key =
     act_then (modify_files (tab_put (cert_path e) (Text cert)))
       (modify_files (tab_put (key_path e) (Text key)))"

text \<open>Subject and expiration as the library reads them, or its error.\<close>

definition get_cert_info :: "('d, 'f) web_api \<Rightarrow> file_content option \<Rightarrow> (string \<times> string) option" where
  "get_cert_info a cert = (case parse_cert a cert of Inl _ \<Rightarrow> None | Inr info \<Rightarrow> Some info)"

definition ssl_status_route :: "('d, 'f) env \<Rightarrow> ('d, 'f) web_api \<Rightarrow> ('d, 'f) route" where
  "ssl_status_route e a rq =
     (if is_ssl_folder_empty e then act_return (ok_answer (JObj [(''is_empty'', JBool True)]))
      else act_bind (act_gets (cert_from_file (cert_path e))) (\<lambda>cert.
        case get_cert_info a cert of
          None \<Rightarrow> act_return (bad_answer CERTS_HAS_INVALID_FORMAT)
        | Some (issued_to, expiration_date) \<Rightarrow> act_return (ok_answer (JObj
            [(''issued_to'', JStr issued_to), (''expiration_date'', JStr expiration_date)]))))"

text \<open>The folder's state is part of \<open>env\<close>: after the pair is saved the certificate's file is
  of this moment.\<close>

definition with_cert_saved :: "('d, 'f) env \<Rightarrow> int \<Rightarrow> ('d, 'f) env" where
  "with_cert_saved e now = e\<lparr>ssl_cert_mtime := Some now\<rparr>"

definition ssl_upload_route :: "('d, 'f) env \<Rightarrow> ('d, 'f) web_api \<Rightarrow> ('d, 'f) route" where
  "ssl_upload_route e a rq =
     act_bind (act_res (\<lambda>_. json_get (rq_form rq) ''force'' JNull)) (\<lambda>forced.
     if \<not> is_ssl_folder_empty e \<and> forced \<noteq> JBool True
     then act_return (bad_answer CERTS_UPLOADED_ERR_MSG)
     else case (map_of (rq_files rq) SSL_KEY_NAME, map_of (rq_files rq) SSL_CRT_NAME) of
       (Some key, Some cert) \<Rightarrow>
         if get_cert_info a (Some (Text cert)) = None
         then act_return (bad_answer CERTS_HAS_INVALID_FORMAT)
         else act_bind (act_gets clock) (\<lambda>now.
              act_then (save_cert_key_pair e cert key)
             (act_then (modify_db set_schains_need_reload)
             (act_then (reload_nginx (with_cert_saved e now) (node_calls a))
               (act_return (construct_ok_response None)))))
     | _ \<Rightarrow> act_return (bad_answer NO_REQUIRED_FILES_ERR_MSG))"

section \<open>From a request to its route\<close>

datatype http_method = GET | POST

definition routes ::
  "('d, 'f) env \<Rightarrow> ('d, 'f) web_api \<Rightarrow> (http_method \<times> string \<times> string \<times> ('d, 'f) route) list" where
  "routes e a =
     [(GET, ''node'', ''info'', node_info_route e a),
      (POST, ''node'', ''register'', register_route e a),
      (GET, ''node'', ''signature'', signature_route e a),
      (POST, ''node'', ''maintenance-on'', set_node_maintenance_on_route e a),
      (POST, ''node'', ''maintenance-off'', set_node_maintenance_off_route e a),
      (POST, ''node'', ''send-tg-notification'', send_tg_notification_route a),
      (POST, ''node'', ''exit/start'', exit_start_route e a),
      (GET, ''node'', ''exit/status'', exit_status_route e a),
      (POST, ''node'', ''set-domain-name'', set_domain_name_route e a),
      (GET, ''node'', ''hardware'', hardware_route a),
      (GET, ''node'', ''endpoint-info'', endpoint_info_route e a),
      (GET, ''node'', ''meta-info'', meta_info_route e),
      (GET, ''node'', ''btrfs-info'', btrfs_info_route a),
      (GET, ''node'', ''public-ip'', public_ip_route a),
      (GET, ''node'', ''validator-nodes'', validator_nodes_route e a),
      (GET, ''node'', ''sm-abi'', sm_abi_route a),
      (GET, ''node'', ''ima-abi'', ima_abi_route a),
      (GET, ''node'', ''update-safe'', update_safe_route e a),
      (GET, ''schains'', ''statuses'', schain_statuses_route e),
      (GET, ''schains'', ''config'', schain_config_route e),
      (GET, ''schains'', ''list'', schains_list_route e a),
      (GET, ''schains'', ''dkg-statuses'', dkg_statuses_route e),
      (GET, ''schains'', ''firewall-rules'', firewall_rules_route e a),
      (GET, ''schains'', ''get'', get_schain_route e a),
      (GET, ''schains'', ''container-versions'', schain_containers_versions_route e),
      (GET, ''wallet'', ''info'', wallet_info_route e a),
      (POST, ''wallet'', ''send-eth'', send_eth_route e a),
      (GET, ''ssl'', ''status'', ssl_status_route e a),
      (POST, ''ssl'', ''upload'', ssl_upload_route e a),
      (GET, ''health'', ''containers'', containers_route e a),
      (GET, ''health'', ''schains'', schains_checks_route e a),
      (GET, ''health'', ''ima'', ima_log_checks_route e a),
      (GET, ''health'', ''sgx'', sgx_info_route e a),
      (GET, ''health'', ''check-report'', check_report_route e)]"

text \<open>\<^verbatim>\<open>before_request\<close>; connecting to the database and to Docker changes neither. The lock of
  an initialising daemon is waited for before.\<close>

definition before_request :: "('d, 'f) env \<Rightarrow> ('d, 'f, unit) wact" where
  "before_request e = NodeConfig e"

definition any_error_handler :: "('d, 'f) web_api \<Rightarrow> answer" where
  "any_error_handler a =
     construct_err_response (Some (JStr (internal_error_text a))) INTERNAL_SERVER_ERROR"

definition dispatch ::
  "('d, 'f) env \<Rightarrow> ('d, 'f) web_api \<Rightarrow> http_method \<Rightarrow> string \<Rightarrow> ('d, 'f) route" where
  "dispatch e a m url rq =
     (let here = filter (\<lambda>(_, b, n, _). get_api_url b n = url) (routes e a)
      in case find (\<lambda>(m', _). m' = m) here of
           Some (_, _, _, route) \<Rightarrow> route rq
         | None \<Rightarrow> act_return (Aborted (if here = [] then 404 else 405)))"

definition handle_request ::
  "('d, 'f) env \<Rightarrow> ('d, 'f) web_api \<Rightarrow> http_method \<Rightarrow> string \<Rightarrow> request \<Rightarrow> ('d, 'f, answer) wact" where
  "handle_request e a m url rq =
     act_try (act_then (before_request e) (dispatch e a m url rq))
       (\<lambda>_. act_return (any_error_handler a))"

end
