(* ===== verification/Web_Safety.thy ===== *)
theory Web_Safety
  imports Web_Routes Skaled_Monitor
begin

text \<open>
  What requests do to the node. \<open>same_node\<close>: nothing but the clock differs from a given state,
  and the node's configuration file may have been made. The locale \<open>read_calls\<close> has the calls a
  GET route makes of third-party code, with the promise that they leave a predicate on the node
  alone; under it every GET route does. Then the upload of a certificate.
\<close>

lemma find_SomeD: "find Q xs = Some x \<Longrightarrow> x \<in> set xs \<and> Q x"
  by (auto simp: find_Some_iff in_set_conv_nth)

section \<open>Checks leave the node alone\<close>

definition on_node :: "(('d, 'f) world \<Rightarrow> bool) \<Rightarrow> ('d, 'f) mstate \<Rightarrow> bool" where
  "on_node P s = P (wld s)"

lemma keeps_act_map: "(\<And>x. keeps P (f x)) \<Longrightarrow> keeps P (act_map f xs)"
  by (induction xs) (auto intro!: keeps_intros)

lemma keeps_with_mstate:
  assumes "keeps (on_node P) m"
  shows "keeps P (with_mstate rc est m)"
proof (rule keepsI)
  fix w assume "P w"
  then have "on_node P \<lparr>wld = w, rctl = rc, estate = est, executed_blocks = []\<rparr>"
    by (simp add: on_node_def)
  from keepsD [where P = "on_node P", OF assms this] show "P (snd (with_mstate rc est m w))"
    by (auto simp: with_mstate_def on_node_def split: prod.split)
qed

lemma on_node_same: "(\<And>s. wld (snd (m s)) = wld s) \<Longrightarrow> keeps (on_node P) m"
  by (simp add: keeps_def on_node_def)

lemma on_node_in_world: "keeps (on_node P) (in_world q)"
  by (rule on_node_same) (simp add: act_simps)

lemma on_node_firewall: "keeps (on_node P) (check_firewall_rules e c)"
proof -
  have "keeps (on_node P) (check_is_rules_synced e)"
    by (rule on_node_same) (auto simp: check_is_rules_synced_def split: sum.split)
  moreover have "keeps (on_node P) (configure_from e n conf)" for n conf
    unfolding configure_from_def
    by (intro keeps_intros on_node_in_world) (simp_all add: on_node_def)
  ultimately show ?thesis
    unfolding check_firewall_rules_def by (intro keeps_intros on_node_in_world)
qed

lemma on_node_tables:
  "(n, chk) \<in> set (skaled_check_table e sc) \<Longrightarrow> keeps (on_node P) chk"
  "(n, chk) \<in> set (config_check_table e cc) \<Longrightarrow> keeps (on_node P) chk"
  by (auto simp: skaled_check_table_def config_check_table_def check_external_state_def
      intro: on_node_in_world on_node_firewall intro!: keeps_intros)

lemma on_node_run_check:
  assumes "\<And>n chk. (n, chk) \<in> set table \<Longrightarrow> keeps (on_node P) chk"
  shows "keeps (on_node P) (run_check table n st)"
proof (cases "map_of table n")
  case None
  then show ?thesis by (simp add: run_check_def keeps_pure)
next
  case (Some chk)
  then have k: "keeps (on_node P) chk" using assms by (blast dest: map_of_SomeD)
  show ?thesis
  proof (rule keepsI)
    fix s assume s: "on_node P s"
    obtain r s' where r: "chk s = (r, s')" by fastforce
    have s': "on_node P s'" by (rule keepsD_eq [OF k s r])
    have "on_node P (snd (act_bind chk (\<lambda>b. act_return (tab_put n b st)) s'))"
      by (rule keepsD [where P = "on_node P", OF _ s']) (intro keeps_intros k)
    with s' show "on_node P (snd (run_check table n st s))"
      by (simp add: run_check_def Some r split: sum.split exn.split)
  qed
qed

lemma on_node_checks:
  assumes "\<And>n chk. (n, chk) \<in> set table \<Longrightarrow> keeps (on_node P) chk"
  shows "keeps (on_node P) (checks_get_all table needed)"
proof -
  have "keeps (on_node P) (run_checks table ns st)" for ns st
    by (induction ns arbitrary: st) (auto intro!: keeps_intros on_node_run_check assms)
  then show ?thesis by (simp add: checks_get_all_def)
qed

lemma on_node_schain_checks: "keeps (on_node P) (schain_checks_get_all e cc sc False needed)"
  unfolding schain_checks_get_all_def Let_def act_when_def if_False
  by (intro keeps_intros on_node_checks on_node_tables)

section \<open>GET requests\<close>

definition same_node :: "('d, 'f) env \<Rightarrow> ('d, 'f) world \<Rightarrow> ('d, 'f) world \<Rightarrow> bool" where
  "same_node e w0 w \<longleftrightarrow>
     db w = db w0 \<and> dirs w = dirs w0 \<and> links w = links w0 \<and> daemon w = daemon w0 \<and>
     netfilter w = netfilter w0 \<and> pids w = pids w0 \<and> removed_logs w = removed_logs w0 \<and>
     (\<forall>p. p \<noteq> NODE_CONFIG_FILEPATH e \<longrightarrow> tab_get (files w) p = tab_get (files w0) p) \<and>
     (isfile (files w0) (NODE_CONFIG_FILEPATH e) \<longrightarrow> files w = files w0)"

lemma same_node_refl: "same_node e w w"
  by (simp add: same_node_def)

lemma same_node_clock: "same_node e w0 w \<Longrightarrow> same_node e w0 (w\<lparr>clock := t\<rparr>)"
  by (simp add: same_node_def)

lemma same_node_config: "keeps (same_node e w0) (before_request e)"
  by (auto simp: keeps_def before_request_def NodeConfig_def JsonObject_def init_file_def act_simps
      modify_files_def same_node_def write_json_def alist_simps)

definition quiet_calls :: "(('d, 'f) world \<Rightarrow> bool) \<Rightarrow> ('d, 'f) node_api \<Rightarrow> bool" where
  "quiet_calls P n \<longleftrightarrow>
     (\<forall>i. keeps P (nodes_get n i)) \<and> (\<forall>i. keeps P (nodes_get_status n i)) \<and>
     (\<forall>i. keeps P (nodes_get_finish_time n i)) \<and> (\<forall>i. keeps P (nodes_validator_indices n i)) \<and>
     (\<forall>i. keeps P (nodes_contract_ip n i)) \<and> keeps P (wallet_balance n) \<and>
     (\<forall>ip p. keeps P (socket_connect n ip p))"

definition quiet_web3 :: "(('d, 'f) world \<Rightarrow> bool) \<Rightarrow> ('d, 'f) web3_calls \<Rightarrow> bool" where
  "quiet_web3 P c \<longleftrightarrow>
     keeps P (init_web3 c) \<and> keeps P (gas_price c) \<and> keeps P (block_number c) \<and>
     keeps P (client_version c) \<and> keeps P (eth_syncing c) \<and> keeps P (fine_time c)"

definition quiet_api :: "(('d, 'f) world \<Rightarrow> bool) \<Rightarrow> ('d, 'f) web_api \<Rightarrow> bool" where
  "quiet_api P a \<longleftrightarrow>
     quiet_calls P (node_calls a) \<and> quiet_web3 P (web3 a) \<and> keeps P (init_skale a) \<and>
     (\<forall>i. keeps P (link_node_signature a i)) \<and> keeps P (ipify a) \<and>
     (\<forall>b. keeps P (sgx_client a b)) \<and> (\<forall>b. keeps P (sgx_server_status a b)) \<and>
     (\<forall>b. keeps P (sgx_server_version a b)) \<and> (\<forall>u m. keeps P (ws_request a u m))"

locale read_calls =
  fixes P :: "('d, 'f) world \<Rightarrow> bool" and a :: "('d, 'f) web_api"
  assumes quiet: "quiet_api P a"
    and clock: "P w \<Longrightarrow> P (w\<lparr>clock := t\<rparr>)"
begin

lemma calls:
  "keeps P (nodes_get (node_calls a) i)" "keeps P (nodes_get_status (node_calls a) i)"
  "keeps P (nodes_get_finish_time (node_calls a) i)" "keeps P (nodes_validator_indices (node_calls a) i)"
  "keeps P (nodes_contract_ip (node_calls a) i)" "keeps P (wallet_balance (node_calls a))"
  "keeps P (socket_connect (node_calls a) ip p)" "keeps P (init_skale a)"
  "keeps P (link_node_signature a i)" "keeps P (ipify a)" "keeps P (sgx_client a b)"
  "keeps P (sgx_server_status a b)" "keeps P (sgx_server_version a b)" "keeps P (ws_request a u m)"
  "keeps P (init_web3 (web3 a))" "keeps P (gas_price (web3 a))" "keeps P (block_number (web3 a))"
  "keeps P (client_version (web3 a))" "keeps P (eth_syncing (web3 a))" "keeps P (fine_time (web3 a))"
  using quiet by (simp_all add: quiet_api_def quiet_calls_def quiet_web3_def)

lemma sleep: "keeps P (time_sleep t)"
  by (simp add: keeps_def time_sleep_def act_simps clock)

lemma skale: "keeps P m \<Longrightarrow> keeps P (g_skale e a m)"
  unfolding g_skale_def by (intro keeps_intros calls)

lemma except: "keeps P m \<Longrightarrow> (\<And>x. keeps P (h x)) \<Longrightarrow> keeps P (act_except m p h)"
  by (auto simp: act_except_def intro!: keeps_intros)

lemma case_sum: "(\<And>x. keeps P (f x)) \<Longrightarrow> (\<And>y. keeps P (g y)) \<Longrightarrow> keeps P (case s of Inl x \<Rightarrow> f x | Inr y \<Rightarrow> g y)"
  by (cases s) simp_all

lemmas steps = keeps_intros calls sleep skale except case_sum keeps_act_map

lemma node_routes:
  "keeps P (node_info_route e a rq)" "keeps P (signature_route e a rq)"
  "keeps P (exit_status_route e a rq)" "keeps P (hardware_route a rq)"
  "keeps P (meta_info_route e rq)" "keeps P (btrfs_info_route a rq)"
  "keeps P (sm_abi_route a rq)" "keeps P (ima_abi_route a rq)" "keeps P (update_safe_route e a rq)"
  unfolding node_info_route_def node_info_property_def signature_route_def exit_status_route_def
    get_exit_status_def config_node_id_def hardware_route_def meta_info_route_def
    btrfs_info_route_def sm_abi_route_def ima_abi_route_def update_safe_route_def Let_def
  by (intro steps)+

lemma endpoint_info: "keeps P (endpoint_info_route e a rq)"
proof -
  have "keeps P (call_scores (web3 a) k)" for k
    by (induction k) (auto intro!: steps)
  then show ?thesis
    unfolding endpoint_info_route_def g_web3_def get_endpoint_call_speed_def Let_def
    by (intro steps)
qed

lemma public_ip: "keeps P (public_ip_route a rq)"
proof -
  have "keeps P (public_ip_loop a k)" for k
    by (induction k) (auto intro!: steps)
  then show ?thesis by (simp add: public_ip_route_def)
qed

lemma validator_nodes: "keeps P (validator_nodes_route e a rq)"
proof -
  have "keeps P (validator_nodes_loop (node_calls a) is found)" for "is" found
    by (induction "is" arbitrary: found) (auto simp: is_port_open_def Let_def intro!: steps)
  then show ?thesis
    unfolding validator_nodes_route_def check_validator_nodes_def config_node_id_def
    by (intro steps)
qed

lemma health_routes:
  "keeps P (containers_route e a rq)" "keeps P (sgx_info_route e a rq)"
  "keeps P (check_report_route e rq)" "keeps P (ima_log_checks_route e a rq)"
  "keeps P (schains_checks_route e a rq)"
  unfolding containers_route_def sgx_info_route_def sgx_zmq_probe_def sgx_https_probe_def
    check_report_route_def ima_log_checks_route_def get_ima_log_checks_def ima_log_check_def
    request_ima_healthcheck_def schains_checks_route_def schain_health_def config_node_id_def
    as_str_def Let_def
  by (intro steps keeps_with_mstate on_node_schain_checks)+

lemma schain_routes:
  "keeps P (schain_statuses_route e rq)" "keeps P (schain_config_route e rq)"
  "keeps P (dkg_statuses_route e rq)" "keeps P (firewall_rules_route e a rq)"
  "keeps P (schains_list_route e a rq)"
  "keeps P (get_schain_route e a rq)" "keeps P (schain_containers_versions_route e rq)"
  "keeps P (wallet_info_route e a rq)" "keeps P (ssl_status_route e a rq)"
  unfolding schain_statuses_route_def schain_config_route_def dkg_statuses_route_def
    schains_list_route_def config_node_id_def
    firewall_rules_route_def get_schain_route_def schain_containers_versions_route_def
    wallet_info_route_def wallet_with_balance_def ssl_status_route_def Let_def
  by (intro steps)+

lemma get_routes: "(GET, b, n, r) \<in> set (routes e a) \<Longrightarrow> keeps P (r rq)"
  by (auto simp: routes_def intro: node_routes endpoint_info public_ip validator_nodes health_routes schain_routes)

lemma get_dispatch: "keeps P (dispatch e a GET url rq)"
proof -
  let ?here = "filter (\<lambda>(_, b, n, _). get_api_url b n = url) (routes e a)"
  show ?thesis
  proof (cases "find (\<lambda>(m', _). m' = GET) ?here")
    case None
    then show ?thesis by (simp add: dispatch_def keeps_pure)
  next
    case (Some row)
    then have "row \<in> set ?here" and "fst row = GET"
      by (auto dest: find_SomeD split: prod.splits)
    then obtain b n r where row: "row = (GET, b, n, r)"
      by (metis prod.collapse)
    note \<open>row \<in> set ?here\<close>
    then have "(GET, b, n, r) \<in> set (routes e a)" by (simp add: row)
    from get_routes [OF this] show ?thesis by (simp add: dispatch_def Some row)
  qed
qed

end

lemma handle_get_keeps:
  assumes "quiet_api (same_node e w) a" and "handle_request e a GET url rq w = (r, w')"
  shows "same_node e w w'"
proof -
  have "read_calls (same_node e w) a"
    by unfold_locales (simp_all add: assms(1) same_node_clock)
  then have "keeps (same_node e w) (handle_request e a GET url rq)"
    unfolding handle_request_def
    by (intro keeps_intros same_node_config read_calls.get_dispatch)
  from keepsD_eq [OF this same_node_refl assms(2)] show ?thesis .
qed

section \<open>Every request is answered\<close>

lemma handle_request_total: "\<exists>ans. fst (handle_request e a m url rq w) = Inr ans"
  by (auto simp: handle_request_def act_simps split: prod.split sum.split)

text \<open>The routes are told apart by method and address, so that each is reached.\<close>

definition route_keys :: "('d, 'f) env \<Rightarrow> ('d, 'f) web_api \<Rightarrow> (http_method \<times> string) list" where
  "route_keys e a = map (\<lambda>(m, b, n, _). (m, get_api_url b n)) (routes e a)"

lemma route_keys_distinct: "distinct (route_keys e a)"
  unfolding route_keys_def routes_def by code_simp

lemma dispatch_route:
  assumes "(m, b, n, r) \<in> set (routes e a)"
  shows "dispatch e a m (get_api_url b n) rq = r rq"
proof -
  let ?here = "filter (\<lambda>(_, b', n', _). get_api_url b' n' = get_api_url b n) (routes e a)"
  have "find (\<lambda>(m', _). m' = m) ?here \<noteq> None"
    using assms by (auto simp: find_None_iff)
  then obtain row where row: "find (\<lambda>(m', _). m' = m) ?here = Some row" by blast
  obtain m' b' n' r' where "row = (m', b', n', r')" by (rule prod_cases4)
  with find_SomeD [OF row] have r': "row = (m, b', n', r')" "(m, b', n', r') \<in> set (routes e a)"
    "get_api_url b' n' = get_api_url b n"
    by auto
  have "inj_on (\<lambda>(m, b, n, _). (m, get_api_url b n)) (set (routes e a))"
    using route_keys_distinct [of e a] by (simp add: route_keys_def distinct_map)
  from inj_onD [OF this, of "(m, b', n', r')" "(m, b, n, r)"] r' assms have "r' = r" by simp
  then show ?thesis by (simp add: dispatch_def row r'(1))
qed

section \<open>Answers about the endpoint and the chains\<close>

lemma endpoint_trusted:
  assumes "endpoint_info_route e a rq w = (Inr ans, w')"
    and "json_path (answer_body ans) [''payload'', ''trusted''] = Inr (JBool True)"
  shows "\<not> str_contains (ENDPOINT e) ''infura.io''"
    and "\<exists>v. json_path (answer_body ans) [''payload'', ''client''] = Inr (JStr v) \<and> str_contains v ''Geth''"
  using assms
  by (auto simp: endpoint_info_route_def g_web3_def act_simps construct_ok_response_def
      construct_response_def Let_def trusted_endpoint_def UNTRUSTED_PROVIDERS_def
      split: sum.splits prod.splits)

text \<open>Chains that are objects without \<^verbatim>\<open>get\<close>: the route fails as soon as the node has one.\<close>

lemma schains_list_fails:
  assumes "schains_list_route e a rq w = (Inr ans, w')" and "NodeConfig_id e w = Inr (JInt i)"
    and "act_then (act_drop (act_res (NodeConfig_sgx_key_name e))) (init_skale a) w = (Inr (), w)"
    and "get_schains_for_node (answers a) i = Inr (s # ss)"
    and "schain_dict_get a s ''name'' = Inl x"
  shows False
  using assms
  by (simp add: schains_list_route_def g_skale_def config_node_id_def act_simps json_num.simps
      split: sum.splits prod.splits)

section \<open>Upload of a certificate\<close>

lemma upload_refused:
  assumes "ssl_upload_route e a rq w = (Inr ans, w')" and "answer_status ans \<noteq> HTTP_OK"
  shows "w' = w"
  using assms
  by (auto simp: ssl_upload_route_def act_simps construct_ok_response_def construct_response_def
      split: sum.splits option.splits if_splits prod.splits)

lemma reload_nginx_files:
  assumes "reload_nginx e n w = (r, w')"
  shows "db w' = db w" and "p \<noteq> NGINX_CONFIG_FILEPATH e \<Longrightarrow> tab_get (files w') p = tab_get (files w) p"
  using assms
  by (auto simp: reload_nginx_def generate_nginx_config_def restart_nginx_container_def
      get_and_restart_def process_template_def modify_files_def act_simps alist_simps
      split: sum.splits prod.splits)

lemma need_reload_all: "(n, r) \<in> set (set_schains_need_reload d) \<Longrightarrow> needs_reload r"
  by (auto simp: set_schains_need_reload_def update_where_def split: if_splits)

lemma upload_done:
  assumes run: "ssl_upload_route e a rq w = (Inr ans, w')" and ok: "answer_status ans = HTTP_OK"
    and dirs: "SSL_CERTIFICATES_FILEPATH e \<noteq> NODE_DATA_PATH e"
  shows "\<exists>key cert. map_of (rq_files rq) SSL_KEY_NAME = Some key \<and>
      map_of (rq_files rq) SSL_CRT_NAME = Some cert \<and>
      tab_get (files w') (key_path e) = Some (Text key) \<and>
      tab_get (files w') (cert_path e) = Some (Text cert)"
    and "db w' = set_schains_need_reload (db w)"
    and "is_ssl_folder_empty e \<or> json_get (rq_form rq) ''force'' JNull = Inr (JBool True)"
proof -
  from run ok obtain key cert w1 where
    f: "map_of (rq_files rq) SSL_KEY_NAME = Some key" "map_of (rq_files rq) SSL_CRT_NAME = Some cert"
    and w1: "w1 = w\<lparr>files := tab_put (key_path e) (Text key) (tab_put (cert_path e) (Text cert) (files w)),
        db := set_schains_need_reload (db w)\<rparr>"
    and n: "reload_nginx (with_cert_saved e (clock w)) (node_calls a) w1 = (Inr (), w')"
    and force: "is_ssl_folder_empty e \<or> json_get (rq_form rq) ''force'' JNull = Inr (JBool True)"
    by (auto simp: ssl_upload_route_def act_simps construct_err_response_def construct_response_def
        BAD_REQUEST_def HTTP_OK_def save_cert_key_pair_def modify_files_def modify_db_def
        split: sum.splits option.splits if_splits prod.splits)
  have other: "key_path e \<noteq> NGINX_CONFIG_FILEPATH (with_cert_saved e t)"
    "cert_path e \<noteq> NGINX_CONFIG_FILEPATH (with_cert_saved e t)" for t
    using dirs by (simp_all add: key_path_def cert_path_def NGINX_CONFIG_FILEPATH_def with_cert_saved_def)
  have apart: "key_path e \<noteq> cert_path e"
    by (simp add: key_path_def cert_path_def SSL_KEY_NAME_def SSL_CRT_NAME_def)
  note same = reload_nginx_files [OF n]
  show "\<exists>key cert. map_of (rq_files rq) SSL_KEY_NAME = Some key \<and>
      map_of (rq_files rq) SSL_CRT_NAME = Some cert \<and>
      tab_get (files w') (key_path e) = Some (Text key) \<and>
      tab_get (files w') (cert_path e) = Some (Text cert)"
    using f same(2) [OF other(1)] same(2) [OF other(2)] apart by (auto simp: w1 alist_simps)
  show "db w' = set_schains_need_reload (db w)" by (simp add: same(1) w1)
  show "is_ssl_folder_empty e \<or> json_get (rq_form rq) ''force'' JNull = Inr (JBool True)" by (rule force)
qed

text \<open>From then on a chain with an older certificate date counts as one to reload.\<close>

lemma reload_after_upload:
  "ssl_reload_needed (with_cert_saved e now) rec = (ssl_change_date rec \<noteq> now)"
  by (auto simp: ssl_reload_needed_def get_ssl_files_change_date_def with_cert_saved_def utcfromtimestamp_def)

lemma recreate_chosen:
  assumes "tab_get st ''config'' = Some True" and "tab_get st ''skaled_container'' = Some True"
    and "SYNC_NODE e \<or> \<not> is_backup_mode rec \<and> is_repair_mode e rec st sp np ar w = Inr False"
    and "ssl_reload_needed e rec"
  shows "get_skaled_monitor e am st rec sp np ar w = Inr RecreateSkaledMonitor"
  using assms by (auto simp: get_skaled_monitor_def no_config_def status_get_def is_recreate_mode_def)

lemma recreate_only:
  "get_skaled_monitor e am st rec sp np ar w = Inr RecreateSkaledMonitor \<Longrightarrow> ssl_reload_needed e rec"
  by (auto simp: get_skaled_monitor_def res_bind_Inr_iff is_recreate_mode_True split: if_splits)

section \<open>Two answers that mislead\<close>

text \<open>For a chain without a configuration the list of rules ends in an error of the server; the
  answer the route has for it is never given.\<close>

lemma unknown_chain_rules:
  assumes "skaled_config e n w = Inr None" and "NodeConfig_sgx_key_name e w = Inr key"
    and "init_skale a w = (Inr (), w)" and "rq_arg rq ''schain_name'' = Some n"
  shows "\<exists>x. fst (firewall_rules_route e a rq w) = Inl x"
  using assms
  by (auto simp: firewall_rules_route_def g_skale_def act_simps get_base_port_from_config_def
      config_path_def)

text \<open>A message that could not be handed over is reported as sent.\<close>

lemma failed_message_reported_sent:
  assumes "json_get (rq_json rq) ''message'' JNull = Inr (JList [JStr m])"
    and "tg_notifications_enabled (telegram a)" and "send_message (telegram a) [m] w = (Inl x, w')"
  shows "send_tg_notification_route a rq w =
    (Inr (ok_answer (JStr ''Message was sent successfully'')), w')"
  using assms by (simp add: send_tg_notification_route_def body_get_def act_simps)

end
