(* ===== verification/Migrations.thy ===== *)
theory Migrations
  imports World Schain_Record
begin

text \<open>
  The migrations of the record table (\<^verbatim>\<open>web/migrations.py\<close>). The database and peewee's
  migrator are third-party: \<open>migrator_api\<close> over a state \<open>'m\<close> of theirs. The locale \<open>schema\<close>
  has what is used of them: an addition that succeeds adds the column, as the last one. What an
  addition that fails leaves is not known: it runs in no transaction.
\<close>

section \<open>The migrations\<close>

datatype field =
    BooleanField bool
  | IntegerField int
  | CharField string
  | DateTimeField int
  | NullDateTimeField

record 'm migrator_api =
  get_columns :: "string \<Rightarrow> 'm \<Rightarrow> string list"
  migrator_add_column :: "string \<Rightarrow> string \<Rightarrow> field \<Rightarrow> ('m, unit) act"

definition find_column :: "'m migrator_api \<Rightarrow> string \<Rightarrow> string \<Rightarrow> 'm \<Rightarrow> string option" where
  "find_column a table_name column_name m = find (\<lambda>x. x = column_name) (get_columns a table_name m)"

definition add_column :: "'m migrator_api \<Rightarrow> string \<Rightarrow> string \<Rightarrow> field \<Rightarrow> ('m, unit) act" where
  "add_column a table_name column_name fld =
     act_unless (act_gets (\<lambda>m. find_column a table_name column_name m \<noteq> None))
       (migrator_add_column a table_name column_name fld)"

definition TABLE :: string where "TABLE = ''SChainRecord''"

definition add_new_schain_field :: "'m migrator_api \<Rightarrow> ('m, unit) act" where
  "add_new_schain_field a = add_column a TABLE ''new_schain'' (BooleanField True)"

definition add_repair_mode_field :: "'m migrator_api \<Rightarrow> ('m, unit) act" where
  "add_repair_mode_field a = add_column a TABLE ''repair_mode'' (BooleanField False)"

definition add_needs_reload_field :: "'m migrator_api \<Rightarrow> ('m, unit) act" where
  "add_needs_reload_field a = add_column a TABLE ''needs_reload'' (BooleanField False)"

definition add_monitor_last_seen_field :: "'m migrator_api \<Rightarrow> ('m, unit) act" where
  "add_monitor_last_seen_field a = add_column a TABLE ''monitor_last_seen'' NullDateTimeField"

definition add_monitor_id_field :: "'m migrator_api \<Rightarrow> ('m, unit) act" where
  "add_monitor_id_field a = add_column a TABLE ''monitor_id'' (IntegerField 0)"

definition add_config_version_field :: "'m migrator_api \<Rightarrow> ('m, unit) act" where
  "add_config_version_field a = add_column a TABLE ''config_version'' (CharField DEFAULT_CONFIG_VERSION)"

definition add_restart_count_field :: "'m migrator_api \<Rightarrow> ('m, unit) act" where
  "add_restart_count_field a = add_column a TABLE ''restart_count'' (IntegerField 0)"

definition add_failed_rpc_count_field :: "'m migrator_api \<Rightarrow> ('m, unit) act" where
  "add_failed_rpc_count_field a = add_column a TABLE ''failed_rpc_count'' (IntegerField 0)"

text \<open>\<^verbatim>\<open>datetime.now()\<close> at the call: \<open>now\<close>.\<close>

definition add_ssl_change_date_field :: "int \<Rightarrow> 'm migrator_api \<Rightarrow> ('m, unit) act" where
  "add_ssl_change_date_field now a = add_column a TABLE ''ssl_change_date'' (DateTimeField now)"

definition add_failed_snapshot_from :: "'m migrator_api \<Rightarrow> ('m, unit) act" where
  "add_failed_snapshot_from a = add_column a TABLE ''snapshot_from'' (CharField [])"

definition add_backup_run_field :: "'m migrator_api \<Rightarrow> ('m, unit) act" where
  "add_backup_run_field a = add_column a TABLE ''backup_run'' (BooleanField False)"

definition add_sync_config_run_field :: "'m migrator_api \<Rightarrow> ('m, unit) act" where
  "add_sync_config_run_field a = add_column a TABLE ''sync_config_run'' (BooleanField False)"

definition add_dkg_step_field :: "'m migrator_api \<Rightarrow> ('m, unit) act" where
  "add_dkg_step_field a = add_column a TABLE ''dkg_step'' (IntegerField 0)"

definition add_repair_date_field :: "int \<Rightarrow> 'm migrator_api \<Rightarrow> ('m, unit) act" where
  "add_repair_date_field now a = add_column a TABLE ''repair_date'' (DateTimeField now)"

definition run_migrations :: "int \<Rightarrow> 'm migrator_api \<Rightarrow> ('m, unit) act" where
  "run_migrations now a =
     act_block
      [add_new_schain_field a, add_repair_mode_field a, add_needs_reload_field a,
       add_monitor_last_seen_field a, add_monitor_id_field a, add_config_version_field a,
       add_restart_count_field a, add_failed_rpc_count_field a,
       add_ssl_change_date_field now a, add_failed_snapshot_from a,
       add_backup_run_field a, add_sync_config_run_field a, add_repair_date_field now a]"

text \<open>The columns of the model class, with the three of its base class.\<close>

definition SChainRecord_columns :: "string list" where
  "SChainRecord_columns =
     [''name'', ''added_at'', ''dkg_status'', ''is_deleted'', ''first_run'', ''new_schain'',
      ''repair_mode'', ''needs_reload'', ''backup_run'', ''sync_config_run'', ''monitor_last_seen'',
      ''monitor_id'', ''config_version'', ''snapshot_from'', ''restart_count'', ''failed_rpc_count'',
      ''ssl_change_date'', ''repair_date'']"

section \<open>What they do\<close>

definition migrated_columns :: "string list" where
  "migrated_columns =
     [''new_schain'', ''repair_mode'', ''needs_reload'', ''monitor_last_seen'', ''monitor_id'',
      ''config_version'', ''restart_count'', ''failed_rpc_count'', ''ssl_change_date'',
      ''snapshot_from'', ''backup_run'', ''sync_config_run'', ''repair_date'']"

text \<open>The columns a run over the names \<open>cs\<close> adds, in order.\<close>

definition added_columns :: "string list \<Rightarrow> string list \<Rightarrow> string list" where
  "added_columns old cs = filter (\<lambda>c. c \<notin> set old) cs"

lemma added_columns_resume:
  assumes "distinct cs"
  shows "(old @ added_columns old (take k cs)) @ added_columns (old @ added_columns old (take k cs)) cs =
    old @ added_columns old cs"
proof -
  have "filter (\<lambda>c. c \<notin> set (old @ added_columns old (take k cs))) (take k cs) = []"
    by (simp add: added_columns_def filter_empty_conv)
  moreover have "filter (\<lambda>c. c \<notin> set (old @ added_columns old (take k cs))) (drop k cs) =
      filter (\<lambda>c. c \<notin> set old) (drop k cs)"
    using set_take_disj_set_drop_if_distinct [OF assms order_refl, of k]
    by (intro filter_cong) (auto simp: added_columns_def)
  ultimately have "added_columns (old @ added_columns old (take k cs)) (take k cs @ drop k cs) =
      added_columns old (drop k cs)"
    by (simp only: added_columns_def filter_append append_Nil)
  moreover have "added_columns old (take k cs) @ added_columns old (drop k cs) = added_columns old cs"
    by (metis added_columns_def append_take_drop_id filter_append)
  ultimately show ?thesis by simp
qed

locale schema =
  fixes a :: "'m migrator_api"
  assumes add: "migrator_add_column a t c f m = (Inr u, m') \<Longrightarrow> get_columns a t m' = get_columns a t m @ [c]"
begin

lemma add_column_cases:
  assumes "add_column a t c f m = (r, m')"
  obtains (there) "c \<in> set (get_columns a t m)" "r = Inr ()" "m' = m"
  | (added) "c \<notin> set (get_columns a t m)" "r = Inr ()" "get_columns a t m' = get_columns a t m @ [c]"
  | (failed) x where "c \<notin> set (get_columns a t m)" "r = Inl x"
      "migrator_add_column a t c f m = (Inl x, m')"
proof (cases "c \<in> set (get_columns a t m)")
  case True
  then have "find_column a t c m \<noteq> None" by (auto simp: find_column_def find_None_iff)
  with assms True show ?thesis by (intro there) (simp_all add: add_column_def act_simps)
next
  case False
  then have "find_column a t c m = None" by (auto simp: find_column_def find_None_iff)
  with assms have run: "migrator_add_column a t c f m = (r, m')" by (simp add: add_column_def act_simps)
  show ?thesis
  proof (cases r)
    case (Inl x)
    with False run show ?thesis by (intro failed) simp_all
  next
    case (Inr u)
    with add [of t c f m u m'] False run show ?thesis by (intro added) simp_all
  qed
qed

text \<open>A block of additions of different columns adds the missing ones in order, or stops in the
  addition of one of them with those before it added.\<close>

lemma add_columns:
  assumes "act_block (map (\<lambda>(c, f). add_column a t c f) cfs) m = (r, m')" and "distinct (map fst cfs)"
  shows "(r = Inr () \<and> get_columns a t m' = get_columns a t m @ added_columns (get_columns a t m) (map fst cfs)) \<or>
    (\<exists>k m1 x. k < length cfs \<and> r = Inl x \<and> fst (cfs ! k) \<notin> set (get_columns a t m) \<and>
       get_columns a t m1 = get_columns a t m @ added_columns (get_columns a t m) (take k (map fst cfs)) \<and>
       migrator_add_column a t (fst (cfs ! k)) (snd (cfs ! k)) m1 = (Inl x, m'))"
  using assms
proof (induction cfs arbitrary: m)
  case Nil
  then show ?case by (simp add: act_simps added_columns_def)
next
  case (Cons cf cfs)
  obtain c f where cf: "cf = (c, f)" by fastforce
  obtain q m1 where q: "add_column a t c f m = (q, m1)" by fastforce
  have more: "added_columns (get_columns a t m @ [c]) cs = added_columns (get_columns a t m) cs"
    if "c \<notin> set cs" for cs
    using that by (auto simp: added_columns_def intro!: filter_cong)
  have new: "c \<notin> set (map fst cfs)" using Cons.prems(2) cf by simp
  then have new': "c \<notin> set (take k (map fst cfs))" for k by (auto dest: in_set_takeD)
  from q show ?case
  proof (cases rule: add_column_cases)
    case there
    then have rest: "act_block (map (\<lambda>(c, f). add_column a t c f) cfs) m = (r, m')"
      using Cons.prems(1) q cf by (simp add: act_simps)
    have skip: "added_columns (get_columns a t m) (c # cs) = added_columns (get_columns a t m) cs" for cs
      using there(1) by (simp add: added_columns_def)
    from Cons.prems(2) have "distinct (map fst cfs)" by simp
    from Cons.IH [OF rest this] show ?thesis
    proof (elim disjE exE conjE, goal_cases)
      case 1
      then show ?case by (simp add: cf skip)
    next
      case (2 k m2 x)
      then show ?case
        by (intro disjI2 exI [of _ "Suc k"] exI [of _ m2] exI [of _ x]) (simp add: cf skip)
    qed
  next
    case added
    then have rest: "act_block (map (\<lambda>(c, f). add_column a t c f) cfs) m1 = (r, m')"
      using Cons.prems(1) q cf by (simp add: act_simps)
    have eq: "get_columns a t m1 @ added_columns (get_columns a t m1) cs =
        get_columns a t m @ added_columns (get_columns a t m) (c # cs)" if "c \<notin> set cs" for cs
      using added(1) more [OF that] by (simp add: added(3)) (simp add: added_columns_def)
    from Cons.prems(2) have "distinct (map fst cfs)" by simp
    from Cons.IH [OF rest this] show ?thesis
    proof (elim disjE exE conjE, goal_cases)
      case 1
      then show ?case by (simp add: cf eq [OF new])
    next
      case (2 k m2 x)
      from 2(4) have "get_columns a t m2 =
          get_columns a t m @ added_columns (get_columns a t m) (c # take k (map fst cfs))"
        by (simp only: eq [OF new'])
      moreover have "fst (cfs ! k) \<notin> set (get_columns a t m)" using 2(3) by (simp add: added(3))
      ultimately show ?case using 2(1,2,5)
        by (intro disjI2 exI [of _ "Suc k"] exI [of _ m2] exI [of _ x]) (simp add: cf)
    qed
  next
    case (failed x)
    with Cons.prems(1) q cf have "r = Inl x" "m1 = m'" by (simp_all add: act_simps)
    with failed show ?thesis
      by (intro disjI2 exI [of _ 0] exI [of _ m] exI [of _ x]) (simp add: cf added_columns_def)
  qed
qed

end

definition migration_list :: "int \<Rightarrow> (string \<times> field) list" where
  "migration_list now =
     zip migrated_columns
       [BooleanField True, BooleanField False, BooleanField False, NullDateTimeField, IntegerField 0,
        CharField DEFAULT_CONFIG_VERSION, IntegerField 0, IntegerField 0, DateTimeField now,
        CharField [], BooleanField False, BooleanField False, DateTimeField now]"

lemmas migration_defs =
  add_new_schain_field_def add_repair_mode_field_def add_needs_reload_field_def
  add_monitor_last_seen_field_def add_monitor_id_field_def add_config_version_field_def
  add_restart_count_field_def add_failed_rpc_count_field_def add_ssl_change_date_field_def
  add_failed_snapshot_from_def add_backup_run_field_def add_sync_config_run_field_def
  add_repair_date_field_def

lemma run_migrations_list:
  "run_migrations now a = act_block (map (\<lambda>(c, f). add_column a TABLE c f) (migration_list now))"
  by (simp add: run_migrations_def migration_list_def migrated_columns_def migration_defs)

lemma migration_names: "map fst (migration_list now) = migrated_columns"
  by (simp add: migration_list_def migrated_columns_def)

lemma migrated_distinct: "distinct migrated_columns"
  by (simp add: migrated_columns_def)

lemma migrations_length: "length (migration_list now) = length migrated_columns"
  by (metis migration_names length_map)

lemma run_migrations_columns:
  assumes "schema a" and "run_migrations now a m = (r, m')"
  shows "(r = Inr () \<and> get_columns a TABLE m' =
      get_columns a TABLE m @ added_columns (get_columns a TABLE m) migrated_columns) \<or>
    (\<exists>k m1 f x. k < length migrated_columns \<and> r = Inl x \<and> migrated_columns ! k \<notin> set (get_columns a TABLE m) \<and>
       get_columns a TABLE m1 =
         get_columns a TABLE m @ added_columns (get_columns a TABLE m) (take k migrated_columns) \<and>
       migrator_add_column a TABLE (migrated_columns ! k) f m1 = (Inl x, m'))"
proof -
  have "fst (migration_list now ! k) = migrated_columns ! k" if "k < length migrated_columns" for k
    using that by (metis migration_names migrations_length nth_map)
  with schema.add_columns [OF assms(1) assms(2) [unfolded run_migrations_list],
      unfolded migration_names migrations_length, OF migrated_distinct] show ?thesis
    by (elim disjE exE conjE) (simp, metis)
qed

text \<open>After a run that stopped in an addition, with that column added or not, one that comes
  through gives the columns of a run that did not stop.\<close>

lemma added_columns_stopped:
  assumes "k < length cs" and "distinct cs" and "cs ! k \<notin> set old"
    and "now \<in> {old @ added_columns old (take k cs), old @ added_columns old (take k cs) @ [cs ! k]}"
  shows "now @ added_columns now cs = old @ added_columns old cs"
proof -
  have "added_columns old (take k cs) @ [cs ! k] = added_columns old (take (Suc k) cs)"
    using assms(1,3) by (simp add: take_Suc_conv_app_nth added_columns_def)
  with assms(4) consider "now = old @ added_columns old (take k cs)"
    | "now = old @ added_columns old (take (Suc k) cs)" by auto
  then show ?thesis by cases (simp_all only: added_columns_resume [OF assms(2)])
qed

text \<open>When every column is there, nothing is done.\<close>

lemma run_migrations_idle:
  assumes "set migrated_columns \<subseteq> set (get_columns a TABLE m)"
  shows "run_migrations now a m = (Inr (), m)"
proof -
  have "act_block (map (\<lambda>(c, f). add_column a TABLE c f) cfs) m = (Inr (), m)"
    if "set (map fst cfs) \<subseteq> set (get_columns a TABLE m)" for cfs
    using that
  proof (induction cfs)
    case Nil
    then show ?case by (simp add: act_simps)
  next
    case (Cons cf cfs)
    obtain c f where cf: "cf = (c, f)" by fastforce
    have "find_column a TABLE c m \<noteq> None"
      using Cons.prems by (auto simp: cf find_column_def find_None_iff)
    with Cons show ?case by (simp add: cf act_simps add_column_def)
  qed
  from this [of "migration_list now"] assms show ?thesis
    by (simp only: run_migrations_list migration_names)
qed

section \<open>A table\<close>

text \<open>A reference table for the interpretation: its columns and rows; a new column has its
  default in every row.\<close>

fun default_value :: "field \<Rightarrow> int option" where
  "default_value (BooleanField b) = Some (if b then 1 else 0)"
| "default_value (IntegerField i) = Some i"
| "default_value (DateTimeField d) = Some d"
| "default_value _ = None"

record ref_table =
  rt_columns :: "string list"
  rt_rows :: "int option list list"

definition ref_migrator :: "ref_table migrator_api" where
  "ref_migrator =
     \<lparr>get_columns = (\<lambda>_. rt_columns),
      migrator_add_column = (\<lambda>_ c f. act_modify (\<lambda>t.
        t\<lparr>rt_columns := rt_columns t @ [c], rt_rows := map (\<lambda>r. r @ [default_value f]) (rt_rows t)\<rparr>))\<rparr>"

lemma ref_migrations_succeed: "fst (run_migrations now ref_migrator t) = Inr ()"
proof -
  have "fst (act_block (map (\<lambda>(c, f). add_column ref_migrator TABLE c f) cfs) t) = Inr ()" for cfs
    by (induction cfs arbitrary: t)
      (auto simp: act_simps add_column_def ref_migrator_def act_modify_def split: prod.split)
  then show ?thesis by (simp only: run_migrations_list)
qed

lemma ref_migrator_columns: "get_columns ref_migrator t m = rt_columns m"
  by (simp add: ref_migrator_def)

interpretation ref_schema: schema ref_migrator
  by unfold_locales (auto simp: ref_migrator_def act_modify_def)

end
