(* ===== verification/Daemon.thy ===== *)
theory Daemon
  imports Chain_Isolation Node_Operations Notifications Migrations Docker_Logs Web_Safety Dkg_Client
    Process_Manager
begin

text \<open>
  The processes that run everything: the admin daemon (\<^verbatim>\<open>admin.py\<close>, with
  \<^verbatim>\<open>core/schains/process_manager.py\<close> and \<^verbatim>\<open>run_cleaner\<close>) and the process of a sync node
  (\<^verbatim>\<open>sync_node.py\<close>). One round of an endless loop is a definition; \<open>admin_rounds\<close> is any number
  of them, with the contracts' answers of each round. \<open>node_config.id\<close> is read once here: no
  round changes it. The cleaner's process is run to its end (it is killed after half an hour),
  and what it raises ends only that process. The tables of the record store are there.
\<close>

section \<open>Surroundings\<close>

record ('d, 'f) daemon_api =
  da_node :: "('d, 'f) node_api"
  da_notes :: "('d, 'f) world note_api"
  da_migrator :: "('d, 'f) world migrator_api"
  sgx_new_key :: "('d, 'f, string) wact"
  da_spawn :: "int list \<Rightarrow> int"
  da_term :: "int \<Rightarrow> term_result"
  da_sgx_delete :: "string \<Rightarrow> unit res"
  da_ports :: skaled_ports
  da_pps :: int
  base_port_on_node :: "schain_structure list \<Rightarrow> string \<Rightarrow> int \<Rightarrow> int res"

section \<open>A key of the node\<close>

fun node_sgx_retry :: "('d, 'f, 'a) wact \<Rightarrow> exn \<Rightarrow> nat list \<Rightarrow> ('d, 'f, 'a) wact" where
  "node_sgx_retry f err [] = act_raise err"
| "node_sgx_retry f err (timeout # ts) =
     act_except f is_sgx_unreachable (\<lambda>x.
       act_then (time_sleep (int timeout)) (node_sgx_retry f x ts))"

definition generate_sgx_key :: "('d, 'f) env \<Rightarrow> ('d, 'f) daemon_api \<Rightarrow> ('d, 'f, unit) wact" where
  "generate_sgx_key e a =
     node_sgx_retry
       (if SGX_SERVER_URL e = [] then act_raise (OtherError ''EmptySgxUrlError'')
        else act_bind (act_res (NodeConfig_sgx_key_name e)) (\<lambda>key.
          act_when (\<not> truthy key)
            (act_bind (sgx_new_key a) (set_NodeConfig_sgx_key_name e))))
       (SgxUnreachableError []) SGX_TIMEOUTS"

section \<open>The admin daemon\<close>

definition ADMIN_SLEEP_INTERVAL :: int where "ADMIN_SLEEP_INTERVAL = 90"

text \<open>The configuration as messages print it. Without an id or an address a message that is
  due cannot be made, which is as if it could not be handed over.\<close>

definition node_label_of :: "json \<Rightarrow> node_label res" where
  "node_label_of info =
     res_bind (res_bind (json_item info ''node_id'') py_str) (\<lambda>i.
     res_bind (res_bind (json_item info ''node_ip'') py_str) (\<lambda>ip. Inr (i, ip)))"

definition run_process_manager ::
  "('d, 'f) env \<Rightarrow> ('d, 'f) daemon_api \<Rightarrow> contracts \<Rightarrow> int \<Rightarrow> ('d, 'f, unit) wact" where
  "run_process_manager e a k node_id =
     act_bind (act_res (object_all (NODE_CONFIG_FILEPATH e))) (\<lambda>node_info.
     act_then
       (case node_label_of node_info of
          Inl x \<Rightarrow> notify_if_not_enough_balance
            ((da_notes a)\<lparr>telegram_delay := \<lambda>_ _ _. act_raise x\<rparr>) (wallet_balance (da_node a)) ([], [])
        | Inr node \<Rightarrow> notify_if_not_enough_balance (da_notes a) (wallet_balance (da_node a)) node)
       (act_bind (act_res (\<lambda>_. fetch_schains_to_monitor k node_id)) (\<lambda>ns.
        act_for ns (\<lambda>n. run_pm_schain e k (da_spawn a) (da_term a) n None))))"

definition run_cleaner ::
  "('d, 'f) env \<Rightarrow> ('d, 'f) daemon_api \<Rightarrow> contracts \<Rightarrow> int \<Rightarrow> ('d, 'f, unit) wact" where
  "run_cleaner e a k node_id =
     act_try (cleaner_monitor e (da_ports a) (da_pps a) k (da_sgx_delete a) (da_term a) node_id)
       (\<lambda>_. act_return ())"

definition monitor_round ::
  "('d, 'f) env \<Rightarrow> ('d, 'f) daemon_api \<Rightarrow> int \<Rightarrow> contracts \<Rightarrow> ('d, 'f, unit) wact" where
  "monitor_round e a node_id k =
     act_then (act_try (run_process_manager e a k node_id) (\<lambda>_. act_return ()))
    (act_then (time_sleep ADMIN_SLEEP_INTERVAL)
    (act_then (run_cleaner e a k node_id)
       (time_sleep ADMIN_SLEEP_INTERVAL)))"

definition admin_rounds ::
  "('d, 'f) env \<Rightarrow> ('d, 'f) daemon_api \<Rightarrow> int \<Rightarrow> contracts list \<Rightarrow> ('d, 'f, unit) wact" where
  "admin_rounds e a node_id ks = act_for ks (monitor_round e a node_id)"

text \<open>Waiting for the node's id: \<open>others\<close> is what the web API's process does to the world
  during each pause.\<close>

fun wait_for_node_id ::
  "('d, 'f) env \<Rightarrow> (('d, 'f) world \<Rightarrow> ('d, 'f) world) list \<Rightarrow> ('d, 'f, int) wact" where
  "wait_for_node_id e [] = act_raise Out_of_fuel"
| "wait_for_node_id e (other # others) =
     act_bind (act_res (NodeConfig_id e)) (\<lambda>cid.
     if cid = JNull
     then act_then (time_sleep ADMIN_SLEEP_INTERVAL)
         (act_then (act_modify other) (wait_for_node_id e others))
     else act_res (\<lambda>_. json_num cid))"

definition admin_worker ::
  "('d, 'f) env \<Rightarrow> ('d, 'f) daemon_api \<Rightarrow> (('d, 'f) world \<Rightarrow> ('d, 'f) world) list \<Rightarrow> contracts list \<Rightarrow>
   ('d, 'f, unit) wact" where
  "admin_worker e a others ks =
     act_then (NodeConfig e)
    (act_bind (wait_for_node_id e others) (\<lambda>node_id.
     act_then (act_drop (act_res (NodeConfig_sgx_key_name e)))
    (act_bind (act_res (\<lambda>w. res_bind (NodeConfig_ip e w) json_str)) (\<lambda>ip.
     act_then (update_monitoring_services e (da_node a) ip (JInt node_id))
       (admin_rounds e a node_id ks)))))"

definition admin_init ::
  "('d, 'f) env \<Rightarrow> ('d, 'f) daemon_api \<Rightarrow> bool \<Rightarrow> string option \<Rightarrow> ('d, 'f, unit) wact" where
  "admin_init e a backup pull_config_for =
     act_then (NodeConfig e)
    (act_then (generate_sgx_key e a)
    (act_then (soft_updates e (da_node a))
    (act_bind (act_gets (datetime_now e)) (\<lambda>now.
     act_then (run_migrations now (da_migrator a))
    (act_then (modify_db (admin_init_records backup pull_config_for))
       (cleanup_notification_state (da_notes a)))))))"

text \<open>The worker ends only by an exception, which ends the process after a pause.\<close>

definition ERROR_SLEEP_INTERVAL :: int where "ERROR_SLEEP_INTERVAL = 1"

definition admin_main ::
  "('d, 'f) env \<Rightarrow> ('d, 'f) daemon_api \<Rightarrow> bool \<Rightarrow> string option \<Rightarrow>
   (('d, 'f) world \<Rightarrow> ('d, 'f) world) list \<Rightarrow> contracts list \<Rightarrow> ('d, 'f, unit) wact" where
  "admin_main e a backup pull_config_for others ks =
     act_try (act_then (admin_init e a backup pull_config_for) (admin_worker e a others ks))
       (\<lambda>_. time_sleep ERROR_SLEEP_INTERVAL)"

section \<open>The sync node\<close>

definition SYNC_SLEEP_INTERVAL :: int where "SYNC_SLEEP_INTERVAL = 180"
definition SYNC_WORKER_RESTART_INTERVAL :: int where "SYNC_WORKER_RESTART_INTERVAL = 2"

text \<open>\<^verbatim>\<open>exit(1)\<close> is an exception that no handler of the program catches.\<close>

definition sync_setup ::
  "('d, 'f) env \<Rightarrow> ('d, 'f) daemon_api \<Rightarrow> contracts \<Rightarrow> string \<Rightarrow> ('d, 'f, unit) wact" where
  "sync_setup e a k n =
     act_bind (act_res (\<lambda>_. is_schain_exist k n)) (\<lambda>ex.
     if \<not> ex then act_raise (OtherError ''SystemExit'')
     else act_bind (act_res (\<lambda>_. get_schain_by_name k n)) (\<lambda>_.
     act_then (NodeConfig e)
    (act_bind (act_res (\<lambda>_. get_node_ids_for_schain k n)) (\<lambda>ids.
     act_bind (act_res (NodeConfig_id e)) (\<lambda>cid.
     act_then
       (act_when (\<not> truthy cid)
         (case ids of [] \<Rightarrow> act_raise IndexError | i # _ \<Rightarrow> set_NodeConfig_id e i))
    (act_bind (config_node_id e) (\<lambda>node_id.
     act_bind (nodes_get (da_node a) node_id) (\<lambda>node.
     act_bind (act_res (NodeConfig_schain_base_port e)) (\<lambda>bp.
     act_when (bp = JInt (- 1))
       (act_bind (act_res (\<lambda>_. get_schains_for_node k node_id)) (\<lambda>schains_on_node.
        act_bind (act_res (\<lambda>_. base_port_on_node a schains_on_node n (mn_port node)))
          (set_NodeConfig_schain_base_port e))))))))))))"

definition sync_round ::
  "('d, 'f) env \<Rightarrow> ('d, 'f) daemon_api \<Rightarrow> string \<Rightarrow> contracts \<Rightarrow> ('d, 'f, unit) wact" where
  "sync_round e a n k =
     act_then (act_try (run_pm_schain e k (da_spawn a) (da_term a) n None) (\<lambda>_. act_return ()))
       (time_sleep SYNC_SLEEP_INTERVAL)"

definition sync_worker ::
  "('d, 'f) env \<Rightarrow> ('d, 'f) daemon_api \<Rightarrow> string \<Rightarrow> contracts \<Rightarrow> contracts list \<Rightarrow> ('d, 'f, unit) wact" where
  "sync_worker e a n k ks = act_then (sync_setup e a k n) (act_for ks (sync_round e a n))"

text \<open>One turn of the outer loop: an exception of the worker restarts it after a pause.\<close>

definition sync_main_round ::
  "('d, 'f) env \<Rightarrow> ('d, 'f) daemon_api \<Rightarrow> string \<Rightarrow> contracts \<Rightarrow> contracts list \<Rightarrow> ('d, 'f, unit) wact" where
  "sync_main_round e a n k ks =
     act_then
       (act_except
         (act_bind (act_gets (datetime_now e)) (\<lambda>now.
          act_then (run_migrations now (da_migrator a))
         (act_then (update_predeployed_ima e (da_node a))
            (sync_worker e a n k ks))))
         (\<lambda>x. x \<noteq> OtherError ''SystemExit'') (\<lambda>_. act_return ()))
       (time_sleep SYNC_WORKER_RESTART_INTERVAL)"

section \<open>What a removal leaves alone\<close>

lemma dok_on_rule_controller: "keeps (dok Q) (on_rule_controller m)"
  by (auto simp: keeps_def dok_def on_rule_controller_def split: prod.split sum.split)

lemma wdok_with_mstate: "keeps (dok Q) m \<Longrightarrow> keeps (wdok Q) (with_mstate rc est m)"
  using keeps_with_mstate [of "wdok Q" m rc est]
  by (simp add: on_node_def [abs_def] dok_def [abs_def] wdok_def [abs_def])

lemma dok_schain_checks: "keeps (dok Q) (schain_checks_get_all e cc sc False needed)"
  using on_node_schain_checks [of "wdok Q" e cc sc needed]
  by (simp add: on_node_def [abs_def] dok_def [abs_def] wdok_def [abs_def])

lemma wdok_process:
  "keeps (wdok Q) (ProcessReport e n)" "keeps (wdok Q) (terminate_process answer pid)"
  "keeps (wdok Q) (start_process spawn)" "keeps (wdok Q) (modify_db f)"
  by (intro wdok_same; simp add: ProcessReport_def terminate_process_def start_process_def
      modify_db_def act_simps makedirs_def split: term_result.split)+

lemma wdok_delete_keys: "keeps (wdok Q) (delete_bls_keys e k sgx_delete n)"
  unfolding delete_bls_keys_def delete_bls_key_of_def by (intro keeps_intros)

text \<open>What chain \<open>n\<close> has of the engine: a container of its own as it is, and its volume.\<close>

definition holds :: "'d engine_view \<Rightarrow> string \<Rightarrow> string \<Rightarrow> container option \<Rightarrow> int option \<Rightarrow> 'd \<Rightarrow> bool" where
  "holds U n c C i d = (ev_container U c d = C \<and> volume_kept U n i d)"

text \<open>The contracts of a round have the chain on the node, or forbid its removal.\<close>

definition spared :: "contracts \<Rightarrow> int \<Rightarrow> string \<Rightarrow> bool" where
  "spared k node_id n \<longleftrightarrow>
     \<not> removable k node_id n \<or>
     (\<forall>names. get_schain_names_from_contract k node_id = Inr names \<longrightarrow> n \<in> set names)"

lemma run_pm_schain_keeps:
  assumes "keeps P (ProcessReport e n)" and "\<And>pid. keeps P (terminate_process answer pid)"
    and "keeps P (start_process spawn)"
  shows "keeps P (run_pm_schain e k spawn answer n timeout)"
proof -
  have "keeps P (\<lambda>w. if is_monitor_process_alive pid w
      then if clock w - pts > d then terminate_process answer pid w else act_return () w
      else start_process spawn w)" for pid pts d
    using assms(2) [of pid] assms(3) by (auto simp: keeps_def act_simps)
  then show ?thesis
    unfolding run_pm_schain_def get_schain_process_info_def Let_def
    by (intro keeps_intros assms) (auto intro!: keeps_intros assms)
qed

context docker_node
begin

lemma cleanup_steps_elsewhere:
  "keeps (dok (elsewhere U m c v C i)) (cleanup_steps e m est st)"
  unfolding cleanup_steps_def cleanup_firewall_def Let_def
  by (intro keeps_block) (auto simp: remove_config_dir_def dok_def intro!: keeps_intros dok_intros
      other.removals_keep other.remove_schain_volume_keeps dok_on_rule_controller wdok_process)

lemma remove_schain_elsewhere:
  "keeps (wdok (elsewhere U m c v C i)) (remove_schain e ports pps k sgx_delete answer m)"
proof -
  have "keeps (wdok (elsewhere U m c v C i)) (cleanup_schain e ports pps m rs rid ldk cn est)"
    for rs rid ldk cn est
  proof (rule keepsI)
    fix w :: "('d, 'f) world" assume w: "wdok (elsewhere U m c v C i) w"
    obtain ro d' where up: "upsert_schain_record m (datetime_now e w) (import_dt e) (db w) = (ro, d')"
      by fastforce
    have "wdok (elsewhere U m c v C i) (w\<lparr>db := d'\<rparr>)" using w by (simp add: wdok_def)
    then have k: "wdok (elsewhere U m c v C i) (snd (with_mstate rc est' (act_bind
        (schain_checks_get_all e cc sc False []) (cleanup_steps e m est)) (w\<lparr>db := d'\<rparr>)))" for rc est' cc sc
      by (intro keepsD [where P = "wdok (elsewhere U m c v C i)"] wdok_with_mstate keeps_intros
          dok_schain_checks cleanup_steps_elsewhere)
    from w show "wdok (elsewhere U m c v C i) (snd (cleanup_schain e ports pps m rs rid ldk cn est w))"
      by (auto simp: cleanup_schain_def up Let_def wdok_def k [unfolded wdok_def] split: option.split)
  qed
  then show ?thesis
    unfolding remove_schain_def Let_def
    by (intro keeps_block) (auto intro!: keeps_intros wdok_process wdok_delete_keys)
qed

lemma holds_elsewhere:
  assumes "own_container n c" and "m \<noteq> n"
  shows "holds U n c C i = elsewhere U m c n C i"
  using assms get_container_name_inject
  by (auto simp: holds_def [abs_def] elsewhere_def [abs_def] own_container_def fun_eq_iff)

lemma cleaner_holds:
  assumes own: "own_container n c" and spared: "spared k node_id n"
  shows "keeps (wdok (holds U n c C i)) (cleaner_monitor e ports pps k sgx_delete answer node_id)"
proof (cases "get_schain_names_from_contract k node_id")
  case (Inl x)
  then show ?thesis
    by (simp add: cleaner_monitor_def keeps_def act_simps)
next
  case (Inr names)
  have ensure: "keeps (wdok (holds U n c C i)) (ensure_schain_removed e ports pps k sgx_delete answer node_id m)"
    if "m \<notin> set names" for m
  proof (rule keepsI)
    fix w :: "('d, 'f) world" assume w: "wdok (holds U n c C i) w"
    show "wdok (holds U n c C i) (snd (ensure_schain_removed e ports pps k sgx_delete answer node_id m w))"
    proof (cases "removable k node_id m")
      case True
      with spared Inr that have "m \<noteq> n" by (auto simp: spared_def)
      with w remove_schain_elsewhere [of m c n C i] holds_elsewhere [OF own] True show ?thesis
        by (subst ensure_schain_removed_cases) (simp add: keeps_def)
    next
      case False
      with w show ?thesis by (subst ensure_schain_removed_cases) simp
    qed
  qed
  show ?thesis
    unfolding cleaner_monitor_def Inr act_bind_const
    by (auto intro!: keeps_intros ensure)
qed

end

text \<open>The calls of the wallet, of the store of messages and of their queue leave a part of the
  node's state alone.\<close>

definition same_part :: "(('d, 'f) world \<Rightarrow> 'x) \<Rightarrow> ('d, 'f, 'a) wact \<Rightarrow> bool" where
  "same_part f m \<longleftrightarrow> (\<forall>w. f (snd (m w)) = f w)"

definition notices_apart :: "(('d, 'f) world \<Rightarrow> 'x) \<Rightarrow> ('d, 'f) daemon_api \<Rightarrow> bool" where
  "notices_apart f a \<longleftrightarrow>
     same_part f (wallet_balance (da_node a)) \<and> same_part f (note_time (da_notes a)) \<and>
     (\<forall>k. same_part f (redis_get (da_notes a) k)) \<and>
     (\<forall>k v x. same_part f (redis_set (da_notes a) k v x)) \<and>
     (\<forall>k c m. same_part f (telegram_delay (da_notes a) k c m))"

lemma keeps_same_part: "same_part f m \<Longrightarrow> keeps (\<lambda>w. R (f w)) m"
  by (simp add: same_part_def keeps_def)

lemma wdok_same_part: "same_part daemon m \<Longrightarrow> keeps (wdok Q) m"
  unfolding wdok_def [abs_def] by (rule keeps_same_part)

lemma keeps_balance_notice:
  assumes "keeps P (note_time n)" and "\<And>k. keeps P (redis_get n k)"
    and "\<And>k v x. keeps P (redis_set n k v x)" and "\<And>k c m. keeps P (telegram_delay n k c m)"
    and "keeps P b"
  shows "keeps P (notify_if_not_enough_balance n b node)"
  unfolding notify_if_not_enough_balance_def notify_balance_def notifications_enabled_def
    send_message_def Let_def
  by (intro keeps_intros assms)

lemma run_process_manager_keeps:
  assumes a: "notices_apart f a" and P: "\<And>w. P w = R (f w)"
    and "\<And>n. keeps P (ProcessReport e n)" "\<And>answer pid. keeps P (terminate_process answer pid)"
      "\<And>spawn. keeps P (start_process spawn)"
  shows "keeps P (run_process_manager e a k node_id)"
proof -
  have P': "P = (\<lambda>w. R (f w))" using P by blast
  have calls: "keeps P (wallet_balance (da_node a))" "keeps P (note_time (da_notes a))"
    "keeps P (redis_get (da_notes a) j)" "keeps P (redis_set (da_notes a) j v x)"
    "keeps P (telegram_delay (da_notes a) j c m)" for j v x c m
    using a unfolding P' by (auto simp: notices_apart_def intro: keeps_same_part)
  show ?thesis
    unfolding run_process_manager_def
    by (intro keeps_intros run_pm_schain_keeps assms(3-5))
      (auto intro!: keeps_balance_notice keeps_pure calls assms(3-5) split: sum.split)
qed

context docker_node
begin

lemma admin_rounds_hold:
  assumes "own_container n c" and "notices_apart daemon a" and "\<And>k. k \<in> set ks \<Longrightarrow> spared k node_id n"
  shows "keeps (wdok (holds U n c C i)) (admin_rounds e a node_id ks)"
  unfolding admin_rounds_def monitor_round_def run_cleaner_def
  by (intro keeps_intros run_process_manager_keeps [OF _ wdok_def] cleaner_holds wdok_plain
      wdok_process assms)

end

end
