(* ===== verification/Reference_Operations.thy ===== *)
theory Reference_Operations
  imports Node_Operations Reference_Node Reference_Generator
begin

text \<open>
  A concrete network for the operations of the node: the contracts have no node yet, the wallet
  has one ether; a node that registers gets the id 7.
\<close>

definition ref_manager_node :: manager_node where
  "ref_manager_node =
     \<lparr>mn_name = ''n'', mn_ip = [10, 0, 0, 9], mn_publicIP = [10, 0, 0, 9], mn_port = 10000,
      mn_start_block = 1, mn_last_reward_date = 1, mn_finish_time = 0, mn_status = 0,
      mn_validator_id = 1, mn_publicKey = ''pk'', mn_domain_name = ''d''\<rparr>"

definition ref_node_api :: "('d, 'f) node_api" where
  "ref_node_api =
     \<lparr>nodes_name_to_index = (\<lambda>_. act_return 7), nodes_get = (\<lambda>_. act_raise InvalidNodeIdError),
      nodes_is_name_available = (\<lambda>_. act_return True), nodes_is_ip_available = (\<lambda>_. act_return True),
      nodes_get_status = (\<lambda>_. act_return 0), nodes_get_finish_time = (\<lambda>_. act_return 0),
      nodes_validator_indices = (\<lambda>_. act_return [7]), nodes_contract_ip = (\<lambda>_. act_return [10, 0, 0, 9]),
      nodes_set_in_maintenance = (\<lambda>_. act_return ()),
      nodes_remove_from_maintenance = (\<lambda>_. act_return ()),
      nodes_set_domain_name = (\<lambda>_ _. act_return ()), manager_create_node = (\<lambda>_. act_return ()),
      manager_node_exit = (\<lambda>_. act_return ()), manager_address = ''0xm'', wallet_address = ''0xw'',
      wallet_balance = act_return (10 ^ 18), na_ip_from_bytes = ref_ip,
      na_public_key_to_address = (\<lambda>x. x), na_to_checksum_address = (\<lambda>x. x),
      socket_connect = (\<lambda>_ _. act_return ()), render_template = (\<lambda>source _. Inr source),
      generate_ima_abi = JObj [], INFLUX_URL = [], TELEGRAF = False, TELEGRAF_MEM_LIMIT = ''1g''\<rparr>"

definition ref_fresh_node :: "(ref_daemon, rule_d list) world" where
  "ref_fresh_node = ref_world
     \<lparr>files := [((''/d'', ''node_config.json''), JsonFile (JObj []))],
      daemon := ref_daemon0\<lparr>rd_containers :=
        [(''skale_filebeat'', \<lparr>c_name = ''skale_filebeat'', c_status = ''running'', c_exit_code = 0,
           c_image = ''filebeat'', c_env = [], c_cmd = []\<rparr>)]\<rparr>\<rparr>"

lemma ref_node_api_keeps: "keep_files ref_node_api"
  by (auto simp: keep_files_def calls_keep_def ref_node_api_def intro!: keeps_pure)

definition ref_registered :: "(ref_daemon, rule_d list) world" where
  "ref_registered =
     snd (node_register ref_env ref_node_api ''10.0.0.9'' ''10.0.0.9'' (JInt 10000) ''n'' ''d'' ref_fresh_node)"

lemma ref_registration:
  "node_register ref_env ref_node_api ''10.0.0.9'' ''10.0.0.9'' (JInt 10000) ''n'' ''d'' ref_fresh_node =
     (Inr (node_ok (JObj [(''node_id'', JInt 7), (''name'', JStr ''n''), (''node_ip'', JStr ''10.0.0.9'')])),
      ref_registered)"
proof -
  have "fst (node_register ref_env ref_node_api ''10.0.0.9'' ''10.0.0.9'' (JInt 10000) ''n'' ''d'' ref_fresh_node) =
     Inr (node_ok (JObj [(''node_id'', JInt 7), (''name'', JStr ''n''), (''node_ip'', JStr ''10.0.0.9'')]))"
    by code_simp
  then show ?thesis by (simp add: ref_registered_def prod_eq_iff)
qed

end
