(* ===== verification/Reference_Web.thy ===== *)
theory Reference_Web
  imports Web_Safety Daemon Reference_Operations
begin

text \<open>An instance of the third-party calls of the web API for the witnesses: every call is
  answered at once and changes nothing; one certificate is well-formed.\<close>

definition ref_telegram :: "('d, 'f) world note_api" where
  "ref_telegram =
     \<lparr>TG_API_KEY = [], TG_CHAT_ID = [], CHECKS_STATE_EXPIRATION = 86400,
      redis_get = (\<lambda>_. act_return None), redis_set = (\<lambda>_ _ _. act_return ()),
      redis_keys = (\<lambda>_. act_return []), redis_delete = (\<lambda>_. act_return ()),
      telegram_delay = (\<lambda>_ _ _. act_return ()), note_time = act_gets clock,
      note_ctime = (\<lambda>_. []), from_wei = str_of_int\<rparr>"

definition ref_web_api :: "('d, 'f) web_api" where
  "ref_web_api =
     \<lparr>node_calls = ref_node_api\<lparr>nodes_get := (\<lambda>_. act_return ref_manager_node)\<rparr>, answers = ref_contracts,
      telegram = ref_telegram, init_skale = act_return (), link_node_signature = (\<lambda>_. act_return ''0xs''),
      schain_name_to_id = (\<lambda>n. n), ipify = act_return (JObj [(''ip'', JStr ''10.0.0.9'')]),
      sgx_client = (\<lambda>_. act_return ()), sgx_server_status = (\<lambda>_. act_return 0),
      sgx_server_version = (\<lambda>_. act_return ''1''), ws_request = (\<lambda>_ _. act_return None),
      exn_repr = (\<lambda>_. []), container_attrs = (\<lambda>_. JObj []),
      hardware_info = \<lparr>cpu_total_cores = JInt 4, cpu_physical_cores = JInt 2, memory_total = JInt 1,
        swap_total = JInt 0, memory_used = JInt 1, memory_available = JInt 0,
        system_release = [], uname_version = []\<rparr>,
      block_device_answer = Inr (JObj [(''Err'', JStr []), (''Size'', JInt 100)]), lsmod = [],
      sha256 = (\<lambda>_. []),
      parse_cert = (\<lambda>c. if c = Some (Text ''cert'') then Inr (''me'', ''2030-01-01T00:00:00'')
        else Inl (ValueError [])),
      send_eth_call = (\<lambda>_ _. act_return ()), internal_error_text = ''500 Internal Server Error'',
      web3 = \<lparr>init_web3 = act_return (), gas_price = act_return 1, block_number = act_return 7,
        client_version = act_return ''Geth/v1'', eth_syncing = act_return (JBool False),
        fine_time = act_return 0, hundredths = JInt\<rparr>,
      schain_dict_get = (\<lambda>_. Inl \<circ> AttributeError), schain_json = (\<lambda>_. Inl (TypeError [])),
      ports_allocation = ref_ports, ports_of_schain = 64, ABI_FILEPATH = (''/d'', ''abi.json''),
      MAINNET_IMA_ABI_FILEPATH = (''/d'', ''ima.json'')\<rparr>"

text \<open>The calls of the admin daemon; chain \<open>beta\<close> has left the node and has its folder there.\<close>

definition ref_daemon_api :: "('d, 'f) daemon_api" where
  "ref_daemon_api =
     \<lparr>da_node = ref_node_api, da_notes = ref_telegram,
      da_migrator = \<lparr>get_columns = (\<lambda>_ _. []), migrator_add_column = (\<lambda>_ _ _. act_return ())\<rparr>,
      sgx_new_key = act_return ''key'', da_spawn = (\<lambda>ps. 1 + sum_list ps),
      da_term = (\<lambda>_. Terminates), da_sgx_delete = (\<lambda>_. Inr ()), da_ports = ref_ports, da_pps = 64,
      base_port_on_node = (\<lambda>_ _ p. Inr p)\<rparr>"

lemma ref_notices_apart: "notices_apart f ref_daemon_api"
  by (simp add: notices_apart_def same_part_def ref_daemon_api_def ref_node_api_def
      ref_telegram_def act_simps)

definition ref_left :: "(ref_daemon, rule_d list) world" where
  "ref_left = ref_world
     \<lparr>dirs := [''/d/schains/alpha'', ''/d/schains/beta''],
      daemon := ref_daemon0\<lparr>rd_volumes := [(''alpha'', 0), (''beta'', 1)], rd_made := 2\<rparr>\<rparr>"

lemma ref_web_quiet: "quiet_api P ref_web_api"
  by (simp add: quiet_api_def quiet_calls_def quiet_web3_def ref_web_api_def ref_node_api_def keeps_pure)

interpretation ref_reads: read_calls "same_node e w" ref_web_api
  by unfold_locales (simp_all add: ref_web_quiet same_node_clock)

definition ref_no_request :: request where
  "ref_no_request = \<lparr>rq_args = [], rq_json = JNull, rq_form = JObj [], rq_files = []\<rparr>"

definition ref_upload :: request where
  "ref_upload = ref_no_request\<lparr>rq_files := [(''ssl_key'', ''key''), (''ssl_cert'', ''cert'')]\<rparr>"

definition ref_nginx_node :: "(ref_daemon, rule_d list) world" where
  "ref_nginx_node = ref_world\<lparr>daemon := ref_daemon0\<lparr>rd_containers :=
     [(''skale_nginx'', \<lparr>c_name = ''skale_nginx'', c_status = ''running'', c_exit_code = 0,
        c_image = ''nginx'', c_env = [], c_cmd = []\<rparr>)]\<rparr>\<rparr>"

lemma ref_upload_ok:
  "fst (ssl_upload_route ref_env ref_web_api ref_upload ref_nginx_node) = Inr (construct_ok_response None)"
  by code_simp

end
