(* ===== verification/Node_Run.thy ===== *)
theory Node_Run
  imports Daemon Dkg_Action Config_Generator Tasks
begin

text \<open>
  The node as it runs: the rounds of the admin daemon and the monitor processes of its chains,
  interleaved. A monitor process (\<^verbatim>\<open>start_tasks\<close>, \<^verbatim>\<open>execute_tasks\<close>, the classes
  \<^verbatim>\<open>ConfigTask\<close> and \<^verbatim>\<open>SkaledTask\<close> of \<^verbatim>\<open>core/schains/monitor/main.py\<close>) has two tasks; a pass
  of its loop is \<open>process_pass\<close>, on the node's state; a thread runs a task's pipeline. The step
  relation \<open>node_step\<close> has one step per round, start, pass, pipeline, end of a process and passing of
  time; the contracts may answer differently in each step. Pipelines are not interleaved with
  one another statement by statement: each takes effect when its thread finishes.
\<close>

section \<open>The tasks of a process\<close>

definition STUCK_TIMEOUT_SECONDS :: int where "STUCK_TIMEOUT_SECONDS = 3600"

text \<open>The timeout of the task \<^verbatim>\<open>config\<close> is asked of the contracts whenever it is read
  (\<open>with_timeout\<close>).\<close>

definition ConfigTask :: "contracts \<Rightarrow> task" where
  "ConfigTask k =
     \<lparr>t_name = ''config'', t_future = Idle, t_start_ts = 0, t_stuck_timeout = dkg_stuck_timeout k\<rparr>"

definition SkaledTask :: task where
  "SkaledTask =
     \<lparr>t_name = ''skaled'', t_future = Idle, t_start_ts = 0, t_stuck_timeout = STUCK_TIMEOUT_SECONDS\<rparr>"

definition with_timeout :: "contracts \<Rightarrow> task \<Rightarrow> task" where
  "with_timeout k t =
     (if t_name t = ''config'' then t\<lparr>t_stuck_timeout := dkg_stuck_timeout k\<rparr> else t)"

lemma with_timeout_name [simp]: "t_name (with_timeout k t) = t_name t"
  by (simp add: with_timeout_def)

definition task_needed ::
  "('d, 'f) env \<Rightarrow> contracts \<Rightarrow> int \<Rightarrow> string \<Rightarrow> task \<Rightarrow> ('d, 'f, bool) wact" where
  "task_needed e k node_id n t =
     (if t_name t = ''config'' then act_res (\<lambda>_. config_task_needed e k node_id n)
      else skaled_task_needed e n)"

text \<open>What a chain's configuration pipeline calls: the key generation and the generator.\<close>

record ('d, 'f) pipeline_calls =
  pc_ports :: skaled_ports
  pc_pps :: int
  pc_dkg :: "contracts \<Rightarrow> string \<Rightarrow> ('d, 'f, DKGStatus \<times> json) wact"
  pc_generate :: "contracts \<Rightarrow> string \<Rightarrow> ('d, 'f, generated_config) wact"

definition create_pipeline ::
  "('d, 'f) env \<Rightarrow> ('d, 'f) pipeline_calls \<Rightarrow> contracts \<Rightarrow> int \<Rightarrow> string \<Rightarrow> task \<Rightarrow> ('d, 'f, unit) wact" where
  "create_pipeline e c k node_id n t =
     (if t_name t = ''config''
      then run_config_pipeline e (pc_ports c) (pc_pps c) k node_id (pc_dkg c k n) (pc_generate c k n) n
      else act_drop (run_skaled_pipeline e (pc_ports c) (pc_pps c) k n))"

section \<open>A pass on the node's state\<close>

text \<open>Whether a task is needed is asked only while it does not run, and asking may add the
  chain's record.\<close>

definition world_visit_task ::
  "(task \<Rightarrow> ('d, 'f, bool) wact) \<Rightarrow> task \<Rightarrow> string list \<Rightarrow> ('d, 'f, task \<times> string list) wact" where
  "world_visit_task needed t stucked =
     act_bind (if future_running t then act_return False else needed t) (\<lambda>b.
     act_gets (\<lambda>w. visit_task (\<lambda>_. b) (clock w) t stucked))"

fun world_visit_tasks ::
  "(task \<Rightarrow> ('d, 'f, bool) wact) \<Rightarrow> task list \<Rightarrow> string list \<Rightarrow>
   ('d, 'f, task list \<times> string list) wact" where
  "world_visit_tasks needed [] stucked = act_return ([], stucked)"
| "world_visit_tasks needed (t # ts) stucked =
     act_bind (world_visit_task needed t stucked) (\<lambda>(t', stucked').
     act_bind (world_visit_tasks needed ts stucked') (\<lambda>(ts', stucked'').
     act_return (t' # ts', stucked'')))"

definition process_pass ::
  "('d, 'f) env \<Rightarrow> contracts \<Rightarrow> int \<Rightarrow> string \<Rightarrow> task list \<Rightarrow> string list \<Rightarrow>
   ('d, 'f, task list \<times> string list) wact" where
  "process_pass e k node_id n ts stucked =
     act_bind (world_visit_tasks (task_needed e k node_id n) (map (with_timeout k) ts) stucked) (\<lambda>(ts', stucked').
     act_then (time_sleep SLEEP_INTERVAL_SECONDS)
    (act_then
       (if stucked' \<noteq> [] then set_report_ts e n 0
        else (\<lambda>w. set_report_ts e n (clock w) w))
       (act_return (ts', stucked'))))"

section \<open>A pass refines the loop's pass\<close>

lemma visit_tasks_cong:
  "(\<And>t. t \<in> set ts \<Longrightarrow> f (t_name t) = g (t_name t)) \<Longrightarrow>
   visit_tasks f now ts stucked = visit_tasks g now ts stucked"
  by (induction ts arbitrary: stucked) (auto simp: visit_task_def Let_def split_beta)

lemma world_visits_refine:
  assumes frame: "\<And>t w. clock (snd (needed t w)) = clock w \<and> files (snd (needed t w)) = files w"
    and "distinct (map t_name ts)"
    and "world_visit_tasks needed ts stucked w = (Inr (ts', stucked'), w')"
  shows "\<exists>f. visit_tasks f (clock w) ts stucked = (ts', stucked') \<and> clock w' = clock w \<and> files w' = files w"
  using assms(2,3)
proof (induction ts arbitrary: stucked w ts')
  case Nil
  then show ?case by (simp add: act_simps)
next
  case (Cons t ts)
  from Cons.prems(2) obtain x w1 where v0: "world_visit_task needed t stucked w = (Inr x, w1)"
    and rest0: "(case x of (t', st) \<Rightarrow> act_bind (world_visit_tasks needed ts st)
      (\<lambda>(ts', st'). act_return (t' # ts', st'))) w1 = (Inr (ts', stucked'), w')"
    unfolding world_visit_tasks.simps by (rule act_bindE)
  obtain t1 st1 where x: "x = (t1, st1)" by fastforce
  note v = v0 [unfolded x]
  note rest = rest0 [unfolded x prod.case]
  from v obtain b w2 where ask: "(if future_running t then act_return False else needed t) w = (Inr b, w2)"
    and w2: "act_gets (\<lambda>w. visit_task (\<lambda>_. b) (clock w) t stucked) w2 = (Inr (t1, st1), w1)"
    unfolding world_visit_task_def by (rule act_bindE)
  have t1: "(t1, st1) = visit_task (\<lambda>_. b) (clock w1) t stucked" and w21: "w2 = w1"
    using w2 by (auto simp: act_simps)
  have w1: "clock w1 = clock w" "files w1 = files w"
    using ask frame [of t w] by (auto simp: w21 act_simps split: if_splits)
  from rest obtain y w3 where y: "world_visit_tasks needed ts st1 w1 = (Inr y, w3)"
    and ret: "(case y of (ts', st') \<Rightarrow> act_return (t1 # ts', st')) w3 = (Inr (ts', stucked'), w')"
    by (rule act_bindE)
  obtain ts1 where r: "world_visit_tasks needed ts st1 w1 = (Inr (ts1, stucked'), w')" "ts' = t1 # ts1"
    using y ret by (cases y) (auto simp: act_simps)
  from Cons.IH [OF _ r(1)] Cons.prems(1) obtain f where
    f: "visit_tasks f (clock w1) ts st1 = (ts1, stucked')" "clock w' = clock w1" "files w' = files w1"
    by auto
  let ?f = "f(t_name t := b)"
  have "visit_tasks ?f (clock w1) ts st1 = visit_tasks f (clock w1) ts st1"
    using Cons.prems(1) by (intro visit_tasks_cong) (auto, (metis image_eqI)+)
  then have "visit_tasks ?f (clock w1) ts st1 = (ts1, stucked')" by (simp add: f(1))
  moreover have "visit_task ?f (clock w1) t stucked = (t1, st1)"
    using t1 by (simp add: visit_task_def)
  ultimately have "visit_tasks ?f (clock w) (t # ts) stucked = (ts', stucked')"
    by (simp add: w1 r(2))
  with f w1 show ?case by auto
qed

lemma task_needed_frame:
  "clock (snd (task_needed e k node_id n t w)) = clock w \<and> files (snd (task_needed e k node_id n t w)) = files w"
  by (simp add: task_needed_def skaled_task_needed_def am_record_def act_simps Let_def
      split: prod.split option.split)

text \<open>What the loop's machine sees of a process and of the node.\<close>

definition process_view :: "task list \<Rightarrow> string list \<Rightarrow> bool \<Rightarrow> int \<Rightarrow> ('d, 'f) world \<Rightarrow> exec" where
  "process_view ts stucked over t w =
     \<lparr>x_tasks = ts, x_stucked = stucked, x_clock = clock w, x_report_ts = t, x_done = over\<rparr>"

lemma process_pass_refines:
  assumes names: "distinct (map t_name ts)" and pid: "report_pid e n w = Inr pid"
    and run: "process_pass e k node_id n ts stucked w = (Inr (ts', stucked'), w')"
  shows "\<exists>needed t'. exec_pass needed (process_view (map (with_timeout k) ts) stucked False t w) =
           process_view ts' stucked' (stucked' \<noteq> []) t' w' \<and> report_ts e n w' = Inr t'"
proof -
  let ?ts = "map (with_timeout k) ts"
  have names': "distinct (map t_name ?ts)" using names by (simp add: comp_def)
  from run obtain w1 where v: "world_visit_tasks (task_needed e k node_id n) ?ts stucked w = (Inr (ts', stucked'), w1)"
    and rest: "act_then (time_sleep SLEEP_INTERVAL_SECONDS)
      (act_then (if stucked' \<noteq> [] then set_report_ts e n 0 else (\<lambda>w. set_report_ts e n (clock w) w))
        (act_return (ts', stucked'))) w1 = (Inr (ts', stucked'), w')"
    unfolding process_pass_def by (elim act_bindE) (auto simp: act_simps split: sum.splits prod.splits)
  from world_visits_refine [OF task_needed_frame names' v] obtain f where
    f: "visit_tasks f (clock w) ?ts stucked = (ts', stucked')" "clock w1 = clock w" "files w1 = files w"
    by blast
  let ?w = "w1\<lparr>clock := clock w1 + SLEEP_INTERVAL_SECONDS\<rparr>"
  let ?t = "if stucked' \<noteq> [] then 0 else clock ?w"
  have "report_pid e n ?w = Inr pid" using pid f(3) by (simp add: report_pid_def report_read_def)
  from set_report_ts_spec [OF this, of ?t] obtain w2 where
    w2: "set_report_ts e n ?t ?w = (Inr (), w2)" "report_ts e n w2 = Inr ?t" "clock w2 = clock ?w" by blast
  with rest have "w' = w2" by (auto simp: act_simps split: if_splits)
  with w2 f show ?thesis
    by (intro exI [of _ f] exI [of _ ?t]) (auto simp: exec_pass_def process_view_def Let_def)
qed

section \<open>The node\<close>

text \<open>A process whose loop was left (a stuck task, an exception) lives on until its threads end
  or it is killed.\<close>

record process =
  pr_tasks :: "task list"
  pr_stucked :: "string list"
  pr_over :: bool

record ('d, 'f) node =
  nd_world :: "('d, 'f) world"
  nd_processes :: "(string, process) table"

definition set_task :: "nat \<Rightarrow> future_state \<Rightarrow> process \<Rightarrow> process" where
  "set_task i st p = p\<lparr>pr_tasks := (pr_tasks p)[i := (pr_tasks p ! i)\<lparr>t_future := st\<rparr>]\<rparr>"

definition new_process :: "contracts \<Rightarrow> process" where
  "new_process k = \<lparr>pr_tasks = [ConfigTask k, SkaledTask], pr_stucked = [], pr_over = False\<rparr>"

definition start_step ::
  "('d, 'f) env \<Rightarrow> contracts \<Rightarrow> int \<Rightarrow> int \<Rightarrow> string \<Rightarrow> ('d, 'f) node \<Rightarrow> ('d, 'f) node" where
  "start_step e k node_id pid n s =
     (case start_tasks e k node_id pid n (nd_world s) of
        (r, w) \<Rightarrow> s\<lparr>nd_world := w, nd_processes :=
          (if r = Inr True then tab_put n (new_process k) (nd_processes s) else nd_processes s)\<rparr>)"

definition pass_step ::
  "('d, 'f) env \<Rightarrow> contracts \<Rightarrow> int \<Rightarrow> string \<Rightarrow> process \<Rightarrow> ('d, 'f) node \<Rightarrow> ('d, 'f) node" where
  "pass_step e k node_id n p s =
     (case process_pass e k node_id n (pr_tasks p) (pr_stucked p) (nd_world s) of
        (r, w) \<Rightarrow> s\<lparr>nd_world := w, nd_processes := tab_put n
          (case r of
             Inl _ \<Rightarrow> p\<lparr>pr_over := True\<rparr>
           | Inr (ts, stucked) \<Rightarrow> p\<lparr>pr_tasks := ts, pr_stucked := stucked, pr_over := stucked \<noteq> []\<rparr>)
          (nd_processes s)\<rparr>)"

definition finish_step ::
  "('d, 'f) env \<Rightarrow> ('d, 'f) pipeline_calls \<Rightarrow> contracts \<Rightarrow> int \<Rightarrow> string \<Rightarrow> process \<Rightarrow> nat \<Rightarrow>
   ('d, 'f) node \<Rightarrow> ('d, 'f) node" where
  "finish_step e c k node_id n p i s =
     s\<lparr>nd_world := snd (create_pipeline e c k node_id n (pr_tasks p ! i) (nd_world s)),
       nd_processes := tab_put n (set_task i Finished p) (nd_processes s)\<rparr>"

text \<open>\<open>K\<close> are the answers the contracts give, \<open>M\<close> the chains whose processes run.\<close>

inductive node_step ::
  "('d, 'f) env \<Rightarrow> ('d, 'f) daemon_api \<Rightarrow> ('d, 'f) pipeline_calls \<Rightarrow> int \<Rightarrow> contracts set \<Rightarrow> string set \<Rightarrow>
   ('d, 'f) node \<Rightarrow> ('d, 'f) node \<Rightarrow> bool"
  for e a c node_id K M where
  node_round: "k \<in> K \<Longrightarrow>
    node_step e a c node_id K M s (s\<lparr>nd_world := snd (monitor_round e a node_id k (nd_world s))\<rparr>)"
| node_start: "k \<in> K \<Longrightarrow> n \<in> M \<Longrightarrow> node_step e a c node_id K M s (start_step e k node_id pid n s)"
| node_pass: "k \<in> K \<Longrightarrow> n \<in> M \<Longrightarrow> tab_get (nd_processes s) n = Some p \<Longrightarrow> \<not> pr_over p \<Longrightarrow>
    node_step e a c node_id K M s (pass_step e k node_id n p s)"
| node_thread: "tab_get (nd_processes s) n = Some p \<Longrightarrow> i < length (pr_tasks p) \<Longrightarrow>
    t_future (pr_tasks p ! i) = Queued \<Longrightarrow>
    node_step e a c node_id K M s
      (s\<lparr>nd_processes := tab_put n (set_task i Running p) (nd_processes s)\<rparr>)"
| node_finish: "k \<in> K \<Longrightarrow> n \<in> M \<Longrightarrow> tab_get (nd_processes s) n = Some p \<Longrightarrow> i < length (pr_tasks p) \<Longrightarrow>
    t_future (pr_tasks p ! i) = Running \<Longrightarrow>
    node_step e a c node_id K M s (finish_step e c k node_id n p i s)"
| node_exit: "node_step e a c node_id K M s (s\<lparr>nd_processes := tab_del n (nd_processes s)\<rparr>)"
| node_time: "0 \<le> d \<Longrightarrow>
    node_step e a c node_id K M s (s\<lparr>nd_world := (nd_world s)\<lparr>clock := clock (nd_world s) + d\<rparr>\<rparr>)"

inductive node_run ::
  "('d, 'f) env \<Rightarrow> ('d, 'f) daemon_api \<Rightarrow> ('d, 'f) pipeline_calls \<Rightarrow> int \<Rightarrow> contracts set \<Rightarrow> string set \<Rightarrow>
   ('d, 'f) node \<Rightarrow> ('d, 'f) node \<Rightarrow> bool"
  for e a c node_id K M s where
  run_refl: "node_run e a c node_id K M s s"
| run_step: "node_run e a c node_id K M s t \<Longrightarrow> node_step e a c node_id K M t u \<Longrightarrow>
    node_run e a c node_id K M s u"

section \<open>Invariants of the node\<close>

lemma keeps_visits:
  assumes "\<And>t. keeps P (needed t)"
  shows "keeps P (world_visit_tasks needed ts stucked)"
proof (induction ts arbitrary: stucked)
  case (Cons t ts)
  then show ?case
    by (auto simp: world_visit_task_def intro!: keeps_intros keeps_pure assms split: prod.split)
qed (simp add: keeps_pure)

locale node_invariant =
  fixes e :: "('d, 'f) env" and a :: "('d, 'f) daemon_api" and c :: "('d, 'f) pipeline_calls"
    and node_id :: int and K :: "contracts set" and M :: "string set" and P :: "('d, 'f) world \<Rightarrow> bool"
  assumes round: "k \<in> K \<Longrightarrow> keeps P (monitor_round e a node_id k)"
    and start: "k \<in> K \<Longrightarrow> n \<in> M \<Longrightarrow> keeps P (start_tasks e k node_id pid n)"
    and needed: "k \<in> K \<Longrightarrow> n \<in> M \<Longrightarrow> keeps P (task_needed e k node_id n t)"
    and report: "n \<in> M \<Longrightarrow> keeps P (set_report_ts e n v)"
    and sleep: "keeps P (time_sleep SLEEP_INTERVAL_SECONDS)"
    and pipeline: "k \<in> K \<Longrightarrow> n \<in> M \<Longrightarrow> keeps P (create_pipeline e c k node_id n t)"
    and time: "0 \<le> d \<Longrightarrow> P w \<Longrightarrow> P (w\<lparr>clock := clock w + d\<rparr>)"
begin

lemma pass:
  assumes "k \<in> K" and "n \<in> M"
  shows "keeps P (process_pass e k node_id n ts stucked)"
proof -
  have now: "keeps P (\<lambda>w. set_report_ts e n (clock w) w)"
    using report [OF assms(2)] by (simp add: keeps_def)
  show ?thesis
    unfolding process_pass_def
    by (auto intro!: keeps_intros keeps_visits needed sleep report now assms keeps_pure split: prod.split)
qed

lemma step:
  assumes "node_step e a c node_id K M s t" and "P (nd_world s)"
  shows "P (nd_world t)"
  using assms
proof cases
  case (node_round k)
  with assms(2) keepsD [OF round] show ?thesis by simp
next
  case (node_start k n pid)
  with assms(2) keepsD [OF start [OF node_start(2,3)], of "nd_world s" pid] show ?thesis
    by (auto simp: start_step_def split: prod.split)
next
  case (node_pass k n p)
  with assms(2) keepsD [OF pass [OF node_pass(2,3)], of "nd_world s" "pr_tasks p" "pr_stucked p"]
  show ?thesis by (auto simp: pass_step_def split: prod.split)
next
  case (node_finish k n p i)
  with assms(2) keepsD [OF pipeline [OF node_finish(2,3)], of "nd_world s"] show ?thesis
    by (simp add: finish_step_def)
qed (simp_all add: time)

lemma run: "node_run e a c node_id K M s t \<Longrightarrow> P (nd_world s) \<Longrightarrow> P (nd_world t)"
  by (induction rule: node_run.induct) (auto intro: step)

end

section \<open>What belongs to a chain\<close>

lemma wdok_parts:
  "keeps (wdok Q) (set_report_ts e n v)" "keeps (wdok Q) (remove_skaled_config e n)"
  "keeps (wdok Q) (save_new_upstream e n r j)" "keeps (wdok Q) (init_schain_config_dir e n)"
  "keeps (wdok Q) (external_update e n est)" "keeps (wdok Q) (report_update e n pid t)"
  by (intro wdok_same; simp add: set_report_ts_def report_set_def report_update_def report_save_def
      remove_skaled_config_def save_new_upstream_def init_schain_config_dir_def external_update_def
      act_simps makedirs_def split: sum.split prod.split)+

lemma wdok_update_version:
  "keeps (wdok Q) (act_bind (am_record e n) (\<lambda>rec. act_drop (update_schain_config_version e rec)))"
  unfolding update_schain_config_version_def by (intro keeps_intros dok_intros)

lemma wdok_start: "keeps (wdok Q) (start_tasks e k node_id pid n)"
proof -
  have "keeps (wdok Q) (\<lambda>w. report_update e n pid (clock w) w)"
    using wdok_parts(6) [of Q e n pid] by (simp add: keeps_def)
  then show ?thesis
    unfolding start_tasks_def by (intro keeps_intros dok_intros wdok_process wdok_parts)
qed

lemma wdok_needed: "keeps (wdok Q) (task_needed e k node_id n t)"
  unfolding task_needed_def skaled_task_needed_def by (intro keeps_intros dok_intros)

lemma dok_config_actions:
  "keeps (dok Q) (config_dir_action e am)" "keeps (dok Q) (external_state_action e am)"
  "keeps (dok Q) (reset_config_record_action e am)" "keeps (dok Q) (save_reload_ts e am t)"
proof -
  have ext: "keeps (dok Q) (\<lambda>s. on_world (external_update e n (estate s)) s)" for n
    using dok_on_world [OF wdok_parts(5)] unfolding keeps_def by blast
  show "keeps (dok Q) (config_dir_action e am)"
    unfolding config_dir_action_def by (intro dok_intros keeps_intros wdok_parts)
  show "keeps (dok Q) (external_state_action e am)"
    unfolding external_state_action_def by (intro dok_intros keeps_intros ext)
  show "keeps (dok Q) (reset_config_record_action e am)"
    unfolding reset_config_record_action_def
    by (intro dok_intros keeps_intros wdok_update_version)
  show "keeps (dok Q) (save_reload_ts e am t)"
    unfolding save_reload_ts_def by (intro keeps_then dok_modify ext) simp
qed

lemma dok_update_reload_ts: "keeps (dok Q) (update_reload_ts_action e am k ipm sn)"
  unfolding update_reload_ts_action_def by (intro dok_intros keeps_intros dok_config_actions)

lemma dok_dkg_action:
  assumes "keeps (wdok Q) dkg"
  shows "keeps (dok Q) (dkg_action e am dkg)"
  unfolding dkg_action_def save_dkg_results_def
  by (intro dok_intros keeps_bind keeps_then keeps_ite keeps_pure assms keeps_case_prod keeps_block)
    (simp add: dok_intros keeps_intros)

lemma dok_upstream_action:
  assumes "keeps (wdok Q) generate"
  shows "keeps (dok Q) (upstream_config_action e am generate)"
  unfolding upstream_config_action_def
  by (intro dok_intros keeps_intros assms wdok_update_version wdok_parts)

lemma dok_external_check: "keeps (dok Q) (check_external_state e c)"
  by (rule dok_same) (simp add: check_external_state_def act_simps split: sum.split)

lemma dok_config_execute:
  assumes "keeps (wdok Q) dkg" and "keeps (wdok Q) generate"
  shows "keeps (dok Q) (config_execute e am k dkg generate mon)"
  using assms
  by (cases mon) (simp_all add: regular_config_execute_def sync_config_execute_def
      upstream_unless_def reload_ts_from_check_def dok_intros dok_config_actions dok_update_reload_ts
      dok_dkg_action dok_upstream_action dok_external_check keeps_intros)

lemma wdok_config_pipeline:
  assumes "keeps (wdok Q) dkg" and "keeps (wdok Q) generate"
  shows "keeps (wdok Q) (run_config_pipeline e ports pps k node_id dkg generate n)"
proof -
  have checks: "keeps (dok Q) (checks_get_all (config_check_table e cc) [])" for cc
    by (rule dok_same) (simp add: config_checks_get_all_frame)
  show ?thesis
    unfolding run_config_pipeline_def run_config_monitor_def Let_def
    by (intro keeps_intros wdok_with_mstate keeps_try)
      (auto intro!: keeps_intros checks dok_intros dok_config_execute assms simp del: config_execute.simps)
qed

text \<open>The contracts give a chain's data under its own name.\<close>

definition named :: "contracts \<Rightarrow> bool" where
  "named k \<longleftrightarrow> (\<forall>n sch. get_schain_by_name k n = Inr sch \<longrightarrow> sch_name sch = n)"

text \<open>The key generation and the generator leave a part of the state alone.\<close>

definition calls_apart :: "(('d, 'f) world \<Rightarrow> 'x) \<Rightarrow> ('d, 'f) pipeline_calls \<Rightarrow> bool" where
  "calls_apart f c \<longleftrightarrow> (\<forall>k n. same_part f (pc_dkg c k n) \<and> same_part f (pc_generate c k n))"

context docker_node
begin

lemma skaled_pipeline_elsewhere:
  assumes "named k"
  shows "keeps (wdok (elsewhere U n x v C i)) (run_skaled_pipeline e ports pps k n)"
proof (cases "get_schain_by_name k n")
  case (Inl err)
  then show ?thesis by (simp add: run_skaled_pipeline_def keeps_def act_simps)
next
  case (Inr sch)
  with assms have n: "n = sch_name sch" by (simp add: named_def)
  have body: "keeps (dok (elsewhere U n x v C i)) (skaled_pipeline_body e
      \<lparr>sa_schain = sch, sa_checks = sc, sa_ncli_status = st, sa_historic_state = h\<rparr> rec ss ns)" for sc st h rec ss ns
    using pipeline_keeps_elsewhere [of "\<lparr>sa_schain = sch, sa_checks = sc, sa_ncli_status = st,
        sa_historic_state = h\<rparr>"] by (simp add: sa_name_def n)
  show ?thesis
    unfolding run_skaled_pipeline_def Inr act_bind_const Let_def
    by (intro keeps_intros wdok_with_mstate body)
qed

lemma undisturbed:
  assumes own: "own_container n x" and apart: "notices_apart daemon a" "calls_apart daemon c"
    and K: "\<And>k. k \<in> K \<Longrightarrow> spared k node_id n \<and> named k" and M: "n \<notin> M"
  shows "node_invariant e a c node_id K M (wdok (holds U n x C i))"
proof
  show "keeps (wdok (holds U n x C i)) (monitor_round e a node_id k)" if "k \<in> K" for k
    using K that unfolding monitor_round_def run_cleaner_def
    by (intro keeps_intros run_process_manager_keeps [OF apart(1) wdok_def] cleaner_holds wdok_plain
        wdok_process own) simp_all
  show "keeps (wdok (holds U n x C i)) (create_pipeline e c k node_id m t)" if "k \<in> K" "m \<in> M" for k m t
  proof -
    have "m \<noteq> n" using that M by blast
    then have "keeps (wdok (holds U n x C i)) (run_skaled_pipeline e (pc_ports c) (pc_pps c) k m)"
      using skaled_pipeline_elsewhere [of k] K [OF that(1)] holds_elsewhere [OF own] by simp
    then show ?thesis
      unfolding create_pipeline_def using apart(2)
      by (intro keeps_ite keeps_drop wdok_config_pipeline)
        (auto simp: calls_apart_def intro: wdok_same_part)
  qed
qed (auto simp: wdok_def intro: wdok_start wdok_needed wdok_parts wdok_plain)

end

text \<open>The model's key generation and generator are such calls.\<close>

lemma dkg_on_world_keeps:
  assumes "api_tame True (wdok Q) a"
  shows "keeps (wdok Q) (dkg_on_world a k node_id n key rot)"
proof (rule keepsI)
  fix w :: "('a, 'b) world" assume w: "wdok Q w"
  obtain r w' where run: "dkg_session a k node_id n key rot w = (r, w')" by fastforce
  with dkg_session_keeps [OF assms w run] show "wdok Q (snd (dkg_on_world a k node_id n key rot w))"
    by (simp add: dkg_on_world_def act_simps split: sum.split)
qed

lemma generator_same_part: "same_part daemon (create_new_upstream_config e g k n gen rot key sync)"
  by (simp add: same_part_def create_new_upstream_config_def act_simps split: sum.split prod.split)

end
