(* ===== verification/Node_Records.thy ===== *)
theory Node_Records
  imports Node_Run
begin

text \<open>
  The record table while the node runs: every step of \<open>node_step\<close> keeps it keyed by name and keeps
  the counters of every chain in their bounds.
\<close>

lemma sok_on_node: "sok = on_node wok"
  by (simp add: fun_eq_iff sok_def on_node_def)

lemma wok_process:
  "keeps wok (ProcessReport e n)" "keeps wok (terminate_process answer pid)"
  "keeps wok (start_process spawn)" "keeps wok (set_report_ts e n v)"
  "keeps wok (report_update e n pid t)" "keeps wok (remove_skaled_config e n)"
  "keeps wok (delete_bls_keys e k sgx_delete n)"
  subgoal by (rule wok_no_db) (simp add: ProcessReport_def makedirs_def act_simps)
  subgoal by (rule wok_no_db) (simp add: terminate_process_def act_simps split: term_result.split)
  subgoal by (rule wok_no_db) (simp add: start_process_def act_simps)
  subgoal by (rule wok_no_db) (simp add: set_report_ts_def report_set_def report_save_def act_simps
        split: sum.split prod.split)
  subgoal by (rule wok_no_db) (simp add: report_update_def report_save_def act_simps split: sum.split prod.split)
  subgoal by (rule wok_no_db) (simp add: remove_skaled_config_def act_simps split: sum.split prod.split)
  subgoal unfolding delete_bls_keys_def delete_bls_key_of_def by (intro keeps_intros)
  done

lemma counter_safe_deleted: "counter_safe set_deleted"
  unfolding set_deleted_def by (rule counter_safe_save_with) (simp add: counters_ok_def)

lemma wok_mark_deleted: "keeps wok (modify_db (mark_schain_deleted n))"
  using counter_safe_deleted
  by (auto simp: keeps_def wok_def modify_db_def act_simps mark_schain_deleted_def on_existing_def
      counter_safe_def db_counters_ok_def split: option.split)

lemma wok_cleanup: "keeps wok (cleanup_schain e ports pps n rs rid ldk cn est)"
proof (rule keepsI)
  fix w :: "('a, 'b) world" assume w: "wok w"
  obtain ro d' where up: "upsert_schain_record n (datetime_now e w) (import_dt e) (db w) = (ro, d')"
    by fastforce
  have steps: "keeps sok (cleanup_steps e n est st)" for st
    unfolding cleanup_steps_def cleanup_firewall_def Let_def remove_config_dir_def
    by (intro keeps_block) (auto intro!: keeps_intros sok_intros wok_intros wok_mark_deleted)
  have checks: "keeps sok (schain_checks_get_all e cc sc False [])" for cc sc
    using on_node_schain_checks [of wok e cc sc "[]"] by (simp add: sok_on_node)
  have d': "wok (w\<lparr>db := d'\<rparr>)"
    using w upsert_counters(1) [OF _ up] by (simp add: wok_def)
  have "wok (snd (with_mstate rc es (act_bind (schain_checks_get_all e cc sc False [])
      (cleanup_steps e n est)) (w\<lparr>db := d'\<rparr>)))" for rc es cc sc
    by (rule keepsD [OF with_mstate_wok d']) (intro keeps_bind checks steps)
  with d' show "wok (snd (cleanup_schain e ports pps n rs rid ldk cn est w))"
    by (simp add: cleanup_schain_def up Let_def split: option.split)
qed

lemma wok_remove_schain: "keeps wok (remove_schain e ports pps k sgx_delete answer n)"
  unfolding remove_schain_def Let_def
  by (intro keeps_block) (auto intro!: keeps_intros wok_process wok_cleanup)

lemma wok_cleaner: "keeps wok (cleaner_monitor e ports pps k sgx_delete answer node_id)"
  unfolding cleaner_monitor_def ensure_schain_removed_def
  by (intro keeps_intros wok_remove_schain)

lemma run_config_pipeline_wok:
  assumes "keeps wok dkg" and "keeps wok generate"
  shows "keeps wok (run_config_pipeline e ports pps k node_id dkg generate n)"
proof -
  have checks: "keeps sok (checks_get_all (config_check_table e cc) [])" for cc
    by (rule sok_same_world) (simp add: config_checks_get_all_frame)
  show ?thesis
    unfolding run_config_pipeline_def run_config_monitor_def Let_def
    by (intro keeps_intros with_mstate_wok)
      (auto intro!: keeps_intros checks sok_intros wok_upd sok_config_execute assms
        simp del: config_execute.simps)
qed

lemma node_records:
  assumes "notices_apart db a" and "calls_apart db c"
  shows "node_invariant e a c node_id K M wok"
proof
  have R: "wok w = (db_counters_ok (db w))" for w :: "('a, 'b) world" by (simp add: wok_def)
  show "keeps wok (monitor_round e a node_id k)" for k
    unfolding monitor_round_def run_cleaner_def
    by (intro keeps_intros run_process_manager_keeps [where f = db and R = db_counters_ok] assms(1) R wok_cleaner wok_plain wok_process)
  have calls: "keeps wok (pc_dkg c k n)" "keeps wok (pc_generate c k n)" for k n
    using assms(2) by (auto simp: calls_apart_def same_part_def intro: wok_no_db)
  then show "keeps wok (create_pipeline e c k node_id n t)" for k n t
    unfolding create_pipeline_def
    by (intro keeps_ite keeps_drop run_skaled_pipeline_wok run_config_pipeline_wok)
  have now: "keeps wok (\<lambda>w. report_update e n pid (clock w) w)" for n pid
    using wok_process(5) unfolding keeps_def by blast
  show "keeps wok (start_tasks e k node_id pid n)" for k pid n
    unfolding start_tasks_def by (intro keeps_then now wok_process wok_am_record keeps_intros)
  show "keeps wok (task_needed e k node_id n t)" for k n t
    unfolding task_needed_def skaled_task_needed_def
    by (intro keeps_ite keeps_pure wok_am_record)
qed (simp_all add: wok_def wok_plain wok_process)

end
