(* ===== verification/Removal.thy ===== *)
theory Removal
  imports Node_Run
begin

text \<open>
  What a removal by the cleaner that ends without an error has done to the chain's container: the
  checks are taken at its start, and what they say decides what is removed.
\<close>

section \<open>What the checks say\<close>

lemma in_fold_put: "x \<in> set (fold (\<lambda>(k, b) t. tab_put k b t) us t) \<Longrightarrow> x \<in> set us \<or> x \<in> set t"
proof (induction us arbitrary: t)
  case (Cons u us)
  obtain k b where u: "u = (k, b)" by fastforce
  from Cons.prems have "x \<in> set (fold (\<lambda>(k, b) t. tab_put k b t) us (tab_put k b t))" by (simp add: u)
  from Cons.IH [OF this] show ?case by (cases x) (auto simp: u dest: in_tab_put)
qed simp

text \<open>An entry of a status comes from a check that was run on the node as it was.\<close>

lemma run_checks_entries:
  assumes frame: "\<And>m chk u. map_of table m = Some chk \<Longrightarrow> wld (snd (chk u)) = wld u"
    and run: "run_checks table ns st s = (Inr st', s')" and entry: "(k, b) \<in> set st'"
  shows "(k, b) \<in> set st \<or> (\<exists>chk u. map_of table k = Some chk \<and> wld u = wld s \<and> fst (chk u) = Inr b)"
  using run
proof (induction ns arbitrary: st s)
  case Nil
  with entry show ?case by (simp add: act_simps)
next
  case (Cons n ns)
  from Cons.prems obtain st1 s1 where r: "run_check table n st s = (Inr st1, s1)"
    and rest: "run_checks table ns st1 s1 = (Inr st', s')"
    unfolding run_checks.simps by (rule act_bindE)
  have step: "wld s1 = wld s \<and> ((k, b) \<in> set st1 \<longrightarrow> (k, b) \<in> set st \<or>
      (\<exists>chk u. map_of table k = Some chk \<and> wld u = wld s \<and> fst (chk u) = Inr b))"
  proof (cases "map_of table n")
    case None
    with r show ?thesis by (simp add: run_check_def act_simps)
  next
    case (Some chk)
    obtain r0 u0 where c0: "chk s = (r0, u0)" by fastforce
    obtain r1 u1 where c1: "chk u0 = (r1, u1)" by fastforce
    have "wld u0 = wld s" "wld u1 = wld u0"
      using frame [OF Some, of s] frame [OF Some, of u0] c0 c1 by auto
    with r c0 c1 Some show ?thesis
      by (auto simp: run_check_def act_simps split: sum.splits exn.splits dest!: in_tab_put)
        (metis fst_conv)+
  qed
  with Cons.IH [OF rest] show ?case by auto
qed

lemma tables_frame:
  "map_of (config_check_table e cc) m = Some chk \<Longrightarrow> wld (snd (chk u)) = wld u"
  "map_of (skaled_check_table e sc) m = Some chk \<Longrightarrow> wld (snd (chk u)) = wld u"
  using check_table_frame [of _ _ e sc cc] by (auto dest: map_of_SomeD)

lemma schain_checks_entries:
  assumes "schain_checks_get_all e cc sc False needed s = (Inr st, s')"
  shows "wld s' = wld s"
    and "(''skaled_container'', b) \<in> set st \<Longrightarrow> check_skaled_container e sc (wld s) = Inr b"
proof -
  have "on_node (\<lambda>w. w = wld s) s" by (simp add: on_node_def)
  from keepsD_eq [OF on_node_schain_checks this assms] show "wld s' = wld s" by (simp add: on_node_def)
next
  assume b: "(''skaled_container'', b) \<in> set st"
  let ?ns = "if needed \<noteq> [] then needed else API_ALLOWED_CHECKS"
  let ?fold = "\<lambda>st2 st1. fold (\<lambda>(k, b) t. tab_put k b t) st2 st1"
  from assms obtain st1 s1 where c: "checks_get_all (config_check_table e cc) ?ns s = (Inr st1, s1)"
    and r1: "act_bind (checks_get_all (skaled_check_table e sc) ?ns) (\<lambda>st2.
         act_bind (act_gets (\<lambda>s. truthy (es_ima_linked (estate s)))) (\<lambda>linked.
         let st = ?fold st2 st1; st' = (if linked then st else tab_del ''ima_container'' st)
         in act_then (act_when False (save_checks_dict e (cc_name cc) st')) (act_return st'))) s1 = (Inr st, s')"
    unfolding schain_checks_get_all_def Let_def by (rule act_bindE)
  from r1 obtain st2 s2 where k: "checks_get_all (skaled_check_table e sc) ?ns s1 = (Inr st2, s2)"
    and r2: "act_bind (act_gets (\<lambda>s. truthy (es_ima_linked (estate s)))) (\<lambda>linked.
         let st = ?fold st2 st1; st' = (if linked then st else tab_del ''ima_container'' st)
         in act_then (act_when False (save_checks_dict e (cc_name cc) st')) (act_return st')) s2 = (Inr st, s')"
    by (rule act_bindE)
  from r2 have "set st \<subseteq> set (?fold st2 st1)"
    by (auto simp: act_simps Let_def split: if_splits dest: in_tab_del)
  with b have entry: "(''skaled_container'', b) \<in> set st2 \<or> (''skaled_container'', b) \<in> set st1"
    using in_fold_put by blast
  have w1: "wld s1 = wld s"
    using config_checks_get_all_frame [of e cc ?ns s] c by simp
  from entry show "check_skaled_container e sc (wld s) = Inr b"
  proof
    assume "(''skaled_container'', b) \<in> set st2"
    then have "(''skaled_container'', b) \<in> set [] \<or> (\<exists>chk u. map_of (skaled_check_table e sc)
        ''skaled_container'' = Some chk \<and> wld u = wld s1 \<and> fst (chk u) = Inr b)"
      by (intro run_checks_entries [OF _ k [unfolded checks_get_all_def]]) (rule tables_frame)
    then obtain chk u where
      u: "map_of (skaled_check_table e sc) ''skaled_container'' = Some chk" "wld u = wld s1" "fst (chk u) = Inr b"
      by auto
    moreover have "map_of (skaled_check_table e sc) ''skaled_container'' = Some (in_world (check_skaled_container e sc))"
      by (simp add: skaled_check_table_def)
    ultimately have "chk = in_world (check_skaled_container e sc)" by simp
    with u(2,3) w1 show ?thesis by (simp add: act_simps)
  next
    assume "(''skaled_container'', b) \<in> set st1"
    then have "(''skaled_container'', b) \<in> set [] \<or> (\<exists>chk u. map_of (config_check_table e cc)
        ''skaled_container'' = Some chk \<and> wld u = wld s \<and> fst (chk u) = Inr b)"
      by (intro run_checks_entries [OF _ c [unfolded checks_get_all_def]]) (rule tables_frame)
    then show ?thesis by (simp add: config_check_table_def)
  qed
qed

section \<open>The container of a removed chain\<close>

text \<open>The two states in which the removal of a chain takes its container away.\<close>

definition removable_state :: "container option \<Rightarrow> bool" where
  "removable_state c \<longleftrightarrow> in_state RUNNING_STATUS c \<or> in_state EXITED_STATUS c"

context docker_node
begin

lemma removal_other_steps:
  fixes n defines "x \<equiv> get_container_name SCHAIN_CONTAINER n"
  shows "keeps (wdok (\<lambda>d. ev_container U x d = C)) (remove_schain_volume e n)"
    and "keeps (wdok (\<lambda>d. ev_container U x d = C)) (remove_ima_container e n)"
proof -
  show "keeps (wdok (\<lambda>d. ev_container U x d = C)) (remove_schain_volume e n)"
    by (rule status.remove_schain_volume_keeps)
  have "x \<noteq> get_container_name IMA_CONTAINER n" unfolding x_def by (rule get_container_name_inject)
  then show "keeps (wdok (\<lambda>d. ev_container U x d = C)) (remove_ima_container e n)"
    unfolding remove_ima_container_def safe_rm_def
    by (intro keeps_intros dok_intros container_frame)
qed

lemma cleanup_steps_container:
  assumes run: "cleanup_steps e n est st s = (Inr (), s')"
    and st: "\<And>b. (''skaled_container'', b) \<in> set st \<Longrightarrow> check_skaled_container e sc (wld s) = Inr b"
    and name: "sk_name sc = n"
  defines "x \<equiv> get_container_name SCHAIN_CONTAINER n"
  defines "before \<equiv> ev_container U x (daemon (wld s))"
    and "after \<equiv> ev_container U x (daemon (wld s'))"
  shows "if removable_state before then after = None else after = before"
proof -
  let ?cond = "act_bind (act_res (\<lambda>_. status_get st ''skaled_container'')) (\<lambda>b.
    if b then act_return True else in_world (is_exited e n schain_container))"
  let ?first = "act_if ?cond (on_world (remove_schain_container e n)) (act_return ())"
  have "\<exists>ms. cleanup_steps e n est st = act_block (?first # ms) \<and>
      (\<forall>C. list_all (keeps (dok (\<lambda>d. ev_container U x d = C))) ms)"
    unfolding cleanup_steps_def x_def
    by (intro exI conjI allI, rule refl)
      (auto simp: cleanup_firewall_def remove_config_dir_def Let_def
        intro!: keeps_intros dok_intros removal_other_steps dok_on_rule_controller wdok_process)
  then obtain ms where steps: "cleanup_steps e n est st = act_block (?first # ms)"
    and ms: "\<And>C. list_all (keeps (dok (\<lambda>d. ev_container U x d = C))) ms"
    by blast
  from run [unfolded steps act_block.simps] obtain u s1 where first: "?first s = (Inr u, s1)"
    and rest: "act_block ms s1 = (Inr (), s')"
    by (blast dest: act_thenD)
  have after: "after = ev_container U x (daemon (wld s1))"
    using keepsD_eq [OF keeps_block [OF ms] _ rest] by (simp add: dok_def after_def)
  obtain b where b: "status_get st ''skaled_container'' = Inr b"
    using first by (cases "status_get st ''skaled_container''") (auto simp: act_simps)
  then have "(''skaled_container'', b) \<in> set st"
    by (auto simp: status_get_def tab_get_def dest: map_of_SomeD split: option.splits)
  note look = check_skaled_container_view [OF laws st [OF this], unfolded name, folded x_def before_def]
  obtain a where cond: "?cond s = (Inr a, s)"
    using first by (auto simp: act_if_def act_bind_eval act_simps b split: sum.splits if_splits)
  then have a: "a = removable_state before"
    using look(1)
    by (auto simp: act_simps b removable_state_def is_exited_def SCHAIN_CONTAINER_def x_def before_def
        split: sum.splits if_splits dest!: docker_exited [OF laws])
  show ?thesis
  proof (cases a)
    case True
    with first cond have "on_world (remove_schain_container e n) s = (Inr u, s1)"
      by (simp add: act_if_def act_bind_eval)
    then have "safe_rm (docker e) x SCHAIN_STOP_TIMEOUT (wld s) = (Inr (), wld s1)"
      by (auto simp: act_simps remove_schain_container_def x_def split: prod.splits)
    from safe_rm_gone [OF laws this] look(2) True show ?thesis
      by (simp add: after a x_def)
  next
    case False
    with first cond have "s1 = s" by (simp add: act_if_def act_bind_eval act_simps)
    with False show ?thesis by (simp add: after before_def a)
  qed
qed

lemma cleanup_schain_container:
  assumes "cleanup_schain e ports pps n rs rid ldk cn est w = (Inr (), w')"
  defines "x \<equiv> get_container_name SCHAIN_CONTAINER n"
  defines "before \<equiv> ev_container U x (daemon w)"
    and "after \<equiv> ev_container U x (daemon w')"
  shows "if removable_state before then after = None else after = before"
proof -
  obtain ro d' where up: "upsert_schain_record n (datetime_now e w) (import_dt e) (db w) = (ro, d')"
    by fastforce
  with assms(1) obtain rec where rec: "ro = Some rec" by (cases ro) (auto simp: cleanup_schain_def)
  let ?rc = "get_default_rule_controller ports pps n None None [] (Some rs)"
  let ?s = "\<lparr>wld = w\<lparr>db := d'\<rparr>, rctl = ?rc, estate = estate_or_unlinked est, executed_blocks = []\<rparr>"
  let ?c = "SChainChecks n rec (node_version e) cn ldk rid (SYNC_NODE e)"
  obtain s' where run: "act_bind (schain_checks_get_all e (fst ?c) (snd ?c) False [])
      (cleanup_steps e n est) ?s = (Inr (), s')" and w': "w' = wld s'"
    using assms(1) by (auto simp: cleanup_schain_def up rec with_mstate_def Let_def split: prod.splits)
  from run obtain st s1 where checks: "schain_checks_get_all e (fst ?c) (snd ?c) False [] ?s = (Inr st, s1)"
    and steps: "cleanup_steps e n est st s1 = (Inr (), s')"
    by (rule act_bindE)
  note same = schain_checks_entries(1) [OF checks]
  have "sk_name (snd ?c) = n" by (simp add: SChainChecks_def)
  from cleanup_steps_container [OF steps _ this] schain_checks_entries(2) [OF checks] same
  show ?thesis by (simp add: before_def after_def w' x_def)
qed

lemma remove_schain_container_state:
  assumes "remove_schain e ports pps k sgx_delete answer n w = (Inr (), w')"
  defines "x \<equiv> get_container_name SCHAIN_CONTAINER n"
  defines "before \<equiv> ev_container U x (daemon w)"
    and "after \<equiv> ev_container U x (daemon w')"
  shows "if removable_state before then after = None else after = before"
proof -
  let ?same = "wdok (\<lambda>d. d = daemon w)"
  have same: "?same w" by (simp add: wdok_def)
  let ?stop = "act_if (act_gets (report_is_exist e n))
    (act_bind (act_res (report_pid e n)) (terminate_process answer)) (act_return ())"
  let ?pre = "[ProcessReport e n, ?stop, delete_bls_keys e k sgx_delete n]"
  have "list_all (keeps ?same) ?pre"
    by (simp, intro conjI keeps_intros wdok_process wdok_delete_keys)
  from keepsD_eq [OF keeps_block [OF this] same]
  have pre: "?same u" if "act_block ?pre w = (r, u)" for r u using that by blast
  let ?last = "act_bind (act_res (\<lambda>_. get_rotation k n)) (\<lambda>rotation.
    act_bind (act_res (external_get e n)) (\<lambda>est.
    act_bind (act_res (\<lambda>_. contract_current_nodes k n)) (\<lambda>current_nodes.
    act_bind (act_res (\<lambda>_. is_last_dkg_successful k n)) (\<lambda>last_dkg_ok.
    cleanup_schain e ports pps n (contract_sync_agent_ranges k) (rotation_id rotation) last_dkg_ok
      current_nodes est))))"
  have "act_block (?pre @ [?last]) w = (Inr (), w')"
    using assms(1) by (simp add: remove_schain_def Let_def)
  from act_block_snoc [OF this] obtain u where u: "act_block ?pre w = (Inr (), u)"
    and last: "?last u = (Inr (), w')" by blast
  from last have "\<exists>rs rid ldk cn est. cleanup_schain e ports pps n rs rid ldk cn est u = (Inr (), w')"
    by (auto simp: act_simps split: sum.splits) blast
  then obtain rs rid ldk cn est where "cleanup_schain e ports pps n rs rid ldk cn est u = (Inr (), w')"
    by blast
  from cleanup_schain_container [OF this] pre [OF u] show ?thesis
    by (simp add: before_def after_def x_def wdok_def)
qed

end

end
