(* ===== verification/Logging.thy ===== *)
theory Logging
  imports Py_Strings
begin

text \<open>
  What the log shows (\<^verbatim>\<open>tools/logger.py\<close>, \<^verbatim>\<open>tools/str_formatters.py\<close>): the formatter that
  hides the address of the SGX server, the address of the Ethereum node and the names of SGX
  keys, over the parts of \<^verbatim>\<open>re\<close> and \<^verbatim>\<open>urllib.parse\<close> it uses. Log lines are ASCII; settings that
  are not given are empty. What a handler does with its file is not modelled.
\<close>

section \<open>Regular expressions\<close>

text \<open>A pattern is a sequence of character classes, each once or, greedily, once or more.\<close>

datatype char_class = Chr char | AnyChar | WordChar

datatype piece = One char_class | Many char_class

definition word_char :: "char \<Rightarrow> bool" where
  "word_char c = (c \<in> set ''ABCDEFGHIJKLMNOPQRSTUVWXYZabcdefghijklmnopqrstuvwxyz0123456789_'')"

fun in_class :: "char_class \<Rightarrow> char \<Rightarrow> bool" where
  "in_class (Chr d) c = (c = d)"
| "in_class AnyChar c = (c \<noteq> CHR 0x0A)"
| "in_class WordChar c = word_char c"

text \<open>The length of the match at the start of a string.\<close>

function re_match :: "piece list \<Rightarrow> string \<Rightarrow> nat option" where
  "re_match [] s = Some 0"
| "re_match (p # ps) [] = None"
| "re_match (One k # ps) (c # cs) =
     (if in_class k c then map_option Suc (re_match ps cs) else None)"
| "re_match (Many k # ps) (c # cs) =
     (if in_class k c
      then case re_match (Many k # ps) cs of
             Some n \<Rightarrow> Some (Suc n)
           | None \<Rightarrow> map_option Suc (re_match ps cs)
      else None)"
  by pat_completeness auto
termination by (relation "measure (\<lambda>(ps, s). length s)") auto

text \<open>\<^verbatim>\<open>pattern.sub(replacement, s)\<close> for a pattern that matches no empty string and a
  replacement without backslashes.\<close>

function re_sub :: "piece list \<Rightarrow> string \<Rightarrow> string \<Rightarrow> string" where
  "re_sub ps r [] = []"
| "re_sub ps r (c # cs) =
     (case re_match ps (c # cs) of
        Some (Suc n) \<Rightarrow> r @ re_sub ps r (drop n cs)
      | _ \<Rightarrow> c # re_sub ps r cs)"
  by pat_completeness auto
termination by (relation "measure (\<lambda>(ps, r, s). length s)") auto

text \<open>\<^verbatim>\<open>re.compile\<close>: plain characters, the dot, \<^verbatim>\<open>\w\<close>, escaped punctuation, and a plus
  after each; None for a pattern with anything else.\<close>

definition special_chars :: "char set" where
  "special_chars = set ''^$*+?{}[]|()''"

definition escaped_class :: "char \<Rightarrow> char_class option" where
  "escaped_class c =
     (if c = CHR ''w'' then Some WordChar else if word_char c then None else Some (Chr c))"

fun repeated :: "char_class \<Rightarrow> string \<Rightarrow> piece \<times> string" where
  "repeated k (c # cs) = (if c = CHR ''+'' then (Many k, cs) else (One k, c # cs))"
| "repeated k [] = (One k, [])"

lemma repeated_length [termination_simp]: "length (snd (repeated k cs)) \<le> length cs"
  by (cases cs) auto

lemma repeated_shorter [termination_simp]: "(p, rest) = repeated k cs \<Longrightarrow> length rest \<le> length cs"
  by (metis repeated_length snd_conv)

fun re_compile :: "string \<Rightarrow> piece list option" where
  "re_compile [] = Some []"
| "re_compile (c # cs) =
     (if c = CHR 0x5C then
        (case cs of
           [] \<Rightarrow> None
         | d # ds \<Rightarrow>
             (case escaped_class d of
                None \<Rightarrow> None
              | Some k \<Rightarrow> (let (p, rest) = repeated k ds in map_option ((#) p) (re_compile rest))))
      else if c \<in> special_chars then None
      else (let (p, rest) = repeated (if c = CHR ''.'' then AnyChar else Chr c) cs
            in map_option ((#) p) (re_compile rest)))"

section \<open>The host of a URL\<close>

definition letter :: "char \<Rightarrow> bool" where
  "letter c = (c \<in> set ''ABCDEFGHIJKLMNOPQRSTUVWXYZabcdefghijklmnopqrstuvwxyz'')"

definition scheme_char :: "char \<Rightarrow> bool" where
  "scheme_char c = (word_char c \<and> c \<noteq> CHR ''_'' \<or> c \<in> set ''+-.'')"

definition after_scheme :: "string \<Rightarrow> string" where
  "after_scheme url =
     (let scheme = takeWhile (\<lambda>c. c \<noteq> CHR '':'') url; rest = dropWhile (\<lambda>c. c \<noteq> CHR '':'') url
      in if rest \<noteq> [] \<and> scheme \<noteq> [] \<and> letter (hd scheme) \<and> list_all scheme_char scheme
         then tl rest else url)"

definition url_netloc :: "string \<Rightarrow> string" where
  "url_netloc url =
     (let rest = after_scheme url
      in if startswith rest ''//'' then takeWhile (\<lambda>c. c \<notin> set ''/?#'') (drop 2 rest) else [])"

text \<open>\<^verbatim>\<open>s.rpartition(c)[2]\<close>.\<close>

definition after_last :: "char \<Rightarrow> string \<Rightarrow> string" where
  "after_last c s = rev (takeWhile (\<lambda>d. d \<noteq> c) (rev s))"

definition lower_char :: "char \<Rightarrow> char" where
  "lower_char c =
     (case map_of (zip ''ABCDEFGHIJKLMNOPQRSTUVWXYZ'' ''abcdefghijklmnopqrstuvwxyz'') c of
        None \<Rightarrow> c | Some d \<Rightarrow> d)"

definition url_hostname :: "string \<Rightarrow> string option" where
  "url_hostname url =
     (let hostinfo = after_last CHR ''@'' (url_netloc url);
          bracketed = dropWhile (\<lambda>c. c \<noteq> CHR ''['') hostinfo;
          host = (if bracketed \<noteq> [] then takeWhile (\<lambda>c. c \<noteq> CHR '']'') (tl bracketed)
                  else takeWhile (\<lambda>c. c \<noteq> CHR '':'') hostinfo)
      in if host = [] then None
         else Some (map lower_char (takeWhile (\<lambda>c. c \<noteq> CHR ''%'') host) @
                    dropWhile (\<lambda>c. c \<noteq> CHR ''%'') host))"

section \<open>The formatter\<close>

text \<open>An f-string prints a missing host as \<^verbatim>\<open>None\<close>.\<close>

definition print_host :: "string option \<Rightarrow> string" where
  "print_host h = (case h of None \<Rightarrow> ''None'' | Some s \<Rightarrow> s)"

definition SGX_KEY_PATTERN :: string where
  "SGX_KEY_PATTERN = ''NEK'' @ [CHR 0x5C] @ '':'' @ [CHR 0x5C] @ ''w+''"

definition compose_hiding_patterns :: "string \<Rightarrow> string \<Rightarrow> (string, string) table" where
  "compose_hiding_patterns sgx_server_url endpoint =
     (let sgx_ip = url_hostname sgx_server_url; eth_ip = url_hostname endpoint
      in tab_put SGX_KEY_PATTERN ''[SGX_KEY]''
           (tab_put (print_host eth_ip) ''[ETH_IP]''
             (tab_put (print_host sgx_ip) ''[SGX_IP]'' [])))"

text \<open>One match after the other, each on the result of the one before; None outside the
  modelled patterns.\<close>

fun filter_sensitive :: "(string, string) table \<Rightarrow> string \<Rightarrow> string option" where
  "filter_sensitive [] msg = Some msg"
| "filter_sensitive ((pat, replacement) # patterns) msg =
     (case re_compile pat of
        None \<Rightarrow> None
      | Some ps \<Rightarrow> filter_sensitive patterns (re_sub ps replacement msg))"

text \<open>A record: its line as a function of the URL of the request, the printed exception and the
  printed stack, which \<^verbatim>\<open>logging.Formatter.format\<close> appends on lines of their own.\<close>

record log_record =
  lr_line :: "string option \<Rightarrow> string"
  lr_exc :: "string option"
  lr_stack :: "string option"

definition append_part :: "string \<Rightarrow> string option \<Rightarrow> string" where
  "append_part s part =
     (case part of
        None \<Rightarrow> s
      | Some p \<Rightarrow>
          if p = [] then s
          else (if s \<noteq> [] \<and> last s = CHR 0x0A then s else s @ [CHR 0x0A]) @ p)"

text \<open>\<^verbatim>\<open>request.full_path\<close> is the path, a question mark and the query; its last character is
  dropped. Outside a request there is no URL.\<close>

definition request_url :: "(string \<times> string) option \<Rightarrow> string option" where
  "request_url request = map_option (\<lambda>(path, query). butlast (path @ ''?'' @ query)) request"

fun opt_filter :: "(string, string) table \<Rightarrow> string option \<Rightarrow> string option option" where
  "opt_filter patterns None = Some None"
| "opt_filter patterns (Some s) = map_option Some (filter_sensitive patterns s)"

definition hiding_format ::
  "(string, string) table \<Rightarrow> (string \<times> string) option \<Rightarrow> log_record \<Rightarrow> string option" where
  "hiding_format patterns request r =
     Option.bind (opt_filter patterns (lr_exc r)) (\<lambda>exc_text.
     Option.bind (opt_filter patterns (lr_stack r)) (\<lambda>stack_text.
     filter_sensitive patterns
       (append_part (append_part (lr_line r (request_url request)) exc_text) stack_text)))"

section \<open>Handlers\<close>

datatype level = DEBUG | INFO

text \<open>A handler writes to a file, which is rotated by size, or to stderr.\<close>

datatype log_target = RotatingFileHandler string int int | StreamHandler

record handler =
  hd_target :: log_target
  hd_format :: string
  hd_patterns :: "(string, string) table"
  hd_level :: level

definition LOG_FILE_SIZE_BYTES :: int where "LOG_FILE_SIZE_BYTES = 100 * 1000000"
definition LOG_BACKUP_COUNT :: int where "LOG_BACKUP_COUNT = 20"

definition file_handler ::
  "string \<Rightarrow> (string, string) table \<Rightarrow> level \<Rightarrow> string option \<Rightarrow> handler list" where
  "file_handler log_format patterns lvl file_path =
     (case file_path of
        None \<Rightarrow> []
      | Some f \<Rightarrow>
          if f = [] then []
          else [\<lparr>hd_target = RotatingFileHandler f LOG_FILE_SIZE_BYTES LOG_BACKUP_COUNT,
                 hd_format = log_format, hd_patterns = patterns, hd_level = lvl\<rparr>])"

text \<open>The handlers of the root logger, which passes on every level from DEBUG.\<close>

definition init_logger ::
  "string \<Rightarrow> string \<Rightarrow> string \<Rightarrow> string option \<Rightarrow> string option \<Rightarrow> level \<times> handler list" where
  "init_logger sgx_server_url endpoint log_format log_file_path debug_file_path =
     (let hiding_patterns = compose_hiding_patterns sgx_server_url endpoint
      in (DEBUG,
          file_handler log_format hiding_patterns INFO log_file_path @
          [\<lparr>hd_target = StreamHandler, hd_format = log_format, hd_patterns = hiding_patterns,
             hd_level = INFO\<rparr>] @
          file_handler log_format hiding_patterns DEBUG debug_file_path))"

definition LOG_FOLDER :: "string \<Rightarrow> string" where
  "LOG_FOLDER node_data_path = path_join node_data_path ''log''"

definition ADMIN_LOG_PATH :: "string \<Rightarrow> string" where
  "ADMIN_LOG_PATH d = path_join (LOG_FOLDER d) ''admin.log''"
definition API_LOG_PATH :: "string \<Rightarrow> string" where
  "API_LOG_PATH d = path_join (LOG_FOLDER d) ''api.log''"
definition DEBUG_LOG_PATH :: "string \<Rightarrow> string" where
  "DEBUG_LOG_PATH d = path_join (LOG_FOLDER d) ''debug.log''"
definition SYNC_LOG_PATH :: "string \<Rightarrow> string" where
  "SYNC_LOG_PATH d = path_join (LOG_FOLDER d) ''sync_node.log''"

definition ADMIN_LOG_FORMAT :: string where
  "ADMIN_LOG_FORMAT = ''[%(asctime)s %(levelname)s][%(process)d][%(processName)s][%(threadName)s]'' @
     '' - %(name)s:%(lineno)d - %(message)s''"

definition API_LOG_FORMAT :: string where
  "API_LOG_FORMAT = ''[%(asctime)s] %(process)d %(levelname)s %(url)s %(module)s: %(message)s''"

definition init_admin_logger :: "string \<Rightarrow> string \<Rightarrow> string \<Rightarrow> level \<times> handler list" where
  "init_admin_logger sgx_server_url endpoint d =
     init_logger sgx_server_url endpoint ADMIN_LOG_FORMAT (Some (ADMIN_LOG_PATH d)) (Some (DEBUG_LOG_PATH d))"

definition init_api_logger :: "string \<Rightarrow> string \<Rightarrow> string \<Rightarrow> level \<times> handler list" where
  "init_api_logger sgx_server_url endpoint d =
     init_logger sgx_server_url endpoint API_LOG_FORMAT (Some (API_LOG_PATH d)) None"

definition init_sync_logger :: "string \<Rightarrow> string \<Rightarrow> string \<Rightarrow> level \<times> handler list" where
  "init_sync_logger sgx_server_url endpoint d =
     init_logger sgx_server_url endpoint ADMIN_LOG_FORMAT (Some (SYNC_LOG_PATH d)) None"

text \<open>No handler writes without hiding, whichever process it is.\<close>

lemma handlers_hide:
  "h \<in> set (snd (init_logger sgx eth fmt log_path debug_path)) \<Longrightarrow>
   hd_patterns h = compose_hiding_patterns sgx eth"
  by (auto simp: init_logger_def file_handler_def Let_def split: option.splits if_splits)

section \<open>Tables of arguments\<close>

definition LONG_LINE :: string where "LONG_LINE = replicate 100 CHR ''=''"

text \<open>The styles of the package colorful; None when colors are disabled.\<close>

record styles =
  blue :: "string \<Rightarrow> string"
  bold_violet :: "string \<Rightarrow> string"
  bold_error :: "string \<Rightarrow> string"
  bold_success :: "string \<Rightarrow> string"
  bold_info :: "string \<Rightarrow> string"

definition styled :: "styles option \<Rightarrow> (styles \<Rightarrow> string \<Rightarrow> string) \<Rightarrow> string \<Rightarrow> string" where
  "styled cf style s = (case cf of None \<Rightarrow> s | Some c \<Rightarrow> style c s)"

definition title_style :: "string \<Rightarrow> styles \<Rightarrow> string \<Rightarrow> string" where
  "title_style t =
     (if t = ''error'' then bold_error else if t = ''success'' then bold_success else bold_info)"

definition arguments_list_string ::
  "styles option \<Rightarrow> (string \<times> string) list \<Rightarrow> string option \<Rightarrow> string \<Rightarrow> string" where
  "arguments_list_string cf args title t =
     (let nl = [CHR 0x0A]
      in styled cf blue (nl @ LONG_LINE @ nl) @
         (case title of
            None \<Rightarrow> []
          | Some s \<Rightarrow> if s = [] then [] else styled cf (title_style t) s @ nl) @
         concat (map (\<lambda>(k, v). styled cf bold_violet k @ '': '' @ v @ nl) args) @
         styled cf blue (LONG_LINE @ nl))"

section \<open>The health check of the admin container\<close>

text \<open>The exit code of \<^verbatim>\<open>healthchecks/admin.py\<close>: the log has to be written to now and then.
  Times are in nanoseconds, the limit, as it is read from the settings, in seconds. A missing
  log file or a limit that is no number ends the script with 1.\<close>

definition run_healthcheck :: "int res \<Rightarrow> int res \<Rightarrow> int \<Rightarrow> int" where
  "run_healthcheck max_allowed_log_time_diff modification_time current_time =
     (case modification_time of
        Inl _ \<Rightarrow> 1
      | Inr mtime \<Rightarrow>
          (case max_allowed_log_time_diff of
             Inl _ \<Rightarrow> 1
           | Inr limit \<Rightarrow> if current_time - mtime > limit * 10 ^ 9 then 3 else 0))"

section \<open>What is hidden stays hidden\<close>

text \<open>A word is apart from a replacement: it shares no bracket with it and is not inside it.\<close>

definition bracketed :: "string \<Rightarrow> bool" where
  "bracketed r \<longleftrightarrow> r \<noteq> [] \<and> hd r = CHR ''['' \<and> last r = CHR '']''"

definition apart :: "string \<Rightarrow> string \<Rightarrow> bool" where
  "apart h r \<longleftrightarrow>
     h \<noteq> [] \<and> CHR ''['' \<notin> set h \<and> CHR '']'' \<notin> set h \<and> bracketed r \<and> \<not> sublist h r"

lemma sublist_after_replacement:
  assumes "apart h r" and "sublist h (r @ z)"
  shows "sublist h z"
proof -
  have "h1 = []" if "h = h1 @ h2" and "suffix h1 r" for h1 h2
  proof (rule ccontr)
    assume "h1 \<noteq> []"
    then have "last h1 = last r" using that(2) by (auto simp: suffix_def)
    with \<open>h1 \<noteq> []\<close> that(1) assms(1) show False
      by (auto simp: apart_def bracketed_def dest: last_in_set)
  qed
  moreover have "\<not> sublist h r" using assms(1) by (simp add: apart_def)
  ultimately show ?thesis
    using assms(2) unfolding sublist_append by (metis append_Nil prefix_imp_sublist)
qed

lemma re_sub_hit: "re_match ps (c # cs) = Some (Suc n) \<Longrightarrow> re_sub ps r (c # cs) = r @ re_sub ps r (drop n cs)"
  by simp

lemma re_sub_miss:
  "re_match ps (c # cs) = None \<or> re_match ps (c # cs) = Some 0 \<Longrightarrow>
   re_sub ps r (c # cs) = c # re_sub ps r cs"
  by auto

lemma re_match_cases:
  obtains (hit) n where "re_match ps s = Some (Suc n)"
  | (miss) "re_match ps s = None \<or> re_match ps s = Some 0"
  by (metis not0_implies_Suc option.exhaust)

lemma prefix_of_sub:
  assumes "bracketed r" and "CHR ''['' \<notin> set g" and "prefix g (re_sub ps r s)"
  shows "prefix g s"
  using assms(2,3)
proof (induction s arbitrary: g)
  case (Cons c cs)
  show ?case
  proof (cases g)
    case g: (Cons d ds)
    show ?thesis
    proof (cases ps "c # cs" rule: re_match_cases)
      case (hit n)
      obtain m where "r = CHR ''['' # m" using assms(1) by (cases r) (auto simp: bracketed_def)
      with hit g Cons.prems show ?thesis by (auto simp: re_sub_hit simp del: re_sub.simps)
    next
      case miss
      with g Cons show ?thesis by (auto simp: re_sub_miss simp del: re_sub.simps)
    qed
  qed simp
qed simp

text \<open>What a substitution leaves of such a word was there before, where nothing matched.\<close>

lemma sublist_of_sub:
  assumes "apart h r" and "sublist h (re_sub ps r s)"
  shows "\<exists>t. suffix t s \<and> prefix h t \<and> (re_match ps t = None \<or> re_match ps t = Some 0)"
  using assms(2)
proof (induction s rule: length_induct)
  case (1 s)
  show ?case
  proof (cases s)
    case Nil
    with 1 assms(1) show ?thesis by (simp add: apart_def)
  next
    case (Cons c cs)
    have IH: ?thesis if "sublist h (re_sub ps r u)" and "suffix u cs" for u
    proof -
      have "length u < length s" using that(2) Cons suffix_length_le by fastforce
      with 1 that(1) obtain t where "suffix t u" "prefix h t" "re_match ps t = None \<or> re_match ps t = Some 0"
        by blast
      with that(2) Cons show ?thesis by (meson suffix_ConsI suffix_order.trans)
    qed
    show ?thesis
    proof (cases ps "c # cs" rule: re_match_cases)
      case (hit n)
      with 1 Cons assms(1) have "sublist h (re_sub ps r (drop n cs))"
        by (metis re_sub_hit sublist_after_replacement)
      with IH show ?thesis by (simp add: suffix_drop)
    next
      case miss
      then have "prefix h (c # re_sub ps r cs) \<or> sublist h (re_sub ps r cs)"
        using 1 Cons by (simp add: re_sub_miss sublist_Cons_right del: re_sub.simps)
      then show ?thesis
      proof
        assume "prefix h (c # re_sub ps r cs)"
        then have "prefix h (c # cs)"
          using assms(1) prefix_of_sub [of r _ ps cs] by (cases h) (auto simp: apart_def)
        with miss Cons show ?thesis by blast
      qed (simp add: IH)
    qed
  qed
qed

lemma sub_keeps_hidden: "apart h r \<Longrightarrow> \<not> sublist h s \<Longrightarrow> \<not> sublist h (re_sub ps r s)"
  by (metis sublist_of_sub sublist_altdef')

text \<open>A pattern covers a word when it matches wherever the word starts.\<close>

definition covers :: "piece list \<Rightarrow> string \<Rightarrow> bool" where
  "covers ps h \<longleftrightarrow> (\<forall>t. prefix h t \<longrightarrow> (\<exists>n. re_match ps t = Some (Suc n)))"

lemma sub_hides: "apart h r \<Longrightarrow> covers ps h \<Longrightarrow> \<not> sublist h (re_sub ps r s)"
  by (fastforce simp: covers_def dest: sublist_of_sub)

lemma filter_keeps_hidden:
  assumes "filter_sensitive pats s = Some out" and "\<not> sublist h s"
    and "\<And>p r. (p, r) \<in> set pats \<Longrightarrow> apart h r"
  shows "\<not> sublist h out"
  using assms
  by (induction pats s rule: filter_sensitive.induct)
    (auto split: option.splits dest: sub_keeps_hidden)

lemma filter_hides:
  assumes "filter_sensitive pats s = Some out" and "(p, r) \<in> set pats"
    and "re_compile p = Some ps" and "covers ps h"
    and "\<And>p r. (p, r) \<in> set pats \<Longrightarrow> apart h r"
  shows "\<not> sublist h out"
  using assms
proof (induction pats s rule: filter_sensitive.induct)
  case (2 pat replacement patterns msg)
  show ?case
  proof (cases "(pat, replacement) = (p, r)")
    case True
    with 2 have "filter_sensitive patterns (re_sub ps r msg) = Some out" by simp
    moreover have "\<not> sublist h (re_sub ps r msg)"
      using 2 True by (intro sub_hides) auto
    ultimately show ?thesis
      using filter_keeps_hidden [of patterns "re_sub ps r msg" out h] 2(6) by auto
  next
    case False
    with 2 show ?thesis by (auto split: option.splits)
  qed
qed simp

text \<open>Hosts of lower-case letters, digits, dots, hyphens and colons.\<close>

definition host_char :: "char \<Rightarrow> bool" where
  "host_char c = (c \<in> set ''abcdefghijklmnopqrstuvwxyz0123456789.-:'')"

definition host_piece :: "char \<Rightarrow> piece" where
  "host_piece c = One (if c = CHR ''.'' then AnyChar else Chr c)"

lemma re_compile_host: "list_all host_char h \<Longrightarrow> re_compile h = Some (map host_piece h)"
proof (induction h)
  case (Cons c cs)
  have "repeated k cs = (One k, cs)" for k
    using Cons.prems by (cases cs) (auto simp: host_char_def)
  moreover have "c \<noteq> CHR 0x5C" "c \<notin> special_chars"
    using Cons.prems by (auto simp: host_char_def special_chars_def)
  ultimately show ?case using Cons by (simp add: host_piece_def)
qed simp

lemma re_match_host: "list_all host_char h \<Longrightarrow> re_match (map host_piece h) (h @ t) = Some (length h)"
  by (induction h) (auto simp: host_piece_def host_char_def)

lemma covers_host: "list_all host_char h \<Longrightarrow> h \<noteq> [] \<Longrightarrow> covers (map host_piece h) h"
  using re_match_host [of h] by (cases h) (auto simp: covers_def prefix_def)

definition sgx_key_pieces :: "piece list" where
  "sgx_key_pieces = map (\<lambda>c. One (Chr c)) ''NEK:'' @ [Many WordChar]"

lemma re_compile_sgx_key: "re_compile SGX_KEY_PATTERN = Some sgx_key_pieces"
  by (simp add: SGX_KEY_PATTERN_def sgx_key_pieces_def escaped_class_def special_chars_def word_char_def)

lemma re_match_word: "word_char c \<Longrightarrow> \<exists>n. re_match [Many WordChar] (c # s) = Some (Suc n)"
  by (induction s arbitrary: c) (auto split: option.split)

lemma covers_sgx_key: "word_char c \<Longrightarrow> covers sgx_key_pieces (''NEK:'' @ [c])"
  using re_match_word [of c] by (fastforce simp: covers_def prefix_def sgx_key_pieces_def)

lemma url_hostname_nonempty:
  assumes "url_hostname url = Some h"
  shows "h \<noteq> []"
proof -
  obtain x where "url_hostname url =
      (if x = [] then None
       else Some (map lower_char (takeWhile (\<lambda>c. c \<noteq> CHR ''%'') x) @ dropWhile (\<lambda>c. c \<noteq> CHR ''%'') x))"
    unfolding url_hostname_def Let_def by blast
  with assms takeWhile_dropWhile_id [of "\<lambda>c. c \<noteq> CHR ''%''" x] show ?thesis
    by (cases "x = []") (auto simp del: takeWhile_dropWhile_id)
qed

definition replacements :: "string set" where
  "replacements = {''[SGX_IP]'', ''[ETH_IP]'', ''[SGX_KEY]''}"

lemma patterns_replacements: "(p, r) \<in> set (compose_hiding_patterns sgx eth) \<Longrightarrow> r \<in> replacements"
  unfolding compose_hiding_patterns_def Let_def
  by (auto simp: replacements_def dest!: in_tab_put)

lemma apart_host: "list_all host_char h \<Longrightarrow> h \<noteq> [] \<Longrightarrow> r \<in> replacements \<Longrightarrow> apart h r"
proof -
  assume h: "list_all host_char h" "h \<noteq> []" and r: "r \<in> replacements"
  have no: "c \<notin> set r" "c \<noteq> CHR ''[''" "c \<noteq> CHR '']''" if "host_char c" for c
    using that r unfolding host_char_def replacements_def by auto
  have "bracketed r" using r by (auto simp: bracketed_def replacements_def)
  moreover have "\<not> sublist h r"
    using h no(1) set_mono_sublist [of h r] by (cases h) auto
  moreover have "CHR ''['' \<notin> set h" "CHR '']'' \<notin> set h"
    using h(1) no(2,3) by (auto simp: list_all_iff)
  ultimately show ?thesis using h(2) by (simp add: apart_def)
qed

lemma apart_sgx_key: "word_char c \<Longrightarrow> r \<in> replacements \<Longrightarrow> apart (''NEK:'' @ [c]) r"
proof -
  assume c: "word_char c" and r: "r \<in> replacements"
  have "c \<noteq> CHR ''[''" "c \<noteq> CHR '']''" using c by (auto simp: word_char_def)
  moreover have "CHR '':'' \<notin> set r" "bracketed r" using r by (auto simp: bracketed_def replacements_def)
  moreover have "CHR '':'' \<in> set r" if "sublist (''NEK:'' @ [c]) r"
    using set_mono_sublist [OF that] by auto
  ultimately show ?thesis by (auto simp: apart_def)
qed

text \<open>Settings without a host or with a host of plain characters.\<close>

definition plain_url :: "string \<Rightarrow> bool" where
  "plain_url url = (case url_hostname url of None \<Rightarrow> True | Some h \<Rightarrow> list_all host_char h)"

lemma pattern_keys:
  "(p, r) \<in> set (compose_hiding_patterns sgx eth) \<Longrightarrow>
   p \<in> {SGX_KEY_PATTERN, print_host (url_hostname sgx), print_host (url_hostname eth)}"
  unfolding compose_hiding_patterns_def Let_def by (auto dest!: in_tab_put)

lemma re_compile_print_host:
  "plain_url url \<Longrightarrow> \<exists>ps. re_compile (print_host (url_hostname url)) = Some ps"
  by (auto simp: plain_url_def print_host_def re_compile_host special_chars_def split: option.splits)

lemma filter_total:
  assumes "\<And>p r. (p, r) \<in> set pats \<Longrightarrow> \<exists>ps. re_compile p = Some ps"
  shows "\<exists>out. filter_sensitive pats s = Some out"
  using assms
proof (induction pats arbitrary: s)
  case (Cons x pats)
  obtain p r where x: "x = (p, r)" by fastforce
  with Cons.prems obtain ps where "re_compile p = Some ps" by auto
  moreover have "\<exists>out. filter_sensitive pats (re_sub ps r s) = Some out"
    using Cons.prems by (intro Cons.IH) auto
  ultimately show ?case by (simp add: x)
qed simp

lemma format_total:
  assumes "plain_url sgx" and "plain_url eth"
  shows "\<exists>s out. hiding_format (compose_hiding_patterns sgx eth) q r = Some out \<and>
           filter_sensitive (compose_hiding_patterns sgx eth) s = Some out"
proof -
  have compiles: "\<exists>ps. re_compile p = Some ps" if "(p, x) \<in> set (compose_hiding_patterns sgx eth)" for p x
    using pattern_keys [OF that] assms re_compile_print_host re_compile_sgx_key by auto
  have part: "\<exists>t. opt_filter (compose_hiding_patterns sgx eth) m = Some t" for m
    using filter_total [OF compiles] by (cases m) auto
  obtain x where "opt_filter (compose_hiding_patterns sgx eth) (lr_exc r) = Some x" using part by blast
  moreover obtain y where "opt_filter (compose_hiding_patterns sgx eth) (lr_stack r) = Some y"
    using part by blast
  ultimately show ?thesis
    using filter_total [OF compiles] by (fastforce simp: hiding_format_def)
qed

lemma key_of_tab_put: "k = k' \<or> k \<in> fst ` set t \<Longrightarrow> k \<in> fst ` set (tab_put k' v t)"
  unfolding tab_put_def by (induction t) (auto split: if_splits simp: image_iff)

lemma pattern_of_key:
  assumes "k \<in> {SGX_KEY_PATTERN, print_host (url_hostname sgx), print_host (url_hostname eth)}"
  obtains r where "(k, r) \<in> set (compose_hiding_patterns sgx eth)"
proof -
  from assms have "k \<in> fst ` set (compose_hiding_patterns sgx eth)"
    unfolding compose_hiding_patterns_def Let_def by (elim insertE emptyE) (simp_all add: key_of_tab_put)
  then show ?thesis using that by auto
qed

lemma line_hides_host:
  assumes "filter_sensitive (compose_hiding_patterns sgx eth) s = Some out"
    and "url_hostname url = Some h" and "list_all host_char h" and "url \<in> {sgx, eth}"
  shows "\<not> sublist h out"
proof -
  have "print_host (url_hostname url) = h" using assms(2) by (simp add: print_host_def)
  with assms(4) have "h \<in> {SGX_KEY_PATTERN, print_host (url_hostname sgx), print_host (url_hostname eth)}"
    by auto
  then obtain r where "(h, r) \<in> set (compose_hiding_patterns sgx eth)" by (rule pattern_of_key)
  from filter_hides [OF assms(1) this re_compile_host [OF assms(3)] covers_host [OF assms(3)]]
  show ?thesis
    using url_hostname_nonempty [OF assms(2)] assms(3) patterns_replacements apart_host by blast
qed

lemma line_hides_key:
  assumes "filter_sensitive (compose_hiding_patterns sgx eth) s = Some out" and "word_char c"
  shows "\<not> sublist (''NEK:'' @ [c]) out"
proof -
  obtain r where "(SGX_KEY_PATTERN, r) \<in> set (compose_hiding_patterns sgx eth)"
    by (rule pattern_of_key [of SGX_KEY_PATTERN sgx eth]) simp
  from filter_hides [OF assms(1) this re_compile_sgx_key covers_sgx_key [OF assms(2)]]
  show ?thesis
    using assms(2) patterns_replacements apart_sgx_key by blast
qed

section \<open>What is hidden by mistake, and what is not\<close>

text \<open>Without an SGX server every \<^verbatim>\<open>None\<close> of the log is taken for its address.\<close>

lemma none_is_hidden:
  "hiding_format (compose_hiding_patterns [] ''http://eth.io'') None
     \<lparr>lr_line = (\<lambda>_. ''node id: None''), lr_exc = None, lr_stack = None\<rparr> = Some ''node id: [SGX_IP]''"
  by code_simp

text \<open>The host is looked for in lower case: a setting in capitals is printed as it is.\<close>

lemma capitals_are_shown:
  "hiding_format (compose_hiding_patterns ''https://SGX.io:1026'' ''http://eth.io'') None
     \<lparr>lr_line = (\<lambda>_. ''https://SGX.io:1026''), lr_exc = None, lr_stack = None\<rparr> =
   Some ''https://SGX.io:1026''"
  by code_simp

text \<open>The URL of a request with a query loses the last character of the query.\<close>

lemma request_url_cut:
  "request_url (Some (path, [])) = Some path"
  "q \<noteq> [] \<Longrightarrow> request_url (Some (path, q)) = Some (path @ ''?'' @ butlast q)"
  by (simp_all add: request_url_def butlast_append)

text \<open>The dots of an address are wildcards, and its pattern is applied before the one of keys: it may
  match inside the name of a key, whose tail is then shown.\<close>

lemma key_tail_shown:
  "filter_sensitive (compose_hiding_patterns ''https://10.1.1.1:1026'' ''http://eth.io'')
     ''NEK:0010a1b1c1ffee'' = Some ''[SGX_KEY][SGX_IP]ffee''"
  by code_simp

end
