(* ===== verification/Reference_Run.thy ===== *)
theory Reference_Run
  imports Node_Records Removal Reference_Web Logging
begin

text \<open>A node that runs, for the witnesses: the contracts answer for any chain, chain \<open>alpha\<close> is
  assigned to the node, a process of chain \<open>beta\<close> is at work. The interface \<open>node_invariant\<close> is
  interpreted on it.\<close>

definition ref_any :: contracts where
  "ref_any = ref_contracts\<lparr>get_schain_by_name := (\<lambda>n. Inr (ref_schain\<lparr>sch_name := n\<rparr>))\<rparr>"

definition ref_calls :: "('d, 'f) pipeline_calls" where
  "ref_calls =
     \<lparr>pc_ports = ref_ports, pc_pps = 64,
      pc_dkg = (\<lambda>_ _. act_return (FAILED, JNull)),
      pc_generate = (\<lambda>_ _. act_return \<lparr>gc_json = JObj [], gc_equals = (\<lambda>_. False)\<rparr>)\<rparr>"

lemma ref_calls_apart: "calls_apart f ref_calls"
  by (simp add: calls_apart_def same_part_def ref_calls_def act_simps)

lemma ref_any_named: "named ref_any"
  by (auto simp: named_def ref_any_def)

lemma ref_any_spared: "spared ref_any 1 ''alpha''"
  by (auto simp: spared_def get_schain_names_from_contract_def ref_any_def ref_contracts_def
      ref_schain_def)

definition ref_busy :: process where
  "ref_busy = \<lparr>pr_tasks = [ConfigTask ref_any, SkaledTask\<lparr>t_future := Running\<rparr>], pr_stucked = [],
     pr_over = False\<rparr>"

definition ref_node :: "(ref_daemon, rule_d list) node" where
  "ref_node = \<lparr>nd_world = ref_left, nd_processes = [(''beta'', ref_busy)]\<rparr>"

text \<open>The pipeline of \<open>beta\<close> ends, then a round of the admin daemon.\<close>

definition ref_node_later :: "(ref_daemon, rule_d list) node" where
  "ref_node_later =
     (let s = finish_step ref_env ref_calls ref_any 1 ''beta'' ref_busy 1 ref_node
      in s\<lparr>nd_world := snd (monitor_round ref_env ref_daemon_api 1 ref_any (nd_world s))\<rparr>)"

lemma ref_node_run: "node_run ref_env ref_daemon_api ref_calls 1 {ref_any} {''beta''} ref_node ref_node_later"
proof -
  have "node_step ref_env ref_daemon_api ref_calls 1 {ref_any} {''beta''} ref_node
      (finish_step ref_env ref_calls ref_any 1 ''beta'' ref_busy 1 ref_node)"
    by (rule node_finish) (simp_all add: ref_node_def ref_busy_def tab_get_def SkaledTask_def)
  from run_step [OF run_step [OF run_refl this] node_round] show ?thesis
    by (simp add: ref_node_later_def Let_def)
qed

interpretation ref_records: node_invariant ref_env ref_daemon_api ref_calls 1 "{ref_any}" UNIV wok
  by (rule node_records [OF ref_notices_apart ref_calls_apart])

interpretation ref_alpha: node_invariant ref_env ref_daemon_api ref_calls 1 "{ref_any}" "{''beta''}"
  "wdok (holds ref_view ''alpha'' (get_container_name SCHAIN_CONTAINER ''alpha'') C i)" for C i
  by (rule docker_node.undisturbed [OF docker_node.intro [OF ref_env_docker_laws]])
    (simp_all add: ref_notices_apart ref_calls_apart ref_any_named ref_any_spared)

text \<open>A node with the report of a process, and one on which the container of a chain that left it
  was created and never started.\<close>

definition ref_reported :: "(ref_daemon, rule_d list) world" where
  "ref_reported = ref_world\<lparr>files :=
     [(process_report_path ref_env ''alpha'', JsonFile (JObj [(''pid'', JInt 42), (''ts'', JInt 100)]))]\<rparr>"

definition ref_created :: "(ref_daemon, rule_d list) world" where
  "ref_created = ref_left\<lparr>daemon := ref_daemon0\<lparr>rd_containers :=
     [(''skale_schain_beta'', \<lparr>c_name = ''skale_schain_beta'', c_status = ''created'', c_exit_code = 0,
        c_image = ''schain'', c_env = [], c_cmd = []\<rparr>)]\<rparr>\<rparr>"

end
