(* ===== verification/Spec2Isabelle.thy ===== *)
theory Spec2Isabelle
  imports Chain_Isolation Reference_Node Reference_Dkg Reference_Generator Reference_Web Reference_Run
    Migrations Logging
begin

text \<open>
  SKALE Admin: the daemon that runs on every node of the SKALE network and looks after the
  chains the contracts assign to the node. A verification library of its core logic.

  \<^bold>\<open>The program.\<close> A process manager (\<^verbatim>\<open>core/schains/process_manager.py\<close>) keeps one monitor
  process per chain. The process runs two tasks again and again
  (\<^verbatim>\<open>core/schains/monitor/main.py\<close>, \<^verbatim>\<open>tasks.py\<close>): the configuration pipeline brings the
  chain's configuration up to date with the contracts, the skaled pipeline keeps the chain's
  containers running on it. A pipeline runs checks (\<^verbatim>\<open>core/schains/checks.py\<close>), chooses a
  monitor (\<^verbatim>\<open>monitor/skaled_monitor.py\<close>, \<^verbatim>\<open>monitor/config_monitor.py\<close>), and the monitor
  calls actions (\<^verbatim>\<open>monitor/action.py\<close>) for the checks that failed. The actions work on the
  record table (\<^verbatim>\<open>web/models/schain.py\<close>), the files of the chain's directory, the Docker
  engine and the packet filter. A cleaner (\<^verbatim>\<open>core/schains/cleaner.py\<close>) removes the chains that
  left the node. Beside the daemon, the web API (\<^verbatim>\<open>app.py\<close>, \<^verbatim>\<open>web/routes\<close>) answers requests
  about the node and its chains and registers the node (\<^verbatim>\<open>core/node.py\<close>).

  \<^bold>\<open>The model.\<close> A statement of the program is a function from a state to a result and the
  state after it (\<open>act\<close> in \<open>Prelude\<close>); a raised exception is the result \<open>Inl\<close>, with the
  state it was raised in. The node's state is the record \<open>world\<close>, its surroundings (the Docker
  client, the package iptc, settings, answers of endpoints) are the record \<open>env\<close>; both in
  \<open>World\<close>. Third-party code is a parameter with named laws. \<open>Reference_Node\<close> and the other
  theories whose names begin with Reference have an instance of each, on which the witnesses run.

  \<^bold>\<open>What is assumed of third-party code.\<close>
  \<^item> The Docker engine (\<open>docker_laws\<close> in \<open>Docker_Utils\<close>), over a view of the containers and
    volumes there are: any call may fail with any error at any time, lookups included. A call on a
    container, failed or not, leaves the other containers as they are and every named volume that
    was there (it may add volumes, as Docker does for a mount that is missing); a call on a volume
    concerns no container and no other volume. A container that is found is there, NotFound means
    that it is not, and a removal that succeeds has removed it. Nothing is said of when a call
    succeeds nor of what a started, restarted or stopped container looks like. The engine changes
    by the program's calls only.
  \<^item> The package iptc (locale \<open>iptc_package\<close>), on a host table that can be read
    (\<open>host_table_ok\<close>). The contracts' answers of a moment are the record \<open>contracts\<close>.
  \<^item> The wallet, the store and queue of messages, the key generation and the generator leave a part
    of the node's state alone (\<open>notices_apart\<close>, \<open>calls_apart\<close>, \<open>api_tame\<close>,
    \<open>keep_files\<close>, \<open>quiet_api\<close>).
  \<^item> Redis (locale \<open>note_store\<close>): a key reads back until the time to live it was set with is
    over, and for good without one; calls take no time, time passes between reports.
  \<^item> peewee's migrator (locale \<open>schema\<close>): an addition that succeeds adds the column as the last
    one. It runs in no transaction: nothing is assumed of what a failed one leaves.
  \<^item> A clock for the key generation's waiting loops (\<open>chain_clock\<close>).

  \<^bold>\<open>The theories.\<close>
  \<^item> \<open>Prelude\<close>: exceptions, statements, tables (interface \<open>kv_table\<close>); \<open>Json\<close>,
    \<open>Py_Strings\<close>: the values and string functions of Python the code uses. \<open>Py_Dict\<close>:
    dictionaries with numbers as keys, what \<^verbatim>\<open>json.dump\<close> writes for them and how they compare with
    a loaded document.
  \<^item> \<open>Schain_Record\<close>: the record table and its setters (interface \<open>record_setter\<close>), retries
    on a busy database. \<open>Dkg_Structures\<close>: key generation statuses.
  \<^item> \<open>Config_Files\<close>, \<open>Config_Reader\<close>: the chain's configuration files and what is read from
    them. \<open>Status_Files\<close>: skaled's status, the node client's status, the external state and
    the exit schedule. \<open>Node_Info\<close>: node addresses, reload times, process reports.
  \<^item> \<open>Docker_Utils\<close>, \<open>Runner\<close>: the wrappers of the engine and the chain's containers.
    \<open>Docker_Logs\<close>: the logs saved when a container is removed.
  \<^item> \<open>Ipv4\<close>, \<open>Firewall_Types\<close>, \<open>Firewall_Host\<close>, \<open>Firewall_Rules\<close>: the firewall over the
    interface \<open>host_firewall\<close>, given by \<open>iptc_package\<close>.
  \<^item> \<open>Checks\<close>, \<open>Container_Monitor\<close>, \<open>Contracts\<close>, \<open>Cleaner\<close>, \<open>Actions\<close>,
    \<open>Skaled_Monitor\<close>, \<open>Config_Monitor\<close>, \<open>Pipelines\<close>: the monitors and what they call.
  \<^item> \<open>Tasks\<close>: the loop of a monitor process as a step relation \<open>exec_step\<close>, with the passes of
    the loop, the threads of its pool and the passing of time as steps. \<open>Process_Manager\<close>.
  \<^item> \<open>Dkg_Encoding\<close>, \<open>Dkg_Network\<close>, \<open>Dkg_Client\<close>, \<open>Dkg\<close>: the distributed key generation
    (\<^verbatim>\<open>core/schains/dkg\<close>): notations, the third-party calls \<open>dkg_api\<close> and the broadcast filter,
    the client, the rounds up to \<open>run_dkg\<close>. \<open>Dkg_Invariants\<close>: what every statement of it keeps
    on any network (interfaces \<open>dkg_network\<close>, \<open>dkg_rounds\<close>, \<open>dkg_keeps\<close>). \<open>Dkg_Termination\<close>: it
    ends on a network with a clock (\<open>chain_clock\<close>, \<open>dkg_clock\<close>, \<open>dkg_timed\<close>). \<open>Dkg_Results\<close>: who
    is complained about, what a result means (\<open>alright_log\<close>). \<open>Dkg_Action\<close>: the generation as the
    configuration monitor's action. \<open>Reference_Dkg\<close>: networks for the witnesses.
  \<^item> \<open>Node_Config\<close>, \<open>Config_Generator\<close>: the node's own configuration file, and the generation of
    a chain's configuration (\<^verbatim>\<open>core/schains/config/generator.py\<close> and its sections) from the
    answers of the contracts, third-party generators and static files (\<open>gen_api\<close>).
    \<open>Config_Generated\<close>: what the readers find in the result. \<open>Reference_Generator\<close>: an instance.
  \<^item> \<open>Monitor_Invariants\<close>: what every monitor keeps of the record table, and what a
    configuration run leaves. \<open>Chain_Isolation\<close>: what a monitor of one chain does not touch
    (interfaces \<open>volume_invariant\<close>, \<open>daemon_invariant\<close>, \<open>removal_invariant\<close>).
  \<^item> \<open>Node_Operations\<close>: registration, exit, maintenance and answers of the node, what a restart
    updates, monitoring containers and nginx, over the calls \<open>node_api\<close>. \<open>Notifications\<close>: messages
    to the operator (interface \<open>note_store\<close>). \<open>Migrations\<close>: columns added to the record table
    (interface \<open>schema\<close>). \<open>Reference_Operations\<close>: an instance.
  \<^item> \<open>Web_Helper\<close>, \<open>Web_Routes\<close>: answers, third-party calls (\<open>web_api\<close>), every route and how a
    request reaches it. \<open>Web_Safety\<close>: what requests do to the node (interface \<open>read_calls\<close>), the
    upload of a certificate. \<open>Reference_Web\<close>: an instance.
  \<^item> \<open>Daemon\<close>: the processes that run everything, the admin daemon (\<^verbatim>\<open>admin.py\<close>) and the sync
    node's (\<^verbatim>\<open>sync_node.py\<close>), by the rounds of their loops, and what rounds do not touch.
  \<^item> \<open>Node_Run\<close>: the node as it runs. The tasks of a monitor process and a pass of its loop on the
    node's state (\<open>process_pass\<close>), and the step relation \<open>node_step\<close>, which interleaves the
    daemon's rounds with the starts, passes, pipelines and ends of the monitor processes of all
    chains (interface \<open>node_invariant\<close>). \<open>process_pass\<close> is the pass of \<open>Tasks\<close> with the
    questions, the clock and the report of the node around it. \<open>Node_Records\<close>: the
    record table's invariant in every run. \<open>Removal\<close>: which containers the removal of a chain takes
    away. \<open>Reference_Run\<close>: a node that runs, for the witnesses.
  \<^item> \<open>Logging\<close>: the formatter that hides addresses and key names in the log
    (\<^verbatim>\<open>tools/logger.py\<close>) over the parts of \<^verbatim>\<open>re\<close> and \<^verbatim>\<open>urllib\<close> it uses, tables of arguments, the
    health check of the admin container.

  \<^bold>\<open>Numbers and loops.\<close> Python's integers are unbounded: \<open>int\<close>. Times are seconds. The loops of
  the code run over finite lists and are structural recursions; retry loops recurse over their
  list of pauses. The waiting loops of the key generation take a bound \<open>k\<close> of rounds and end with
  \<open>Out_of_fuel\<close> when it is used up, which no handler catches; \<open>dkg_returns\<close> shows that it is not
  used up when \<open>k\<close> is the contracts' timeout plus two, since every round sleeps and the clock
  advances. The endless loops of the processes are not modelled as functions: one round is a
  definition, \<open>admin_rounds\<close> and \<open>sync_worker\<close> run as many rounds as there are answers of the
  contracts in a list, \<open>exec_step\<close> relates the states of a process that goes on, and \<open>node_step\<close>
  those of a node. In a run of the node the steps of different processes alternate, but a round,
  a pass and a pipeline are one step each: a pipeline takes effect when its thread finishes.

  \<^bold>\<open>Settings.\<close> Limits that the environment may set have their defaults: five restarts
  (\<open>MAX_SCHAIN_RESTART_COUNT\<close>), five failed calls (\<open>MAX_SCHAIN_FAILED_RPC_COUNT\<close>), 300 seconds
  to stop a container (\<open>SCHAIN_STOP_TIMEOUT\<close>). The time the certificate was changed
  (\<open>ssl_cert_mtime\<close>) is given with the surroundings, since files have no times here; an upload is
  followed by a surrounding with a time of its own (\<open>with_cert_saved\<close>).

  \<^bold>\<open>Not modelled.\<close> Waiting for locks, interleavings inside a
  pipeline, the operating system's side of processes and threads, what handlers do with log files,
  metrics, the functions nothing calls (\<^verbatim>\<open>tools/custom_thread.py\<close>, some of
  \<^verbatim>\<open>tools/helper.py\<close>). The clock moves by \<^verbatim>\<open>time.sleep\<close> only inside one run of a definition; between
  the steps of a node it moves by any amount.
\<close>

section \<open>Properties\<close>

text \<open>
  C1. However the node runs - rounds of the admin daemon with its cleaner, starts, passes
  and pipelines of the monitor processes of all other chains, in any order, with the
  contracts answering differently at each step and any call to the engine failing at any
  time - a chain that the contracts have on the node, or forbid to remove, keeps its two
  containers exactly as they were, and its volume, when it was there, is still the same
  one. Only its own process touches them. Of Docker the theorem assumes which objects a
  call may touch (docker_laws), of the wallet, the store and queue of messages
  (notices_apart), the key generation and the generator (calls_apart) that they leave the
  engine alone.
\<close>

theorem chain_undisturbed:
  assumes "docker_laws U (docker e)" and "notices_apart daemon a" and "calls_apart daemon c"
    and "\<forall>k\<in>K. spared k node_id n \<and> named k" and "n \<notin> M" and "\<not> ev_anonymous U n"
    and "x = get_container_name SCHAIN_CONTAINER n \<or> x = get_container_name IMA_CONTAINER n"
    and "node_run e a c node_id K M s t"
  shows "ev_container U x (daemon (nd_world t)) = ev_container U x (daemon (nd_world s)) \<and>
         (\<forall>i. ev_volume U n (daemon (nd_world s)) = Some i \<longrightarrow> ev_volume U n (daemon (nd_world t)) = Some i)"
proof -
  from assms(7) have "own_container n x" by (simp add: own_container_def)
  from docker_node.undisturbed [OF docker_node.intro [OF assms(1)] this assms(2,3) bspec [OF assms(4)] assms(5)]
  have "node_invariant e a c node_id K M (wdok (holds U n x C i))" for C i .
  from node_invariant.run [OF this assms(8)] assms(6) show ?thesis
    by (fastforce simp: wdok_def holds_def volume_kept_def)
qed

theorem chain_undisturbed_witness:
  "ev_volume ref_view ''alpha'' (daemon (nd_world ref_node_later)) = Some 0"
proof -
  have "ev_volume ref_view ''alpha'' (daemon (nd_world ref_node)) = Some 0"
    by (simp add: ref_node_def ref_left_def ref_view_def tab_get_def ref_daemon0_def)
  moreover have "\<forall>k\<in>{ref_any}. spared k 1 ''alpha'' \<and> named k"
    by (simp add: ref_any_spared ref_any_named)
  moreover have "\<not> ev_anonymous ref_view ''alpha''" by (simp add: ref_view_def)
  ultimately show ?thesis
    using chain_undisturbed [OF ref_env_docker_laws ref_notices_apart ref_calls_apart _ _ _ disjI1 [OF refl]
        ref_node_run] by simp
qed

text \<open>
  C2. Which monitor a regular node picks for a chain. No configuration and backup are
  decided exactly by the config check and the record's flags; a repair is picked only when
  the node client asked for one after the last repair, or when automatic repair is on and
  skaled itself asked for it and is down; each of the other monitors is picked only under
  its own condition, and the regular one only when the configuration is there and neither a
  backup nor a certificate reload is due.
\<close>

theorem regular_node_monitor:
  assumes "\<not> SYNC_NODE e" and "get_skaled_monitor e am st rec sp np ar w = Inr m"
  shows "(m = NoConfigSkaledMonitor \<longleftrightarrow> tab_get st ''config'' = Some False) \<and>
    (m = BackupSkaledMonitor \<longleftrightarrow>
       tab_get st ''config'' = Some True \<and> backup_run rec \<and> \<not> new_schain rec) \<and>
    (m = RepairSkaledMonitor \<longrightarrow>
       (\<exists>p j ts. np = Some p \<and> ncli_repair_ts p w = Inr j \<and> json_num j = Inr ts \<and>
          timestamp e (repair_date rec) < ts) \<or>
       ar \<and> (\<exists>p c f. sp = Some p \<and> clear_data_dir p w = Inr c \<and> truthy c \<and>
          start_from_snapshot p w = Inr f \<and> truthy f \<and>
          tab_get st ''skaled_container'' = Some False)) \<and>
    (m = RecreateSkaledMonitor \<longrightarrow>
       tab_get st ''skaled_container'' = Some True \<and> ssl_reload_needed e rec) \<and>
    (m = NewNodeSkaledMonitor \<longrightarrow>
       (\<exists>t. finish_ts e am w = Inr (Some t) \<and> clock w < t) \<and>
       get_number_of_secret_shares e (rec_name rec) w = 1) \<and>
    (m = UpdateConfigSkaledMonitor \<longrightarrow>
       tab_get st ''skaled_container'' = Some False \<and>
       (\<exists>p j. sp = Some p \<and> exit_time_reached p w = Inr j \<and> truthy j)) \<and>
    (m = ReloadGroupSkaledMonitor \<longrightarrow>
       (\<exists>t. upstream_finish_ts e am w = Inr (Some t) \<and> clock w < t) \<and>
       tab_get st ''config_updated'' = Some False) \<and>
    (m = ReloadIpSkaledMonitor \<longrightarrow>
       (\<exists>t. econfig_reload_ts e am w = Inr (Some t)) \<and>
       tab_get st ''config_updated'' = Some False) \<and>
    (m = RegularSkaledMonitor \<longrightarrow>
       tab_get st ''config'' = Some True \<and> \<not> is_backup_mode rec \<and>
       \<not> (tab_get st ''skaled_container'' = Some True \<and> ssl_reload_needed e rec))"
proof -
  show ?thesis
    using assms is_repair_mode_True [of e rec st sp np ar w]
    by (cases m; auto simp: get_skaled_monitor_def first_match_Cons mode_simps res_bind_Inr_iff
        is_backup_mode_def is_recreate_mode_False simp del: first_match.simps(2))
qed

theorem regular_node_monitor_witness:
  "get_skaled_monitor ref_env ref_am [(''config'', True)]
       ((new_record ''alpha'' 500 0)\<lparr>backup_run := True, new_schain := False\<rparr>) None None False ref_world =
     Inr BackupSkaledMonitor \<and>
   tab_get [(''config'', True)] ''config'' = Some True"
proof -
  let ?rec = "(new_record ''alpha'' 500 0)\<lparr>backup_run := True, new_schain := False\<rparr>"
  have sync: "\<not> SYNC_NODE ref_env" by (simp add: ref_env_def)
  have run: "get_skaled_monitor ref_env ref_am [(''config'', True)] ?rec None None False ref_world =
      Inr BackupSkaledMonitor"
    by (simp add: get_skaled_monitor_def sync no_config_def status_get_def tab_get_def
        is_backup_mode_def)
  with regular_node_monitor [OF sync run] show ?thesis by blast
qed

text \<open>
  C3. A sync node never repairs, backs up or starts as a new node, whatever the status
  files and the record say; it is told that it has no configuration only when the config
  check failed, and a stopped skaled whose exit time has been reached gets the
  configuration update even then.
\<close>

theorem sync_node_monitor:
  assumes "SYNC_NODE e" and "get_skaled_monitor e am st rec sp np ar w = Inr m"
  shows "m \<notin> {RepairSkaledMonitor, BackupSkaledMonitor, NewNodeSkaledMonitor} \<and>
    (m = NoConfigSkaledMonitor \<longrightarrow> tab_get st ''config'' = Some False) \<and>
    (m = RegularSkaledMonitor \<longrightarrow> tab_get st ''config'' = Some True) \<and>
    (m = UpdateConfigSkaledMonitor \<longleftrightarrow>
       tab_get st ''skaled_container'' = Some False \<and>
       (\<exists>p j. sp = Some p \<and> exit_time_reached p w = Inr j \<and> truthy j))"
  using assms
  by (cases m; auto simp: get_skaled_monitor_def first_match_Cons mode_simps res_bind_Inr_iff
      is_recreate_mode_False is_config_update_time_def status_get_iff split: if_splits option.splits
      simp del: first_match.simps(2))

theorem sync_node_monitor_witness:
  "get_skaled_monitor (ref_env\<lparr>SYNC_NODE := True\<rparr>) ref_am
       [(''config'', False), (''skaled_container'', False)] (new_record ''alpha'' 500 0)
       (Some (''/d/schains/alpha'', ''skaled.status'')) None False
       (ref_world\<lparr>files := [((''/d/schains/alpha'', ''skaled.status''),
          JsonFile (JObj [(''exitState'', JObj [(''ExitTimeReached'', JBool True)])]))]\<rparr>) =
     Inr UpdateConfigSkaledMonitor"
proof -
  let ?e = "ref_env\<lparr>SYNC_NODE := True\<rparr>"
  let ?p = "(''/d/schains/alpha'', ''skaled.status'')"
  let ?w = "ref_world\<lparr>files := [(?p,
      JsonFile (JObj [(''exitState'', JObj [(''ExitTimeReached'', JBool True)])]))]\<rparr>"
  let ?st = "[(''config'', False), (''skaled_container'', False)]"
  have t: "exit_time_reached ?p ?w = Inr (JBool True)"
    by (simp add: exit_time_reached_def sub_field_def exit_state_def config_getter_def tab_get_def isfile_def
        read_json_def)
  have run: "get_skaled_monitor ?e ref_am ?st (new_record ''alpha'' 500 0) (Some ?p) None False ?w =
      Inr UpdateConfigSkaledMonitor"
    by (simp add: get_skaled_monitor_def no_config_def status_get_def tab_get_def
        is_recreate_mode_def is_config_update_time_def t)
  from sync_node_monitor [OF _ run] run show ?thesis by simp
qed

text \<open>
  C4. No monitor but the repair removes a volume: whatever the checks find and whatever
  call to the engine fails, a named volume (the chain's own or another one) that is there
  before the run of such a monitor is there after it, and is the same one. Of the engine
  only the documented reach of its calls is assumed: which containers and volumes a call
  may touch.
\<close>

theorem only_repair_removes_volumes:
  assumes "docker_laws U (docker e)" and "mon \<noteq> RepairSkaledMonitor" and "\<not> ev_anonymous U v"
    and "ev_volume U v (daemon (wld s)) = Some i"
  shows "ev_volume U v (daemon (wld (snd (run_skaled_monitor e am mon s)))) = Some i"
  using keepsD [OF docker_node.run_keeps_volume [OF docker_node.intro [OF assms(1)] assms(2)],
      of v "Some i" s] assms(3,4)
  by (simp add: dok_def volume_kept_def)

theorem only_repair_removes_volumes_witness:
  "ev_volume ref_view ''alpha'' (daemon (wld (snd (run_skaled_monitor ref_env ref_am
     BackupSkaledMonitor (ref_mstate (ref_world\<lparr>daemon := ref_daemon0\<lparr>rd_volumes := [(''alpha'', 7)]\<rparr>\<rparr>)))))) =
   Some 7"
  by (rule only_repair_removes_volumes [OF ref_env_docker_laws])
    (simp_all add: ref_mstate_def ref_view_def ref_daemon0_def tab_get_def)

text \<open>
  C5. A run of any monitor, the repair included and whatever call fails, leaves every
  container but the chain's own two exactly as they were, and every named volume but the
  chain's own that was there is still there and the same one. (Volumes may be added: the
  engine makes those that a started container mounts.) Of the engine only the documented
  reach of its calls is assumed.
\<close>

theorem monitor_isolation:
  assumes "docker_laws U (docker e)"
    and "k \<noteq> get_container_name SCHAIN_CONTAINER (sa_name am)"
    and "k \<noteq> get_container_name IMA_CONTAINER (sa_name am)" and "v \<noteq> sa_name am"
    and "\<not> ev_anonymous U v"
  shows "ev_container U k (daemon (wld (snd (run_skaled_monitor e am mon s)))) =
           ev_container U k (daemon (wld s)) \<and>
         (\<forall>i. ev_volume U v (daemon (wld s)) = Some i \<longrightarrow>
            ev_volume U v (daemon (wld (snd (run_skaled_monitor e am mon s)))) = Some i)"
  using keepsD [OF docker_node.run_keeps_elsewhere [OF docker_node.intro [OF assms(1)]], of am k v
      "ev_container U k (daemon (wld s))" "ev_volume U v (daemon (wld s))" s mon]
    assms(2-5)
  by (auto simp: dok_def elsewhere_def own_container_def volume_kept_def)

theorem monitor_isolation_witness:
  "ev_volume ref_view ''beta'' (daemon (wld (snd (run_skaled_monitor ref_env ref_am
     RepairSkaledMonitor (ref_mstate (ref_world\<lparr>daemon := ref_daemon0\<lparr>rd_volumes := [(''beta'', 7)]\<rparr>\<rparr>)))))) =
   Some 7"
  using monitor_isolation [OF ref_env_docker_laws, of "get_container_name SCHAIN_CONTAINER ''beta''"
      ref_am "''beta''" RepairSkaledMonitor
      "ref_mstate (ref_world\<lparr>daemon := ref_daemon0\<lparr>rd_volumes := [(''beta'', 7)]\<rparr>\<rparr>)"]
  by (simp add: get_container_name_inject ref_am_def sa_name_def ref_schain_def ref_mstate_def ref_view_def
      ref_daemon0_def tab_get_def)

text \<open>
  C6. The repair monitor calls a method its action manager does not have when the chain's
  container runs. That branch is dead as long as the cleanup's lookup of the container
  finds it or answers NotFound: then a cleanup that comes through has removed the
  container, and the repair, step by step, looks whether the container runs and starts
  skaled from a snapshot without the missing method. The condition on the lookup is needed:
  safe_get_container takes any APIError for a missing container. Every other call, the
  removal included, may fail.
\<close>

theorem repair_direct:
  assumes laws: "docker_laws U (docker e)" and name: "sk_name (sa_checks am) = sa_name am"
    and found: "\<And>x. containers_get (docker e) (get_container_name SCHAIN_CONTAINER (sa_name am))
      (daemon (wld s)) = Inl x \<Longrightarrow> is_not_found x"
  shows "execute e am RepairSkaledMonitor s =
    act_block
      [act_drop (in_world (check_exit_code_ok e (sa_checks am))),
       do_action notify_repair_mode_action,
       do_action (cleanup_schain_docker_entity_action e am),
       fix_firewall e am False,
       fix_volume e am,
       act_then (act_drop (in_world (check_skaled_container e (sa_checks am))))
         (do_action (skaled_container_action e am True None True)),
       (\<lambda>s. do_action (update_repair_ts_action e am (clock (wld s))) s)] s"
proof -
  note dn = docker_node.intro [OF laws]
  have split: "act_block [a, b, c, d, f, g, h] s =
      act_block ([a, b, c, d, f] @ [g, h]) s" for a b c d f g h :: "('a, 'b, unit) mact"
    by simp
  show ?thesis
    unfolding execute.simps repair_execute_def split
    unfolding act_block_append
    using docker_node.repair_container_absent [OF dn, of am s, OF _ found]
    by (auto simp: act_then_eval docker_node.fix_skaled_absent [OF dn] name
        simp del: act_block.simps(1) split: prod.split sum.split)
qed

theorem repair_direct_witness:
  "execute ref_env ref_am RepairSkaledMonitor (ref_mstate ref_world) =
    act_block
      [act_drop (in_world (check_exit_code_ok ref_env (sa_checks ref_am))),
       do_action notify_repair_mode_action,
       do_action (cleanup_schain_docker_entity_action ref_env ref_am),
       fix_firewall ref_env ref_am False,
       fix_volume ref_env ref_am,
       act_then (act_drop (in_world (check_skaled_container ref_env (sa_checks ref_am))))
         (do_action (skaled_container_action ref_env ref_am True None True)),
       (\<lambda>s. do_action (update_repair_ts_action ref_env ref_am (clock (wld s))) s)] (ref_mstate ref_world)"
  by (rule repair_direct [OF ref_env_docker_laws])
    (auto simp: ref_am_def ref_checks_def sa_name_def ref_schain_def ref_env_def ref_docker_def ref_get_def
      split: option.splits)

text \<open>
  C7. However the node runs, with whatever the contracts answer and wherever its steps
  fail, the record table stays keyed by name and every chain's counters stay in their
  bounds: at most five restarts in a row, at most six failed calls (the limits are the
  defaults of the settings MAX_SCHAIN_RESTART_COUNT and MAX_SCHAIN_FAILED_RPC_COUNT). The
  wallet, the store and queue of messages (notices_apart), the key generation and the
  generator (calls_apart) are assumed to leave the table alone.
\<close>

theorem node_keeps_records:
  assumes "notices_apart db a" and "calls_apart db c" and "db_wf (db (nd_world s))"
    and "\<And>n r. tab_get (db (nd_world s)) n = Some r \<Longrightarrow>
      0 \<le> restart_count r \<and> restart_count r \<le> 5 \<and> 0 \<le> failed_rpc_count r \<and> failed_rpc_count r \<le> 6"
    and "node_run e a c node_id K M s t"
  shows "db_wf (db (nd_world t)) \<and> (\<forall>n r. tab_get (db (nd_world t)) n = Some r \<longrightarrow>
      0 \<le> restart_count r \<and> restart_count r \<le> 5 \<and> 0 \<le> failed_rpc_count r \<and> failed_rpc_count r \<le> 6)"
  using node_invariant.run [OF node_records [OF assms(1,2)] assms(5)] assms(3,4)
  by (auto simp: wok_def db_counters_ok_def counters_ok_def MAX_SCHAIN_RESTART_COUNT_def
      MAX_SCHAIN_FAILED_RPC_COUNT_def)

theorem node_keeps_records_witness: "db_wf (db (nd_world ref_node_later))"
proof -
  have "db (nd_world ref_node) = [(''alpha'', new_record ''alpha'' 500 0)]"
    by (simp add: ref_node_def ref_left_def ref_world_def)
  then have wf: "db_wf (db (nd_world ref_node))"
    and rows: "tab_get (db (nd_world ref_node)) n = Some r \<Longrightarrow> r = new_record ''alpha'' 500 0" for n r
    by (auto simp: db_wf_def tab_wf_def tab_get_def new_record_def split: if_splits)
  show ?thesis
    by (rule conjunct1 [OF node_keeps_records [OF ref_notices_apart ref_calls_apart wf _ ref_node_run]])
      (drule rows, simp add: new_record_def)
qed

text \<open>
  C8. A configuration monitor that gets to its end leaves a record for which the skaled
  task may run: the record has this version of the node as its config_version (whether or
  not a configuration was generated in this run) and does not wait for a new configuration
  run. The key generation and the generator, which it calls, are asked to keep the record
  table's invariant.
\<close>

theorem config_run_allows_skaled:
  assumes "keeps wok dkg" and "keeps wok generate" and "wok (wld s)"
    and "config_execute e am k dkg generate mon s = (Inr (), s')"
  shows "\<exists>rec. tab_get (db (wld s')) (ca_name am) = Some rec \<and>
           record_allows_skaled (node_version e) rec"
  using config_execute_allows_skaled [OF assms(1,2) _ assms(4)] assms(3) by (simp add: sok_def)

theorem config_run_allows_skaled_witness:
  "\<exists>rec. tab_get (db (wld (snd (config_execute ref_env ref_config_am ref_contracts
       (act_return (DONE, JNull)) (act_return \<lparr>gc_json = JNull, gc_equals = (\<lambda>_. False)\<rparr>)
       SyncConfigMonitor (ref_mstate ref_world))))) ''alpha'' = Some rec \<and>
     record_allows_skaled ''2.0.0'' rec"
proof -
  let ?dkg = "act_return (DONE, JNull) :: (ref_daemon, rule_d list, DKGStatus \<times> json) wact"
  let ?gen = "act_return \<lparr>gc_json = JNull, gc_equals = (\<lambda>_. False)\<rparr>
      :: (ref_daemon, rule_d list, generated_config) wact"
  let ?run = "config_execute ref_env ref_config_am ref_contracts ?dkg ?gen SyncConfigMonitor (ref_mstate ref_world)"
  have "fst ?run = Inr ()"
    by code_simp
  then have run: "?run = (Inr (), snd ?run)" by (metis prod.collapse)
  have "wok (wld (ref_mstate ref_world))" by (simp add: ref_mstate_def ref_world_wok)
  from config_run_allows_skaled [OF _ _ this run] show ?thesis
    by (simp add: keeps_pure ref_config_am_def ref_env_def)
qed

text \<open>
  C9. The prologue of a chain's monitor process: when it goes on to the tasks, the process
  has reported its own id and the time, and either the record allows the skaled task (it
  has this version of the node as its config_version and waits for no configuration run) or
  skaled's configuration is gone.
\<close>

theorem stale_config_dropped:
  assumes "wok w" and "start_tasks e k node_id pid n w = (Inr True, w')"
  shows "\<exists>rec. tab_get (db w') n = Some rec \<and>
           (record_allows_skaled (node_version e) rec \<or> \<not> skaled_config_exists e n w') \<and>
           report_pid e n w' = Inr pid \<and> report_ts e n w' = Inr (clock w)"
  by (rule start_tasks_True [OF assms])

theorem stale_config_dropped_witness:
  "\<exists>rec. tab_get (db (snd (start_tasks ref_env ref_contracts 1 77 ''alpha'' ref_world))) ''alpha'' = Some rec \<and>
     report_pid ref_env ''alpha'' (snd (start_tasks ref_env ref_contracts 1 77 ''alpha'' ref_world)) = Inr 77"
proof -
  let ?run = "start_tasks ref_env ref_contracts 1 77 ''alpha'' ref_world"
  have "fst ?run = Inr True" by code_simp
  then have "?run = (Inr True, snd ?run)" by (metis prod.collapse)
  from stale_config_dropped [OF ref_world_wok this] show ?thesis by blast
qed

text \<open>
  C10. A sync of a chain's rules leaves exactly the expected rules on the chain's ports,
  keeps every managed rule on other ports and every rule the code does not manage, and
  passes the check; a second sync changes nothing. The package iptc is assumed to keep its
  laws (iptc_package), the host's table to hold rules it can read, each once
  (host_table_ok), and the controller to have its configuration and distinct addresses
  (controller_ok).
\<close>

theorem firewall_sync_exact:
  assumes "iptc_package api" and "host_table_ok api f" and "controller_ok rc"
  shows "\<exists>f' rc'. rules_sync (IptablesController api) rc f = (Inr rc', f') \<and>
           host_rules api f' =
             expected_set rc \<union> {r \<in> host_rules api f. \<not> chain_port rc (r_port r)} \<and>
           foreign api f' = foreign api f \<and>
           is_rules_synced (IptablesController api) rc f' = Inr (True, rc') \<and>
           rules_sync (IptablesController api) rc f' = (Inr rc', f')"
proof -
  from iptc_package.sync_iptables [OF assms] obtain f' where
    f': "rules_sync (IptablesController api) rc f =
           (Inr (rc\<lparr>rc_firewall_manager := Some (chain_manager rc)\<rparr>), f')"
      "host_table_ok api f'" "foreign api f' = foreign api f"
      "host_rules api f' = expected_set rc \<union> {r \<in> host_rules api f. \<not> chain_port rc (r_port r)}"
    by blast
  then have "{r \<in> host_rules api f'. chain_port rc (r_port r)} = expected_set rc"
    using expected_set_good(2) [OF assms(3)] by auto
  with f' iptc_package.synced_iff [OF assms(1) f'(2) assms(3)]
    iptc_package.sync_idempotent [OF assms(1) f'(2) assms(3)] show ?thesis by simp
qed

theorem firewall_sync_exact_witness:
  "\<exists>f' rc'. rules_sync (IptablesController ref_iptc) ref_rule_controller [] = (Inr rc', f') \<and>
     host_rules ref_iptc f' = expected_set ref_rule_controller \<and>
     is_rules_synced (IptablesController ref_iptc) ref_rule_controller f' = Inr (True, rc')"
  using firewall_sync_exact [OF ref_iptc.iptc_package_axioms ref_table_empty ref_controller_ok]
  by (auto simp: ref_host_rules_empty)

text \<open>
  C11. Cleaning a chain's rules removes every managed rule on the chain's ports and nothing
  else: not a rule on another port, not a rule the code does not manage.
\<close>

theorem firewall_cleanup_exact:
  assumes "iptc_package api" and "host_table_ok api f" and "controller_ok rc"
  shows "\<exists>f' rc'. rules_cleanup (IptablesController api) rc f = (Inr rc', f') \<and>
           host_rules api f' = {r \<in> host_rules api f. \<not> chain_port rc (r_port r)} \<and>
           foreign api f' = foreign api f"
  using iptc_package.cleanup_iptables [OF assms] by blast

theorem firewall_cleanup_exact_witness:
  "\<exists>f' rc'. rules_cleanup (IptablesController ref_iptc) ref_rule_controller [] = (Inr rc', f') \<and>
     host_rules ref_iptc f' = {}"
  using firewall_cleanup_exact [OF ref_iptc.iptc_package_axioms ref_table_empty ref_controller_ok]
  by (auto simp: ref_host_rules_empty)

text \<open>
  C12. Two chains with disjoint port ranges do not disturb each other: a chain whose rules
  are in order stays so when the rules of another chain are synced or cleaned.
\<close>

theorem firewall_chains_apart:
  assumes "iptc_package api" and "host_table_ok api f" and "controller_ok a" and "controller_ok b"
    and "\<And>p. \<not> (chain_port a p \<and> chain_port b p)"
    and "is_rules_synced (IptablesController api) a f = Inr (True, a')"
    and "rules_sync (IptablesController api) b f = (Inr b', f') \<or>
         rules_cleanup (IptablesController api) b f = (Inr b', f')"
  shows "is_rules_synced (IptablesController api) a f' = Inr (True, a')"
proof -
  have "host_table_ok api f' \<and> {r \<in> host_rules api f'. chain_port a (r_port r)} =
      {r \<in> host_rules api f. chain_port a (r_port r)}"
    using assms(7)
  proof
    assume "rules_sync (IptablesController api) b f = (Inr b', f')"
    with iptc_package.sync_iptables [OF assms(1,2,4)] assms(5) expected_set_good(2) [OF assms(4)]
    show ?thesis by auto
  next
    assume "rules_cleanup (IptablesController api) b f = (Inr b', f')"
    with iptc_package.cleanup_iptables [OF assms(1,2,4)] assms(5) show ?thesis by auto
  qed
  with iptc_package.synced_iff [OF assms(1,2,3)] iptc_package.synced_iff [OF assms(1) _ assms(3), of f']
    assms(6) show ?thesis by auto
qed

theorem firewall_chains_apart_witness:
  "\<exists>f a'. is_rules_synced (IptablesController ref_iptc) ref_rule_controller f = Inr (True, a') \<and>
     is_rules_synced (IptablesController ref_iptc) ref_rule_controller
       (snd (rules_cleanup (IptablesController ref_iptc) (ref_rule_controller\<lparr>base_port := Some 20000\<rparr>) f)) =
     Inr (True, a')"
proof -
  let ?b = "ref_rule_controller\<lparr>base_port := Some 20000\<rparr>"
  have b: "controller_ok ?b"
    using ref_controller_ok
    by (auto simp: controller_ok_def is_configured_def addresses_ok_def ports_in_range_def int_truthy_def)
  from iptc_package.sync_iptables [OF ref_iptc.iptc_package_axioms ref_table_empty ref_controller_ok]
  obtain f where f: "host_table_ok ref_iptc f"
    "host_rules ref_iptc f = expected_set ref_rule_controller"
    by (auto simp: ref_host_rules_empty)
  have s: "is_rules_synced (IptablesController ref_iptc) ref_rule_controller f =
      Inr (True, ref_rule_controller\<lparr>rc_firewall_manager := Some (chain_manager ref_rule_controller)\<rparr>)"
    using iptc_package.synced_iff [OF ref_iptc.iptc_package_axioms f(1) ref_controller_ok]
      expected_set_good(2) [OF ref_controller_ok] f(2) by auto
  from firewall_cleanup_exact [OF ref_iptc.iptc_package_axioms f(1) b] obtain f' b' where
    c: "rules_cleanup (IptablesController ref_iptc) ?b f = (Inr b', f')" by blast
  have "is_rules_synced (IptablesController ref_iptc) ref_rule_controller f' =
      Inr (True, ref_rule_controller\<lparr>rc_firewall_manager := Some (chain_manager ref_rule_controller)\<rparr>)"
    by (rule firewall_chains_apart [OF ref_iptc.iptc_package_axioms f(1) ref_controller_ok b _ s disjI2 [OF c]])
      (simp add: chain_port_def ref_rule_controller_def)
  with s c show ?thesis by (metis snd_conv)
qed

text \<open>
  C13. Who is let in: a port is open to everyone exactly when it is one of the chain's five
  public ports, and a range of addresses is let in on a port exactly when it is another
  node of the chain on one of the five internal ports or a range of sync agents on one of
  their two ports.
\<close>

theorem firewall_access:
  assumes "expected_rules rc = Inr rs" and "addresses_ok rc"
  shows "((\<exists>r \<in> set rs. r_port r = p \<and> r_first_ip r = None) \<longleftrightarrow> p \<in> set (public_ports rc)) \<and>
    ((\<exists>r \<in> set rs. r_port r = p \<and> r_first_ip r = Some a \<and> r_last_ip r = Some b) \<longleftrightarrow>
      a = b \<and> a \<in> set (node_ips rc) \<and> Some a \<noteq> own_ip rc \<and> p \<in> set (internal_ports rc) \<or>
      p \<in> set (sync_agent_ports rc) \<and> (\<exists>g \<in> set (sync_ip_ranges rc). start_ip g = a \<and> end_ip g = b))"
proof -
  have rule: "(\<exists>r \<in> set rs. r_port r = p \<and> r_first_ip r = x \<and> r_last_ip r = y) \<longleftrightarrow> Rule p x y \<in> set rs" for x y
    by (metis schain_rule.collapse schain_rule.sel)
  have none: "r_last_ip r = None" if "r \<in> set rs" "r_first_ip r = None" for r
    using expected_rules_good [OF assms(2,1) that(1)] that(2) by (simp add: iptables_rule_def)
  have open_to_all: "(\<exists>r \<in> set rs. r_port r = p \<and> r_first_ip r = None) \<longleftrightarrow> Rule p None None \<in> set rs"
    using none by (metis schain_rule.collapse schain_rule.sel)
  show ?thesis
    unfolding open_to_all rule
    unfolding expected_rules_set [OF assms(1)]
    using internal_rules_iff [OF assms(2)] public_rules_iff sync_rules_iff [OF assms(2)] by auto
qed

theorem firewall_access_witness:
  "\<exists>rs. expected_rules ref_rule_controller = Inr rs \<and>
     (\<exists>r \<in> set rs. r_port r = 10003 \<and> r_first_ip r = None) \<and>
     \<not> (\<exists>r \<in> set rs. r_port r = 10004 \<and> r_first_ip r = None)"
proof -
  from controller_ok_eval(3) [OF ref_controller_ok] obtain rs where
    rs: "expected_rules ref_rule_controller = Inr rs" by blast
  have "addresses_ok ref_rule_controller" using ref_controller_ok by (simp add: controller_ok_def)
  from firewall_access [OF rs this] have "(\<exists>r \<in> set rs. r_port r = p \<and> r_first_ip r = None) \<longleftrightarrow>
      p \<in> set (public_ports ref_rule_controller)" for p by blast
  moreover have "10003 \<in> set (public_ports ref_rule_controller)"
      "10004 \<notin> set (public_ports ref_rule_controller)"
    by (simp_all add: public_ports_def ports_at_def ref_rule_controller_def ref_ports_def)
  ultimately show ?thesis using rs by blast
qed

text \<open>
  C14. Every rule the code writes into the packet filter is read back as the same rule and
  is recognised as managed, and two different rules are never written as the same entry.
\<close>

theorem rule_translation_roundtrip:
  assumes "iptables_rule r"
  shows "\<exists>d. schain_rule_to_rule_d r = Inr d \<and> is_manageable d \<and> rule_d_to_schain_rule d = Inr r \<and>
           (\<forall>r'. iptables_rule r' \<and> schain_rule_to_rule_d r' = Inr d \<longrightarrow> r' = r)"
  using rule_translation [OF assms] rule_translation_inj [OF _ assms] by metis

theorem rule_translation_roundtrip_witness:
  "\<exists>d. schain_rule_to_rule_d (Rule 10004 (Some ''10.0.0.2'') (Some ''10.0.0.2'')) = Inr d \<and>
     rule_d_to_schain_rule d = Inr (Rule 10004 (Some ''10.0.0.2'') (Some ''10.0.0.2''))"
proof -
  have "iptables_rule (Rule 10004 (Some ''10.0.0.2'') (Some ''10.0.0.2''))" by code_simp
  from rule_translation_roundtrip [OF this] show ?thesis by blast
qed

text \<open>
  C15. A key generation ends: on a network whose block time advances while the node sleeps,
  whose recorded start times are not in the future and whose timeout is at most T seconds,
  none of its waiting loops runs more than T + 2 rounds, whatever the other nodes, the
  contracts and the SGX server answer.
\<close>

theorem dkg_returns:
  assumes "chain_clock a time T" and "T + 2 \<le> int k" and "0 < k"
  shows "fst (dkg_session a k node_id n key rot c) \<noteq> Inl Out_of_fuel \<and>
         time c \<le> time (snd (dkg_session a k node_id n key rot c))"
proof -
  from assms have "dkg_clock a time T k" by (simp add: dkg_clock_def dkg_clock_axioms_def)
  from dkg_clock.dkg_session_clock [OF this] show ?thesis .
qed

theorem dkg_returns_witness:
  "fst (dkg_session ref_dkg 62 10 ''alpha'' ''key'' 0 ref_net0) \<noteq> Inl Out_of_fuel \<and>
   rn_time ref_net0 \<le> rn_time (snd (dkg_session ref_dkg 62 10 ''alpha'' ''key'' 0 ref_net0))"
  by (rule dkg_returns [OF ref_chain.chain_clock_axioms]) simp_all

text \<open>
  C16. The action dkg of the configuration monitor, when the key share file is missing: it
  saves the status of the run in the chain's record; if the run has keys, the status is
  DONE and the file holds them; if not, the action raises and writes no file.
\<close>

theorem dkg_saves_keys:
  assumes "api_tame True wok a" and "wok (wld ms)"
    and "\<not> isfile (files (wld ms)) (get_secret_key_share_filepath e (cc_name (ca_checks am))
           (cc_rotation_id (ca_checks am)))"
    and "dkg_session a k node_id n key rot (wld ms) = (Inr r, w1)"
    and "dkg_action e am (dkg_on_world a k node_id n key rot) ms = (v, ms')"
  shows "(\<exists>rec. tab_get (db (wld ms')) (ca_name am) = Some rec \<and>
            dkg_status rec = DKGStatus_value (dr_status r)) \<and>
         (case dr_keys_data r of
            Some keys \<Rightarrow> dr_status r = DONE \<and> v = Inr (Some False) \<and>
              read_json (files (wld ms'))
                (get_secret_key_share_filepath e (ca_name am) (ca_rotation_id am)) =
              Inr (dkg_keys_json (Some keys))
          | None \<Rightarrow> dr_status r \<in> {FAILED, KEY_GENERATION_ERROR} \<and>
              v = Inl (DkgError ''DKG failed'') \<and> files (wld ms') = files w1)"
  using dkg_action_cases [OF assms] dkg_session_result [OF assms(4)]
  by (auto split: option.splits)

theorem dkg_saves_keys_witness:
  "\<exists>v ms'. dkg_action ref_env ref_config_am (dkg_on_world quiet_dkg 1 10 ''alpha'' ''key'' 0)
     (ref_mstate ref_world) = (v, ms') \<and>
   read_json (files (wld ms')) (get_secret_key_share_filepath ref_env ''alpha'' 0) =
     Inr (dkg_keys_json (Some quiet_keys))"
proof -
  obtain v ms' where run: "dkg_action ref_env ref_config_am
      (dkg_on_world quiet_dkg 1 10 ''alpha'' ''key'' 0) (ref_mstate ref_world) = (v, ms')" by fastforce
  have wok: "wok (wld (ref_mstate ref_world))" by (simp add: ref_mstate_def ref_world_wok)
  have new: "\<not> isfile (files (wld (ref_mstate ref_world)))
      (get_secret_key_share_filepath ref_env (cc_name (ca_checks ref_config_am))
        (cc_rotation_id (ca_checks ref_config_am)))"
    by (simp add: ref_mstate_def ref_world_def isfile_def tab_get_eval)
  from dkg_saves_keys [OF quiet_tame wok new quiet_session run] run show ?thesis
    by (auto simp: ref_config_am_def)
qed

text \<open>
  C17. A key generation round succeeds only when the contracts have the data of every other
  node of the chain, for any contracts on which a positive answer to is_all_data_received
  is true and stays true.
\<close>

theorem dkg_alrights_seen:
  assumes "alright_log a seen" and "init_bls a k rot s = (Inr u, s')"
    and "i < cl_n (run_client s)" and "i \<noteq> cl_node_id_dkg (run_client s)"
  shows "\<exists>d. tab_get (cl_node_ids_dkg (run_client s)) i = Some d \<and> seen d (run_net s')"
  using alright_log.init_bls_seen [OF assms] .

theorem dkg_alrights_seen_witness:
  "20 \<in> set (rn_alrights (run_net (snd (init_bls ref_dkg 62 0 ref_dkg_run))))"
proof -
  have c: "1 < cl_n (run_client ref_dkg_run)" "1 \<noteq> cl_node_id_dkg (run_client ref_dkg_run)"
    "tab_get (cl_node_ids_dkg (run_client ref_dkg_run)) 1 = Some 20"
    by (simp_all add: ref_dkg_run_def ref_client_def tab_get_eval)
  from dkg_alrights_seen [OF ref_log.alright_log_axioms ref_init_bls c(1,2)] c(3)
  show ?thesis by (simp add: ref_init_bls)
qed

text \<open>
  C18. The result of a run of the key generation: DONE exactly when it has keys, with the
  last step KEY_GENERATION and the client's threshold, size and key name; otherwise FAILED
  or KEY_GENERATION_ERROR, never NOT_STARTED or IN_PROGRESS. When the procedure raises an
  error, a DkgError of any kind makes the run end as FAILED, with the last step there was
  and without any call for keys, and any other error ends the run.
\<close>

theorem dkg_result_status:
  "(\<forall>r s'. run_dkg a k n rot s = (Inr r, s') \<longrightarrow>
      dr_step r = cl_last_completed_step (run_client s') \<and>
      (case dr_keys_data r of
         Some keys \<Rightarrow> dr_status r = DONE \<and> dr_step r = KEY_GENERATION \<and>
           dk_n keys = cl_n (run_client s) \<and> dk_t keys = cl_t (run_client s) \<and>
           key_share_name keys = cl_bls_name (run_client s)
       | None \<Rightarrow> dr_status r \<in> {FAILED, KEY_GENERATION_ERROR})) \<and>
   (\<forall>x s1. dkg_attempt a k n rot s = (Inl x, s1) \<longrightarrow>
      run_dkg a k n rot s =
        (if is_dkg_error x
         then (Inr \<lparr>dr_status = FAILED, dr_step = cl_last_completed_step (run_client s1), dr_keys_data = None\<rparr>, s1)
         else (Inl x, s1)))"
  using run_dkg_result run_dkg_rounds_error by (fastforce split: option.splits)

theorem dkg_result_status_witness:
  "\<exists>r s'. run_dkg quiet_dkg 1 ''alpha'' 0 \<lparr>run_net = (), run_client = ref_client\<rparr> = (Inr r, s') \<and>
     dr_status r = DONE \<and> dr_step r = KEY_GENERATION"
proof -
  let ?s = "\<lparr>run_net = (), run_client = ref_client\<rparr>"
  have "fst (run_dkg quiet_dkg 1 ''alpha'' 0 ?s) =
      Inr \<lparr>dr_status = DONE, dr_step = KEY_GENERATION, dr_keys_data = Some quiet_keys\<rparr>"
    by code_simp
  then obtain s' where "run_dkg quiet_dkg 1 ''alpha'' 0 ?s =
      (Inr \<lparr>dr_status = DONE, dr_step = KEY_GENERATION, dr_keys_data = Some quiet_keys\<rparr>, s')"
    by (metis prod.collapse)
  from this conjunct1 [OF dkg_result_status, rule_format, OF this] show ?thesis by auto
qed

text \<open>
  C19. After the broadcasts are collected, either every node's data came and is correct and
  nobody is complained about, or exactly the first node whose data is missing or wrong is
  complained about, for the right reason; it is never the node itself.
\<close>

theorem dkg_complaint_target:
  assumes "client_wf (run_client s)" and "receive_broadcast_data a k s = (Inr res, s')"
  shows "((\<forall>i < cl_n (run_client s'). received res ! i \<and> correct res ! i) \<and>
       check_broadcast_result a k res s' = (Inr (), s')) \<or>
     (\<exists>i < cl_n (run_client s'). i \<noteq> cl_node_id_dkg (run_client s') \<and>
        (\<not> received res ! i \<or> \<not> correct res ! i) \<and>
        (\<forall>j < i. received res ! j \<and> correct res ! j) \<and>
        check_broadcast_result a k res s' =
          (if \<not> received res ! i then send_complaint a k i NO_BROADCAST s'
           else report_bad_data a k i s'))"
proof -
  have "tame True (run_inv (\<lambda>_. True) (run_client s)) (receive_broadcast_data a k)"
    by (rule any_network.rounds.receive)
  from run_client_ok [OF this assms(2)] receive_broadcast_flags [OF assms(2,1)]
  have "flags_ok (run_client s') (received res) (correct res)"
    by (simp add: flags_ok_def client_ok_def)
  from check_broadcast_result_cases [OF this] show ?thesis
    unfolding bad_position_def by blast
qed

theorem dkg_complaint_target_witness:
  "\<exists>res s'. receive_broadcast_data quiet_dkg 3 \<lparr>run_net = (), run_client = ref_client\<rparr> = (Inr res, s') \<and>
     check_broadcast_result quiet_dkg 3 res s' = (Inr (), s')"
proof -
  let ?s = "\<lparr>run_net = (), run_client = ref_client\<rparr>"
  let ?res = "\<lparr>received = [True, True], correct = [True, True]\<rparr>"
  have wf: "client_wf (run_client ?s)" by (simp add: ref_client_wf)
  have "fst (receive_broadcast_data quiet_dkg 3 ?s) = Inr ?res" by code_simp
  then obtain s' where run: "receive_broadcast_data quiet_dkg 3 ?s = (Inr ?res, s')"
    by (metis prod.collapse)
  have two: "cl_n (run_client s') = 2"
    using run_client_ok [OF any_network.rounds.receive run] by (simp add: client_ok_def ref_client_def)
  from dkg_complaint_target [OF wf run] have "check_broadcast_result quiet_dkg 3 ?res s' = (Inr (), s')"
    by (auto simp: two less_2_cases_iff)
  with run show ?thesis by blast
qed

text \<open>
  C20. The client of a key generation is well formed when it is made and stays so: its own
  position is below the number of nodes, its lists have one entry for each node, every
  position has an id, every id has a position that has this id, and the own position has
  the own id. When no node is listed twice, positions and contract ids are inverse to each
  other. A run keeps all this together with the client's names and tables, whatever it
  receives.
\<close>

theorem dkg_client_type:
  assumes "get_dkg_client a k node_id n key rot c = (Inr cl, c1)"
    and "run_dkg a k n rot \<lparr>run_net = c1, run_client = cl\<rparr> = (r, s')"
  shows "client_wf cl \<and> client_ids_ok cl \<and> cl_node_id_contract cl = node_id \<and> cl_schain_name cl = n \<and>
    client_wf (run_client s') \<and> client_ids_ok (run_client s') \<and> client_ok cl (run_client s') \<and>
    (inj_on (tab_get (cl_node_ids_dkg cl)) {..<cl_n cl} \<longrightarrow>
       (\<forall>i < cl_n cl. \<forall>d. tab_get (cl_node_ids_dkg (run_client s')) i = Some d \<longleftrightarrow>
          tab_get (cl_node_ids_contract (run_client s')) d = Some i))"
proof -
  from init_dkg_client_wf [OF get_dkg_client_init [OF assms(1)]]
  have wf: "client_wf cl" "client_ids_ok cl" "cl_node_id_contract cl = node_id" "cl_schain_name cl = n"
    by simp_all
  have ok: "client_ok cl (run_client s')"
    using run_client_ok [OF any_network.rounds.tame_run_dkg assms(2)] by simp
  then have "cl_node_ids_dkg (run_client s') = cl_node_ids_dkg cl"
    "cl_node_ids_contract (run_client s') = cl_node_ids_contract cl"
    by (simp_all add: client_ok_def)
  with wf ok client_wf_ok client_ids_same client_ids_inverse [OF wf(1,2)] show ?thesis by auto
qed

theorem dkg_client_type_witness:
  "client_wf (run_client (snd (run_dkg ref_dkg 62 ''alpha'' 0 ref_dkg_run)))"
proof -
  have "get_dkg_client ref_dkg 62 10 ''alpha'' ''key'' 0 ref_net0 = (Inr ref_client, ref_net0)"
    using ref_client_init by (simp add: get_dkg_client_def act_simps)
  moreover obtain r s' where "run_dkg ref_dkg 62 ''alpha'' 0 ref_dkg_run = (r, s')" by fastforce
  ultimately show ?thesis using dkg_client_type [of ref_dkg 62 10 "''alpha''" "''key''" 0 ref_net0]
    by (simp add: ref_dkg_run_def)
qed

text \<open>
  C21. When the SGX server is unreachable once while the public keys are calculated, the
  retry cannot succeed: the first try has already replaced the own verification vector by
  its hexadecimal text, and the second try raises a ValueError on the first letter of it,
  before it asks the server again.
\<close>

theorem bls_keys_retry:
  assumes "client_wf (run_client s)"
    and "cl_incoming_verification_vector (run_client s) ! cl_node_id_dkg (run_client s) = VPoints ps"
    and "convert_g2_array_to_hex (VPoints ps) = Inr h" and "c \<in> set h" and "\<not> is_digit c"
    and "sgx_calculate_all_bls_public_keys a
      ((cl_incoming_verification_vector (run_client s))[cl_node_id_dkg (run_client s) := VHex h])
      (run_net s) = (Inl (SgxUnreachableError e), c1)"
    and "api_sleep a 1 c1 = (Inr (), c2)"
  shows "\<exists>m s'. client_bls_public_keys a s = (Inl (ValueError m), s')"
  using bls_public_keys_second_try [OF assms(2,1,3-7)] .

theorem bls_keys_retry_witness:
  "\<exists>m s'. client_bls_public_keys
     (quiet_dkg\<lparr>sgx_calculate_all_bls_public_keys := (\<lambda>_ c. (Inl (SgxUnreachableError ''down''), c))\<rparr>)
     \<lparr>run_net = (), run_client = ref_client
        \<lparr>cl_incoming_verification_vector := [VPoints [[''10'', ''0'', ''0'', ''0'']], VHex []]\<rparr>\<rparr> =
     (Inl (ValueError m), s')"
proof -
  let ?a = "quiet_dkg\<lparr>sgx_calculate_all_bls_public_keys :=
    (\<lambda>_ c. (Inl (SgxUnreachableError ''down''), c))\<rparr>"
  let ?cl = "ref_client
    \<lparr>cl_incoming_verification_vector := [VPoints [[''10'', ''0'', ''0'', ''0'']], VHex []]\<rparr>"
  let ?h = "replicate 63 CHR ''0'' @ CHR ''a'' # replicate 192 CHR ''0''"
  have wf: "client_wf (run_client \<lparr>run_net = (), run_client = ?cl\<rparr>)"
    using ref_client_wf by (simp add: client_wf_def ref_client_def)
  have h: "convert_g2_array_to_hex (VPoints [[''10'', ''0'', ''0'', ''0'']]) = Inr ?h"
    by code_simp
  have d: "\<not> is_digit CHR ''a''" by code_simp
  have v: "cl_incoming_verification_vector (run_client \<lparr>run_net = (), run_client = ?cl\<rparr>) !
      cl_node_id_dkg (run_client \<lparr>run_net = (), run_client = ?cl\<rparr>) =
      VPoints [[''10'', ''0'', ''0'', ''0'']]"
    by (simp add: ref_client_def)
  have "CHR ''a'' \<in> set ?h" by simp
  from bls_keys_retry [OF wf v h this d] show ?thesis
    by (simp add: quiet_dkg_def act_simps)
qed

text \<open>
  C22. A node recovers the contributions it has sent: the blocks of the broadcast event
  (public key, then share) are turned back into the server's order (share, then public
  key), and the key shares made from that text are the ones of the blocks.
\<close>

theorem contribution_roundtrip:
  assumes "\<forall>(share, pub) \<in> set xs. length share = 64 \<and> length pub = 128 \<and> list_all is_hex share"
  shows "convert_key_share_to_str (concat (map (\<lambda>(share, pub). pub @ share) xs)) (length xs) =
      concat (map (\<lambda>(share, pub). share @ pub) xs) \<and>
    (\<exists>ks. convert_str_to_key_share (concat (map (\<lambda>(share, pub). share @ pub) xs)) (length xs) = Inr ks \<and>
       list_all2 (\<lambda>(share, pub) key. \<exists>bs. bytes_fromhex share = Inr bs \<and> length bs = 32 \<and>
         key = KeyShare pub bs) xs ks)"
proof
  let ?ev = "map (\<lambda>(share, pub). pub @ share) xs" and ?sgx = "map (\<lambda>(share, pub). share @ pub) xs"
  have "convert_key_share_to_str (concat ?ev) (length ?ev) = concat (map to_verify ?ev)"
    using assms by (intro convert_key_share_to_str_blocks) auto
  moreover have "map to_verify ?ev = ?sgx"
    using assms by (auto simp: to_verify_def Py_Strings.slice_def)
  ultimately show "convert_key_share_to_str (concat ?ev) (length xs) = concat ?sgx"
    by (simp del: map_map)
  have "convert_str_to_key_share (concat ?sgx) (length ?sgx) =
      res_map (\<lambda>b. res_bind (bytes_fromhex (take 64 b)) (\<lambda>k. Inr (KeyShare (drop 64 b) k))) ?sgx"
    using assms by (intro convert_str_to_key_share_blocks) auto
  moreover have "\<exists>ks. res_map (\<lambda>b. res_bind (bytes_fromhex (take 64 b))
      (\<lambda>k. Inr (KeyShare (drop 64 b) k))) ?sgx = Inr ks \<and>
      list_all2 (\<lambda>(share, pub) key. \<exists>bs. bytes_fromhex share = Inr bs \<and> length bs = 32 \<and>
         key = KeyShare pub bs) xs ks"
    using assms
  proof (induction xs)
    case (Cons x xs)
    obtain share pub where x: "x = (share, pub)" by fastforce
    with Cons.prems have "length share = 64" "length pub = 128" "list_all is_hex share" by auto
    moreover from this obtain bs where "bytes_fromhex share = Inr bs" "length bs = 32"
      using bytes_fromhex_Inr [of share] by auto
    ultimately show ?case using Cons by (auto simp: x)
  qed simp
  ultimately show "\<exists>ks. convert_str_to_key_share (concat ?sgx) (length xs) = Inr ks \<and>
      list_all2 (\<lambda>(share, pub) key. \<exists>bs. bytes_fromhex share = Inr bs \<and> length bs = 32 \<and>
         key = KeyShare pub bs) xs ks" by simp
qed

theorem contribution_roundtrip_witness:
  "convert_key_share_to_str (replicate 128 CHR ''a'' @ replicate 64 CHR ''1'') 1 =
     replicate 64 CHR ''1'' @ replicate 128 CHR ''a''"
proof -
  have "is_hex CHR ''1''" by code_simp
  then have "\<forall>(share, pub) \<in> set [(replicate 64 CHR ''1'', replicate 128 CHR ''a'')].
      length share = 64 \<and> length pub = 128 \<and> list_all is_hex share"
    by (simp add: list_all_iff)
  from contribution_roundtrip [OF this] show ?thesis by simp
qed

text \<open>
  C23. A configuration saved as a new upstream, not older than the ones on disk, becomes
  the latest one; the sync copies exactly it into skaled's configuration file, reading back
  gives the saved configuration, the check that compares the two passes, and the copy does
  not change which upstream is the latest.
\<close>

theorem new_upstream_reaches_skaled:
  assumes "schain_config_dir e n \<in> set (dirs w)" and "get_upstream_configs e n w = Inr us"
    and "\<And>u. u \<in> set us \<Longrightarrow> u \<le> UpstreamConfigFilename n rid (clock w)"
    and "0 \<le> rid" and "0 \<le> clock w" and "json_wf config"
    and "save_new_upstream e n rid config w = (r1, w1)"
    and "sync_skaled_config_with_upstream e n w1 = (r2, w2)"
  shows "r2 = Inr True \<and> skaled_config e n w2 = Inr (Some config) \<and>
         skaled_config_synced_with_upstream e n w2 = Inr True \<and>
         latest_upstream_path e n w2 =
           Inr (Some (upstream_path e n (UpstreamConfigFilename n rid (clock w))))"
proof -
  note saved = save_new_upstream_latest [OF assms(1-5,7)]
  let ?p = "upstream_path e n (UpstreamConfigFilename n rid (clock w))"
  have cfg: "read_json (files w1) ?p = Inr config"
    using saved(2,3) by (auto simp: latest_upstream_config_def res_bind_Inr_iff split: if_splits)
  from sync_skaled_config [OF saved(2) cfg assms(6,8)] show ?thesis by simp
qed

theorem new_upstream_reaches_skaled_witness:
  "skaled_config ref_env ''alpha''
     (snd (sync_skaled_config_with_upstream ref_env ''alpha''
        (snd (save_new_upstream ref_env ''alpha'' 0 ref_config ref_world)))) = Inr (Some ref_config)"
proof -
  have dir: "schain_config_dir ref_env ''alpha'' \<in> set (dirs ref_world)" by code_simp
  have us: "get_upstream_configs ref_env ''alpha'' ref_world = Inr []" by code_simp
  have wf: "json_wf ref_config" by code_simp
  show ?thesis
    using new_upstream_reaches_skaled [OF dir us _ _ _ wf prod.collapse [symmetric] prod.collapse [symmetric], of 0]
    by (simp add: ref_world_def)
qed



text \<open>
  C25. In every state the loop of a monitor process can reach, with any passes, thread
  activity and time: the loop has been left exactly when a task was found stuck, exactly
  then the report's time is zero, the report is never ahead of the clock, and only the
  process's own tasks are named stuck.
\<close>

theorem exec_loop_invariant:
  assumes "exec_reachable x"
  shows "(x_done x \<longleftrightarrow> x_stucked x \<noteq> []) \<and> (x_done x \<longleftrightarrow> x_report_ts x = 0) \<and>
         0 \<le> x_report_ts x \<and> x_report_ts x \<le> x_clock x \<and>
         set (x_stucked x) \<subseteq> set (map t_name (x_tasks x))"
  using exec_reachable_inv [OF assms] unfolding exec_inv_def by blast

theorem exec_loop_invariant_witness:
  "\<exists>x. exec_reachable x \<and> x_done x \<and> x_report_ts x = 0"
proof -
  let ?t = "\<lparr>t_name = ''skaled'', t_future = Idle, t_start_ts = 0, t_stuck_timeout = 60\<rparr>"
  let ?x0 = "\<lparr>x_tasks = [?t], x_stucked = [], x_clock = 100, x_report_ts = 100, x_done = False\<rparr>"
  let ?x1 = "exec_pass (\<lambda>_. True) ?x0"
  let ?x2 = "?x1\<lparr>x_tasks := (x_tasks ?x1)[0 := (x_tasks ?x1 ! 0)\<lparr>t_future := Running\<rparr>]\<rparr>"
  let ?x3 = "?x2\<lparr>x_clock := x_clock ?x2 + 100\<rparr>"
  let ?x4 = "exec_pass (\<lambda>_. True) ?x3"
  have "exec_reachable ?x0" by (rule reach_init) (simp add: exec_init_def)
  from reach_step [OF this step_pass] have r1: "exec_reachable ?x1" by simp
  have "exec_step ?x1 ?x2"
    by (rule step_thread) (simp_all add: exec_pass_def visit_task_def future_running_def Let_def)
  from reach_step [OF r1 this] have r2: "exec_reachable ?x2" .
  have "exec_step ?x2 ?x3" by (rule step_time) simp
  from reach_step [OF r2 this] have r3: "exec_reachable ?x3" .
  have nd: "\<not> x_done ?x3" by (simp add: exec_pass_def visit_task_def future_running_def Let_def)
  from reach_step [OF r3 step_pass [OF nd]] have r4: "exec_reachable ?x4" .
  have "x_done ?x4"
    by (simp add: exec_pass_def visit_task_def future_running_def SLEEP_INTERVAL_SECONDS_def Let_def)
  with exec_loop_invariant [OF r4] r4 show ?thesis by blast
qed

text \<open>
  C26. A stuck task ends the monitor process: the pass that finds a running task over its
  time names exactly such tasks, leaves the loop and sets the report's time to zero; a
  process manager that reads such a report, with the allowed silence over since the epoch,
  removes the process from the live ones unless the signal fails.
\<close>

theorem stuck_process_terminated:
  assumes "x_stucked x = []" and "t \<in> set (x_tasks x)" and "t_future t = Running"
    and "t_stuck_timeout t < x_clock x - t_start_ts t"
    and "report_pid e n w = Inr pid" and "report_ts e n w = Inr (x_report_ts (exec_pass needed x))"
    and "pid \<noteq> 0" and "pid \<in> set (pids w)" and "dkg_stuck_timeout k < clock w"
    and "answer pid \<noteq> Signal_fails"
  shows "x_done (exec_pass needed x) \<and> t_name t \<in> set (x_stucked (exec_pass needed x)) \<and>
         (\<exists>w'. run_pm_schain e k spawn answer n None w = (Inr (), w') \<and> pids w' = removeAll pid (pids w))"
proof -
  have od: "overdue (x_clock x) t" using assms(3,4) by (simp add: overdue_def future_running_def)
  with assms(2) exec_pass_done [OF assms(1), of needed] have d: "x_done (exec_pass needed x)"
    and ts: "x_report_ts (exec_pass needed x) = 0" by auto
  from od assms(2) have "t_name t \<in> set (x_stucked (exec_pass needed x))"
    by (simp add: exec_pass_stucked assms(1))
  with d run_pm_schain_reported [OF assms(5,6), of k spawn answer None] assms(7-10) ts show ?thesis
    by simp
qed

theorem stuck_process_terminated_witness:
  "\<exists>w w'. run_pm_schain ref_env ref_contracts (\<lambda>_. 9) (\<lambda>_. Terminates) ''alpha'' None w = (Inr (), w') \<and>
     pids w = [77] \<and> pids w' = []"
proof -
  let ?t = "\<lparr>t_name = ''skaled'', t_future = Running, t_start_ts = 0, t_stuck_timeout = 60\<rparr>"
  let ?x = "\<lparr>x_tasks = [?t], x_stucked = [], x_clock = 100, x_report_ts = 100, x_done = False\<rparr>"
  let ?w0 = "ref_world\<lparr>pids := [77], clock := 10000\<rparr>"
  have x0: "x_report_ts (exec_pass (\<lambda>_. True) ?x) = 0"
    by (simp add: exec_pass_def visit_task_def future_running_def Let_def)
  have dkg: "dkg_stuck_timeout ref_contracts < 10000"
    by (simp add: dkg_stuck_timeout_def ref_contracts_def)
  from report_update_spec [of ref_env "''alpha''" 77 0 ?w0] obtain w where
    w: "report_pid ref_env ''alpha'' w = Inr 77" "report_ts ref_env ''alpha'' w = Inr 0"
      "pids w = [77]" "clock w = 10000" by auto
  have "\<exists>w'. run_pm_schain ref_env ref_contracts (\<lambda>_. 9) (\<lambda>_. Terminates) ''alpha'' None w = (Inr (), w') \<and>
      pids w' = removeAll 77 (pids w)"
    using stuck_process_terminated [of ?x ?t ref_env "''alpha''" w 77 "\<lambda>_. True" ref_contracts
        "\<lambda>_. Terminates" "\<lambda>_. 9"] w x0 dkg
    by simp
  with w(3) show ?thesis by auto
qed

text \<open>
  C27. The cleaner removes nothing it must not: when every chain found on the node is
  assigned to the node, or still rotating, or has the node in its group, or the contracts
  cannot be asked about it, a run leaves files, records, containers, rules and processes
  exactly as they are.
\<close>

theorem cleaner_spares_assigned:
  assumes "get_schain_names_from_contract k node_id = Inr names"
    and "\<And>n. n \<in> set (get_schains_on_node e w) \<Longrightarrow>
           n \<in> set names \<or> isl (is_schain_exist k n) \<or>
           is_schain_exist k n = Inr True \<and>
             (is_rotation_active k n \<noteq> Inr False \<or> isl (get_node_ids_for_schain k n) \<or>
              (\<exists>ids. get_node_ids_for_schain k n = Inr ids \<and> node_id \<in> set ids))"
  shows "snd (cleaner_monitor e ports pps k sgx_delete answer node_id w) = w"
  by (rule cleaner_monitor_safe [OF assms(1)])
    (use assms(2) in \<open>fastforce simp: removable_def\<close>)

theorem cleaner_spares_assigned_witness:
  "snd (cleaner_monitor ref_env ref_ports 64 ref_contracts (\<lambda>_. Inr ()) (\<lambda>_. Terminates) 1 ref_world) = ref_world"
proof -
  have names: "get_schain_names_from_contract ref_contracts 1 = Inr [''alpha'']" by code_simp
  have on_node: "set (get_schains_on_node ref_env ref_world) \<subseteq> {''alpha''}"
    unfolding get_schains_on_node_set [abs_def] by code_simp
  show ?thesis by (rule cleaner_spares_assigned [OF names]) (use on_node in auto)
qed



text \<open>
  C29. Removing the two containers of a chain never loses a log, whatever the engine does
  and whichever call fails: every log saved before is still there with its content, and the
  numbering of the folder stays one that gives fresh names. A removal that ends without an
  error has saved one new log, under the container's name and the next number, for a
  container that it found, and none otherwise.
\<close>

theorem removed_logs_kept:
  assumes ok: "logs_ok (removed_logs w)"
    and "remove_schain_container e n w = (r1, w1)" and "remove_ima_container e n w1 = (r2, w2)"
  shows "logs_ok (removed_logs w2) \<and>
    (\<forall>f c. tab_get (removed_logs w) f = Some c \<longrightarrow> tab_get (removed_logs w2) f = Some c) \<and>
    (r1 = Inr () \<and> r2 = Inr () \<longrightarrow>
       length (removed_logs w2) = length (removed_logs w) +
         (if isl (containers_get (docker e) (get_container_name SCHAIN_CONTAINER n) (daemon w)) then 0 else 1) +
         (if isl (containers_get (docker e) (get_container_name IMA_CONTAINER n) (daemon w1)) then 0 else 1)) \<and>
    (r1 = Inr () \<and> \<not> isl (containers_get (docker e) (get_container_name SCHAIN_CONTAINER n) (daemon w)) \<longrightarrow>
       (\<exists>content. removed_logs w1 = removed_logs w @
          [(log_file_name (get_container_name SCHAIN_CONTAINER n)
              (logs_index (get_container_name SCHAIN_CONTAINER n) (removed_logs w)), content)]))"
proof -
  note s1 = safe_rm_logs [OF ok assms(2) [unfolded remove_schain_container_def]]
  note s2 = safe_rm_logs [OF s1(1) assms(3) [unfolded remove_ima_container_def]]
  show ?thesis
    by (intro conjI allI impI s2(1) s2(2) s1(2)) (use s1(3,4) s2(3) in \<open>simp_all split del: if_split\<close>)
qed

theorem removed_logs_kept_witness:
  "let w = ref_world\<lparr>daemon := ref_daemon0\<lparr>rd_containers := [(''skale_schain_alpha'',
         \<lparr>c_name = ''skale_schain_alpha'', c_status = ''running'', c_exit_code = 0, c_image = ''schain'',
          c_env = [], c_cmd = []\<rparr>)]\<rparr>, removed_logs := [(''skale_schain_alpha-0.log'', ''old'')]\<rparr>;
       w1 = snd (remove_schain_container ref_env ''alpha'' w)
   in tab_get (removed_logs (snd (remove_ima_container ref_env ''alpha'' w1))) ''skale_schain_alpha-0.log'' =
        Some ''old''"
proof -
  let ?w = "ref_world\<lparr>daemon := ref_daemon0\<lparr>rd_containers := [(''skale_schain_alpha'',
         \<lparr>c_name = ''skale_schain_alpha'', c_status = ''running'', c_exit_code = 0, c_image = ''schain'',
          c_env = [], c_cmd = []\<rparr>)]\<rparr>, removed_logs := [(''skale_schain_alpha-0.log'', ''old'')]\<rparr>"
  have "get_logs_backup_filepath ''skale_schain_alpha'' [] = ''skale_schain_alpha-0.log''"
    by code_simp
  then have "logs_ok (removed_logs ?w)"
    using logs_ok_put [OF logs_ok_empty, of "''skale_schain_alpha''" "''old''"]
    by (simp add: tab_eval)
  from removed_logs_kept [OF this prod.collapse [symmetric] prod.collapse [symmetric], of ref_env "''alpha''"]
  show ?thesis by (simp add: Let_def tab_eval)
qed

text \<open>
  C30. Registration of the node. One that has an id is left as it is, whatever is asked. An
  answer that is an error leaves the node's files as they were. A positive answer is given
  only to a node that had no id; the configuration then holds the id the contracts gave for
  the name, the name and the address asked for, the answer shows that file, and any later
  registration changes nothing. The calls to the contracts are assumed to leave the node's
  files alone (keep_files).
\<close>

theorem node_register_config:
  assumes "keep_files a" and "node_register e a ip public_ip port n domain_name w = (r, w')"
  shows "(NodeConfig_id e w \<noteq> Inr JNull \<longrightarrow> w' = w) \<and>
    (case r of
       Inl _ \<Rightarrow> True
     | Inr j \<Rightarrow>
         if is_ok j
         then NodeConfig_id e w = Inr JNull \<and>
           (\<exists>v v' i. nodes_name_to_index a n v = (Inr i, v') \<and> NodeConfig_id e w' = Inr (JInt i)) \<and>
           NodeConfig_name e w' = Inr (JStr n) \<and> NodeConfig_ip e w' = Inr (JStr ip) \<and>
           json_item j ''data'' = object_all (NODE_CONFIG_FILEPATH e) w' \<and>
           (\<forall>ip2 p2 q2 n2 d2. snd (node_register e a ip2 p2 q2 n2 d2 w') = w')
         else files w' = files w)"
proof -
  note cases = node_register_cases [OF assms(1)]
  have later: "snd (node_register e a ip2 p2 q2 n2 d2 w') = w'"
    if "NodeConfig_id e w' = Inr (JInt i)" for i ip2 p2 q2 n2 d2
    using cases(1) [OF prod.collapse [symmetric]] that by simp
  have ok: "(\<exists>v v' i. nodes_name_to_index a n v = (Inr i, v') \<and> NodeConfig_id e w' = Inr (JInt i)) \<and>
      NodeConfig_name e w' = Inr (JStr n) \<and> NodeConfig_ip e w' = Inr (JStr ip) \<and>
      json_item j ''data'' = object_all (NODE_CONFIG_FILEPATH e) w'" if j: "r = Inr j" "is_ok j" for j
  proof -
    obtain w1 where "register_in_config e a ip public_ip n w1 = (Inr j, w')"
      using cases(3) [OF assms(2) j] by blast
    from register_in_config_ok(2-5) [OF assms(1) this] show ?thesis by simp
  qed
  show ?thesis
    using cases [OF assms(2)] ok later by (auto split: sum.split)
qed

theorem node_register_config_witness:
  "NodeConfig_id ref_env ref_registered = Inr (JInt 7) \<and>
   NodeConfig_name ref_env ref_registered = Inr (JStr ''n'') \<and>
   (\<forall>ip2 p2 q2 n2 d2. snd (node_register ref_env ref_node_api ip2 p2 q2 n2 d2 ref_registered) = ref_registered)"
  using node_register_config [OF ref_node_api_keeps ref_registration]
  by (auto simp: is_ok_def node_ok_def ref_node_api_def act_return_def)

text \<open>
  C31. No line of the log that any handler of the program writes, to a file or to stderr -
  message, request URL, exception and stack trace included - shows the host of the SGX
  server or the host of the Ethereum node, nor the mark NEK: of an SGX key followed by a
  character of its name, and every record is formatted, for settings whose host is plain
  (lower-case letters, digits, dots, hyphens, colons) or missing. The rest of a key's name
  is not always hidden: a host's pattern may match inside it first, and what follows is
  then shown (lemma key_tail_shown).
\<close>

theorem secrets_hidden:
  assumes "plain_url sgx" and "plain_url eth"
    and "h \<in> set (snd (init_logger sgx eth log_format log_file_path debug_file_path))"
  shows "\<exists>out. hiding_format (hd_patterns h) request r = Some out \<and>
    (\<forall>host. host \<in> set_option (url_hostname sgx) \<union> set_option (url_hostname eth) \<longrightarrow> \<not> sublist host out) \<and>
    (\<forall>c. word_char c \<longrightarrow> \<not> sublist (''NEK:'' @ [c]) out)"
proof -
  from format_total [OF assms(1,2)] obtain s out where
    out: "hiding_format (compose_hiding_patterns sgx eth) request r = Some out"
      "filter_sensitive (compose_hiding_patterns sgx eth) s = Some out" by blast
  moreover have "\<not> sublist host out" if "url_hostname url = Some host" "url \<in> {sgx, eth}" for url host
    using line_hides_host [OF out(2) that(1) _ that(2)] that assms(1,2) by (auto simp: plain_url_def)
  ultimately show ?thesis
    using line_hides_key [OF out(2)] by (auto simp: handlers_hide [OF assms(3)])
qed

theorem secrets_hidden_witness:
  "\<not> sublist ''10.1.1.1''
     (the (hiding_format (hd_patterns (last (snd (init_admin_logger ''https://10.1.1.1:1026'' ''http://eth.io'' ''/d''))))
       None \<lparr>lr_line = (\<lambda>_. ''NEK:ab at https://10.1.1.1:1026''), lr_exc = Some ''eth.io'', lr_stack = None\<rparr>))"
proof -
  let ?sgx = "''https://10.1.1.1:1026''" and ?eth = "''http://eth.io''"
  have host: "url_hostname ?sgx = Some ''10.1.1.1''" by code_simp
  have plain: "plain_url ?sgx" "plain_url ?eth" by code_simp+
  have "last (snd (init_admin_logger ?sgx ?eth ''/d''))
      \<in> set (snd (init_logger ?sgx ?eth ADMIN_LOG_FORMAT (Some (ADMIN_LOG_PATH ''/d'')) (Some (DEBUG_LOG_PATH ''/d''))))"
    unfolding init_admin_logger_def by (rule last_in_set) (simp add: init_logger_def Let_def)
  from secrets_hidden [OF plain this, of None "\<lparr>lr_line = (\<lambda>_. ''NEK:ab at https://10.1.1.1:1026''),
      lr_exc = Some ''eth.io'', lr_stack = None\<rparr>"] host
  show ?thesis by (metis UnI1 elem_set option.sel)
qed

text \<open>
  C32. The external state is read back as it was saved, with its address ranges sorted; it
  counts as synced with the state it was saved from exactly when those ranges were sorted
  to begin with.
\<close>

theorem external_state_roundtrip:
  assumes "external_wf s" and "external_update e n s w = (r, w')"
  shows "r = Inr () \<and> external_get e n w' = Inr (Some (s\<lparr>es_ranges := sort (es_ranges s)\<rparr>)) \<and>
         external_synced e n s w' = Inr (sorted (es_ranges s))"
  using external_get_update(1) [OF assms(2)] external_synced_update [OF assms] assms(2)
  by (simp add: external_update_def act_simps)

theorem external_state_roundtrip_witness:
  "let s = \<lparr>es_chain_id = JInt 1, es_ranges = [IpRange ''b'' ''c'', IpRange ''a'' ''d''],
            es_ima_linked = JBool True, es_reload_ts = JNull\<rparr>
   in external_get ref_env ''alpha'' (snd (external_update ref_env ''alpha'' s ref_world)) =
        Inr (Some (s\<lparr>es_ranges := [IpRange ''a'' ''d'', IpRange ''b'' ''c'']\<rparr>)) \<and>
      external_synced ref_env ''alpha'' s (snd (external_update ref_env ''alpha'' s ref_world)) = Inr False"
proof -
  let ?s = "\<lparr>es_chain_id = JInt 1, es_ranges = [IpRange ''b'' ''c'', IpRange ''a'' ''d''],
            es_ima_linked = JBool True, es_reload_ts = JNull\<rparr>"
  have "external_wf ?s" by code_simp
  moreover have "sort (es_ranges ?s) = [IpRange ''a'' ''d'', IpRange ''b'' ''c'']" by code_simp
  moreover have "\<not> sorted (es_ranges ?s)" by code_simp
  ultimately show ?thesis
    using external_state_roundtrip [of ?s ref_env "''alpha''" ref_world, OF _ prod.collapse [symmetric]]
    by (simp add: Let_def)
qed

text \<open>
  C33. After an address change no two nodes of a chain reload within five minutes of each
  other, and none reloads within five minutes of a change: for two different nodes of the
  group the reload times computed from their positions are at least 300 seconds apart.
\<close>

theorem reloads_staggered:
  assumes "get_node_index_in_group ids a = Some i" and "get_node_index_in_group ids b = Some j"
    and "a \<noteq> b"
    and "calc_reload_ts nodes i = Inr (Some ta)" and "calc_reload_ts nodes j = Inr (Some tb)"
    and "n \<in> set nodes"
  shows "300 \<le> \<bar>ta - tb\<bar> \<and> ip_change_ts n + 300 \<le> ta"
proof -
  have pos: "0 \<le> i" using assms(1) by (auto simp: get_node_index_in_group_def)
  have ne: "i \<noteq> j" using assms(1-3) by (auto simp: get_node_index_in_group_def index_of_Some)
  from calc_reload_ts_delay [OF assms(4,5)] have d: "tb - ta = 300 * (j - i)"
    by (simp add: CHANGE_IP_DELAY_def)
  from ne have "1 \<le> \<bar>j - i\<bar>" by linarith
  then have "300 \<le> \<bar>300 * (j - i)\<bar>" by (simp add: abs_mult)
  with d calc_reload_ts_after_change [OF assms(4) pos assms(6)] show ?thesis
    by (simp add: CHANGE_IP_DELAY_def)
qed

theorem reloads_staggered_witness:
  "calc_reload_ts [\<lparr>n_id = 1, n_ip = ''10.0.0.1'', ip_change_ts = 5000\<rparr>] 0 = Inr (Some 5300) \<and>
   calc_reload_ts [\<lparr>n_id = 1, n_ip = ''10.0.0.1'', ip_change_ts = 5000\<rparr>] 1 = Inr (Some 5600) \<and>
   300 \<le> \<bar>5300 - (5600 :: int)\<bar>"
proof -
  let ?nodes = "[\<lparr>n_id = 1, n_ip = ''10.0.0.1'', ip_change_ts = 5000\<rparr>]"
  have a: "get_node_index_in_group [1, 2] 1 = Some 0" "get_node_index_in_group [1, 2] 2 = Some 1"
    by (simp_all add: get_node_index_in_group_def)
  have t: "calc_reload_ts ?nodes 0 = Inr (Some 5300)" "calc_reload_ts ?nodes 1 = Inr (Some 5600)"
    by code_simp+
  from reloads_staggered [OF a _ t, of "hd ?nodes"] t show ?thesis by simp
qed

text \<open>
  C34. What the rest of the program reads from a generated configuration, as it is written
  to its file, is what the contracts answered: the addresses of the chain's nodes in their
  order, this node's own address, its base port, and the rotations, legacy groups included.
  The library class NodeInfo is only assumed to write the id and the base port it is given,
  and the static settings not to override the four entries.
\<close>

theorem generated_config_read_back:
  assumes "generate_schain_config_with_skale e g k n gn rot key sync w = Inr config"
    and "nodes_with_schains g n = Inr nodes" and "NodeConfig_id e w = Inr (JInt node_id)"
    and "get_schains_for_node k node_id = Inr scs" and "get_schain_by_name k n = Inr sch"
    and "get_node g node_id = Inr node"
    and "previous_schain_groups g n = Inr prev" and "static_groups g (sch_name sch) = Inr legacy"
    and "get_schain_type (part_of_node sch) = Inr t"
    and "get_static_node_info e t = Inr static_node"
    and "get_static_schain_info e (sch_name sch) = Inr static_schain"
    and "node_info_law g"
    and "{''basePort'', ''nodeID''} \<inter> set (map fst static_node) = {}"
    and "{''nodes'', ''nodeGroups''} \<inter> set (map fst static_schain) = {}"
  shows "get_node_ips_from_config (Some (py_dump config)) = Inr (map (\<lambda>nd. ip_from_bytes g (gn_ip nd)) nodes) \<and>
         get_own_ip_from_config (Some (py_dump config)) =
           Inr (map_option (\<lambda>nd. ip_from_bytes g (gn_ip nd)) (find (\<lambda>nd. gn_id nd = node_id) nodes)) \<and>
         get_base_port_from_config (Some (py_dump config)) =
           (if sync then res_bind (NodeConfig_schain_base_port e w) json_num
            else Inr (get_schain_base_port_on_node g scs (sch_name sch) (gn_port node))) \<and>
         get_rotation_ids_from_config (Some (py_dump config)) = Inr (sort (map fst (merge prev legacy)))"
  using generated_readers_with_skale [OF assms(1-12)] assms(13,14) by auto

theorem generated_config_read_back_witness:
  "\<exists>config. ref_generated = Inr config \<and>
     get_node_ips_from_config (Some (py_dump config)) = Inr [''10.0.0.1'', ''10.0.0.2''] \<and>
     get_own_ip_from_config (Some (py_dump config)) = Inr (Some ''10.0.0.1'') \<and>
     get_base_port_from_config (Some (py_dump config)) = Inr 10000 \<and>
     get_rotation_ids_from_config (Some (py_dump config)) = Inr [0]"
proof -
  from ref_generated_ok obtain config where
    g: "ref_generated = Inr config" by blast
  have api: "nodes_with_schains ref_gen ''alpha'' = Inr ref_gen_nodes"
    "get_schains_for_node ref_contracts 10 = Inr [ref_schain]"
    "get_schain_by_name ref_contracts ''alpha'' = Inr ref_schain"
    "get_node ref_gen 10 = Inr (hd ref_gen_nodes)"
    "previous_schain_groups ref_gen ''alpha'' = Inr [(0, JObj [(''finish_ts'', JNull)])]"
    "static_groups ref_gen (sch_name ref_schain) = Inr []"
    by (simp_all add: ref_gen_def ref_contracts_def static_groups_def)
  have chain: "get_schain_type (part_of_node ref_schain) = Inr medium_type" "sch_name ref_schain = ''alpha''"
    by code_simp+
  have vals: "map (\<lambda>nd. ip_from_bytes ref_gen (gn_ip nd)) ref_gen_nodes = [''10.0.0.1'', ''10.0.0.2'']"
    "map_option (\<lambda>nd. ip_from_bytes ref_gen (gn_ip nd)) (find (\<lambda>nd. gn_id nd = 10) ref_gen_nodes) =
      Some ''10.0.0.1''"
    "get_schain_base_port_on_node ref_gen [ref_schain] ''alpha'' (gn_port (hd ref_gen_nodes)) = 10000"
    "sort (map fst (merge [(0 :: int, JObj [(''finish_ts'', JNull)])] [])) = [0]"
    by code_simp+
  show ?thesis
    using generated_config_read_back [OF g [unfolded ref_generated_def] api(1) ref_node_id api(2-6)
        chain(1) ref_static(1) _ ref_node_info_law] ref_static(2)
    by (intro exI [of _ config]) (simp add: chain(2) vals g)
qed

text \<open>
  C35. The comparison that is to keep an unchanged configuration from being saved again
  never succeeds: the generated dictionary has its node groups under numbers, and the keys
  of a loaded document are strings. A generated configuration with any node group, from the
  contracts or the static file, is equal to no document at all, so the upstream action
  always writes a new upstream file with it and reports a change, whatever the newest file
  holds. (The static settings of the chain are asked not to override the entry nodeGroups.)
\<close>

theorem upstream_config_always_new:
  assumes "generate_schain_config_with_skale e g k n gn rot key sync (wld ms) = Inr config"
    and "get_schain_by_name k n = Inr sch" and "previous_schain_groups g n = Inr prev"
    and "static_groups g (sch_name sch) = Inr legacy" and "prev \<noteq> [] \<or> legacy \<noteq> []"
    and "get_static_schain_info e (sch_name sch) = Inr static_schain"
    and "''nodeGroups'' \<notin> set (map fst static_schain)"
    and "upstream_config_action e am (create_new_upstream_config e g k n gn rot key sync) ms = (Inr v, ms')"
  shows "(\<forall>j. \<not> py_eq_json config j) \<and> v = Some True \<and>
         read_json (files (wld ms'))
           (get_new_upstream_filepath e (ca_name am) (ca_rotation_id am) (wld ms)) = Inr (py_dump config)"
  using generated_never_loaded [OF assms(1-7)] upstream_saved [OF assms(1) _ assms(8)] by blast

theorem upstream_config_always_new_witness:
  "\<exists>ms' config. ref_generated = Inr config \<and>
     upstream_config_action ref_gen_env ref_config_am (create_new_upstream_config ref_gen_env ref_gen
       ref_contracts ''alpha'' 1 0 (Some ''key'') False) (ref_mstate ref_gen_world) = (Inr (Some True), ms') \<and>
     read_json (files (wld ms')) (get_new_upstream_filepath ref_gen_env ''alpha'' 0 ref_gen_world) =
       Inr (py_dump config)"
proof -
  from ref_generated_ok obtain config where g: "ref_generated = Inr config" by blast
  from ref_upstream_ok obtain v ms' where
    run: "upstream_config_action ref_gen_env ref_config_am (create_new_upstream_config ref_gen_env ref_gen
       ref_contracts ''alpha'' 1 0 (Some ''key'') False) (ref_mstate ref_gen_world) = (Inr v, ms')"
    by (metis prod.collapse)
  from g have gen: "generate_schain_config_with_skale ref_gen_env ref_gen ref_contracts ''alpha'' 1 0 (Some ''key'')
      False (wld (ref_mstate ref_gen_world)) = Inr config"
    by (simp add: ref_generated_def ref_mstate_def)
  have api: "get_schain_by_name ref_contracts ''alpha'' = Inr ref_schain"
    "previous_schain_groups ref_gen ''alpha'' = Inr [(0, JObj [(''finish_ts'', JNull)])]"
    "static_groups ref_gen (sch_name ref_schain) = Inr []" "sch_name ref_schain = ''alpha''"
    by (simp_all add: ref_gen_def ref_contracts_def static_groups_def ref_schain_def)
  from upstream_config_always_new [OF gen api(1-3) _ _ _ run] ref_static(2) g run show ?thesis
    by (auto simp: ref_mstate_def ref_config_am_def api(4))
qed

text \<open>
  C36. What the key generation saves is what the configuration is made from: after the
  action dkg has succeeded with a public key, the generator finds the key share in its file
  and writes the share's name, the threshold and the coordinates of the public keys, in
  their order, into the wallet; the nodes get the keys of the same file.
\<close>

theorem dkg_keys_reach_config:
  assumes "api_tame True wok a" and "wok (wld ms)"
    and "\<not> isfile (files (wld ms)) (get_secret_key_share_filepath e (cc_name (ca_checks am))
           (cc_rotation_id (ca_checks am)))"
    and "dkg_session a k node_id n key rot (wld ms) = (Inr r, w1)"
    and "dkg_action e am (dkg_on_world a k node_id n key rot) ms = (v, ms')"
    and "dr_keys_data r = Some keys" and "dk_public_key keys = Some pk"
  shows "get_bls_public_keys e (ca_name am) (ca_rotation_id am) (wld ms') = Inr (bls_public_keys keys) \<and>
    (\<exists>ima. generate_wallets_config e g (ca_name am) (ca_rotation_id am) False num (map JInt common) (wld ms') =
             Inr (JObj [(''ima'', JObj ima)]) \<and>
           map_of ima ''n'' = Some (JInt (int num)) \<and>
           map_of ima ''t'' = Some (JInt (int (dk_t keys))) \<and>
           map_of ima ''keyShareName'' = Some (JStr (key_share_name keys)) \<and>
           (\<forall>i < length pk. map_of ima (''BLSPublicKey'' @ str_of_nat i) = Some (JStr (pk ! i))) \<and>
           (\<forall>i < length common. map_of ima (''commonBLSPublicKey'' @ str_of_nat i) =
              Some (JStr (str_of_int (common ! i)))))"
  using dkg_action_cases [OF assms(1-5)] assms(6,7) wallets_of_keys bls_keys_of_file by fastforce

theorem dkg_keys_reach_config_witness:
  "\<exists>v ms'. dkg_action ref_env ref_config_am (dkg_on_world quiet_dkg 1 10 ''alpha'' ''key'' 0)
     (ref_mstate ref_world) = (v, ms') \<and>
   get_bls_public_keys ref_env ''alpha'' 0 (wld ms') = Inr (bls_public_keys quiet_keys)"
proof -
  obtain v ms' where run: "dkg_action ref_env ref_config_am
      (dkg_on_world quiet_dkg 1 10 ''alpha'' ''key'' 0) (ref_mstate ref_world) = (v, ms')" by fastforce
  have wok: "wok (wld (ref_mstate ref_world))" by (simp add: ref_mstate_def ref_world_wok)
  have new: "\<not> isfile (files (wld (ref_mstate ref_world)))
      (get_secret_key_share_filepath ref_env (cc_name (ca_checks ref_config_am))
        (cc_rotation_id (ca_checks ref_config_am)))"
    by (simp add: ref_mstate_def ref_world_def isfile_def tab_get_eval)
  from dkg_keys_reach_config [OF quiet_tame wok new quiet_session run] run show ?thesis
    by (auto simp: ref_config_am_def quiet_keys_def)
qed



text \<open>
  C38. Migrations of the table of chains. A run that comes through leaves the columns there
  were, followed by the missing ones of its own in order and each once, from any columns,
  so also from those a stopped run left; a table with the columns of the first release then
  has every column the model of a record reads, and a further run changes nothing. A run
  that stops does so in the addition of one missing column, with the missing ones before it
  added; whether this column was then added or not, the next run that comes through gives
  the same columns as one run without the stop. Nothing is assumed of what a failed
  addition leaves.
\<close>

theorem migrations_resume:
  assumes "schema a" and "run_migrations now a m = (r1, m1)" and "run_migrations now2 a m1 = (Inr (), m2)"
  shows "get_columns a TABLE m2 = get_columns a TABLE m1 @ added_columns (get_columns a TABLE m1) migrated_columns \<and>
    (r1 = Inr () \<and> get_columns a TABLE m1 = get_columns a TABLE m @ added_columns (get_columns a TABLE m) migrated_columns \<or>
     (\<exists>k f x m0. k < length migrated_columns \<and> r1 = Inl x \<and>
        get_columns a TABLE m0 = get_columns a TABLE m @ added_columns (get_columns a TABLE m) (take k migrated_columns) \<and>
        migrator_add_column a TABLE (migrated_columns ! k) f m0 = (Inl x, m1) \<and>
        (get_columns a TABLE m1 \<in> {get_columns a TABLE m0, get_columns a TABLE m0 @ [migrated_columns ! k]} \<longrightarrow>
           get_columns a TABLE m2 = get_columns a TABLE m @ added_columns (get_columns a TABLE m) migrated_columns))) \<and>
    ({''name'', ''added_at'', ''dkg_status'', ''is_deleted'', ''first_run''} \<subseteq> set (get_columns a TABLE m1) \<longrightarrow>
      set SChainRecord_columns \<subseteq> set (get_columns a TABLE m2)) \<and>
    run_migrations now3 a m2 = (Inr (), m2)"
proof -
  let ?cols = "get_columns a TABLE"
  have m2: "?cols m2 = ?cols m1 @ added_columns (?cols m1) migrated_columns"
    using run_migrations_columns [OF assms(1,3)] by auto
  have all: "set migrated_columns \<subseteq> set (?cols m2)"
    by (auto simp: m2 added_columns_def)
  note stopped = added_columns_stopped [OF _ migrated_distinct, of _ "?cols m" "?cols m1"]
  show ?thesis
  proof (intro conjI impI m2 run_migrations_idle [OF all])
    show "r1 = Inr () \<and> ?cols m1 = ?cols m @ added_columns (?cols m) migrated_columns \<or>
     (\<exists>k f x m0. k < length migrated_columns \<and> r1 = Inl x \<and>
        ?cols m0 = ?cols m @ added_columns (?cols m) (take k migrated_columns) \<and>
        migrator_add_column a TABLE (migrated_columns ! k) f m0 = (Inl x, m1) \<and>
        (?cols m1 \<in> {?cols m0, ?cols m0 @ [migrated_columns ! k]} \<longrightarrow>
           ?cols m2 = ?cols m @ added_columns (?cols m) migrated_columns))"
      using run_migrations_columns [OF assms(1,2)]
    proof (elim disjE exE conjE, goal_cases)
      case (2 k m0 f x)
      with stopped [of k] m2 show ?case
        by (intro disjI2 exI [of _ k] exI [of _ f] exI [of _ x] exI [of _ m0]) simp
    qed simp
    show "set SChainRecord_columns \<subseteq> set (?cols m2)"
      if "{''name'', ''added_at'', ''dkg_status'', ''is_deleted'', ''first_run''} \<subseteq> set (?cols m1)"
      using that all unfolding SChainRecord_columns_def migrated_columns_def by (simp add: m2)
  qed
qed

theorem migrations_resume_witness:
  "let t = \<lparr>rt_columns = [''id'', ''name'', ''added_at'', ''dkg_status'', ''is_deleted'', ''first_run''], rt_rows = []\<rparr>;
       t' = snd (run_migrations 5 ref_migrator (snd (run_migrations 4 ref_migrator t)))
   in set SChainRecord_columns \<subseteq> set (rt_columns t')"
proof -
  let ?t = "\<lparr>rt_columns = [''id'', ''name'', ''added_at'', ''dkg_status'', ''is_deleted'', ''first_run''], rt_rows = []\<rparr>"
  let ?t1 = "snd (run_migrations 4 ref_migrator ?t)"
  have ok: "fst (run_migrations now ref_migrator t) = Inr ()" for now t
    by (rule ref_migrations_succeed)
  have "set (get_columns ref_migrator TABLE ?t) \<subseteq> set (get_columns ref_migrator TABLE ?t1)"
    using run_migrations_columns [OF ref_schema.schema_axioms prod.collapse [symmetric], of 4 ?t] ok [of 4 ?t]
    by auto
  then have cols: "{''name'', ''added_at'', ''dkg_status'', ''is_deleted'', ''first_run''} \<subseteq>
      set (get_columns ref_migrator TABLE ?t1)"
    by (auto simp: ref_migrator_columns)
  have "run_migrations 5 ref_migrator ?t1 = (Inr (), snd (run_migrations 5 ref_migrator ?t1))"
    by (simp add: prod_eq_iff ok)
  from migrations_resume [OF ref_schema.schema_axioms prod.collapse [symmetric] this,
      THEN conjunct2, THEN conjunct2, THEN conjunct1, rule_format, OF cols]
  show ?thesis by (simp add: ref_migrator_columns Let_def)
qed

text \<open>
  C39. Requests to the web API. Any GET request, to whatever address, is answered, and it
  leaves the record table, the containers, the packet filter, the directories, processes,
  saved logs and every file of the node as they were; only the clock moves and a missing
  configuration file of the node is made. The third-party calls are assumed to leave the
  node alone. Every GET route of the table is reached by its address.
\<close>

theorem get_requests_read_only:
  assumes "quiet_api (same_node e w) a"
  shows "(\<exists>ans w'. handle_request e a GET url rq w = (Inr ans, w') \<and> same_node e w w') \<and>
    (\<forall>(m, b, n, r) \<in> set (routes e a). dispatch e a m (get_api_url b n) rq = r rq)"
proof -
  obtain ans where "fst (handle_request e a GET url rq w) = Inr ans"
    using handle_request_total by blast
  then obtain w' where "handle_request e a GET url rq w = (Inr ans, w')"
    by (cases "handle_request e a GET url rq w") simp
  moreover from this have "same_node e w w'" by (rule handle_get_keeps [OF assms])
  ultimately show ?thesis using dispatch_route by fast
qed

theorem get_requests_read_only_witness:
  "\<exists>ans w'. handle_request ref_env ref_web_api GET ''/api/v1/node/info'' ref_no_request ref_world = (Inr ans, w') \<and>
     db w' = db ref_world"
  using get_requests_read_only [OF ref_web_quiet, where e = ref_env and w = ref_world and
    url = "''/api/v1/node/info''" and rq = ref_no_request]
  by (auto simp: same_node_def)

text \<open>
  C40. Upload of a certificate for the chains' endpoints. An upload that is refused changes
  nothing, and one is refused when a certificate is there and the request does not force
  it. After an accepted one both files hold what was uploaded, every row of the record
  table asks for a reload, and on a chain with a configuration and a running container,
  with no backup or repair due and a certificate of another time than the one in the record
  (the time a file was changed is read from the surroundings, not computed), the recreate
  monitor is chosen from then on, until the record has the new time.
\<close>

theorem ssl_upload_recreates:
  assumes "ssl_upload_route e a rq w = (Inr ans, w')" and "SSL_CERTIFICATES_FILEPATH e \<noteq> NODE_DATA_PATH e"
  shows "if answer_status ans = HTTP_OK
    then (is_ssl_folder_empty e \<or> json_get (rq_form rq) ''force'' JNull = Inr (JBool True)) \<and>
      (\<exists>key cert. map_of (rq_files rq) SSL_KEY_NAME = Some key \<and>
        map_of (rq_files rq) SSL_CRT_NAME = Some cert \<and>
        tab_get (files w') (key_path e) = Some (Text key) \<and>
        tab_get (files w') (cert_path e) = Some (Text cert)) \<and>
      (\<forall>(n, r) \<in> set (db w'). needs_reload r) \<and>
      (\<forall>am st rec sp np ar v.
        tab_get st ''config'' = Some True \<and> tab_get st ''skaled_container'' = Some True \<and>
        (SYNC_NODE e \<or> \<not> is_backup_mode rec \<and>
          is_repair_mode (with_cert_saved e (clock w)) rec st sp np ar v = Inr False) \<longrightarrow>
        (get_skaled_monitor (with_cert_saved e (clock w)) am st rec sp np ar v = Inr RecreateSkaledMonitor) =
          (ssl_change_date rec \<noteq> clock w))
    else w' = w"
proof (cases "answer_status ans = HTTP_OK")
  case ok: True
  note uploaded = upload_done [OF assms(1) ok assms(2)]
  have sync: "SYNC_NODE (with_cert_saved e t) = SYNC_NODE e" for t
    by (simp add: with_cert_saved_def)
  have monitor: "(get_skaled_monitor (with_cert_saved e (clock w)) am st rec sp np ar v = Inr RecreateSkaledMonitor) =
      (ssl_change_date rec \<noteq> clock w)"
    if "tab_get st ''config'' = Some True" "tab_get st ''skaled_container'' = Some True"
      "SYNC_NODE e \<or> \<not> is_backup_mode rec \<and>
        is_repair_mode (with_cert_saved e (clock w)) rec st sp np ar v = Inr False" for am st rec sp np ar v
    using recreate_chosen [OF that(1,2), of "with_cert_saved e (clock w)"] that(3)
      recreate_only [of "with_cert_saved e (clock w)" am st rec sp np ar v]
    unfolding sync reload_after_upload by blast
  have "\<forall>(n, r) \<in> set (db w'). needs_reload r"
    using need_reload_all by (auto simp: uploaded(2))
  with ok uploaded(1,3) monitor show ?thesis by simp
next
  case False
  then show ?thesis using upload_refused [OF assms(1)] by simp
qed

theorem ssl_upload_recreates_witness:
  "tab_get (files (snd (ssl_upload_route ref_env ref_web_api ref_upload ref_nginx_node))) (''/d/ssl'', ''ssl_key'') =
     Some (Text ''key'')"
proof -
  have run: "ssl_upload_route ref_env ref_web_api ref_upload ref_nginx_node =
      (Inr (construct_ok_response None), snd (ssl_upload_route ref_env ref_web_api ref_upload ref_nginx_node))"
    using ref_upload_ok by (simp add: prod_eq_iff)
  have "SSL_CERTIFICATES_FILEPATH ref_env \<noteq> NODE_DATA_PATH ref_env" by (simp add: ref_env_def)
  from ssl_upload_recreates [OF run this] show ?thesis
    by (auto simp: construct_ok_response_def construct_response_def ref_upload_def ref_no_request_def
        SSL_KEY_NAME_def SSL_CRT_NAME_def key_path_def ref_env_def)
qed

end
